(* ===== verification/Rcar_Prelude.thy ===== *)
theory Rcar_Prelude
  imports Main "HOL-Library.Word" "HOL-Library.Monad_Syntax"
begin

text \<open>
  Shared vocabulary of the rcar development: byte buffers with checked loads and
  stores, the integer conversions the C++ code writes as casts, and the lemma
  collections that the component theories use.

  A buffer is a list of bytes. A load or a store outside of it, which is undefined
  behaviour in the source, is \<^term>\<open>None\<close>; a theorem that an operation returns
  \<open>Some\<close> is therefore also a memory-safety statement.
\<close>

named_theorems buf_simps \<open>evaluation of checked loads and stores\<close>

unbundle bit_operations_syntax

type_synonym byte = "8 word"
type_synonym uint32 = "32 word"
type_synonym buf = "byte list"

abbreviation bytes_of :: "string \<Rightarrow> byte list" where
  "bytes_of s \<equiv> map of_char s"

section \<open>Integer conversions\<close>

text \<open>\<open>static_cast<int>\<close> of a \<open>size_t\<close>, and the conversion of a pointer difference to \<open>int\<close>.\<close>

definition to_int32 :: "nat \<Rightarrow> int" where
  "to_int32 n = sint (of_nat n :: 32 word)"

lemma to_int32_small [simp]:
  assumes "n < 2147483648"
  shows "to_int32 n = int n"
  using assms by (simp add: to_int32_def signed_of_nat signed_take_bit_int_eq_self_iff)

lemma unat_byte_less: "unat (b :: byte) < 256"
  using unsigned_less [of b, where 'a = nat] by simp

section \<open>Lists\<close>

lemma takeWhile_shorter: "x \<in> set s \<Longrightarrow> \<not> P x \<Longrightarrow> length (takeWhile P s) < length s"
  by (induction s) auto

section \<open>Checked memory access\<close>

definition load8 :: "buf \<Rightarrow> nat \<Rightarrow> byte option" where
  "load8 b i = (if i < length b then Some (b ! i) else None)"

definition store8 :: "buf \<Rightarrow> nat \<Rightarrow> byte \<Rightarrow> buf option" where
  "store8 b i v = (if i < length b then Some (b[i := v]) else None)"

text \<open>The two halves of a \<^verbatim>\<open>memcpy\<close>: reading a range and overwriting a range.\<close>

definition mem_read :: "buf \<Rightarrow> nat \<Rightarrow> nat \<Rightarrow> buf option" where
  "mem_read b i n = (if i + n \<le> length b then Some (take n (drop i b)) else None)"

definition mem_write :: "buf \<Rightarrow> nat \<Rightarrow> buf \<Rightarrow> buf option" where
  "mem_write b i xs =
     (if i + length xs \<le> length b then Some (take i b @ xs @ drop (i + length xs) b) else None)"

text \<open>A little-endian 32 bit access at byte offset \<open>i\<close>, as the x86 build of the code does it.\<close>

definition le32 :: "byte \<Rightarrow> byte \<Rightarrow> byte \<Rightarrow> byte \<Rightarrow> uint32" where
  "le32 b0 b1 b2 b3 =
     ucast b0 OR push_bit 8 (ucast b1) OR push_bit 16 (ucast b2) OR push_bit 24 (ucast b3)"

definition byte_at :: "nat \<Rightarrow> uint32 \<Rightarrow> byte" where
  "byte_at k x = ucast (drop_bit (8 * k) x)"

definition load32 :: "buf \<Rightarrow> nat \<Rightarrow> uint32 option" where
  "load32 b i = (if i + 3 < length b
     then Some (le32 (b ! i) (b ! (i + 1)) (b ! (i + 2)) (b ! (i + 3))) else None)"

definition store32 :: "buf \<Rightarrow> nat \<Rightarrow> uint32 \<Rightarrow> buf option" where
  "store32 b i x = (if i + 3 < length b
     then Some (b[i := byte_at 0 x, i + 1 := byte_at 1 x, i + 2 := byte_at 2 x, i + 3 := byte_at 3 x])
     else None)"

lemma byte_at_le32 [simp]:
  "byte_at 0 (le32 a b c d) = a" "byte_at (Suc 0) (le32 a b c d) = b"
  "byte_at 2 (le32 a b c d) = c" "byte_at 3 (le32 a b c d) = d"
  by (rule bit_word_eqI, auto simp: byte_at_def le32_def bit_simps dest: bit_imp_le_length)+

lemma store8_Some [buf_simps]: "i < length b \<Longrightarrow> store8 b i v = Some (b[i := v])"
  by (simp add: store8_def)

lemma load8_Some [buf_simps]: "i < length b \<Longrightarrow> load8 b i = Some (b ! i)"
  by (simp add: load8_def)

lemma length_store8: "store8 b i v = Some b' \<Longrightarrow> length b' = length b"
  by (auto simp: store8_def split: if_splits)

lemma length_store32: "store32 b i v = Some b' \<Longrightarrow> length b' = length b"
  by (auto simp: store32_def split: if_splits)

text \<open>A cursor over a buffer: what precedes \<open>p\<close> is final, the rest is still to be written.\<close>

lemma store8_append:
  "store8 (done @ x # rest) (length done) v = Some ((done @ [v]) @ rest)"
  by (simp add: store8_def)

lemma store32_append:
  "store32 (done @ x0 # x1 # x2 # x3 # rest) (length done) v =
     Some ((done @ [byte_at 0 v, byte_at 1 v, byte_at 2 v]) @ byte_at 3 v # rest)"
  by (simp add: store32_def list_update_append eval_nat_numeral)

lemma load32_append:
  "load32 (pre @ b0 # b1 # b2 # b3 # rest) (length pre) = Some (le32 b0 b1 b2 b3)"
  by (simp add: load32_def nth_append)

end
