(* ===== verification/Thread_Pool.thy ===== *)
theory Thread_Pool
  imports Rcar_Prelude
begin

text \<open>
  The thread pool of \<^verbatim>\<open>src/lib/thread-pool.cpp\<close>. The mutex makes the code between a lock and the next
  unlock or wait atomic, so each such piece is one function on the pool, and the threads are a step
  relation that interleaves these pieces. A waiting thread may wake up at any time, as POSIX allows,
  and may time out. \<^verbatim>\<open>pthread_create\<close> may fail; locking a valid mutex does not. \<^verbatim>\<open>front\<close> and
  \<^verbatim>\<open>pop\<close> on an empty queue are undefined: the piece has no result.
\<close>

named_theorems pool_simps \<open>the atomic pieces of the thread pool\<close>

section \<open>The pool\<close>

datatype thread_pool_state = POOL_INVALID | POOL_VALID | POOL_EXIT

text \<open>Work is an address; 0 is the null pointer.\<close>

record thread_pool =
  m_state :: thread_pool_state
  m_max_threads :: int
  m_thread_alive :: int
  m_thread_idle :: int
  m_idle_timeout :: int
  m_queue :: "nat list"

text \<open>The arguments are the results of the three \<^verbatim>\<open>pthread\<close> calls that are checked.\<close>

definition alloc_threadpool :: "bool \<Rightarrow> bool \<Rightarrow> bool \<Rightarrow> int \<Rightarrow> int \<Rightarrow> thread_pool option" where
  "alloc_threadpool cond_init attr_init detach max_threads idle_timeout =
     (if \<not> cond_init then None
      else if \<not> attr_init then None
      else if \<not> detach then None
      else Some \<lparr>m_state = POOL_VALID, m_max_threads = max_threads, m_thread_alive = 0, m_thread_idle = 0,
        m_idle_timeout = idle_timeout, m_queue = []\<rparr>)"

text \<open>The result, whether a thread was started, and the pool.\<close>

definition dispatch_pool :: "bool \<Rightarrow> thread_pool option \<Rightarrow> nat \<Rightarrow> bool \<times> bool \<times> thread_pool option" where
  [pool_simps]: "dispatch_pool create_ok threadpool usr_data =
     (case threadpool of
        None \<Rightarrow> (False, False, None)
      | Some p \<Rightarrow>
          if m_state p \<noteq> POOL_VALID then (False, False, Some p)
          else
            let p = p\<lparr>m_queue := m_queue p @ [usr_data]\<rparr>
            in if m_thread_idle p = 0 \<and> m_thread_alive p < m_max_threads p \<and> create_ok
               then (True, True, Some (p\<lparr>m_thread_alive := m_thread_alive p + 1\<rparr>))
               else (True, False, Some p))"

section \<open>Workers\<close>

text \<open>
  Where a worker is: before the lock at the head of its loop, waiting, in the handler, after the loop,
  or finished. The flag is its \<^verbatim>\<open>must_exit\<close>.
\<close>

datatype worker = Enter bool | Wait bool | Run nat bool | Leave | Gone

text \<open>From the end of the waiting loop to the unlock, and the decision after it.\<close>

definition worker_take :: "bool \<Rightarrow> thread_pool \<Rightarrow> (worker \<times> thread_pool) option" where
  [pool_simps]: "worker_take must_exit p =
     (case m_queue p of
        [] \<Rightarrow> None
      | item # rest \<Rightarrow>
          let p = p\<lparr>m_queue := rest, m_thread_idle := m_thread_idle p - 1\<rparr>;
              must_exit = (must_exit \<or> m_state p = POOL_EXIT)
          in Some (if item \<noteq> 0 then Run item must_exit else if must_exit then Leave else Enter must_exit, p))"

definition worker_enter :: "bool \<Rightarrow> thread_pool \<Rightarrow> (worker \<times> thread_pool) option" where
  [pool_simps]: "worker_enter must_exit p =
     (let p = p\<lparr>m_thread_idle := m_thread_idle p + 1\<rparr>
      in if m_queue p = [] \<and> m_state p \<noteq> POOL_EXIT then Some (Wait must_exit, p) else worker_take must_exit p)"

definition worker_wake :: "bool \<Rightarrow> bool \<Rightarrow> thread_pool \<Rightarrow> (worker \<times> thread_pool) option" where
  [pool_simps]: "worker_wake timed_out must_exit p =
     (if timed_out then worker_take True p
      else if m_queue p = [] \<and> m_state p \<noteq> POOL_EXIT then Some (Wait must_exit, p)
      else worker_take must_exit p)"

definition worker_leave :: "thread_pool \<Rightarrow> thread_pool" where
  [pool_simps]: "worker_leave p = p\<lparr>m_thread_alive := m_thread_alive p - 1\<rparr>"

section \<open>Destroying the pool\<close>

datatype destroyer = Not_called | Waiting | Deleted

definition destroy_begin :: "thread_pool option \<Rightarrow> thread_pool option" where
  [pool_simps]: "destroy_begin threadpool =
     (case threadpool of
        None \<Rightarrow> None
      | Some p \<Rightarrow> if m_state p \<noteq> POOL_VALID then None else Some (p\<lparr>m_state := POOL_EXIT\<rparr>))"

definition destroy_may_end :: "thread_pool \<Rightarrow> bool" where
  [pool_simps]: "destroy_may_end p \<longleftrightarrow> \<not> m_thread_alive p > 0"

section \<open>Interleaving\<close>

record system =
  s_pool :: thread_pool
  s_workers :: "worker list"
  s_destroyer :: destroyer

datatype event = Dispatched nat bool | Taken nat | Internal

text \<open>What a piece of a worker does to the queue, seen from outside.\<close>

definition taking :: "thread_pool \<Rightarrow> thread_pool \<Rightarrow> event" where
  "taking p p' = (if length (m_queue p') < length (m_queue p) then Taken (hd (m_queue p)) else Internal)"

inductive step :: "system \<Rightarrow> event \<Rightarrow> system \<Rightarrow> bool" where
  dispatch: "s_destroyer s \<noteq> Deleted \<Longrightarrow> dispatch_pool create_ok (Some (s_pool s)) d = (ok, started, Some p) \<Longrightarrow>
     step s (if ok then Dispatched d create_ok else Internal)
       (s\<lparr>s_pool := p, s_workers := s_workers s @ (if started then [Enter False] else [])\<rparr>)"
| enter: "i < length (s_workers s) \<Longrightarrow> s_workers s ! i = Enter must_exit \<Longrightarrow>
     worker_enter must_exit (s_pool s) = Some (v, p) \<Longrightarrow>
     step s (taking (s_pool s) p) (s\<lparr>s_pool := p, s_workers := (s_workers s)[i := v]\<rparr>)"
| wake: "i < length (s_workers s) \<Longrightarrow> s_workers s ! i = Wait must_exit \<Longrightarrow>
     worker_wake timed_out must_exit (s_pool s) = Some (v, p) \<Longrightarrow>
     step s (taking (s_pool s) p) (s\<lparr>s_pool := p, s_workers := (s_workers s)[i := v]\<rparr>)"
| handled: "i < length (s_workers s) \<Longrightarrow> s_workers s ! i = Run d must_exit \<Longrightarrow>
     step s Internal (s\<lparr>s_workers := (s_workers s)[i := Enter must_exit]\<rparr>)"
| leave: "i < length (s_workers s) \<Longrightarrow> s_workers s ! i = Leave \<Longrightarrow>
     step s Internal (s\<lparr>s_pool := worker_leave (s_pool s), s_workers := (s_workers s)[i := Gone]\<rparr>)"
| destroy: "s_destroyer s = Not_called \<Longrightarrow> destroy_begin (Some (s_pool s)) = Some p \<Longrightarrow>
     step s Internal (s\<lparr>s_pool := p, s_destroyer := Waiting\<rparr>)"
| delete: "s_destroyer s = Waiting \<Longrightarrow> destroy_may_end (s_pool s) \<Longrightarrow>
     step s Internal (s\<lparr>s_destroyer := Deleted\<rparr>)"

inductive run :: "system \<Rightarrow> event list \<Rightarrow> system \<Rightarrow> bool" for s0 where
  nil: "run s0 [] s0"
| snoc: "run s0 es s \<Longrightarrow> step s e s' \<Longrightarrow> run s0 (es @ [e]) s'"

definition start :: "thread_pool \<Rightarrow> system" where
  "start p = \<lparr>s_pool = p, s_workers = [], s_destroyer = Not_called\<rparr>"

text \<open>The work given to the pool and the work taken from it, in order.\<close>

fun dispatched_of :: "event \<Rightarrow> nat list" where
  "dispatched_of (Dispatched d c) = [d]"
| "dispatched_of e = []"

fun taken_of :: "event \<Rightarrow> nat list" where
  "taken_of (Taken d) = [d]"
| "taken_of e = []"

section \<open>The atomic pieces\<close>

inductive_cases step_cases: "step s e s'"

definition is_alive :: "worker \<Rightarrow> bool" where
  "is_alive v \<longleftrightarrow> v \<noteq> Gone"

definition is_waiting :: "worker \<Rightarrow> bool" where
  "is_waiting v \<longleftrightarrow> (case v of Wait _ \<Rightarrow> True | _ \<Rightarrow> False)"

lemma worker_kinds [simp]:
  "is_waiting (Wait m)" "\<not> is_waiting (Enter m)" "\<not> is_waiting (Run d m)" "\<not> is_waiting Leave" "\<not> is_waiting Gone"
  "is_alive (Wait m)" "is_alive (Enter m)" "is_alive (Run d m)" "is_alive Leave" "\<not> is_alive Gone"
  by (simp_all add: is_waiting_def is_alive_def)

text \<open>A piece of a worker either waits or takes the head of the queue.\<close>

definition after_take :: "bool \<Rightarrow> nat \<Rightarrow> worker" where
  "after_take must_exit d = (if d \<noteq> 0 then Run d must_exit else if must_exit then Leave else Enter must_exit)"

lemma after_take_kind [simp]: "is_alive (after_take m d)" "\<not> is_waiting (after_take m d)"
  by (simp_all add: after_take_def)

lemma worker_take_Some:
  "worker_take m p = Some (v, p') \<longleftrightarrow>
     (\<exists>d rest. m_queue p = d # rest \<and> p' = p\<lparr>m_queue := rest, m_thread_idle := m_thread_idle p - 1\<rparr> \<and>
        v = after_take (m \<or> m_state p = POOL_EXIT) d)"
  by (auto simp: worker_take_def after_take_def Let_def split: list.split)

lemma worker_wake_cases:
  assumes "worker_wake t m p = Some (v, p')"
  obtains (waits) "v = Wait m" "p' = p" "m_queue p = []"
  | (takes) m' where "worker_take m' p = Some (v, p')"
proof (cases "t \<or> m_queue p \<noteq> [] \<or> m_state p = POOL_EXIT")
  case True
  with assms have "\<exists>m'. worker_take m' p = Some (v, p')" by (auto simp: worker_wake_def split: if_splits)
  with takes show ?thesis by blast
next
  case False
  with assms waits show ?thesis by (simp add: worker_wake_def)
qed

lemma worker_enter_cases:
  assumes "worker_enter m p = Some (v, p')"
  obtains (waits) "v = Wait m" "p' = p\<lparr>m_thread_idle := m_thread_idle p + 1\<rparr>" "m_queue p = []"
  | (takes) "worker_take m (p\<lparr>m_thread_idle := m_thread_idle p + 1\<rparr>) = Some (v, p')"
proof (cases "m_queue p = [] \<and> m_state p \<noteq> POOL_EXIT")
  case True
  with assms waits show ?thesis by (simp add: worker_enter_def)
next
  case False
  with assms have "worker_take m (p\<lparr>m_thread_idle := m_thread_idle p + 1\<rparr>) = Some (v, p')"
    by (simp add: worker_enter_def split: if_splits)
  with takes show ?thesis .
qed

lemma dispatch_cases:
  assumes "dispatch_pool c (Some p) d = (ok, started, Some p')"
  obtains (refused) "\<not> ok" "\<not> started" "p' = p"
  | (queued) "ok" "\<not> started" "p' = p\<lparr>m_queue := m_queue p @ [d]\<rparr>"
      "\<not> c \<or> m_thread_idle p \<noteq> 0 \<or> m_max_threads p \<le> m_thread_alive p" "m_state p = POOL_VALID"
  | (thread) "ok" "started" "p' = p\<lparr>m_queue := m_queue p @ [d], m_thread_alive := m_thread_alive p + 1\<rparr>"
      "m_thread_alive p < m_max_threads p" "m_state p = POOL_VALID"
  using assms by (fastforce simp: dispatch_pool_def Let_def split: if_splits)

section \<open>Invariants\<close>

text \<open>A property of a run that holds at the start and is kept by every step holds throughout.\<close>

locale pool_invariant =
  fixes inv :: "int \<Rightarrow> event list \<Rightarrow> system \<Rightarrow> bool"
  assumes init: "alloc_threadpool c a d n t = Some p \<Longrightarrow> inv n [] (start p)"
    and keep: "inv n es s \<Longrightarrow> step s e s' \<Longrightarrow> inv n (es @ [e]) s'"
begin

lemma always:
  assumes "alloc_threadpool c a d n t = Some p" "run (start p) es s"
  shows "inv n es s"
  using assms(2) by induction (simp_all add: init [OF assms(1)] keep)

end

definition count :: "(worker \<Rightarrow> bool) \<Rightarrow> worker list \<Rightarrow> int" where
  "count P vs = int (length (filter P vs))"

lemma count_simps [simp]:
  "count P [] = 0" "count P (vs @ us) = count P vs + count P us" "count P [v] = of_bool (P v)"
  by (simp_all add: count_def)

lemma count_update [simp]: "i < length vs \<Longrightarrow> count P (vs[i := v]) = count P vs - of_bool (P (vs ! i)) + of_bool (P v)"
  unfolding count_def
proof (induction vs arbitrary: i)
  case (Cons u vs)
  then show ?case by (cases i) simp_all
qed simp

definition counters_ok :: "int \<Rightarrow> system \<Rightarrow> bool" where
  "counters_ok n s \<longleftrightarrow>
     m_thread_alive (s_pool s) = count is_alive (s_workers s) \<and>
     m_thread_idle (s_pool s) = count is_waiting (s_workers s) \<and>
     m_max_threads (s_pool s) = n \<and> (0 \<le> n \<longrightarrow> m_thread_alive (s_pool s) \<le> n)"

lemma counters_take:
  assumes "counters_ok n s" "i < length (s_workers s)" "s_workers s ! i = u" "u \<noteq> Gone"
    and "worker_take m (s_pool s\<lparr>m_thread_idle := m_thread_idle (s_pool s) + of_bool (\<not> is_waiting u)\<rparr>) = Some (v, p)"
  shows "counters_ok n (s\<lparr>s_pool := p, s_workers := (s_workers s)[i := v]\<rparr>)"
proof -
  from assms(4) have "is_alive u" by (simp add: is_alive_def)
  with assms(1-3,5) show ?thesis by (auto simp: counters_ok_def worker_take_Some)
qed

lemma counters_keep:
  assumes "step s e s'" "counters_ok n s"
  shows "counters_ok n s'"
  using assms
proof cases
  case (dispatch create_ok d ok started p)
  from dispatch(4) show ?thesis
  proof (cases rule: dispatch_cases)
    case thread
    with assms(2) dispatch show ?thesis by (auto simp: counters_ok_def)
  qed (use assms(2) dispatch in \<open>auto simp: counters_ok_def\<close>)
next
  case (enter i m v p)
  from enter(5) show ?thesis
  proof (cases rule: worker_enter_cases)
    case waits
    with enter assms(2) show ?thesis by (auto simp: counters_ok_def)
  next
    case takes
    with enter counters_take [OF assms(2) enter(3,4), of m v p] show ?thesis by simp
  qed
next
  case (wake i m timed_out v p)
  from wake(5) show ?thesis
  proof (cases rule: worker_wake_cases)
    case waits
    with wake assms(2) show ?thesis by (auto simp: counters_ok_def)
  next
    case (takes m')
    with wake counters_take [OF assms(2) wake(3,4), of m' v p] show ?thesis by simp
  qed
next
  case (destroy p)
  then show ?thesis using assms(2) by (auto simp: counters_ok_def destroy_begin_def split: if_splits)
qed (use assms(2) in \<open>auto simp: counters_ok_def worker_leave_def\<close>)

interpretation counters: pool_invariant "\<lambda>n es s. counters_ok n s"
proof
  fix c a d n t p assume "alloc_threadpool c a d n t = Some p"
  then show "counters_ok n (start p)" by (auto simp: counters_ok_def alloc_threadpool_def start_def split: if_splits)
qed (rule counters_keep)

text \<open>Work is taken in the order it was given, and none is lost.\<close>

abbreviation dispatched :: "event list \<Rightarrow> nat list" where
  "dispatched es \<equiv> concat (map dispatched_of es)"

abbreviation taken :: "event list \<Rightarrow> nat list" where
  "taken es \<equiv> concat (map taken_of es)"

lemma taking_take:
  "worker_take m (p\<lparr>m_thread_idle := n\<rparr>) = Some (v, p') \<Longrightarrow> \<exists>d. m_queue p = d # m_queue p' \<and> taking p p' = Taken d"
  by (auto simp: worker_take_Some taking_def)

lemma taking_same: "m_queue p' = m_queue p \<Longrightarrow> taking p p' = Internal"
  by (simp add: taking_def)

lemma fifo_step:
  assumes "step s e s'"
  shows "taken_of e @ m_queue (s_pool s') = m_queue (s_pool s) @ dispatched_of e"
  using assms
proof cases
  case (dispatch create_ok d ok started p)
  from dispatch(4) show ?thesis by (cases rule: dispatch_cases) (simp_all add: dispatch)
next
  case (enter i m v p)
  from enter(5) show ?thesis
    by (cases rule: worker_enter_cases) (use enter in \<open>auto dest!: taking_take simp: taking_same\<close>)
next
  case (wake i m timed_out v p)
  from wake(5) show ?thesis
  proof (cases rule: worker_wake_cases)
    case (takes m')
    then have "worker_take m' (s_pool s\<lparr>m_thread_idle := m_thread_idle (s_pool s)\<rparr>) = Some (v, p)" by simp
    from taking_take [OF this] wake show ?thesis by auto
  qed (use wake in \<open>simp add: taking_same\<close>)
next
  case (destroy p)
  then show ?thesis by (auto simp: destroy_begin_def split: if_splits)
qed (simp_all add: worker_leave_def)

interpretation fifo: pool_invariant "\<lambda>n es s. taken es @ m_queue (s_pool s) = dispatched es"
proof
  fix c a d n t p assume "alloc_threadpool c a d n t = Some p"
  then show "taken [] @ m_queue (s_pool (start p)) = dispatched []"
    by (auto simp: alloc_threadpool_def start_def split: if_splits)
next
  fix es s e s' assume "taken es @ m_queue (s_pool s) = dispatched es" "step s e s'"
  with fifo_step [OF this(2)] show "taken (es @ [e]) @ m_queue (s_pool s') = dispatched (es @ [e])" by simp
qed

text \<open>
  As long as no null pointer is dispatched no worker ever leaves its loop. The second part says that a
  pool that may have a thread and can create it has one once there is work.
\<close>

definition active :: "worker \<Rightarrow> bool" where
  "active v \<longleftrightarrow> v \<noteq> Leave \<and> v \<noteq> Gone"

fun creates :: "event \<Rightarrow> bool" where
  "creates (Dispatched d create_ok) = create_ok"
| "creates e = True"

definition ending :: "system \<Rightarrow> bool" where
  "ending s \<longleftrightarrow> (s_destroyer s = Deleted \<longrightarrow> count is_alive (s_workers s) = 0) \<and>
     (s_destroyer s \<noteq> Not_called \<longrightarrow> m_state (s_pool s) = POOL_EXIT)"

definition staffed :: "int \<Rightarrow> event list \<Rightarrow> system \<Rightarrow> bool" where
  "staffed n es s \<longleftrightarrow> counters_ok n s \<and> taken es @ m_queue (s_pool s) = dispatched es \<and>
     (0 \<notin> set (dispatched es) \<longrightarrow> list_all active (s_workers s)) \<and>
     (1 \<le> n \<and> list_all creates es \<and> dispatched es \<noteq> [] \<longrightarrow> s_workers s \<noteq> []) \<and>
     ending s"

lemma active_after_take: "d \<noteq> 0 \<Longrightarrow> active (after_take m d)"
  by (simp add: active_def after_take_def)

lemma take_active: "worker_take m p = Some (v, p') \<Longrightarrow> 0 \<notin> set (m_queue p) \<Longrightarrow> active v"
  by (auto simp: worker_take_Some active_after_take)

lemma piece_active:
  assumes "0 \<notin> set (m_queue p)"
  shows "worker_enter m p = Some (v, p') \<Longrightarrow> active v" "worker_wake b m p = Some (v, p') \<Longrightarrow> active v"
proof -
  show "active v" if "worker_enter m p = Some (v, p')"
    using that by (cases rule: worker_enter_cases) (use assms take_active in \<open>auto simp: active_def\<close>)
  show "active v" if "worker_wake b m p = Some (v, p')"
    using that by (cases rule: worker_wake_cases) (use assms take_active in \<open>auto simp: active_def\<close>)
qed

lemma list_all_update: "list_all P xs \<Longrightarrow> P y \<Longrightarrow> list_all P (xs[i := y])"
  by (induction xs arbitrary: i) (simp_all split: nat.split)

lemma piece_state:
  "worker_enter m p = Some (v, p') \<Longrightarrow> m_state p' = m_state p" "worker_wake b m p = Some (v, p') \<Longrightarrow> m_state p' = m_state p"
  by (auto simp: worker_enter_def worker_wake_def worker_take_def Let_def split: if_splits list.splits)

lemma step_workers:
  assumes "step s e s'" "list_all active (s_workers s)" "0 \<notin> set (m_queue (s_pool s))"
  shows "list_all active (s_workers s')"
  using assms
proof cases
  case (enter i m v p)
  with assms(2) piece_active(1) [OF assms(3) enter(5)] show ?thesis by (simp add: list_all_update)
next
  case (wake i m timed_out v p)
  with assms(2) piece_active(2) [OF assms(3) wake(5)] show ?thesis by (simp add: list_all_update)
next
  case (leave i)
  with assms(2) show ?thesis by (auto simp: list_all_length active_def)
qed (use assms(2) in \<open>auto simp: list_all_update active_def\<close>)

lemma count_zero: "count P vs = 0 \<longleftrightarrow> list_all (\<lambda>v. \<not> P v) vs"
  by (induction vs) (auto simp: count_def)

lemma count_positive: "count P vs \<noteq> 0 \<Longrightarrow> vs \<noteq> []"
  by auto

lemma step_first_worker:
  assumes "step s e s'" "counters_ok n s" "1 \<le> n" "creates e" "dispatched_of e \<noteq> []"
  shows "s_workers s' \<noteq> []"
  using assms(1)
proof cases
  case (dispatch create_ok d ok started p)
  from dispatch(4) show ?thesis
  proof (cases rule: dispatch_cases)
    case queued
    with assms dispatch have "m_thread_idle (s_pool s) \<noteq> 0 \<or> 1 \<le> m_thread_alive (s_pool s)" by (auto simp: counters_ok_def)
    with assms(2) have "s_workers s \<noteq> []" by (auto simp: counters_ok_def)
    with dispatch show ?thesis by simp
  qed (use assms dispatch in simp_all)
next
  case (enter i m v p)
  with assms(5) show ?thesis by (auto simp: taking_def split: if_splits)
next
  case (wake i m timed_out v p)
  with assms(5) show ?thesis by (auto simp: taking_def split: if_splits)
qed (use assms(5) in simp_all)

lemma step_nonempty: "step s e s' \<Longrightarrow> s_workers s \<noteq> [] \<Longrightarrow> s_workers s' \<noteq> []"
  by (cases rule: step_cases) auto

lemma count_nonneg: "0 \<le> count P vs"
  by (simp add: count_def)

lemma no_alive: "count is_alive vs = 0 \<Longrightarrow> i < length vs \<Longrightarrow> vs ! i = Gone"
  by (auto simp: count_zero list_all_length is_alive_def)

lemma ending_keep:
  assumes "step s e s'" "counters_ok n s" "ending s"
  shows "ending s'"
  using assms(1)
proof cases
  case (dispatch create_ok d ok started p)
  from dispatch(4) show ?thesis by (cases rule: dispatch_cases) (use dispatch assms(3) in \<open>auto simp: ending_def\<close>)
next
  case (enter i m v p)
  with assms(3) no_alive piece_state(1) [OF enter(5)] show ?thesis by (fastforce simp: ending_def)
next
  case (wake i m timed_out v p)
  with assms(3) no_alive piece_state(2) [OF wake(5)] show ?thesis by (fastforce simp: ending_def)
next
  case (handled i d m)
  with assms(3) no_alive show ?thesis by (fastforce simp: ending_def)
next
  case (leave i)
  with assms(3) no_alive show ?thesis by (fastforce simp: ending_def worker_leave_def)
next
  case (destroy p)
  then show ?thesis by (auto simp: ending_def destroy_begin_def split: if_splits)
next
  case delete
  with assms(2,3) count_nonneg [of is_alive "s_workers s"] show ?thesis
    by (auto simp: ending_def counters_ok_def destroy_may_end_def)
qed

lemma staffed_keep:
  assumes "staffed n es s" "step s e s'"
  shows "staffed n (es @ [e]) s'"
proof -
  from assms(1) have inv: "counters_ok n s" "taken es @ m_queue (s_pool s) = dispatched es" "ending s"
    and act: "0 \<notin> set (dispatched es) \<Longrightarrow> list_all active (s_workers s)"
    and some: "1 \<le> n \<Longrightarrow> list_all creates es \<Longrightarrow> dispatched es \<noteq> [] \<Longrightarrow> s_workers s \<noteq> []"
    by (auto simp: staffed_def)
  have queue: "0 \<notin> set (m_queue (s_pool s))" if "0 \<notin> set (dispatched es)"
    using that unfolding inv(2) [symmetric] by simp
  have "list_all active (s_workers s')" if "0 \<notin> set (dispatched (es @ [e]))"
    using that act queue step_workers [OF assms(2)] by simp
  moreover have "s_workers s' \<noteq> []" if "1 \<le> n" "list_all creates (es @ [e])" "dispatched (es @ [e]) \<noteq> []"
    using that some step_first_worker [OF assms(2) inv(1)] step_nonempty [OF assms(2)] by (cases "dispatched es = []") auto
  moreover have "taken (es @ [e]) @ m_queue (s_pool s') = dispatched (es @ [e])"
    using fifo.keep [OF inv(2) assms(2)] .
  ultimately show ?thesis
    using counters_keep [OF assms(2) inv(1)] ending_keep [OF assms(2) inv(1,3)] unfolding staffed_def by blast
qed

interpretation staff: pool_invariant staffed
proof
  fix c a d n t p assume *: "alloc_threadpool c a d n t = Some p"
  with counters.init [OF *] fifo.init [OF *] show "staffed n [] (start p)"
    by (simp add: staffed_def ending_def start_def)
qed (rule staffed_keep)

section \<open>Progress\<close>

text \<open>A worker in its loop can take the head of the queue within two of its own steps.\<close>

lemma run_append:
  assumes "run s0 es s" "run s es' s'"
  shows "run s0 (es @ es') s'"
  using assms(2,1)
proof induction
  case (snoc es s e s')
  then show ?case by (metis append_assoc run.snoc)
qed simp

lemma run_step: "step s e s' \<Longrightarrow> run s [e] s'"
  using run.snoc [OF run.nil] by fastforce

lemma take_step:
  assumes "i < length (s_workers s)" "s_workers s ! i \<in> {Enter m, Wait m}" "m_queue (s_pool s) = d # q"
  shows "\<exists>s'. step s (Taken d) s' \<and> m_queue (s_pool s') = q"
proof -
  have enter: "worker_enter m (s_pool s) = Some (after_take (m \<or> m_state (s_pool s) = POOL_EXIT) d, s_pool s\<lparr>m_queue := q\<rparr>)"
    using assms(3) by (simp add: worker_enter_def worker_take_def after_take_def)
  have wake: "worker_wake False m (s_pool s) =
      Some (after_take (m \<or> m_state (s_pool s) = POOL_EXIT) d, s_pool s\<lparr>m_queue := q, m_thread_idle := m_thread_idle (s_pool s) - 1\<rparr>)"
    using assms(3) by (simp add: worker_wake_def worker_take_def after_take_def)
  show ?thesis
  proof (cases "s_workers s ! i = Enter m")
    case True
    from step.enter [OF assms(1) this enter] assms(3) show ?thesis by (fastforce simp: taking_def)
  next
    case False
    with assms(2) have "s_workers s ! i = Wait m" by simp
    from step.wake [OF assms(1) this wake] assms(3) show ?thesis by (fastforce simp: taking_def)
  qed
qed

lemma worker_progress:
  assumes "i < length (s_workers s)" "active (s_workers s ! i)" "m_queue (s_pool s) = d # q"
  shows "\<exists>es s'. run s es s' \<and> length es \<le> 2 \<and> taken es = [d] \<and> m_queue (s_pool s') = q"
proof (cases "s_workers s ! i")
  case (Run x m)
  let ?s = "s\<lparr>s_workers := (s_workers s)[i := Enter m]\<rparr>"
  have 1: "run s [Internal] ?s" by (rule run_step [OF step.handled [OF assms(1) Run]])
  obtain s' where s': "step ?s (Taken d) s'" "m_queue (s_pool s') = q"
    using take_step [of i ?s m d q] assms(1,3) by auto
  from run_append [OF 1 run_step [OF s'(1)]] s'(2) show ?thesis by (intro exI [of _ "[Internal, Taken d]"]) auto
next
  case (Enter m)
  with take_step [OF assms(1) _ assms(3), of m] obtain s' where "step s (Taken d) s'" "m_queue (s_pool s') = q" by auto
  with run_step show ?thesis by (intro exI [of _ "[Taken d]"]) auto
next
  case (Wait m)
  with take_step [OF assms(1) _ assms(3), of m] obtain s' where "step s (Taken d) s'" "m_queue (s_pool s') = q" by auto
  with run_step show ?thesis by (intro exI [of _ "[Taken d]"]) auto
qed (use assms(2) in \<open>simp_all add: active_def\<close>)


text \<open>
  Without null pointers among the work, no worker ever finishes: a waiting worker that times out
  while the queue is empty, and a worker that finds the queue empty after \<open>destroy_threadpool\<close> was
  called, read the front of an empty queue, which is undefined; and \<open>destroy_threadpool\<close> does not
  return once the pool has had a thread.
\<close>

theorem pool_exit_undefined:
  assumes "alloc_threadpool c a det max_threads t = Some p" "run (start p) es s" "0 \<notin> set (dispatched es)"
  shows "count is_alive (s_workers s) = int (length (s_workers s)) \<and>
    (s_workers s \<noteq> [] \<longrightarrow> s_destroyer s \<noteq> Deleted) \<and>
    (m_queue (s_pool s) = [] \<longrightarrow> worker_wake True m (s_pool s) = None \<and>
      (s_destroyer s \<noteq> Not_called \<longrightarrow> worker_wake False m (s_pool s) = None \<and> worker_enter m (s_pool s) = None))"
proof -
  from staff.always [OF assms(1,2)] have st: "staffed max_threads es s" .
  with assms(3) have act: "list_all active (s_workers s)" by (simp add: staffed_def)
  then have all: "count is_alive (s_workers s) = int (length (s_workers s))"
    by (induction "s_workers s" rule: rev_induct) (auto simp: count_def active_def is_alive_def list_all_iff)
  with st have "s_workers s \<noteq> [] \<longrightarrow> s_destroyer s \<noteq> Deleted" by (auto simp: staffed_def ending_def)
  moreover from st have "s_destroyer s \<noteq> Not_called \<Longrightarrow> m_state (s_pool s) = POOL_EXIT" by (simp add: staffed_def ending_def)
  ultimately show ?thesis using all by (auto simp: worker_wake_def worker_enter_def worker_take_def)
qed

text \<open>
  C7. In every state the pool reaches, whatever the interleaving: \<open>m_thread_alive\<close> and
  \<open>m_thread_idle\<close> are the numbers of threads that have not finished and that wait; there are never more
  threads than \<open>m_max_threads\<close>; and the work taken so far followed by the queue is the work
  dispatched so far, so that work is taken first in, first out, and none is lost or taken twice.
\<close>

theorem pool_counters:
  assumes "alloc_threadpool c a d max_threads t = Some p" "0 \<le> max_threads" "run (start p) es s"
  shows "m_thread_alive (s_pool s) = count is_alive (s_workers s) \<and>
    m_thread_idle (s_pool s) = count is_waiting (s_workers s) \<and>
    m_thread_alive (s_pool s) \<le> max_threads \<and>
    taken es @ m_queue (s_pool s) = dispatched es"
  using counters.always [OF assms(1,3)] fifo.always [OF assms(1,3)] assms(2) by (simp add: counters_ok_def)

section \<open>Witnesses\<close>

definition demo_pool :: thread_pool where
  "demo_pool = \<lparr>m_state = POOL_VALID, m_max_threads = 2, m_thread_alive = 0, m_thread_idle = 0, m_idle_timeout = 5, m_queue = []\<rparr>"

definition demo_1 :: system where
  "demo_1 = \<lparr>s_pool = demo_pool\<lparr>m_thread_alive := 1, m_queue := [7]\<rparr>, s_workers = [Enter False], s_destroyer = Not_called\<rparr>"

definition demo_2 :: system where
  "demo_2 = \<lparr>s_pool = demo_pool\<lparr>m_thread_alive := 1\<rparr>, s_workers = [Run 7 False], s_destroyer = Not_called\<rparr>"

lemma demo_alloc: "alloc_threadpool True True True 2 5 = Some demo_pool"
  by (simp add: alloc_threadpool_def demo_pool_def)

lemma demo_run_1: "run (start demo_pool) [Dispatched 7 True] demo_1"
proof (rule run_step)
  have "dispatch_pool True (Some (s_pool (start demo_pool))) 7 = (True, True, Some (s_pool demo_1))"
    by (simp add: dispatch_pool_def demo_pool_def start_def demo_1_def)
  from step.dispatch [OF _ this] show "step (start demo_pool) (Dispatched 7 True) demo_1"
    by (simp add: start_def demo_1_def)
qed

lemma demo_run_2: "run (start demo_pool) [Dispatched 7 True, Taken 7] demo_2"
proof -
  have "worker_enter False (s_pool demo_1) = Some (Run 7 False, s_pool demo_2)"
    by (simp add: worker_enter_def worker_take_def demo_pool_def demo_1_def demo_2_def)
  from step.enter [OF _ _ this, of 0] have "step demo_1 (Taken 7) demo_2"
    by (simp add: demo_1_def demo_2_def taking_def demo_pool_def)
  from run.snoc [OF demo_run_1 this] show ?thesis by simp
qed

theorem pool_counters_witness: "m_thread_alive (s_pool demo_2) = count is_alive (s_workers demo_2) \<and> taken [Dispatched 7 True, Taken 7] @ m_queue (s_pool demo_2) = [7]"
  using pool_counters [OF demo_alloc _ demo_run_2] by simp


theorem pool_exit_undefined_witness: "s_destroyer demo_2 \<noteq> Deleted \<and> worker_wake True False (s_pool demo_2) = None"
  using pool_exit_undefined [OF demo_alloc demo_run_2, of False] by (simp add: demo_2_def demo_pool_def)

end
