(* ===== verification/Log.thy ===== *)
theory Log
  imports Rcar_Prelude
begin

text \<open>
  The log of \<^verbatim>\<open>src/lib/log.cpp\<close> and the two methods of \<^verbatim>\<open>src/apl-server/resource.cpp\<close> that the
  handlers call. \<^verbatim>\<open>vsprintf\<close> is modelled for the directives the code uses; a directive without its
  argument is undefined, and so is output that does not fit the buffer of the caller. An undefined
  result is \<^term>\<open>None\<close>. The time of an entry is an argument.
\<close>

section \<open>Formatting\<close>

datatype fmt_arg = FStr string | FInt int

fun digits :: "nat \<Rightarrow> string" where
  "digits n = (if n < 10 then [char_of (48 + n)] else digits (n div 10) @ [char_of (48 + n mod 10)])"

declare digits.simps [simp del]

definition show_int :: "int \<Rightarrow> string" where
  "show_int i = (if i < 0 then ''-'' @ digits (nat (- i)) else digits (nat i))"

fun vsprintf :: "string \<Rightarrow> fmt_arg list \<Rightarrow> string option" where
  "vsprintf [] args = Some []"
| "vsprintf (c # fmt) args =
     (if c \<noteq> CHR ''%'' then map_option (\<lambda>out. c # out) (vsprintf fmt args)
      else case fmt of
        [] \<Rightarrow> None
      | d # fmt \<Rightarrow>
          if d = CHR ''%'' then map_option (\<lambda>out. CHR ''%'' # out) (vsprintf fmt args)
          else case args of
            FStr s # args \<Rightarrow> if d = CHR ''s'' then map_option (\<lambda>out. s @ out) (vsprintf fmt args) else None
          | FInt i # args \<Rightarrow> if d = CHR ''d'' then map_option (\<lambda>out. show_int i @ out) (vsprintf fmt args) else None
          | [] \<Rightarrow> None)"

text \<open>Into an array of \<open>bufsize\<close> characters, with room for the terminating null.\<close>

definition vsprintf_buf :: "nat \<Rightarrow> string \<Rightarrow> fmt_arg list \<Rightarrow> string option" where
  "vsprintf_buf bufsize fmt args = do {
     out \<leftarrow> vsprintf fmt args;
     if length out < bufsize then Some out else None
   }"

section \<open>The log\<close>

definition LL_INFO1 :: int where "LL_INFO1 = 0"
definition LL_INFO2 :: int where "LL_INFO2 = 1"
definition LL_DBG :: int where "LL_DBG = 2"
definition LL_WARNING :: int where "LL_WARNING = 3"
definition LL_ERROR :: int where "LL_ERROR = 4"

lemmas log_levels = LL_INFO1_def LL_INFO2_def LL_DBG_def LL_WARNING_def LL_ERROR_def

definition LOG_BUFSIZE :: nat where "LOG_BUFSIZE = 255"

definition log_level_text :: "string list" where
  "log_level_text = [''Info'', ''Info'', ''Debug'', ''Warning'', ''Error'']"

text \<open>
  The file is closed or the lines written to it so far. Opening a stream that is open already fails
  and leaves the stream in a state in which it drops all output.
\<close>

record log_state =
  log_level :: int
  log_file :: "string list option"
  log_good :: bool
  log_initialized :: bool

definition log_write_buf :: "string \<Rightarrow> int \<Rightarrow> string \<Rightarrow> log_state \<Rightarrow> log_state" where
  "log_write_buf time_buf level buf st =
     (if level < LL_INFO1 \<or> level > LL_ERROR then st
      else case log_file st of
        None \<Rightarrow> st
      | Some written \<Rightarrow>
          if log_good st
          then st\<lparr>log_file := Some (written @ [time_buf @ '' '' @ log_level_text ! nat level @ '' '' @ buf])\<rparr>
          else st)"

definition log_initialize :: "bool \<Rightarrow> string \<Rightarrow> int \<Rightarrow> log_state \<Rightarrow> bool \<times> log_state" where
  "log_initialize open_ok file_name level st =
     (if file_name = [] then (False, st)
      else
        let st = (case log_file st of
            Some written \<Rightarrow> st\<lparr>log_good := False\<rparr>
          | None \<Rightarrow> if open_ok then st\<lparr>log_file := Some [], log_good := True\<rparr> else st\<lparr>log_good := False\<rparr>)
        in if log_file st = None then (False, st)
           else (True, st\<lparr>log_level := level, log_initialized := True\<rparr>))"

definition log_finalize :: "log_state \<Rightarrow> log_state" where
  "log_finalize st =
     (let st = (if log_initialized st then st\<lparr>log_file := None\<rparr> else st)
      in st\<lparr>log_initialized := False\<rparr>)"

definition log_info :: "int \<Rightarrow> string \<Rightarrow> fmt_arg list \<Rightarrow> string \<Rightarrow> log_state \<Rightarrow> log_state option" where
  "log_info level fmt args time_buf st =
     (if level \<ge> log_level st then do {
        buf \<leftarrow> vsprintf_buf LOG_BUFSIZE fmt args;
        Some (log_write_buf time_buf level buf st)
      } else Some st)"

definition ll_info :: "string \<Rightarrow> fmt_arg list \<Rightarrow> string \<Rightarrow> log_state \<Rightarrow> log_state option" where
  "ll_info fmt args time_buf st =
     (if log_level st \<le> LL_INFO1 then do {
        buf \<leftarrow> vsprintf_buf LOG_BUFSIZE fmt args;
        Some (log_write_buf time_buf LL_INFO1 buf st)
      } else Some st)"

definition hl_info :: "string \<Rightarrow> fmt_arg list \<Rightarrow> string \<Rightarrow> log_state \<Rightarrow> log_state option" where
  "hl_info fmt args time_buf st =
     (if log_level st \<le> LL_INFO2 then do {
        buf \<leftarrow> vsprintf_buf LOG_BUFSIZE fmt args;
        Some (log_write_buf time_buf LL_INFO2 buf st)
      } else Some st)"

definition dbg :: "string \<Rightarrow> fmt_arg list \<Rightarrow> string \<Rightarrow> log_state \<Rightarrow> log_state option" where
  "dbg fmt args time_buf st =
     (if log_level st \<le> LL_DBG then do {
        buf \<leftarrow> vsprintf_buf LOG_BUFSIZE fmt args;
        Some (log_write_buf time_buf LL_DBG buf st)
      } else Some st)"

definition warning :: "string \<Rightarrow> fmt_arg list \<Rightarrow> string \<Rightarrow> log_state \<Rightarrow> log_state option" where
  "warning fmt args time_buf st =
     (if log_level st \<le> LL_WARNING then do {
        buf \<leftarrow> vsprintf_buf LOG_BUFSIZE fmt args;
        Some (log_write_buf time_buf LL_WARNING buf st)
      } else Some st)"

definition error :: "string \<Rightarrow> fmt_arg list \<Rightarrow> string \<Rightarrow> log_state \<Rightarrow> log_state option" where
  "error fmt args time_buf st =
     (if log_level st \<le> LL_ERROR then do {
        buf \<leftarrow> vsprintf_buf LOG_BUFSIZE fmt args;
        Some (log_write_buf time_buf LL_ERROR buf st)
      } else Some st)"

section \<open>The log of a resource\<close>

definition Resource_error :: "string \<Rightarrow> string \<Rightarrow> string \<Rightarrow> fmt_arg list \<Rightarrow> string \<Rightarrow> log_state \<Rightarrow> log_state option" where
  "Resource_error m_name meth fmt args time_buf st = do {
     buf \<leftarrow> vsprintf_buf 128 fmt args;
     error ''<%s>%s:%s'' [FStr m_name, FStr meth, FStr buf] time_buf st
   }"

definition Resource_log :: "string \<Rightarrow> string \<Rightarrow> string \<Rightarrow> fmt_arg list \<Rightarrow> string \<Rightarrow> log_state \<Rightarrow> log_state option" where
  "Resource_log m_name meth fmt args time_buf st = do {
     buf \<leftarrow> vsprintf_buf 128 fmt args;
     hl_info ''<%s>%s:%s'' [FStr m_name, FStr meth, FStr buf] time_buf st
   }"

section \<open>What is written\<close>

text \<open>The functions, by the level of the entries they write.\<close>

definition log_functions :: "(int \<times> (string \<Rightarrow> fmt_arg list \<Rightarrow> string \<Rightarrow> log_state \<Rightarrow> log_state option)) list" where
  "log_functions = [(LL_INFO1, ll_info), (LL_INFO2, hl_info), (LL_DBG, dbg), (LL_WARNING, warning), (LL_ERROR, error)]"

definition ready :: "log_state \<Rightarrow> bool" where
  "ready st \<longleftrightarrow> log_file st \<noteq> None \<and> log_good st \<and> log_initialized st"

definition log_lines :: "log_state \<Rightarrow> string list" where
  "log_lines st = (case log_file st of None \<Rightarrow> [] | Some written \<Rightarrow> written)"

lemma log_write_lines:
  assumes "ready st" "LL_INFO1 \<le> level" "level \<le> LL_ERROR"
  shows "log_write_buf t level buf st = st\<lparr>log_file := Some (log_lines st @ [t @ '' '' @ log_level_text ! nat level @ '' '' @ buf])\<rparr>"
  using assms by (auto simp: log_write_buf_def ready_def log_lines_def)

lemma ready_initialize: "log_initialize True name level st = (True, st') \<Longrightarrow> log_file st = None \<Longrightarrow> ready st'"
  by (auto simp: log_initialize_def ready_def Let_def split: if_splits option.splits)

text \<open>
  After the log was opened, each of its functions drops a message below the configured level and
  otherwise appends exactly one line with the time, the name of the level and the formatted message, if
  the message has fewer than 255 characters; a longer message, or a directive without its argument,
  overruns the buffer.
\<close>

theorem log_appends:
  assumes "log_file st = None" "log_initialize True name level st = (True, st1)" "(lvl, f) \<in> set log_functions"
  shows "f fmt args t st1 =
    (if lvl < level then Some st1
     else case vsprintf fmt args of
       None \<Rightarrow> None
     | Some msg \<Rightarrow>
         if length msg < 255 then Some (st1\<lparr>log_file := Some [t @ '' '' @ log_level_text ! nat lvl @ '' '' @ msg]\<rparr>)
         else None)"
proof -
  from assms(1,2) have ready: "ready st1" by (simp add: ready_initialize)
  from assms(1,2) have lines: "log_lines st1 = []" "log_level st1 = level"
    by (auto simp: log_initialize_def log_lines_def Let_def split: if_splits option.splits)
  have appends: "log_write_buf t l msg st1 = st1\<lparr>log_file := Some [t @ '' '' @ log_level_text ! nat l @ '' '' @ msg]\<rparr>"
    if "LL_INFO1 \<le> l" "l \<le> LL_ERROR" for l msg
    using log_write_lines [OF ready that] lines(1) by simp
  note fns = ll_info_def hl_info_def dbg_def warning_def error_def
  from assms(3) show ?thesis
    unfolding log_functions_def
    by (auto simp: fns lines(2) vsprintf_buf_def LOG_BUFSIZE_def appends log_levels split: option.split)
qed

text \<open>
  The log of a resource is defined exactly when the message has fewer than 128 characters, whatever
  the level, and the whole entry fits the second buffer if it is written at all.
\<close>

theorem resource_log_fits:
  "Resource_log name meth fmt args t st \<noteq> None \<longleftrightarrow>
     (\<exists>msg. vsprintf fmt args = Some msg \<and> length msg < 128 \<and>
        (log_level st \<le> LL_INFO2 \<longrightarrow> length name + length meth + length msg + 3 < 255))"
  by (auto simp: Resource_log_def hl_info_def vsprintf_buf_def LOG_BUFSIZE_def bind_eq_Some_conv split: option.splits if_splits)

section \<open>Client text as the format\<close>

lemma vsprintf_plain: "CHR ''%'' \<notin> set fmt \<Longrightarrow> vsprintf fmt args = Some fmt"
  by (induction fmt) auto

lemma vsprintf_no_args:
  assumes "CHR ''%'' \<notin> set pre" "d \<noteq> CHR ''%''"
  shows "vsprintf (pre @ CHR ''%'' # d # rest) [] = None"
  using assms by (induction pre) auto

text \<open>
  Many handlers pass the client's text as the format, with no arguments after it: such a call is
  defined only for texts without directives and with fewer than 128 characters.
\<close>

lemma client_text_as_format:
  "(CHR ''%'' \<notin> set txt \<longrightarrow> 128 \<le> length txt \<longrightarrow> Resource_log name meth txt [] t st = None) \<and>
   (CHR ''%'' \<notin> set pre \<and> d \<noteq> CHR ''%'' \<longrightarrow> Resource_log name meth (pre @ CHR ''%'' # d # rest) [] t st = None)"
  by (auto simp: vsprintf_plain vsprintf_no_args Resource_log_def vsprintf_buf_def split: if_splits)

section \<open>Witnesses\<close>

definition closed_log :: log_state where
  "closed_log = \<lparr>log_level = 0, log_file = None, log_good = True, log_initialized = False\<rparr>"

theorem log_appends_witness:
  "hl_info ''port %d'' [FInt 80] ''12:00'' (snd (log_initialize True ''rcar.log'' 1 closed_log)) =
     Some (snd (log_initialize True ''rcar.log'' 1 closed_log)\<lparr>log_file := Some [''12:00 Info port 80'']\<rparr>)"
proof -
  have "log_initialize True ''rcar.log'' 1 closed_log = (True, snd (log_initialize True ''rcar.log'' 1 closed_log))"
    by (simp add: log_initialize_def closed_log_def)
  moreover have "log_file closed_log = None" by (simp add: closed_log_def)
  moreover have "(LL_INFO2, hl_info) \<in> set log_functions" by (simp add: log_functions_def)
  moreover have "vsprintf ''port %d'' [FInt 80] = Some ''port 80''" by code_simp
  ultimately show ?thesis
    using log_appends [of closed_log "''rcar.log''" 1 _ LL_INFO2 hl_info "''port %d''" "[FInt 80]" "''12:00''"]
    by (simp add: LL_INFO2_def log_level_text_def)
qed

theorem resource_log_fits_witness: "Resource_log ''order'' ''user_id = %s'' (replicate 128 (CHR ''a'')) [] ''12:00'' closed_log = None"
  using resource_log_fits [of "''order''" "''user_id = %s''" "replicate 128 (CHR ''a'')" "[]" "''12:00''" closed_log]
  by (simp add: vsprintf_plain)

end
