(* ===== verification/Std_Map.thy ===== *)
theory Std_Map
  imports Rcar_Prelude "HOL-Library.Char_ord" "HOL-Library.List_Lexorder"
begin

text \<open>
  The standard containers the code keeps its tables in. A \<^verbatim>\<open>std::map\<close> is an association list in
  strictly ascending key order, which is the order an iterator visits it in; strings compare byte by
  byte as \<^verbatim>\<open>std::string\<close> does. \<open>smap_insert\<close> is \<^verbatim>\<open>map::insert\<close>, which leaves an existing entry
  alone, \<open>smap_put\<close> is the assignment \<^verbatim>\<open>m[k] = v\<close>, and \<^const>\<open>map_of\<close> is \<^verbatim>\<open>find\<close>.
\<close>

named_theorems smap_simps \<open>lookups in updated maps\<close>

type_synonym ('k, 'v) smap = "('k \<times> 'v) list"

section \<open>Operations\<close>

fun smap_insert :: "'k::linorder \<Rightarrow> 'v \<Rightarrow> ('k, 'v) smap \<Rightarrow> ('k, 'v) smap" where
  "smap_insert k v [] = [(k, v)]"
| "smap_insert k v ((k', v') # m) =
     (if k < k' then (k, v) # (k', v') # m
      else if k = k' then (k', v') # m
      else (k', v') # smap_insert k v m)"

fun smap_put :: "'k::linorder \<Rightarrow> 'v \<Rightarrow> ('k, 'v) smap \<Rightarrow> ('k, 'v) smap" where
  "smap_put k v [] = [(k, v)]"
| "smap_put k v ((k', v') # m) =
     (if k < k' then (k, v) # (k', v') # m
      else if k = k' then (k, v) # m
      else (k', v') # smap_put k v m)"

definition smap_ok :: "('k::linorder, 'v) smap \<Rightarrow> bool" where
  "smap_ok m \<longleftrightarrow> sorted_wrt (<) (map fst m)"

section \<open>Laws\<close>

lemma smap_ok_Nil [simp]: "smap_ok []"
  by (simp add: smap_ok_def)

lemma smap_ok_Cons: "smap_ok ((k, v) # m) \<longleftrightarrow> (\<forall>x \<in> fst ` set m. k < x) \<and> smap_ok m"
  by (auto simp: smap_ok_def)

lemma set_smap_put: "fst ` set (smap_put k v m) = insert k (fst ` set m)"
  by (induction k v m rule: smap_put.induct) (simp_all add: insert_commute)

lemma set_smap_insert: "fst ` set (smap_insert k v m) = insert k (fst ` set m)"
  by (induction k v m rule: smap_insert.induct) (auto simp: insert_commute)

lemma smap_ok_put [simp]: "smap_ok m \<Longrightarrow> smap_ok (smap_put k v m)"
proof (induction k v m rule: smap_put.induct)
  case (2 k v k' v' m)
  then have "k < k' \<Longrightarrow> \<forall>x \<in> fst ` set m. k < x"
    unfolding smap_ok_Cons using less_trans by blast
  with 2 show ?case by (auto simp: smap_ok_Cons set_smap_put simp del: ball_simps)
qed (simp add: smap_ok_Cons)

lemma smap_ok_insert [simp]: "smap_ok m \<Longrightarrow> smap_ok (smap_insert k v m)"
proof (induction k v m rule: smap_insert.induct)
  case (2 k v k' v' m)
  then have "k < k' \<Longrightarrow> \<forall>x \<in> fst ` set m. k < x"
    unfolding smap_ok_Cons using less_trans by blast
  with 2 show ?case by (auto simp: smap_ok_Cons set_smap_insert simp del: ball_simps)
qed (simp add: smap_ok_Cons)

lemma map_of_below: "\<forall>x \<in> fst ` set m. k < x \<Longrightarrow> map_of m k = None" for k :: "'k::linorder"
  by (induction m) auto

lemma map_of_below_hd:
  assumes "smap_ok ((a, b) # m)" "k < a"
  shows "map_of m k = None"
proof (rule map_of_below)
  show "\<forall>x \<in> fst ` set m. k < x" using assms less_trans unfolding smap_ok_Cons by blast
qed

lemma map_of_put [smap_simps]: "smap_ok m \<Longrightarrow> map_of (smap_put k v m) k' = (if k' = k then Some v else map_of m k')"
  by (induction m) (auto simp: smap_ok_Cons map_of_below)

lemma map_of_insert [smap_simps]:
  "smap_ok m \<Longrightarrow> map_of (smap_insert k v m) k' =
     (if k' = k then Some (case map_of m k of None \<Rightarrow> v | Some w \<Rightarrow> w) else map_of m k')"
proof (induction m)
  case (Cons e m)
  obtain a b where e: "e = (a, b)" by (cases e)
  with Cons.prems have "k < a \<Longrightarrow> map_of m k = None" by (simp add: map_of_below_hd)
  with Cons e show ?case by (auto simp: smap_ok_Cons split: option.split)
qed simp

lemma smap_insert_last:
  assumes "\<forall>x \<in> fst ` set m. x < k"
  shows "smap_insert k v m = m @ [(k, v)]"
  using assms by (induction m) auto

lemma smap_put_last:
  assumes "\<forall>x \<in> fst ` set m. x < k"
  shows "smap_put k v (m @ [(k, w)]) = m @ [(k, v)]"
  using assms by (induction m) auto

lemma map_of_append_last:
  fixes k :: "'k::linorder"
  assumes "\<forall>x \<in> fst ` set m. x < k"
  shows "map_of (m @ [(k, v)]) k = Some v"
  using assms by (induction m) auto

lemma smap_ok_append_last: "smap_ok (m @ [(k, v)]) \<longleftrightarrow> smap_ok m \<and> (\<forall>x \<in> fst ` set m. x < k)"
  by (auto simp: smap_ok_def sorted_wrt_append)

lemma smap_ok_appendD: "smap_ok (m @ (k, v) # m') \<Longrightarrow> \<forall>x \<in> fst ` set m. x < k"
  by (auto simp: smap_ok_def sorted_wrt_append)

end
