(* ===== verification/Config_File.thy ===== *)
theory Config_File
  imports Std_Map
begin

text \<open>
  \<^verbatim>\<open>src/lib/config-file.cpp\<close>: the parser of the INI-like configuration files and its getters.
  A file is its sequence of bytes. A \<^verbatim>\<open>throw\<close> is a value of \<open>config_error\<close>; the exception
  \<^verbatim>\<open>std::out_of_range\<close> comes from \<^verbatim>\<open>std::string::substr\<close>. The pointer to the current section
  is the name under which that section is in the table.
\<close>

section \<open>Strings of the standard library\<close>

abbreviation newline :: char where "newline \<equiv> CHR 0x0A"

definition c_str :: "string \<Rightarrow> string" where
  "c_str s = takeWhile (\<lambda>c. c \<noteq> CHR 0x00) s"

text \<open>
  \<^verbatim>\<open>istream::getline(buf, n)\<close>: \<^term>\<open>None\<close> is a stream in the failed state, at the end of
  the input or when a line does not fit.
\<close>

definition getline_buf :: "nat \<Rightarrow> string \<Rightarrow> (string \<times> string) option" where
  "getline_buf n s =
     (if s = [] then None
      else let l = takeWhile (\<lambda>c. c \<noteq> newline) s
           in if length l < n then Some (l, drop (length l + 1) s) else None)"

definition find_first_not_of :: "string \<Rightarrow> string \<Rightarrow> nat option" where
  "find_first_not_of s p =
     (let k = length (takeWhile (\<lambda>c. c \<in> set p) s) in if k < length s then Some k else None)"

definition find_last_not_of :: "string \<Rightarrow> string \<Rightarrow> nat option" where
  "find_last_not_of s p =
     (let k = length (takeWhile (\<lambda>c. c \<in> set p) (rev s))
      in if k < length s then Some (length s - 1 - k) else None)"

text \<open>\<^verbatim>\<open>strtok\<close> on a fresh string: the maximal non-empty runs without a delimiter.\<close>

function strtok_all :: "string \<Rightarrow> string \<Rightarrow> string list" where
  "strtok_all delims s =
     (case dropWhile (\<lambda>c. c \<in> set delims) s of
        [] \<Rightarrow> []
      | c # cs \<Rightarrow> (c # takeWhile (\<lambda>c. c \<notin> set delims) cs) #
          strtok_all delims (dropWhile (\<lambda>c. c \<notin> set delims) cs))"
  by pat_completeness auto
termination
proof (relation "measure (\<lambda>(d, s). length s)", goal_cases)
  case (2 delims s c cs)
  from 2 have "length (c # cs) \<le> length s" by (metis length_dropWhile_le)
  with length_dropWhile_le [of "\<lambda>c. c \<notin> set delims" cs] show ?case by simp
qed simp

declare strtok_all.simps [simp del]

text \<open>\<^verbatim>\<open>atoi\<close>; a number outside of \<^verbatim>\<open>int\<close> is undefined, \<^term>\<open>None\<close>.\<close>

definition is_space :: "char \<Rightarrow> bool" where
  "is_space c \<longleftrightarrow> c = CHR '' '' \<or> (9 \<le> (of_char c :: nat) \<and> (of_char c :: nat) \<le> 13)"

definition is_digit :: "char \<Rightarrow> bool" where
  "is_digit c \<longleftrightarrow> 48 \<le> (of_char c :: nat) \<and> (of_char c :: nat) \<le> 57"

definition digits_value :: "string \<Rightarrow> int" where
  "digits_value ds = foldl (\<lambda>n c. 10 * n + (of_char c - 48)) 0 ds"

definition atoi :: "string \<Rightarrow> int option" where
  "atoi str =
     (let s = dropWhile is_space (c_str str);
          neg = (s \<noteq> [] \<and> hd s = CHR ''-'');
          s = (if s \<noteq> [] \<and> (hd s = CHR ''-'' \<or> hd s = CHR ''+'') then tl s else s);
          n = digits_value (takeWhile is_digit s);
          n = (if neg then - n else n)
      in if - (2 ^ 31) \<le> n \<and> n < 2 ^ 31 then Some n else None)"

section \<open>The parser\<close>

datatype config_error = ConfigFileException string | Out_of_range

type_synonym cfg_section = "(string, string) smap"

record config_file =
  m_sections :: "(string, cfg_section) smap"
  m_warned :: "nat list"

definition STREAM_SIZE :: nat where "STREAM_SIZE = 255"

definition strip :: "string \<Rightarrow> string \<Rightarrow> config_error + string" where
  "strip val patten =
     (case find_first_not_of val patten of
        None \<Rightarrow> Inl Out_of_range
      | Some start \<Rightarrow>
          (case find_last_not_of val patten of
             None \<Rightarrow> Inr (drop start val)
           | Some stop \<Rightarrow> Inr (take (stop - start + 1) (drop start val))))"

definition get_section :: "string \<Rightarrow> config_error + string option" where
  "get_section buf =
     (if buf = [] \<or> hd buf \<noteq> CHR ''['' \<or> last buf \<noteq> CHR '']'' then Inr None
      else (case strip (take (length buf - 2) (drop 1 buf)) '' '' of
              Inl e \<Rightarrow> Inl e
            | Inr name \<Rightarrow>
                if name = [] then Inl (ConfigFileException ''section error'') else Inr (Some name)))"

definition get_key_and_value :: "string \<Rightarrow> config_error + (string \<times> string) option" where
  "get_key_and_value content =
     (let pos = length (takeWhile (\<lambda>c. c \<noteq> CHR ''='') content)
      in if pos = length content then Inr None
         else (case strip (take pos content) '' '' of
                 Inl e \<Rightarrow> Inl e
               | Inr key \<Rightarrow>
                   (case strip (take (length content - pos - 1) (drop (pos + 1) content)) '' '' of
                      Inl e \<Rightarrow> Inl e
                    | Inr val \<Rightarrow> Inr (Some (key, val)))))"

record parser =
  p_file :: config_file
  cur_section :: "string option"
  line_no :: nat

text \<open>One turn of the loop of \<^verbatim>\<open>analyze\<close> on the C string in the line buffer.\<close>

definition analyze_line :: "string \<Rightarrow> parser \<Rightarrow> config_error + parser" where
  "analyze_line buf p =
     (let p = p\<lparr>line_no := line_no p + 1\<rparr>; f = p_file p
      in if buf \<noteq> [] \<and> hd buf = CHR ''['' then
           (case get_section buf of
              Inl e \<Rightarrow> Inl e
            | Inr None \<Rightarrow> Inl (ConfigFileException ''section error'')
            | Inr (Some name) \<Rightarrow>
                if map_of (m_sections f) name \<noteq> None then Inl (ConfigFileException ''section error'')
                else Inr (p\<lparr>p_file := f\<lparr>m_sections := smap_insert name [] (m_sections f)\<rparr>,
                            cur_section := Some name\<rparr>))
         else
           (case cur_section p of
              None \<Rightarrow> Inl (ConfigFileException ''no section'')
            | Some name \<Rightarrow>
                (case get_key_and_value buf of
                   Inl e \<Rightarrow> Inl e
                 | Inr None \<Rightarrow> Inr (p\<lparr>p_file := f\<lparr>m_warned := m_warned f @ [line_no p]\<rparr>\<rparr>)
                 | Inr (Some (key, val)) \<Rightarrow>
                     (case map_of (m_sections f) name of
                        None \<Rightarrow> Inr p
                      | Some sec \<Rightarrow>
                          if map_of sec key = None then
                            Inr (p\<lparr>p_file := f\<lparr>m_sections := smap_put name (smap_insert key val sec) (m_sections f)\<rparr>\<rparr>)
                          else Inr p))))"

function analyze :: "string \<Rightarrow> parser \<Rightarrow> config_error + parser" where
  "analyze s p =
     (case getline_buf STREAM_SIZE s of
        None \<Rightarrow> Inr p
      | Some (l, rest) \<Rightarrow>
          (case analyze_line (c_str l) p of
             Inl e \<Rightarrow> Inl e
           | Inr p' \<Rightarrow> analyze rest p'))"
  by pat_completeness auto
termination
  by (relation "measure (\<lambda>(s, p). length s)")
    (auto simp: getline_buf_def Let_def split: if_splits)

declare analyze.simps [simp del]

definition parser_init :: parser where
  "parser_init = \<lparr>p_file = \<lparr>m_sections = [], m_warned = []\<rparr>, cur_section = None, line_no = 0\<rparr>"

text \<open>The constructor; the argument is what opening the file gives.\<close>

definition ConfigFile :: "string option \<Rightarrow> config_error + config_file" where
  "ConfigFile content =
     (case content of
        None \<Rightarrow> Inl (ConfigFileException ''Open file failed'')
      | Some s \<Rightarrow> (case analyze s parser_init of Inl e \<Rightarrow> Inl e | Inr p \<Rightarrow> Inr (p_file p)))"

section \<open>The getters\<close>

text \<open>\<^term>\<open>None\<close> is the return value \<^verbatim>\<open>false\<close>, which leaves the output parameter alone.\<close>

definition get_sections :: "config_file \<Rightarrow> string list" where
  "get_sections f = map fst (m_sections f)"

definition get_keys :: "config_file \<Rightarrow> string \<Rightarrow> string list option" where
  "get_keys f section = map_option (map fst) (map_of (m_sections f) section)"

definition get_string :: "config_file \<Rightarrow> string \<Rightarrow> string \<Rightarrow> string option" where
  "get_string f section key =
     (case map_of (m_sections f) section of None \<Rightarrow> None | Some sec \<Rightarrow> map_of sec key)"

definition get_strings :: "config_file \<Rightarrow> string \<Rightarrow> string \<Rightarrow> string list option" where
  "get_strings f section key =
     (case get_string f section key of None \<Rightarrow> None | Some content \<Rightarrow> Some (strtok_all '';'' (c_str content)))"

definition get_int :: "config_file \<Rightarrow> string \<Rightarrow> string \<Rightarrow> int option option" where
  "get_int f section key =
     (case get_string f section key of None \<Rightarrow> None | Some val \<Rightarrow> Some (atoi val))"

definition get_ints :: "config_file \<Rightarrow> string \<Rightarrow> string \<Rightarrow> int option list option" where
  "get_ints f section key =
     (case get_string f section key of
        None \<Rightarrow> None
      | Some content \<Rightarrow> Some (map atoi (strtok_all '';'' (c_str content))))"

definition get_bool :: "config_file \<Rightarrow> string \<Rightarrow> string \<Rightarrow> bool option" where
  "get_bool f section key =
     (case get_string f section key of
        None \<Rightarrow> None
      | Some val \<Rightarrow>
          if val = ''true'' then Some True else if val = ''false'' then Some False else None)"

section \<open>strip\<close>

definition stripped :: "string \<Rightarrow> bool" where
  "stripped s \<longleftrightarrow> s \<noteq> [] \<and> hd s \<noteq> CHR '' '' \<and> last s \<noteq> CHR '' ''"

lemma strip_blank: "set v \<subseteq> set p \<Longrightarrow> strip v p = Inl Out_of_range"
  by (auto simp: strip_def find_first_not_of_def takeWhile_eq_all_conv [THEN iffD2] subset_iff)

lemma strip_decompose:
  assumes "set a \<subseteq> set p" "set b \<subseteq> set p" "w \<noteq> []" "hd w \<notin> set p" "last w \<notin> set p"
  shows "strip (a @ w @ b) p = Inr w"
proof -
  let ?P = "\<lambda>c. c \<in> set p"
  have "takeWhile ?P (a @ w @ b) = a"
    using assms by (cases w) (auto simp: takeWhile_append subset_iff)
  then have 1: "find_first_not_of (a @ w @ b) p = Some (length a)"
    using assms(3) by (simp add: find_first_not_of_def)
  have "takeWhile ?P (rev b @ rev w @ rev a) = rev b"
    using assms by (cases w rule: rev_cases) (auto simp: takeWhile_append subset_iff)
  then have 2: "find_last_not_of (a @ w @ b) p = Some (length a + length w - 1)"
    using assms(3) by (simp add: find_last_not_of_def)
  have "length a + length w - 1 - length a + 1 = length w" using assms(3) by (cases w) simp_all
  then show ?thesis unfolding strip_def 1 2 by simp
qed

lemma strip_cases:
  obtains "set v \<subseteq> set p" "strip v p = Inl Out_of_range"
  | a w b where "v = a @ w @ b" "set a \<subseteq> set p" "set b \<subseteq> set p" "w \<noteq> []" "hd w \<notin> set p" "last w \<notin> set p"
      "strip v p = Inr w"
proof (cases "set v \<subseteq> set p")
  case True
  then show ?thesis using that(1) strip_blank by blast
next
  case False
  let ?P = "\<lambda>c. c \<in> set p"
  define d where "d = dropWhile ?P v"
  define w where "w = rev (dropWhile ?P (rev d))"
  define b where "b = rev (takeWhile ?P (rev d))"
  have d: "d \<noteq> []" "hd d \<notin> set p"
    using False hd_dropWhile [of ?P v] by (auto simp: d_def dropWhile_eq_Nil_conv)
  have wb: "d = w @ b" unfolding w_def b_def by (metis rev_append rev_rev_ident takeWhile_dropWhile_id)
  have "hd d \<in> set (rev d)" using d by simp
  then have w: "w \<noteq> []" "last w \<notin> set p"
    using d(2) hd_dropWhile [of ?P "rev d"]
    by (auto simp: w_def dropWhile_eq_Nil_conv last_rev)
  have "hd w = hd d" using w wb by simp
  moreover have "v = takeWhile ?P v @ w @ b" using wb d_def by (metis takeWhile_dropWhile_id)
  moreover have "set (takeWhile ?P v) \<subseteq> set p" "set b \<subseteq> set p" by (auto simp: b_def dest: set_takeWhileD)
  ultimately show ?thesis using that(2) w d strip_decompose by metis
qed

lemma strip_stripped [simp]: "stripped s \<Longrightarrow> strip s '' '' = Inr s"
  using strip_decompose [of "[]" "'' ''" "[]" s] by (simp add: stripped_def)

lemma strip_result:
  assumes "strip v '' '' = Inr w"
  shows "stripped w" "set w \<subseteq> set v"
  using assms by (cases rule: strip_cases [of v "'' ''"]; auto simp: stripped_def)+

text \<open>A file for the witnesses.\<close>

definition sample_conf :: string where
  "sample_conf = ''[general]'' @ newline # ''port = 80'' @ newline # ''x=y=z'' @ [newline]"

definition sample_file :: config_file where
  "sample_file = \<lparr>m_sections = [(''general'', [(''port'', ''80''), (''x'', ''y=z'')])], m_warned = []\<rparr>"

lemma sample_parse: "ConfigFile (Some sample_conf) = Inr sample_file"
  by code_simp

lemma sample_parse2: "ConfigFile (Some (sample_conf @ ''port=81'' @ [newline])) = Inr sample_file"
  by code_simp

section \<open>Invariant\<close>

definition section_ok :: "cfg_section \<Rightarrow> bool" where
  "section_ok sec \<longleftrightarrow> smap_ok sec \<and> (\<forall>(k, v) \<in> set sec. stripped k \<and> CHR ''='' \<notin> set k \<and> stripped v)"

definition config_ok :: "config_file \<Rightarrow> bool" where
  "config_ok f \<longleftrightarrow> smap_ok (m_sections f) \<and> (\<forall>(n, sec) \<in> set (m_sections f). stripped n \<and> section_ok sec)"

definition parser_ok :: "parser \<Rightarrow> bool" where
  "parser_ok p \<longleftrightarrow> config_ok (p_file p) \<and> (\<forall>n. cur_section p = Some n \<longrightarrow> map_of (m_sections (p_file p)) n \<noteq> None)"

lemma set_smap_insertD: "e \<in> set (smap_insert k v m) \<Longrightarrow> e = (k, v) \<or> e \<in> set m"
  by (induction k v m rule: smap_insert.induct) (auto split: if_splits)

lemma set_smap_putD: "e \<in> set (smap_put k v m) \<Longrightarrow> e = (k, v) \<or> e \<in> set m"
  by (induction k v m rule: smap_put.induct) (auto split: if_splits)

lemma get_section_result: "get_section buf = Inr (Some name) \<Longrightarrow> stripped name"
  by (auto simp: get_section_def dest: strip_result split: if_splits sum.splits)

lemma get_key_and_value_result:
  assumes "get_key_and_value buf = Inr (Some (k, v))"
  shows "stripped k" "CHR ''='' \<notin> set k" "stripped v"
proof -
  let ?pos = "length (takeWhile (\<lambda>c. c \<noteq> CHR ''='') buf)"
  from assms have s: "strip (take ?pos buf) '' '' = Inr k" and v: "\<exists>x. strip x '' '' = Inr v"
    by (auto simp: get_key_and_value_def Let_def split: if_splits sum.splits)
  have "take ?pos buf = takeWhile (\<lambda>c. c \<noteq> CHR ''='') buf" by (metis append_eq_conv_conj takeWhile_dropWhile_id)
  then show "CHR ''='' \<notin> set k" using strip_result(2) [OF s] by (auto dest: set_takeWhileD)
  show "stripped k" "stripped v" using s v strip_result(1) by blast+
qed

lemma section_ok_insert:
  assumes "section_ok sec" "stripped k" "CHR ''='' \<notin> set k" "stripped v"
  shows "section_ok (smap_insert k v sec)"
  using assms unfolding section_ok_def by (auto dest!: set_smap_insertD)

lemma config_ok_put:
  assumes "config_ok f" "stripped n" "section_ok sec"
  shows "config_ok (f\<lparr>m_sections := smap_put n sec (m_sections f)\<rparr>)"
    and "config_ok (f\<lparr>m_sections := smap_insert n sec (m_sections f)\<rparr>)"
  using assms unfolding config_ok_def by (auto dest!: set_smap_putD set_smap_insertD)

lemma config_ok_find:
  assumes "config_ok f" "map_of (m_sections f) n = Some sec"
  shows "stripped n" "section_ok sec"
  using assms map_of_SomeD [OF assms(2)] by (auto simp: config_ok_def)

lemma analyze_line_cases:
  assumes "analyze_line buf p = Inr p'"
  obtains (section_line) name where "get_section buf = Inr (Some name)" "map_of (m_sections (p_file p)) name = None"
      "p' = p\<lparr>line_no := line_no p + 1, p_file := (p_file p)\<lparr>m_sections := smap_insert name [] (m_sections (p_file p))\<rparr>, cur_section := Some name\<rparr>"
  | (warning) "p' = p\<lparr>line_no := line_no p + 1, p_file := (p_file p)\<lparr>m_warned := m_warned (p_file p) @ [line_no p + 1]\<rparr>\<rparr>"
  | (skip) "p' = p\<lparr>line_no := line_no p + 1\<rparr>"
  | (entry) name k v sec where "get_key_and_value buf = Inr (Some (k, v))" "cur_section p = Some name"
      "map_of (m_sections (p_file p)) name = Some sec" "map_of sec k = None"
      "p' = p\<lparr>line_no := line_no p + 1, p_file := (p_file p)\<lparr>m_sections := smap_put name (smap_insert k v sec) (m_sections (p_file p))\<rparr>\<rparr>"
  using assms that
  by (auto simp: analyze_line_def Let_def split: if_splits sum.splits option.splits prod.splits)

lemma analyze_line_ok:
  assumes "analyze_line buf p = Inr p'" "parser_ok p"
  shows "parser_ok p'"
  using assms(1)
proof (cases rule: analyze_line_cases)
  case (section_line name)
  have "config_ok ((p_file p)\<lparr>m_sections := smap_insert name [] (m_sections (p_file p))\<rparr>)"
    using assms(2) get_section_result [OF section_line(1)]
    by (intro config_ok_put(2)) (auto simp: parser_ok_def section_ok_def)
  with section_line(3) assms(2) show ?thesis by (simp add: parser_ok_def config_ok_def smap_simps)
next
  case (entry name k v sec)
  note kv = get_key_and_value_result [OF entry(1)]
  from assms(2) have f: "config_ok (p_file p)" by (simp add: parser_ok_def)
  have "config_ok ((p_file p)\<lparr>m_sections := smap_put name (smap_insert k v sec) (m_sections (p_file p))\<rparr>)"
    using config_ok_find [OF f entry(3)] kv f by (intro config_ok_put(1) section_ok_insert)
  with entry assms(2) f show ?thesis by (auto simp: parser_ok_def config_ok_def smap_simps)
qed (use assms(2) in \<open>simp_all add: parser_ok_def config_ok_def\<close>)

lemma analyze_invariant_line [consumes 1, case_names start line]:
  assumes "analyze s p = Inr p'" "Q p"
    and "\<And>buf p p'. analyze_line buf p = Inr p' \<Longrightarrow> length buf < STREAM_SIZE \<Longrightarrow> CHR 0x00 \<notin> set buf \<Longrightarrow> Q p \<Longrightarrow> Q p'"
  shows "Q p'"
  using assms(1,2)
proof (induction s p rule: analyze.induct)
  case (1 s p)
  show ?case
  proof (cases "getline_buf STREAM_SIZE s")
    case None
    with 1 show ?thesis by (simp add: analyze.simps [of s])
  next
    case (Some lr)
    obtain l rest where lr: "(l, rest) = lr" by (metis surj_pair)
    from Some 1(2) obtain p2 where p2: "analyze_line (c_str l) p = Inr p2" "analyze rest p2 = Inr p'"
      by (auto simp: analyze.simps [of s] lr [symmetric] split: sum.splits)
    have "length l < STREAM_SIZE" using Some lr by (auto simp: getline_buf_def Let_def split: if_splits)
    then have "length (c_str l) < STREAM_SIZE" "CHR 0x00 \<notin> set (c_str l)"
      using length_takeWhile_le [of "\<lambda>c. c \<noteq> CHR 0x00" l] by (auto simp: c_str_def dest: set_takeWhileD)
    with p2 1(1) [OF Some lr] 1(3) assms(3) show ?thesis by blast
  qed
qed

lemma analyze_invariant [consumes 1, case_names start line]:
  assumes "analyze s p = Inr p'" "Q p" "\<And>buf p p'. analyze_line buf p = Inr p' \<Longrightarrow> Q p \<Longrightarrow> Q p'"
  shows "Q p'"
  using assms by (rule analyze_invariant_line)

lemma analyze_ok: "analyze s p = Inr p' \<Longrightarrow> parser_ok p \<Longrightarrow> parser_ok p'"
  by (rule analyze_invariant) (auto intro: analyze_line_ok)

text \<open>
  C25. Whatever the file holds, a \<^verbatim>\<open>ConfigFile\<close> that was constructed has its sections and keys in
  ascending order without duplicates, and every section name, key and value is non-empty and stripped
  of blanks.
\<close>

theorem ConfigFile_invariant:
  assumes "ConfigFile content = Inr f"
  shows "config_ok f"
proof -
  from assms obtain s p where "analyze s parser_init = Inr p" "f = p_file p"
    by (auto simp: ConfigFile_def split: option.splits sum.splits)
  moreover have "parser_ok parser_init" by (simp add: parser_ok_def parser_init_def config_ok_def)
  ultimately show ?thesis using analyze_ok by (auto simp: parser_ok_def)
qed

theorem ConfigFile_invariant_witness: "config_ok sample_file"
  using ConfigFile_invariant [OF sample_parse] .

text \<open>Every value came from a line: it fits the line buffer and holds no zero byte.\<close>

definition values_short :: "config_file \<Rightarrow> bool" where
  "values_short f \<longleftrightarrow> (\<forall>(n, sec) \<in> set (m_sections f). \<forall>(k, v) \<in> set sec. length v < STREAM_SIZE \<and> CHR 0x00 \<notin> set v)"

lemma strip_length: "strip v p = Inr w \<Longrightarrow> length w \<le> length v"
  by (auto simp: strip_def split: option.splits)

lemma get_key_and_value_bound:
  assumes "get_key_and_value buf = Inr (Some (k, v))"
  shows "length v \<le> length buf" "set v \<subseteq> set buf"
proof -
  from assms obtain m where "strip (drop m buf) '' '' = Inr v"
    by (auto simp: get_key_and_value_def Let_def split: if_splits sum.splits)
  from strip_length [OF this] strip_result(2) [OF this] show "length v \<le> length buf" "set v \<subseteq> set buf"
    by (auto dest: in_set_dropD)
qed

lemma values_short_put:
  assumes "values_short f" "\<forall>(k, v) \<in> set sec. length v < STREAM_SIZE \<and> CHR 0x00 \<notin> set v"
  shows "values_short (f\<lparr>m_sections := smap_put n sec (m_sections f)\<rparr>)"
    and "values_short (f\<lparr>m_sections := smap_insert n sec (m_sections f)\<rparr>)"
  using assms unfolding values_short_def by (auto dest!: set_smap_putD set_smap_insertD)

lemma analyze_line_short:
  assumes "analyze_line buf p = Inr p'" "length buf < STREAM_SIZE" "CHR 0x00 \<notin> set buf" "values_short (p_file p)"
  shows "values_short (p_file p')"
  using assms(1)
proof (cases rule: analyze_line_cases)
  case (section_line name)
  then show ?thesis using values_short_put(2) [OF assms(4), of "[]"] by simp
next
  case (entry name k v sec)
  have "\<forall>(k, v) \<in> set sec. length v < STREAM_SIZE \<and> CHR 0x00 \<notin> set v"
    using assms(4) map_of_SomeD [OF entry(3)] by (auto simp: values_short_def)
  then have "\<forall>(k, v) \<in> set (smap_insert k v sec). length v < STREAM_SIZE \<and> CHR 0x00 \<notin> set v"
    using get_key_and_value_bound [OF entry(1)] assms(2,3) by (auto dest!: set_smap_insertD)
  then show ?thesis using entry(5) values_short_put(1) [OF assms(4)] by simp
qed (use assms(4) in \<open>simp_all add: values_short_def\<close>)

lemma ConfigFile_facts:
  assumes "ConfigFile content = Inr f"
  shows "config_ok f" "values_short f"
proof -
  from assms obtain s p where p: "analyze s parser_init = Inr p" "f = p_file p"
    by (auto simp: ConfigFile_def split: option.splits sum.splits)
  have "parser_ok parser_init" "values_short (p_file parser_init)"
    by (simp_all add: parser_ok_def parser_init_def config_ok_def values_short_def)
  then show "config_ok f" using analyze_ok p by (auto simp: parser_ok_def)
  from p(1) \<open>values_short (p_file parser_init)\<close> have "values_short (p_file p)"
    by (rule analyze_invariant_line) (rule analyze_line_short)
  then show "values_short f" using p(2) by simp
qed

section \<open>The first definition wins\<close>

lemma analyze_line_keeps:
  assumes "analyze_line buf p = Inr p'" "parser_ok p" "get_string (p_file p) sec k = Some v"
  shows "get_string (p_file p') sec k = Some v"
  using assms(1)
proof (cases rule: analyze_line_cases)
  case (section_line name)
  then show ?thesis
    using assms(2,3) by (auto simp: get_string_def parser_ok_def config_ok_def smap_simps split: option.splits)
next
  case (entry name k' v' sec')
  then show ?thesis
    using assms(2,3) config_ok_find(2) [OF _ entry(3)]
    by (auto simp: get_string_def parser_ok_def config_ok_def section_ok_def smap_simps split: option.splits if_splits)
qed (use assms(3) in \<open>simp_all add: get_string_def\<close>)

lemma analyze_keeps:
  assumes "analyze s p = Inr p'" "parser_ok p" "get_string (p_file p) sec k = Some v"
  shows "get_string (p_file p') sec k = Some v"
proof -
  from assms(1) have "parser_ok p' \<and> get_string (p_file p') sec k = Some v"
    by (rule analyze_invariant) (use assms(2,3) in \<open>auto intro: analyze_line_ok analyze_line_keeps\<close>)
  then show ?thesis ..
qed

lemma getline_append:
  assumes "getline_buf n s = Some (l, rest)" "last s = newline"
  shows "getline_buf n (s @ t) = Some (l, rest @ t) \<and> (rest = [] \<or> last rest = newline)"
proof -
  let ?P = "\<lambda>c. c \<noteq> newline"
  from assms(1) have s: "s \<noteq> []" "l = takeWhile ?P s" "length l < n" "rest = drop (length l + 1) s"
    by (auto simp: getline_buf_def Let_def split: if_splits)
  have "newline \<in> set s" using s(1) assms(2) by (metis last_in_set)
  then have t: "takeWhile ?P (s @ t) = l" "length l < length s"
    using s(2) by (auto simp: takeWhile_append intro: takeWhile_shorter)
  moreover have "rest = [] \<or> last rest = newline" using s(4) assms(2) by (metis last_drop drop_eq_Nil not_le)
  ultimately show ?thesis using s(1,3,4) by (simp add: getline_buf_def Let_def)
qed

lemma getline_append_None:
  assumes "getline_buf n s = None" "s \<noteq> []" "last s = newline"
  shows "getline_buf n (s @ t) = None"
proof -
  have "newline \<in> set s" using assms by (metis last_in_set)
  then have "takeWhile (\<lambda>c. c \<noteq> newline) (s @ t) = takeWhile (\<lambda>c. c \<noteq> newline) s" by (auto simp: takeWhile_append)
  with assms show ?thesis by (auto simp: getline_buf_def Let_def split: if_splits)
qed

lemma analyze_append:
  "analyze s p = Inr p1 \<Longrightarrow> s = [] \<or> last s = newline \<Longrightarrow>
     analyze (s @ t) p = analyze t p1 \<or> analyze (s @ t) p = Inr p1"
proof (induction s p rule: analyze.induct)
  case (1 s p)
  show ?case
  proof (cases "getline_buf STREAM_SIZE s")
    case None
    then have "p1 = p" using 1(2) by (simp add: analyze.simps [of s p])
    with None 1 show ?thesis
      by (cases "s = []") (auto simp: analyze.simps [of s p] analyze.simps [of "s @ t"] getline_append_None)
  next
    case (Some lr)
    obtain l rest where lr: "(l, rest) = lr" by (metis surj_pair)
    have "s \<noteq> []" using Some by (auto simp: getline_buf_def)
    then have "last s = newline" using 1 by simp
    note g = getline_append [OF Some [folded lr] this, of t]
    from Some 1(2) obtain p2 where a: "analyze_line (c_str l) p = Inr p2" "analyze rest p2 = Inr p1"
      by (auto simp: analyze.simps [of s] lr [symmetric] split: sum.splits)
    from 1(1) [OF Some lr a] g show ?thesis using a by (simp add: analyze.simps [of "s @ t"])
  qed
qed

text \<open>
  Lines appended to a configuration file never change the value of a key that the file already
  defines.
\<close>

theorem ConfigFile_first_definition_wins:
  assumes "ConfigFile (Some s) = Inr f" "last s = newline" "get_string f sec k = Some v"
    and "ConfigFile (Some (s @ t)) = Inr f'"
  shows "get_string f' sec k = Some v"
proof -
  from assms(1) obtain p where p: "analyze s parser_init = Inr p" "f = p_file p"
    by (auto simp: ConfigFile_def split: sum.splits)
  from assms(4) obtain p' where p': "analyze (s @ t) parser_init = Inr p'" "f' = p_file p'"
    by (auto simp: ConfigFile_def split: sum.splits)
  have "parser_ok parser_init" by (simp add: parser_ok_def parser_init_def config_ok_def)
  with p have "parser_ok p" using analyze_ok by blast
  moreover from analyze_append [OF p(1), of t] assms(2) p'(1)
  have "analyze t p = Inr p' \<or> p' = p" by auto
  ultimately show ?thesis using analyze_keeps assms(3) p(2) p'(2) by blast
qed

theorem ConfigFile_first_definition_wins_witness: "get_string sample_file ''general'' ''port'' = Some ''80''"
  by (rule ConfigFile_first_definition_wins [OF sample_parse _ _ sample_parse2])
    (simp_all add: sample_conf_def sample_file_def get_string_def)

section \<open>Printing and reading back\<close>

definition render_entry :: "string \<times> string \<Rightarrow> string" where
  "render_entry e = fst e @ ''='' @ snd e @ [newline]"

definition render_section :: "string \<times> cfg_section \<Rightarrow> string" where
  "render_section s = ''['' @ fst s @ '']'' @ [newline] @ concat (map render_entry (snd s))"

definition render :: "(string, cfg_section) smap \<Rightarrow> string" where
  "render ss = concat (map render_section ss)"

definition plain :: "string \<Rightarrow> bool" where
  "plain s \<longleftrightarrow> stripped s \<and> newline \<notin> set s \<and> CHR 0x00 \<notin> set s"

definition entry_printable :: "string \<times> string \<Rightarrow> bool" where
  "entry_printable e \<longleftrightarrow> plain (fst e) \<and> plain (snd e) \<and> CHR ''='' \<notin> set (fst e) \<and> hd (fst e) \<noteq> CHR ''['' \<and>
     length (fst e) + length (snd e) + 1 < STREAM_SIZE"

definition section_printable :: "string \<times> cfg_section \<Rightarrow> bool" where
  "section_printable s \<longleftrightarrow> plain (fst s) \<and> length (fst s) + 2 < STREAM_SIZE \<and> smap_ok (snd s) \<and>
     list_all entry_printable (snd s)"

definition printable :: "(string, cfg_section) smap \<Rightarrow> bool" where
  "printable ss \<longleftrightarrow> smap_ok ss \<and> list_all section_printable ss"

lemma analyze_step:
  assumes "newline \<notin> set l" "length l < STREAM_SIZE"
  shows "analyze (l @ newline # rest) p =
     (case analyze_line (c_str l) p of Inl e \<Rightarrow> Inl e | Inr p' \<Rightarrow> analyze rest p')"
proof -
  have "takeWhile (\<lambda>c. c \<noteq> newline) (l @ newline # rest) = l" using assms(1) by (auto simp: takeWhile_append)
  with assms(2) have "getline_buf STREAM_SIZE (l @ newline # rest) = Some (l, rest)"
    by (simp add: getline_buf_def)
  then show ?thesis by (simp add: analyze.simps)
qed

lemma c_str_id: "CHR 0x00 \<notin> set s \<Longrightarrow> c_str s = s"
  by (auto simp: c_str_def takeWhile_eq_all_conv)

lemma get_key_and_value_entry:
  assumes "CHR ''='' \<notin> set k"
  shows "get_key_and_value (k @ CHR ''='' # v) =
     (case strip k '' '' of Inl e \<Rightarrow> Inl e | Inr k \<Rightarrow> (case strip v '' '' of Inl e \<Rightarrow> Inl e | Inr v \<Rightarrow> Inr (Some (k, v))))"
proof -
  have "takeWhile (\<lambda>c. c \<noteq> CHR ''='') (k @ CHR ''='' # v) = k" using assms by (auto simp: takeWhile_append)
  then show ?thesis by (simp add: get_key_and_value_def Let_def split: sum.split)
qed

lemma get_section_header: "stripped n \<Longrightarrow> get_section (CHR ''['' # n @ '']'') = Inr (Some n)"
  by (simp add: get_section_def) (simp add: stripped_def)

lemma analyze_entries:
  assumes "list_all entry_printable es" "smap_ok (done @ es)" "\<forall>x \<in> fst ` set ms. x < n"
    and "m_sections (p_file p) = ms @ [(n, done)]" "smap_ok ms" "cur_section p = Some n"
  shows "analyze (concat (map render_entry es) @ rest) p =
     analyze rest (p\<lparr>p_file := (p_file p)\<lparr>m_sections := ms @ [(n, done @ es)]\<rparr>, line_no := line_no p + length es\<rparr>)"
  using assms
proof (induction es arbitrary: "done" p)
  case (Cons e es)
  obtain k v where e: "e = (k, v)" by (cases e)
  from Cons.prems(1) have kv: "plain k" "plain v" "CHR ''='' \<notin> set k" "hd k \<noteq> CHR ''[''" "length k + length v + 1 < STREAM_SIZE"
    by (simp_all add: e entry_printable_def)
  let ?l = "k @ CHR ''='' # v"
  have find: "map_of (m_sections (p_file p)) n = Some done"
    using map_of_append_last [OF Cons.prems(3)] Cons.prems(4) by simp
  have "\<forall>x \<in> fst ` set done. x < k" using Cons.prems(2) unfolding e by (rule smap_ok_appendD)
  then have new: "map_of done k = None" "smap_insert k v done = done @ [(k, v)]"
    by (auto simp: map_of_eq_None_iff smap_insert_last)
  have "?l \<noteq> []" "hd ?l \<noteq> CHR ''[''" using kv by (auto simp: plain_def stripped_def)
  moreover have "get_key_and_value ?l = Inr (Some (k, v))"
    using kv by (simp add: get_key_and_value_entry plain_def)
  ultimately have line: "analyze_line ?l p =
      Inr (p\<lparr>line_no := line_no p + 1, p_file := (p_file p)\<lparr>m_sections := ms @ [(n, done @ [(k, v)])]\<rparr>\<rparr>)"
    using find new Cons.prems(3,4,6) by (simp add: analyze_line_def Let_def smap_put_last)
  have "analyze (concat (map render_entry (e # es)) @ rest) p = analyze (?l @ newline # concat (map render_entry es) @ rest) p"
    by (simp add: e render_entry_def)
  also have "\<dots> = analyze (concat (map render_entry es) @ rest)
      (p\<lparr>line_no := line_no p + 1, p_file := (p_file p)\<lparr>m_sections := ms @ [(n, done @ [(k, v)])]\<rparr>\<rparr>)"
    using kv line by (subst analyze_step) (auto simp: plain_def c_str_id)
  finally show ?case using Cons.IH [of "done @ [(k, v)]"] Cons.prems e by simp
next
  case Nil
  then have "p\<lparr>p_file := (p_file p)\<lparr>m_sections := ms @ [(n, done)]\<rparr>\<rparr> = p" by simp
  then show ?case by simp
qed

lemma analyze_sections:
  assumes "list_all section_printable ss" "smap_ok (ms @ ss)" "m_sections (p_file p) = ms"
  shows "\<exists>c k. analyze (concat (map render_section ss) @ rest) p =
     analyze rest (p\<lparr>p_file := (p_file p)\<lparr>m_sections := ms @ ss\<rparr>, line_no := k, cur_section := c\<rparr>) \<and>
     (c = None \<longrightarrow> ss = [] \<and> cur_section p = None)"
  using assms
proof (induction ss arbitrary: ms p)
  case Nil
  then have "p = p\<lparr>p_file := (p_file p)\<lparr>m_sections := ms @ []\<rparr>, line_no := line_no p, cur_section := cur_section p\<rparr>" by simp
  then show ?case by (intro exI [of _ "cur_section p"] exI [of _ "line_no p"]) simp
next
  case (Cons s ss)
  obtain n es where s: "s = (n, es)" by (cases s)
  from Cons.prems(1) have ok: "plain n" "length n + 2 < STREAM_SIZE" "smap_ok es" "list_all entry_printable es"
    by (simp_all add: s section_printable_def)
  have lt: "\<forall>x \<in> fst ` set ms. x < n" using Cons.prems(2) unfolding s by (rule smap_ok_appendD)
  have sm: "smap_ok ms" using Cons.prems(2) by (simp add: smap_ok_def sorted_wrt_append)
  have new: "map_of ms n = None" "smap_insert n [] ms = ms @ [(n, [])]"
    using lt by (auto simp: map_of_eq_None_iff smap_insert_last)
  let ?p1 = "p\<lparr>line_no := line_no p + 1, p_file := (p_file p)\<lparr>m_sections := ms @ [(n, [])]\<rparr>, cur_section := Some n\<rparr>"
  let ?p2 = "?p1\<lparr>p_file := (p_file ?p1)\<lparr>m_sections := ms @ [(n, [] @ es)]\<rparr>, line_no := line_no ?p1 + length es\<rparr>"
  have "analyze (concat (map render_section (s # ss)) @ rest) p =
      analyze ((CHR ''['' # n @ '']'') @ newline # concat (map render_entry es) @ concat (map render_section ss) @ rest) p"
    by (simp add: s render_section_def)
  also have "\<dots> = analyze (concat (map render_entry es) @ concat (map render_section ss) @ rest) ?p1"
    using ok new Cons.prems(3)
    by (subst analyze_step) (simp_all add: plain_def c_str_id analyze_line_def get_section_header)
  also have "\<dots> = analyze (concat (map render_section ss) @ rest) ?p2"
    using ok lt sm by (intro analyze_entries) simp_all
  finally show ?case using Cons.IH [of "ms @ [s]" ?p2] Cons.prems s by simp
qed

text \<open>
  C24. Printing a configuration and parsing the text gives the configuration back, without a warning.
\<close>

theorem ConfigFile_render:
  assumes "printable ss"
  shows "ConfigFile (Some (render ss)) = Inr \<lparr>m_sections = ss, m_warned = []\<rparr>"
proof -
  from assms analyze_sections [of ss "[]" parser_init "[]"] obtain c k where
    "analyze (render ss) parser_init = analyze [] (parser_init\<lparr>p_file := (p_file parser_init)\<lparr>m_sections := ss\<rparr>, line_no := k, cur_section := c\<rparr>)"
    by (auto simp: printable_def render_def parser_init_def)
  then show ?thesis by (simp add: ConfigFile_def analyze.simps [of "[]"] getline_buf_def parser_init_def)
qed

theorem ConfigFile_render_witness:
  "ConfigFile (Some (render [(''general'', [(''port'', ''80'')])])) =
     Inr \<lparr>m_sections = [(''general'', [(''port'', ''80'')])], m_warned = []\<rparr>"
  by (rule ConfigFile_render) code_simp

text \<open>
  A line \<open>key =\<close> with an empty or blank value inside a section makes the constructor fail with
  \<^verbatim>\<open>std::out_of_range\<close>, whatever follows: \<^verbatim>\<open>strip\<close> hands \<^verbatim>\<open>npos\<close> to \<^verbatim>\<open>substr\<close>.
\<close>

theorem ConfigFile_empty_value:
  assumes "printable ss" "ss \<noteq> []" "plain k" "CHR ''='' \<notin> set k" "hd k \<noteq> CHR ''[''" "set blank \<subseteq> {CHR '' ''}"
    and "length k + length blank + 1 < STREAM_SIZE"
  shows "ConfigFile (Some (render ss @ k @ ''='' @ blank @ newline # rest)) = Inl Out_of_range"
proof -
  let ?l = "k @ CHR ''='' # blank"
  note k = assms(3-5)
  have "get_key_and_value ?l = Inl Out_of_range"
    using k assms(6) by (simp add: get_key_and_value_entry strip_blank plain_def)
  moreover have "?l \<noteq> []" "hd ?l \<noteq> CHR ''[''" using k by (auto simp: plain_def stripped_def)
  ultimately have line: "analyze_line ?l p = Inl Out_of_range" if "cur_section p \<noteq> None" for p
    using that by (auto simp: analyze_line_def Let_def)
  from analyze_sections [of ss "[]" parser_init "?l @ newline # rest"] assms(1,2) obtain c n where
    "analyze (render ss @ ?l @ newline # rest) parser_init =
      analyze (?l @ newline # rest) (parser_init\<lparr>p_file := (p_file parser_init)\<lparr>m_sections := ss\<rparr>, line_no := n, cur_section := c\<rparr>)"
    "c \<noteq> None"
    by (auto simp: printable_def render_def parser_init_def)
  moreover have l: "CHR 0x00 \<notin> set ?l" "newline \<notin> set ?l" "length ?l < STREAM_SIZE"
    using k assms(6,7) by (auto simp: plain_def)
  have "analyze (?l @ newline # rest) q = Inl Out_of_range" if "cur_section q \<noteq> None" for q
    unfolding analyze_step [OF l(2,3)] c_str_id [OF l(1)] line [OF that] by simp
  ultimately have "analyze (render ss @ ?l @ newline # rest) parser_init = Inl Out_of_range" by simp
  then show ?thesis by (simp add: ConfigFile_def)
qed

theorem ConfigFile_empty_value_witness:
  "ConfigFile (Some (render [(''general'', [])] @ ''port'' @ ''='' @ '' '' @ newline # [])) = Inl Out_of_range"
  by (rule ConfigFile_empty_value) (code_simp | simp add: STREAM_SIZE_def)+

end
