(* ===== verification/App_Utils.thy ===== *)
theory App_Utils
  imports Log Config_File
begin

text \<open>
  The parts of \<^verbatim>\<open>src/apl-server/utils.h\<close>, \<^verbatim>\<open>utils.cpp\<close> and \<^verbatim>\<open>stream.cpp\<close> that are no floating point
  arithmetic: the formatted times the handlers store, the comparisons of times, numbers as text, the
  encoding of a file, and the stream on a buffer of libevent. The local time of boost is an argument.
\<close>

section \<open>Times\<close>

text \<open>A time of \<^verbatim>\<open>boost::posix_time\<close> with a resolution of one second.\<close>

record ptime =
  year :: nat
  month :: nat
  day :: nat
  hours :: nat
  minutes :: nat
  seconds :: nat

definition ptime_ok :: "ptime \<Rightarrow> bool" where
  "ptime_ok t \<longleftrightarrow> 1400 \<le> year t \<and> year t \<le> 9999 \<and> 1 \<le> month t \<and> month t \<le> 12 \<and> 1 \<le> day t \<and> day t \<le> 31 \<and>
     hours t < 24 \<and> minutes t < 60 \<and> seconds t < 60"

text \<open>The directives of a \<^verbatim>\<open>time_facet\<close>: \<^verbatim>\<open>%Y\<close> has four digits, the others have two.\<close>

definition padded :: "nat \<Rightarrow> nat \<Rightarrow> string" where
  "padded w n = (let s = digits n in replicate (w - length s) (CHR ''0'') @ s)"

definition get_linearstring_time :: "ptime \<Rightarrow> string" where
  "get_linearstring_time t =
     padded 4 (year t) @ padded 2 (month t) @ padded 2 (day t) @ padded 2 (hours t) @ padded 2 (minutes t) @ padded 2 (seconds t)"

definition customstring_time :: "ptime \<Rightarrow> string" where
  "customstring_time t =
     padded 4 (year t) @ ''-'' @ padded 2 (month t) @ ''-'' @ padded 2 (day t) @ '' '' @
     padded 2 (hours t) @ '':'' @ padded 2 (minutes t) @ '':'' @ padded 2 (seconds t)"

definition time_is_early_than :: "string \<Rightarrow> string \<Rightarrow> bool" where
  "time_is_early_than targt src = True"

definition time_is_late_than :: "string \<Rightarrow> string \<Rightarrow> bool" where
  "time_is_late_than targt src = True"

section \<open>Text\<close>

definition convertIntToString :: "int \<Rightarrow> string" where
  "convertIntToString val = show_int val"

text \<open>
  A file is its content, if it can be opened; the encoder of boost is an argument. \<^verbatim>\<open>tellg\<close> right after the
  file was opened is 0, which is taken for the size of the file.
\<close>

definition encode_base64_file :: "(string \<Rightarrow> string) \<Rightarrow> string option \<Rightarrow> string \<Rightarrow> bool \<times> string" where
  "encode_base64_file base64_enc ifs result =
     (case ifs of
        None \<Rightarrow> (False, result)
      | Some content \<Rightarrow> let size = (0 :: nat); buf = take size content in (True, base64_enc buf))"

section \<open>Stream\<close>

text \<open>The bytes of the buffer of libevent; the mode is never looked at.\<close>

record stream =
  m_buf :: "byte list"
  m_mode :: int

definition Stream :: "byte list \<Rightarrow> int \<Rightarrow> stream" where
  "Stream buf mode = \<lparr>m_buf = buf, m_mode = mode\<rparr>"

definition put_string :: "stream \<Rightarrow> string \<Rightarrow> stream" where
  "put_string s val = (if val \<noteq> [] then s\<lparr>m_buf := m_buf s @ bytes_of val\<rparr> else s)"

definition put_chars :: "stream \<Rightarrow> string option \<Rightarrow> stream" where
  "put_chars s val = (case val of None \<Rightarrow> s | Some c \<Rightarrow> s\<lparr>m_buf := m_buf s @ bytes_of (c_str c)\<rparr>)"

text \<open>The bytes of an \<^verbatim>\<open>int\<close> in memory, on a little endian machine.\<close>

definition put_int :: "stream \<Rightarrow> 32 word \<Rightarrow> stream" where
  "put_int s val = s\<lparr>m_buf := m_buf s @ map (\<lambda>i. ucast (drop_bit (8 * i) val)) [0..<4]\<rparr>"

text \<open>Reading leaves the stream and the variable alone.\<close>

definition stream_get :: "stream \<Rightarrow> 'a \<Rightarrow> stream \<times> 'a" where
  "stream_get s val = (s, val)"

lemma put_concat: "m_buf (put_string (put_string s a) b) = m_buf (put_string s (a @ b))"
  by (simp add: put_string_def)

lemma put_int_length: "length (m_buf (put_int s val)) = length (m_buf s) + 4"
  by (simp add: put_int_def)

section \<open>The order of formatted times\<close>

fun pad_digits :: "nat \<Rightarrow> nat \<Rightarrow> string" where
  "pad_digits 0 n = []"
| "pad_digits (Suc w) n = pad_digits w (n div 10) @ [char_of (48 + n mod 10)]"

lemma length_pad_digits [simp]: "length (pad_digits w n) = w"
  by (induction w arbitrary: n) simp_all

lemma pad_digits_zero: "pad_digits w 0 = replicate w (CHR ''0'')"
proof (induction w)
  case (Suc w)
  have "char_of (48 :: nat) = CHR ''0''" by code_simp
  with Suc show ?case by (simp add: replicate_append_same)
qed simp

lemma digits_pad: "n < 10 ^ w \<Longrightarrow> 0 < w \<Longrightarrow> padded w n = pad_digits w n"
proof (induction w arbitrary: n)
  case (Suc w)
  show ?case
  proof (cases "n < 10")
    case True
    then show ?thesis by (simp add: padded_def digits.simps [of n] pad_digits_zero)
  next
    case False
    with Suc.prems have w: "0 < w" "n div 10 < 10 ^ w" by (cases w; auto simp: less_mult_imp_div_less mult.commute)+
    from Suc.IH [OF w(2,1)] False show ?thesis by (simp add: padded_def digits.simps [of n] Let_def)
  qed
qed simp

lemma append_less_append:
  fixes a c :: "'a::linorder list"
  assumes "length a = length c"
  shows "a @ b < c @ d \<longleftrightarrow> a < c \<or> a = c \<and> b < d"
  using assms by (induction a c rule: list_induct2) auto

lemma digit_less: "i < 10 \<Longrightarrow> j < 10 \<Longrightarrow> (char_of (48 + i) :: char) < char_of (48 + j) \<longleftrightarrow> i < (j :: nat)"
  by (simp add: less_char_def)

lemma pad_digits_less: "n < 10 ^ w \<Longrightarrow> m < 10 ^ w \<Longrightarrow> pad_digits w n < pad_digits w m \<longleftrightarrow> n < m"
proof (induction w arbitrary: n m)
  case (Suc w)
  then have lt: "n div 10 < 10 ^ w" "m div 10 < 10 ^ w" by (auto simp: less_mult_imp_div_less mult.commute)
  have "pad_digits w (n div 10) = pad_digits w (m div 10) \<longleftrightarrow> n div 10 = m div 10"
    using Suc.IH [OF lt] Suc.IH [OF lt(2,1)] by (metis less_irrefl linorder_less_linear)
  then have "pad_digits (Suc w) n < pad_digits (Suc w) m \<longleftrightarrow>
      n div 10 < m div 10 \<or> n div 10 = m div 10 \<and> n mod 10 < m mod 10"
    using Suc.IH [OF lt] by (simp add: append_less_append digit_less)
  also have "\<dots> \<longleftrightarrow> n < m"
    using div_mult_mod_eq [of n 10] div_mult_mod_eq [of m 10] mod_less_divisor [of 10 n] mod_less_divisor [of 10 m] by arith
  finally show ?case .
qed simp

lemma padded_less:
  assumes "n < 10 ^ w" "m < 10 ^ w" "0 < w"
  shows "padded w n @ s < padded w m @ t \<longleftrightarrow> n < m \<or> n = m \<and> s < t"
proof -
  have "pad_digits w n = pad_digits w m \<longleftrightarrow> n = m"
    using pad_digits_less [OF assms(1,2)] pad_digits_less [OF assms(2,1)] by (metis less_irrefl linorder_less_linear)
  then show ?thesis using assms by (simp add: digits_pad append_less_append pad_digits_less)
qed

text \<open>The fields of a time, the most significant first.\<close>

definition time_fields :: "ptime \<Rightarrow> nat list" where
  "time_fields t = [year t, month t, day t, hours t, minutes t, seconds t]"

text \<open>
  Formatted times compare as the times do, in both formats: sorting stored documents by their time sorts
  them in the order they were written.
\<close>

theorem formatted_time_order:
  assumes "ptime_ok t" "ptime_ok u"
  shows "(customstring_time t < customstring_time u \<longleftrightarrow> time_fields t < time_fields u) \<and>
     (get_linearstring_time t < get_linearstring_time u \<longleftrightarrow> time_fields t < time_fields u)"
proof -
  have last: "padded 2 n < padded 2 m \<longleftrightarrow> n < m" if "n < 10 ^ 2" "m < 10 ^ 2" for n m
    using padded_less [OF that, of "[]" "[]"] by simp
  show ?thesis using assms
    by (simp add: customstring_time_def get_linearstring_time_def time_fields_def ptime_ok_def padded_less last)
qed

theorem formatted_time_order_witness:
  "customstring_time \<lparr>year = 2014, month = 9, day = 30, hours = 23, minutes = 59, seconds = 59\<rparr> <
   customstring_time \<lparr>year = 2014, month = 10, day = 1, hours = 0, minutes = 0, seconds = 0\<rparr>"
  using formatted_time_order [of "\<lparr>year = 2014, month = 9, day = 30, hours = 23, minutes = 59, seconds = 59\<rparr>"
    "\<lparr>year = 2014, month = 10, day = 1, hours = 0, minutes = 0, seconds = 0\<rparr>"]
  by (simp add: ptime_ok_def time_fields_def)

end
