(* ===== verification/Config_Sources.thy ===== *)
theory Config_Sources
  imports Config_File
begin

text \<open>
  The implementations of the abstract class \<^verbatim>\<open>Configuration\<close> of \<^verbatim>\<open>src/lib/config.h\<close> (command line,
  environment, configuration file, ZooKeeper), the ZooKeeper wrapper of \<^verbatim>\<open>src/lib/zkeeper.cpp\<close>
  and the \<^verbatim>\<open>SystemConfig\<close> singleton the servers start from. The ZooKeeper client library is not
  part of the repository: its calls are the fields of \<open>zoo_api\<close>, over a service state of any type.
  \<^term>\<open>None\<close> stands for undefined behaviour (a null pointer, a read past a buffer); exceptions
  are values.
\<close>

section \<open>Command line\<close>

record option_item =
  oi_key :: string
  oi_shortName :: string
  oi_hasValue :: bool

record cmdline_config =
  m_optionItems :: "option_item list"
  m_options :: "(string, string) smap"

text \<open>
  \<^verbatim>\<open>sizeof(m_optionItems)/sizeof(m_optionItems[0])\<close>: the member is a pointer, of 8 bytes, and an
  item is four pointers and a padded flag, of 40.
\<close>

definition option_count :: nat where
  "option_count = 8 div 40"

function indexOfValidOption_from :: "option_item list \<Rightarrow> nat \<Rightarrow> nat \<Rightarrow> string \<Rightarrow> (nat \<times> string) option" where
  "indexOfValidOption_from items count i name =
     (if i < count then
        if c_str name = oi_key (items ! i) then Some (i, name)
        else if c_str name = oi_shortName (items ! i) then Some (i, oi_key (items ! i))
        else indexOfValidOption_from items count (i + 1) name
      else None)"
  by pat_completeness auto
termination
  by (relation "measure (\<lambda>(items, count, i, name). count - i)") auto

declare indexOfValidOption_from.simps [simp del]

definition indexOfValidOption :: "cmdline_config \<Rightarrow> string \<Rightarrow> (nat \<times> string) option" where
  "indexOfValidOption c name = indexOfValidOption_from (m_optionItems c) option_count 0 name"

definition is_option :: "string \<Rightarrow> bool" where
  "is_option a \<longleftrightarrow> a \<noteq> [] \<and> hd a = CHR ''-''"

text \<open>The values up to the next option, joined with semicolons.\<close>

fun collect_values :: "string list \<Rightarrow> string \<Rightarrow> string \<times> string list" where
  "collect_values [] val = (val, [])"
| "collect_values (a # as) val =
     (if is_option a then (val, a # as)
      else collect_values as (if val = [] then a else val @ '';'' @ a))"

lemma length_collect_values: "length (snd (collect_values as v)) \<le> length as"
  by (induction as v rule: collect_values.induct) auto

text \<open>
  \<^verbatim>\<open>parse\<close> on \<^verbatim>\<open>argv[1..]\<close>. An empty argument is undefined: \<^verbatim>\<open>item + 1\<close> is past its end.
\<close>

function parse_args :: "string list \<Rightarrow> cmdline_config \<Rightarrow> (bool \<times> cmdline_config) option" where
  "parse_args [] c = Some (True, c)"
| "parse_args (item # as) c =
     (if item = [] then None
      else if is_option item then
        (case indexOfValidOption c (tl item) of
           None \<Rightarrow> Some (False, c)
         | Some (index, key) \<Rightarrow>
             let (val, rest) =
               (if oi_hasValue (m_optionItems c ! index) then collect_values as [] else ([], as))
             in if map_of (m_options c) key = None
                then parse_args rest (c\<lparr>m_options := smap_insert key val (m_options c)\<rparr>)
                else Some (False, c))
      else parse_args as c)"
  by pat_completeness auto
termination
proof (relation "measure (\<lambda>(as, c). length as)", goal_cases)
  case (2 item as c a index key x val rest)
  then have "length rest \<le> length as"
    by (metis length_collect_values order_refl prod.sel(2))
  then show ?case by simp
qed auto

definition parse :: "cmdline_config \<Rightarrow> string list \<Rightarrow> (bool \<times> cmdline_config) option" where
  "parse c argv = parse_args (tl argv) c"

definition cmdline_getGeneral :: "cmdline_config \<Rightarrow> string \<Rightarrow> string" where
  "cmdline_getGeneral c key = (case map_of (m_options c) key of None \<Rightarrow> [] | Some v \<Rightarrow> v)"

section \<open>Environment\<close>

text \<open>Building a \<^verbatim>\<open>std::string\<close> from a null pointer throws \<^verbatim>\<open>std::logic_error\<close>, the val \<^term>\<open>None\<close>.\<close>

definition getStringVariable :: "(string \<Rightarrow> string option) \<Rightarrow> string \<Rightarrow> string option" where
  "getStringVariable env key = (case env (c_str key) of None \<Rightarrow> None | Some val \<Rightarrow> Some [])"

section \<open>Configuration file\<close>

definition GENERAL_SECTION :: string where
  "GENERAL_SECTION = ''general''"

datatype config_exception = ConfigException string

definition UserConfig :: "(string \<Rightarrow> string option) \<Rightarrow> string \<Rightarrow> config_exception + config_file" where
  "UserConfig files path =
     (case ConfigFile (files path) of Inl e \<Rightarrow> Inl (ConfigException ''config file missed'') | Inr f \<Rightarrow> Inr f)"

definition user_getGeneral :: "config_file \<Rightarrow> string \<Rightarrow> string" where
  "user_getGeneral f key = (case get_string f GENERAL_SECTION key of None \<Rightarrow> [] | Some v \<Rightarrow> v)"

definition user_getGeneral_section :: "config_file \<Rightarrow> string \<Rightarrow> string \<Rightarrow> string" where
  "user_getGeneral_section f key section = (case get_string f section key of None \<Rightarrow> [] | Some v \<Rightarrow> v)"

section \<open>The ZooKeeper client\<close>

text \<open>
  The C client: \<open>Some\<close> is \<^verbatim>\<open>ZOK\<close> with what the call delivers. \<open>zoo_get\<close> is the content of the node;
  the call copies as much of it as the caller's buffer holds.
\<close>

record 'z zoo_api =
  zookeeper_init :: "'z \<Rightarrow> string \<Rightarrow> bool"
  zoo_get :: "'z \<Rightarrow> string \<Rightarrow> string option"
  zoo_set :: "'z \<Rightarrow> string \<Rightarrow> string \<Rightarrow> 'z option"
  zoo_create :: "'z \<Rightarrow> string \<Rightarrow> string \<Rightarrow> 'z option"
  zoo_delete :: "'z \<Rightarrow> string \<Rightarrow> 'z"
  zoo_exists :: "'z \<Rightarrow> string \<Rightarrow> bool"
  zoo_get_children :: "'z \<Rightarrow> string \<Rightarrow> string list option"

text \<open>The wrapper: whether there is a handle, and the observer of each path.\<close>

record 'o zookeeper =
  z_handle :: bool
  z_observers :: "(string, 'o) smap"

definition zk_new :: "'o zookeeper" where
  "zk_new = \<lparr>z_handle = False, z_observers = []\<rparr>"

definition zooWatcher :: "'o zookeeper \<Rightarrow> string \<Rightarrow> 'o option" where
  "zooWatcher keeper path = map_of (z_observers keeper) path"

definition zk_initialize :: "'z zoo_api \<Rightarrow> 'z \<Rightarrow> string \<Rightarrow> 'o zookeeper \<Rightarrow> bool \<times> 'o zookeeper" where
  "zk_initialize api z host keeper =
     (let ok = zookeeper_init api z (c_str host) in (ok, keeper\<lparr>z_handle := ok\<rparr>))"

definition setNode :: "'z zoo_api \<Rightarrow> 'o zookeeper \<Rightarrow> string \<Rightarrow> string \<Rightarrow> 'z \<Rightarrow> bool \<times> 'z" where
  "setNode api keeper path content z =
     (if z_handle keeper \<and> path \<noteq> [] \<and> content \<noteq> [] then
        (case zoo_set api z (c_str path) content of Some z' \<Rightarrow> (True, z') | None \<Rightarrow> (False, z))
      else (False, z))"

definition createNode :: "'z zoo_api \<Rightarrow> 'o zookeeper \<Rightarrow> string \<Rightarrow> string \<Rightarrow> 'z \<Rightarrow> bool \<times> 'z" where
  "createNode api keeper path content z =
     (if z_handle keeper \<and> path \<noteq> [] \<and> content \<noteq> [] then
        (case zoo_create api z (c_str path) content of Some z' \<Rightarrow> (True, z') | None \<Rightarrow> (False, z))
      else (False, z))"

definition deleteNode :: "'z zoo_api \<Rightarrow> 'o zookeeper \<Rightarrow> string \<Rightarrow> 'z \<Rightarrow> 'z" where
  "deleteNode api keeper path z =
     (if z_handle keeper \<and> path \<noteq> [] then zoo_delete api z (c_str path) else z)"

text \<open>
  \<^verbatim>\<open>char buffer[64] = {'\0'}\<close> is filled and returned as a C string: without a zero in it the
  conversion reads past the buffer.
\<close>

definition getNode :: "'z zoo_api \<Rightarrow> 'z \<Rightarrow> 'o zookeeper \<Rightarrow> string \<Rightarrow> string option" where
  "getNode api z keeper path =
     (if z_handle keeper \<and> path \<noteq> [] then
        (case zoo_get api z (c_str path) of
           Some content \<Rightarrow>
             let buffer = take 64 content @ replicate (64 - length content) (CHR 0x00)
             in if CHR 0x00 \<in> set buffer then Some (c_str buffer) else None
         | None \<Rightarrow> Some [])
      else Some [])"

definition isNodeExist :: "'z zoo_api \<Rightarrow> 'z \<Rightarrow> 'o zookeeper \<Rightarrow> string \<Rightarrow> bool" where
  "isNodeExist api z keeper path \<longleftrightarrow> z_handle keeper \<and> path \<noteq> [] \<and> zoo_exists api z (c_str path)"

definition getChildNode :: "'z zoo_api \<Rightarrow> 'z \<Rightarrow> 'o zookeeper \<Rightarrow> string \<Rightarrow> string list option" where
  "getChildNode api z keeper path = (if z_handle keeper then zoo_get_children api z (c_str path) else None)"

definition registerObserver :: "'o \<Rightarrow> string \<Rightarrow> 'o zookeeper \<Rightarrow> 'o zookeeper" where
  "registerObserver observer path keeper =
     (if map_of (z_observers keeper) path = None
      then keeper\<lparr>z_observers := smap_insert path observer (z_observers keeper)\<rparr> else keeper)"

text \<open>Only the first path of the observer is forgotten.\<close>

fun erase_first :: "'o \<Rightarrow> ('k, 'o) smap \<Rightarrow> ('k, 'o) smap" where
  "erase_first observer [] = []"
| "erase_first observer ((p, ob) # m) = (if ob = observer then m else (p, ob) # erase_first observer m)"

definition unregisterObserver :: "'o \<Rightarrow> 'o zookeeper \<Rightarrow> 'o zookeeper" where
  "unregisterObserver observer keeper = keeper\<lparr>z_observers := erase_first observer (z_observers keeper)\<rparr>"

section \<open>ZooKeeperConfig\<close>

record zoo_config =
  zc_keeper :: "unit zookeeper"
  zc_optionNames :: "string list"
  zc_options :: "(string, string) smap"
  zc_rootPrefix :: string

definition zc_new :: zoo_config where
  "zc_new = \<lparr>zc_keeper = zk_new, zc_optionNames = [], zc_options = [], zc_rootPrefix = []\<rparr>"

text \<open>The only observer there is: the configuration object itself, the val \<^term>\<open>()\<close>.\<close>

definition zc_initialize :: "'z zoo_api \<Rightarrow> 'z \<Rightarrow> string \<Rightarrow> string \<Rightarrow> string list \<Rightarrow> zoo_config \<Rightarrow> bool \<times> zoo_config" where
  "zc_initialize api z hosts rootPrefix optionNames zc =
     (let zc = zc\<lparr>zc_optionNames := optionNames, zc_rootPrefix := rootPrefix @ ''/''\<rparr>;
          (ok, keeper) = zk_initialize api z hosts (zc_keeper zc)
      in if ok then (True, zc\<lparr>zc_keeper := fold (registerObserver ()) optionNames keeper\<rparr>)
         else (False, zc\<lparr>zc_keeper := keeper\<rparr>))"

definition zc_getGeneral :: "'z zoo_api \<Rightarrow> 'z \<Rightarrow> zoo_config \<Rightarrow> string \<Rightarrow> (string \<times> zoo_config) option" where
  "zc_getGeneral api z zc key =
     (case map_of (zc_options zc) key of
        Some v \<Rightarrow> Some (v, zc)
      | None \<Rightarrow>
          (case getNode api z (zc_keeper zc) (zc_rootPrefix zc @ key) of
             None \<Rightarrow> None
           | Some v \<Rightarrow> Some (v, zc\<lparr>zc_options := smap_put key v (zc_options zc)\<rparr>)))"

fun find_sub :: "string \<Rightarrow> string \<Rightarrow> nat option" where
  "find_sub [] pat = (if pat = [] then Some 0 else None)"
| "find_sub (c # cs) pat =
     (if take (length pat) (c # cs) = pat then Some 0 else map_option Suc (find_sub cs pat))"

text \<open>\<^verbatim>\<open>substr\<close> past the end throws: the outer \<^term>\<open>None\<close>.\<close>

definition zooKeeperStateChanged :: "'z zoo_api \<Rightarrow> 'z \<Rightarrow> zoo_config \<Rightarrow> string \<Rightarrow> zoo_config option" where
  "zooKeeperStateChanged api z zc path =
     (case find_sub path (zc_rootPrefix zc) of
        None \<Rightarrow> Some zc
      | Some pos1 \<Rightarrow>
          let start = pos1 + length (zc_rootPrefix zc) + 1
          in if length path < start then None
             else let optionName = drop start path
                  in if optionName \<in> set (zc_optionNames zc) then
                       (case getNode api z (zc_keeper zc) path of
                          None \<Rightarrow> None
                        | Some v \<Rightarrow> Some (zc\<lparr>zc_options := smap_put optionName v (zc_options zc)\<rparr>))
                     else Some zc)"

text \<open>An event of the service: the watcher looks the path up and notifies its observer.\<close>

definition zc_event :: "'z zoo_api \<Rightarrow> 'z \<Rightarrow> string \<Rightarrow> zoo_config \<Rightarrow> zoo_config option" where
  "zc_event api z path zc =
     (case zooWatcher (zc_keeper zc) path of None \<Rightarrow> Some zc | Some _ \<Rightarrow> zooKeeperStateChanged api z zc path)"

section \<open>SystemConfig\<close>

record system_config =
  sc_serverName :: string
  sc_DBServer :: string
  sc_logFile :: string
  sc_logLevel :: int
  sc_port :: int
  sc_zooConfig :: "zoo_config option"

text \<open>The singleton has static storage: its members start at zero.\<close>

definition SystemConfig :: system_config where
  "SystemConfig = \<lparr>sc_serverName = [], sc_DBServer = [], sc_logFile = [], sc_logLevel = 0, sc_port = 0, sc_zooConfig = None\<rparr>"

definition sc_cmdlineOptions :: "option_item list" where
  "sc_cmdlineOptions =
     [\<lparr>oi_key = ''version'', oi_shortName = ''v'', oi_hasValue = False\<rparr>,
      \<lparr>oi_key = ''config'', oi_shortName = ''c'', oi_hasValue = True\<rparr>]"

definition sc_getGeneral :: "'z zoo_api \<Rightarrow> 'z \<Rightarrow> system_config \<Rightarrow> string \<Rightarrow> (string \<times> system_config) option" where
  "sc_getGeneral api z sc key =
     (case sc_zooConfig sc of
        None \<Rightarrow> None
      | Some zc \<Rightarrow>
          (case zc_getGeneral api z zc key of
             None \<Rightarrow> None
           | Some (v, zc') \<Rightarrow> Some (v, sc\<lparr>sc_zooConfig := Some zc'\<rparr>)))"

definition loadConfigs :: "'z zoo_api \<Rightarrow> 'z \<Rightarrow> system_config \<Rightarrow> (bool \<times> system_config) option" where
  "loadConfigs api z sc = do {
     (val, sc) \<leftarrow> sc_getGeneral api z sc ''port'';
     if val = [] then Some (False, sc) else do {
       port \<leftarrow> atoi val;
       let sc = sc\<lparr>sc_port := port\<rparr>;
       (val, sc) \<leftarrow> sc_getGeneral api z sc ''log-file'';
       let sc = sc\<lparr>sc_logFile := val\<rparr>;
       if val = [] then Some (False, sc) else do {
         (val, sc) \<leftarrow> sc_getGeneral api z sc ''log-level'';
         if val = [] then Some (False, sc) else do {
           level \<leftarrow> atoi val;
           let sc = sc\<lparr>sc_logLevel := level\<rparr>;
           (val, sc) \<leftarrow> sc_getGeneral api z sc ''mongo-server'';
           let sc = sc\<lparr>sc_DBServer := val\<rparr>;
           Some (val \<noteq> [], sc)
         }
       }
     }
   }"

abbreviation default_conf :: string where
  "default_conf \<equiv> ''../conf/rcar.conf''"

definition create :: "(string \<Rightarrow> string option) \<Rightarrow> 'z zoo_api \<Rightarrow> 'z \<Rightarrow> string list \<Rightarrow> string \<Rightarrow> system_config \<Rightarrow> (bool \<times> system_config) option" where
  "create files api z argv serverName sc =
     (if serverName = [] then Some (False, sc)
      else do {
        let sc = sc\<lparr>sc_serverName := serverName\<rparr>;
        (ok, cmdline) \<leftarrow> parse \<lparr>m_optionItems = sc_cmdlineOptions, m_options = []\<rparr> argv;
        let configFile = (if ok then cmdline_getGeneral cmdline ''config'' else default_conf);
        let configFile = (if configFile = [] then default_conf else configFile);
        (case UserConfig files configFile of
           Inl e \<Rightarrow> Some (False, sc)
         | Inr userConfig \<Rightarrow>
             let hosts = user_getGeneral userConfig ''zookeeper-hosts'';
                 (connected, sc) =
                   (if hosts = [] then (True, sc)
                    else let (ok, zc) = zc_initialize api z hosts (''/'' @ serverName) [''mongo-server''] zc_new
                         in (ok, sc\<lparr>sc_zooConfig := Some zc\<rparr>))
             in if connected then loadConfigs api z sc else Some (False, sc))
      })"

section \<open>What every configuration promises\<close>

fun read_all :: "('c \<Rightarrow> string \<Rightarrow> (string \<times> 'c) option) \<Rightarrow> 'c \<Rightarrow> string list \<Rightarrow> (string list \<times> 'c) option" where
  "read_all get c [] = Some ([], c)"
| "read_all get c (k # ks) = do { (v, c) \<leftarrow> get c k; (vs, c) \<leftarrow> read_all get c ks; Some (v # vs, c) }"

locale configuration =
  fixes get :: "'c \<Rightarrow> string \<Rightarrow> (string \<times> 'c) option" and inv :: "'c \<Rightarrow> bool"
  assumes keeps_inv: "inv c \<Longrightarrow> get c k = Some (v, c') \<Longrightarrow> inv c'"
    and stable: "inv c \<Longrightarrow> get c k = Some (v, c') \<Longrightarrow> get c' k = Some (v, c')"
    and independent: "inv c \<Longrightarrow> get c k = Some (v, c') \<Longrightarrow> k' \<noteq> k \<Longrightarrow>
      map_option fst (get c' k') = map_option fst (get c k')"
begin

lemma lookup_after:
  assumes "inv c" "get c k = Some (v, c')"
  shows "map_option fst (get c' k') = map_option fst (get c k')"
proof (cases "k' = k")
  case True
  with stable [OF assms] assms(2) show ?thesis by simp
qed (rule independent [OF assms])

lemma read_all_lookup:
  assumes "inv c" "read_all get c ks = Some (vs, c')"
  shows "inv c' \<and> map Some vs = map (\<lambda>k. map_option fst (get c k)) ks"
  using assms
proof (induction ks arbitrary: c vs)
  case (Cons k ks)
  then obtain v c1 vs' where *: "get c k = Some (v, c1)" "read_all get c1 ks = Some (vs', c')" "vs = v # vs'"
    by (auto split: bind_splits)
  with Cons.IH [of c1 vs'] keeps_inv [OF Cons.prems(1) *(1)]
  show ?case by (simp add: lookup_after [OF Cons.prems(1) *(1)])
qed simp

end

interpretation cmdline: configuration "\<lambda>c k. Some (cmdline_getGeneral c k, c)" "\<lambda>c. True"
  by unfold_locales auto

interpretation env: configuration "\<lambda>e k. map_option (\<lambda>v. (v, e)) (getStringVariable e k)" "\<lambda>e. True"
  by unfold_locales auto

interpretation user: configuration "\<lambda>f k. Some (user_getGeneral f k, f)" config_ok
  by unfold_locales auto

definition zc_ok :: "zoo_config \<Rightarrow> bool" where
  "zc_ok zc \<longleftrightarrow> smap_ok (zc_options zc)"

definition sc_ok :: "system_config \<Rightarrow> bool" where
  "sc_ok sc \<longleftrightarrow> (case sc_zooConfig sc of None \<Rightarrow> True | Some zc \<Rightarrow> zc_ok zc)"

interpretation zoo: configuration "zc_getGeneral api z" zc_ok for api z
  by unfold_locales (auto simp: zc_ok_def zc_getGeneral_def smap_simps split: option.splits)

lemma sc_getGeneral_SomeE:
  assumes "sc_getGeneral api z sc k = Some (v, sc')"
  obtains zc zc' where "sc_zooConfig sc = Some zc" "zc_getGeneral api z zc k = Some (v, zc')"
    "sc' = sc\<lparr>sc_zooConfig := Some zc'\<rparr>"
  using assms by (auto simp: sc_getGeneral_def split: option.splits)

interpretation sys: configuration "sc_getGeneral api z" sc_ok for api z
proof
  fix c c' k v k'
  assume ok: "sc_ok c" and get: "sc_getGeneral api z c k = Some (v, c')"
  then obtain zc zc' where s: "sc_zooConfig c = Some zc" "zc_getGeneral api z zc k = Some (v, zc')"
    "c' = c\<lparr>sc_zooConfig := Some zc'\<rparr>" by (auto elim: sc_getGeneral_SomeE)
  then have zc: "zc_ok zc" using ok by (simp add: sc_ok_def)
  show "sc_ok c'" using zoo.keeps_inv [OF zc s(2)] s(3) by (simp add: sc_ok_def)
  show "sc_getGeneral api z c' k = Some (v, c')" using zoo.stable [OF zc s(2)] s(3) by (simp add: sc_getGeneral_def)
  show "map_option fst (sc_getGeneral api z c' k') = map_option fst (sc_getGeneral api z c k')"
    using zoo.lookup_after [OF zc s(2), of k'] s(1,3)
    by (cases "zc_getGeneral api z zc' k'"; cases "zc_getGeneral api z zc k'")
      (auto simp: sc_getGeneral_def)
qed

text \<open>The environment is read the wrong way round: a variable that is set is never returned.\<close>

lemma getStringVariable_empty: "getStringVariable env key = Some v \<Longrightarrow> v = []"
  by (simp add: getStringVariable_def split: option.splits)

section \<open>Nodes\<close>

lemma c_str_zeros: "CHR 0x00 \<notin> set s \<Longrightarrow> c_str (s @ CHR 0x00 # t) = s"
  by (auto simp: c_str_def takeWhile_append)

lemma getNode_small:
  assumes "z_handle keeper" "path \<noteq> []" "zoo_get api z (c_str path) = Some content" "CHR 0x00 \<notin> set content"
    and "length content < 64"
  shows "getNode api z keeper path = Some content"
proof -
  from assms(5) have "64 - length content = Suc (63 - length content)" by simp
  then have "replicate (64 - length content) (CHR 0x00) = CHR 0x00 # replicate (63 - length content) (CHR 0x00)"
    by (metis replicate_Suc)
  with assms show ?thesis by (simp add: getNode_def c_str_zeros)
qed

text \<open>
  C27. Reading a node whose content has no zero byte returns the content when it has less than 64 bytes;
  from 64 bytes on the buffer has no terminator and the conversion to a string reads past it.
\<close>

theorem getNode_bound:
  assumes "z_handle keeper" "path \<noteq> []" "zoo_get api z (c_str path) = Some content" "CHR 0x00 \<notin> set content"
  shows "getNode api z keeper path = (if length content < 64 then Some content else None)"
proof (cases "length content < 64")
  case True
  with getNode_small [OF assms] show ?thesis by simp
next
  case False
  with assms(4) have "CHR 0x00 \<notin> set (take 64 content)" by (meson in_set_takeD)
  with False assms show ?thesis by (simp add: getNode_def)
qed

section \<open>The command line is never accepted\<close>

lemma indexOfValidOption_None: "indexOfValidOption c name = None"
  by (simp add: indexOfValidOption_def option_count_def indexOfValidOption_from.simps)

lemma parse_args_result:
  assumes "[] \<notin> set as"
  shows "parse_args as c = Some (\<not> list_ex is_option as, c)"
  using assms by (induction as) (auto simp: indexOfValidOption_None is_option_def)

lemma cmdline_rejects_options:
  assumes "[] \<notin> set (tl argv)"
  shows "parse c argv = Some (\<not> list_ex is_option (tl argv), c)"
  using assms by (simp add: parse_def parse_args_result)

lemma create_default_file:
  assumes "[] \<notin> set (tl argv)" "serverName \<noteq> []"
  shows "create files api z argv serverName sc =
     (case UserConfig files default_conf of
        Inl e \<Rightarrow> Some (False, sc\<lparr>sc_serverName := serverName\<rparr>)
      | Inr f \<Rightarrow>
          let hosts = user_getGeneral f ''zookeeper-hosts'';
              (connected, sc) =
                (if hosts = [] then (True, sc\<lparr>sc_serverName := serverName\<rparr>)
                 else let (ok, zc) = zc_initialize api z hosts (''/'' @ serverName) [''mongo-server''] zc_new
                      in (ok, sc\<lparr>sc_serverName := serverName, sc_zooConfig := Some zc\<rparr>))
          in if connected then loadConfigs api z sc else Some (False, sc))"
  using assms
  by (simp add: create_def parse_def parse_args_result cmdline_getGeneral_def Let_def)

text \<open>
  Whatever arguments the program is started with, \<^verbatim>\<open>SystemConfig::create\<close> does the same: the
  option table is measured with the size of a pointer, every option is rejected, and the default
  configuration file is used.
\<close>

theorem create_ignores_arguments:
  assumes "[] \<notin> set (tl argv)" "[] \<notin> set (tl argv')"
  shows "create files api z argv serverName sc = create files api z argv' serverName sc"
proof (cases "serverName = []")
  case False
  with assms show ?thesis by (simp add: create_default_file)
qed (simp add: create_def)

text \<open>
  When the configuration file names no ZooKeeper hosts, \<^verbatim>\<open>create\<close> goes on to read its options
  through the null pointer \<^verbatim>\<open>_zooConfig\<close>.
\<close>

theorem create_without_zookeeper:
  assumes "[] \<notin> set (tl argv)" "serverName \<noteq> []" "UserConfig files default_conf = Inr f"
    and "user_getGeneral f ''zookeeper-hosts'' = []"
  shows "create files api z argv serverName SystemConfig = None"
  using assms by (simp add: create_default_file loadConfigs_def sc_getGeneral_def SystemConfig_def)

section \<open>A server that starts\<close>

abbreviation sc_lookup :: "'z zoo_api \<Rightarrow> 'z \<Rightarrow> system_config \<Rightarrow> string \<Rightarrow> string option" where
  "sc_lookup api z sc k \<equiv> map_option fst (sc_getGeneral api z sc k)"

lemma sc_getGeneral_ok:
  assumes "sc_getGeneral api z sc k = Some (v, sc')" "sc_ok sc"
  shows "sc_ok sc'" "sc_lookup api z sc' k' = sc_lookup api z sc k'"
    "sc_port sc' = sc_port sc" "sc_logFile sc' = sc_logFile sc" "sc_logLevel sc' = sc_logLevel sc"
  using sys.keeps_inv [OF assms(2,1)] sys.lookup_after [OF assms(2,1)] assms(1)
  by (auto elim: sc_getGeneral_SomeE)

lemma sc_fields [simp]:
  "sc_ok (sc\<lparr>sc_port := p\<rparr>) = sc_ok sc" "sc_ok (sc\<lparr>sc_logFile := s\<rparr>) = sc_ok sc" "sc_ok (sc\<lparr>sc_logLevel := p\<rparr>) = sc_ok sc"
  "sc_lookup api z (sc\<lparr>sc_port := p\<rparr>) k = sc_lookup api z sc k"
  "sc_lookup api z (sc\<lparr>sc_logFile := s\<rparr>) k = sc_lookup api z sc k"
  "sc_lookup api z (sc\<lparr>sc_logLevel := p\<rparr>) k = sc_lookup api z sc k"
  "sc_lookup api z (sc\<lparr>sc_DBServer := s\<rparr>) k = sc_lookup api z sc k"
  by (auto simp: sc_ok_def sc_getGeneral_def split: option.splits)

lemma loadConfigs_values:
  assumes "loadConfigs api z sc = Some (True, sc')" "sc_ok sc"
  shows "\<exists>port level. sc_lookup api z sc ''port'' = Some port \<and> port \<noteq> [] \<and> atoi port = Some (sc_port sc') \<and>
     sc_lookup api z sc ''log-file'' = Some (sc_logFile sc') \<and> sc_logFile sc' \<noteq> [] \<and>
     sc_lookup api z sc ''log-level'' = Some level \<and> level \<noteq> [] \<and> atoi level = Some (sc_logLevel sc') \<and>
     sc_lookup api z sc ''mongo-server'' = Some (sc_DBServer sc') \<and> sc_DBServer sc' \<noteq> []"
proof -
  from assms(1) obtain port sc1 p fname sc2 level sc3 l db sc4 where
    1: "sc_getGeneral api z sc ''port'' = Some (port, sc1)" "port \<noteq> []" "atoi port = Some p" and
    2: "sc_getGeneral api z (sc1\<lparr>sc_port := p\<rparr>) ''log-file'' = Some (fname, sc2)" "fname \<noteq> []" and
    3: "sc_getGeneral api z (sc2\<lparr>sc_logFile := fname\<rparr>) ''log-level'' = Some (level, sc3)" "level \<noteq> []" "atoi level = Some l" and
    4: "sc_getGeneral api z (sc3\<lparr>sc_logLevel := l\<rparr>) ''mongo-server'' = Some (db, sc4)" "db \<noteq> []" "sc' = sc4\<lparr>sc_DBServer := db\<rparr>"
    by (auto simp: loadConfigs_def Let_def split: bind_splits if_splits)
  note s1 = sc_getGeneral_ok [OF 1(1) assms(2)]
  note s2 = sc_getGeneral_ok [OF 2(1)]
  note s3 = sc_getGeneral_ok [OF 3(1)]
  note s4 = sc_getGeneral_ok [OF 4(1)]
  have ok: "sc_ok sc1" "sc_ok sc2" "sc_ok sc3" using s1 s2 s3 by simp_all
  have "sc_lookup api z (sc1\<lparr>sc_port := p\<rparr>) ''log-file'' = Some fname"
    "sc_lookup api z (sc2\<lparr>sc_logFile := fname\<rparr>) ''log-level'' = Some level"
    "sc_lookup api z (sc3\<lparr>sc_logLevel := l\<rparr>) ''mongo-server'' = Some db"
    by (simp_all only: 2(1) 3(1) 4(1) option.map fst_conv)
  then have "sc_lookup api z sc ''log-file'' = Some fname" "sc_lookup api z sc ''log-level'' = Some level"
    "sc_lookup api z sc ''mongo-server'' = Some db"
    using ok s1(2) s2(2) s3(2) by (simp_all only: sc_fields)
  then show ?thesis using 1 2(2) 3(2,3) 4(2,3) ok s2(3-) s3(3-) s4(3-)
    by (intro exI [of _ port] exI [of _ level]) simp
qed

lemma sc_getGeneral_found:
  assumes "sc_lookup api z sc k = Some v"
  obtains sc' where "sc_getGeneral api z sc k = Some (v, sc')"
  using assms by (cases "sc_getGeneral api z sc k") auto

lemma loadConfigs_runs:
  assumes "sc_ok sc" "sc_lookup api z sc ''port'' = Some port" "port \<noteq> []" "atoi port = Some p"
    and "sc_lookup api z sc ''log-file'' = Some fname" "fname \<noteq> []"
    and "sc_lookup api z sc ''log-level'' = Some level" "level \<noteq> []" "atoi level = Some l"
    and "sc_lookup api z sc ''mongo-server'' = Some db" "db \<noteq> []"
  shows "\<exists>sc'. loadConfigs api z sc = Some (True, sc')"
proof -
  from sc_getGeneral_found [OF assms(2)] obtain sc1 where 1: "sc_getGeneral api z sc ''port'' = Some (port, sc1)" .
  note s1 = sc_getGeneral_ok [OF 1 assms(1)]
  have "sc_lookup api z (sc1\<lparr>sc_port := p\<rparr>) ''log-file'' = Some fname" by (simp only: sc_fields s1 assms)
  from sc_getGeneral_found [OF this] obtain sc2 where
    2: "sc_getGeneral api z (sc1\<lparr>sc_port := p\<rparr>) ''log-file'' = Some (fname, sc2)" .
  have "sc_ok (sc1\<lparr>sc_port := p\<rparr>)" using s1(1) by simp
  note s2 = sc_getGeneral_ok [OF 2 this]
  have "sc_lookup api z (sc2\<lparr>sc_logFile := fname\<rparr>) ''log-level'' = Some level" by (simp only: sc_fields s1 s2 assms)
  from sc_getGeneral_found [OF this] obtain sc3 where
    3: "sc_getGeneral api z (sc2\<lparr>sc_logFile := fname\<rparr>) ''log-level'' = Some (level, sc3)" .
  have "sc_ok (sc2\<lparr>sc_logFile := fname\<rparr>)" using s2(1) by simp
  note s3 = sc_getGeneral_ok [OF 3 this]
  have "sc_lookup api z (sc3\<lparr>sc_logLevel := l\<rparr>) ''mongo-server'' = Some db" by (simp only: sc_fields s1 s2 s3 assms)
  from sc_getGeneral_found [OF this] obtain sc4 where
    4: "sc_getGeneral api z (sc3\<lparr>sc_logLevel := l\<rparr>) ''mongo-server'' = Some (db, sc4)" .
  show ?thesis using assms 1 2 3 4 by (simp add: loadConfigs_def)
qed

lemma loadConfigs_lookup:
  assumes "loadConfigs api z sc = Some (b, sc')" "sc_ok sc"
  shows "sc_lookup api z sc' k = sc_lookup api z sc k"
proof -
  have step: "sc_ok sc2 \<and> sc_lookup api z sc2 k = sc_lookup api z sc k"
    if "sc_getGeneral api z sc1 key = Some (v, sc2)" "sc_ok sc1 \<and> sc_lookup api z sc1 k = sc_lookup api z sc k" for sc1 sc2 key v
    using sc_getGeneral_ok [OF that(1)] that(2) by simp
  show ?thesis
    using assms by (auto simp: loadConfigs_def Let_def dest!: step split: bind_splits if_splits)
qed

definition node_value :: "'z zoo_api \<Rightarrow> 'z \<Rightarrow> string \<Rightarrow> string \<Rightarrow> string option" where
  "node_value api z server key = getNode api z \<lparr>z_handle = True, z_observers = [] :: (string, unit) smap\<rparr> (''/'' @ server @ ''/'' @ key)"

lemma getNode_handle: "z_handle k = z_handle k' \<Longrightarrow> getNode api z k path = getNode api z k' path"
  by (simp add: getNode_def)

lemma z_handle_register: "z_handle (fold (registerObserver ob) ps k) = z_handle k"
  by (induction ps arbitrary: k) (simp_all add: registerObserver_def)

lemma zc_initialize_ok:
  assumes "zc_initialize api z hosts root names zc_new = (True, zc)"
  shows "zookeeper_init api z (c_str hosts)" "z_handle (zc_keeper zc)" "zc_options zc = []" "zc_rootPrefix zc = root @ ''/''"
    "z_observers (zc_keeper zc) = z_observers (fold (registerObserver ()) names zk_new)"
proof -
  have obs: "fold (registerObserver ()) names (k\<lparr>z_handle := h\<rparr>) =
      (fold (registerObserver ()) names k)\<lparr>z_handle := h\<rparr>" for k :: "unit zookeeper" and h
  proof (induction names arbitrary: k)
    case (Cons n names)
    have "registerObserver () n (k\<lparr>z_handle := h\<rparr>) = (registerObserver () n k)\<lparr>z_handle := h\<rparr>"
      by (simp add: registerObserver_def)
    with Cons show ?case by simp
  qed simp
  show "zookeeper_init api z (c_str hosts)" "z_handle (zc_keeper zc)" "zc_options zc = []" "zc_rootPrefix zc = root @ ''/''"
    "z_observers (zc_keeper zc) = z_observers (fold (registerObserver ()) names zk_new)"
    using assms by (auto simp: zc_initialize_def zk_initialize_def zc_new_def Let_def z_handle_register obs split: if_splits)
qed

lemma create_trueE:
  assumes "create files api z argv server SystemConfig = Some (True, sc)" "[] \<notin> set (tl argv)"
  obtains f zc where "server \<noteq> []" "ConfigFile (files default_conf) = Inr f" "user_getGeneral f ''zookeeper-hosts'' \<noteq> []"
    "zc_initialize api z (user_getGeneral f ''zookeeper-hosts'') (''/'' @ server) [''mongo-server''] zc_new = (True, zc)"
    "loadConfigs api z (SystemConfig\<lparr>sc_serverName := server, sc_zooConfig := Some zc\<rparr>) = Some (True, sc)"
proof -
  from assms(1) have s: "server \<noteq> []" by (auto simp: create_def)
  show ?thesis
  proof (cases "UserConfig files default_conf")
    case (Inl e)
    with assms(1) show ?thesis by (simp add: create_default_file [OF assms(2) s])
  next
    case (Inr f)
    then have f: "ConfigFile (files default_conf) = Inr f" by (simp add: UserConfig_def split: sum.splits)
    from Inr assms(1) have h: "user_getGeneral f ''zookeeper-hosts'' \<noteq> []"
      by (auto simp: create_default_file [OF assms(2) s] loadConfigs_def sc_getGeneral_def SystemConfig_def)
    obtain ok zc where i: "zc_initialize api z (user_getGeneral f ''zookeeper-hosts'') (''/'' @ server) [''mongo-server''] zc_new = (ok, zc)"
      by fastforce
    with h Inr assms(1) have "ok" "loadConfigs api z (SystemConfig\<lparr>sc_serverName := server, sc_zooConfig := Some zc\<rparr>) = Some (True, sc)"
      by (auto simp: create_default_file [OF assms(2) s] split: if_splits)
    with that [OF s f h] i show ?thesis by simp
  qed
qed

text \<open>
  C26. When \<^verbatim>\<open>create\<close> succeeds, the default configuration file was parsed, the ZooKeeper client was
  initialised with the hosts it names, and port, log file, log level and database server are the
  non-empty values of the nodes below the server's name.
\<close>

theorem create_starts:
  assumes "create files api z argv server SystemConfig = Some (True, sc)" "[] \<notin> set (tl argv)"
  shows "\<exists>f port level. ConfigFile (files default_conf) = Inr f \<and>
     zookeeper_init api z (c_str (user_getGeneral f ''zookeeper-hosts'')) \<and>
     node_value api z server ''port'' = Some port \<and> atoi port = Some (sc_port sc) \<and> port \<noteq> [] \<and>
     node_value api z server ''log-file'' = Some (sc_logFile sc) \<and> sc_logFile sc \<noteq> [] \<and>
     node_value api z server ''log-level'' = Some level \<and> atoi level = Some (sc_logLevel sc) \<and> level \<noteq> [] \<and>
     node_value api z server ''mongo-server'' = Some (sc_DBServer sc) \<and> sc_DBServer sc \<noteq> []"
  using assms
proof (cases rule: create_trueE)
  case (1 f zc)
  note i = zc_initialize_ok [OF 1(4)]
  let ?sc = "SystemConfig\<lparr>sc_serverName := server, sc_zooConfig := Some zc\<rparr>"
  have "sc_lookup api z ?sc k = node_value api z server k" for k
    using i(2-4) getNode_handle [of "zc_keeper zc" "\<lparr>z_handle = True, z_observers = [] :: (string, unit) smap\<rparr>" api z]
    by (simp add: sc_getGeneral_def zc_getGeneral_def node_value_def split: option.splits)
  moreover have "sc_ok ?sc" using i(3) by (simp add: sc_ok_def zc_ok_def)
  ultimately show ?thesis using loadConfigs_values [OF 1(5)] 1(2) i(1) by auto
qed

lemma sc_getGeneral_keeper:
  assumes "sc_getGeneral api z sc k = Some (v, sc')"
  shows "map_option zc_keeper (sc_zooConfig sc') = map_option zc_keeper (sc_zooConfig sc)"
  using assms by (auto simp: sc_getGeneral_def zc_getGeneral_def split: option.splits)

lemma loadConfigs_keeper:
  assumes "loadConfigs api z sc = Some (b, sc')"
  shows "map_option zc_keeper (sc_zooConfig sc') = map_option zc_keeper (sc_zooConfig sc)"
  using assms
  by (auto simp: loadConfigs_def Let_def dest!: sc_getGeneral_keeper split: bind_splits if_splits)

text \<open>
  After a successful start no event on an absolute path changes the cached options: the observer
  is registered under the bare option name and the watcher looks it up under the full path.
\<close>

theorem create_never_refreshes:
  assumes "create files api z argv server SystemConfig = Some (True, sc)" "[] \<notin> set (tl argv)"
    and "sc_zooConfig sc = Some zc" "path \<noteq> []" "hd path = CHR ''/''"
  shows "zc_event api z' path zc = Some zc"
  using assms(1,2)
proof (cases rule: create_trueE)
  case (1 f zc0)
  from loadConfigs_keeper [OF 1(5)] assms(3) have "zc_keeper zc = zc_keeper zc0" by simp
  then have "z_observers (zc_keeper zc) = [(''mongo-server'', ())]"
    using zc_initialize_ok(5) [OF 1(4)] by (simp add: registerObserver_def zk_new_def)
  then show ?thesis using assms(4,5) by (auto simp: zc_event_def zooWatcher_def)
qed

text \<open>A store of nodes and a set of files for the witnesses.\<close>

definition list_zoo :: "(string, string) smap zoo_api" where
  "list_zoo = \<lparr>zookeeper_init = (\<lambda>z h. h \<noteq> []), zoo_get = map_of,
     zoo_set = (\<lambda>z p c. if map_of z p = None then None else Some (smap_put p c z)),
     zoo_create = (\<lambda>z p c. if map_of z p = None then Some (smap_put p c z) else None),
     zoo_delete = (\<lambda>z p. filter (\<lambda>e. fst e \<noteq> p) z), zoo_exists = (\<lambda>z p. map_of z p \<noteq> None),
     zoo_get_children = (\<lambda>z p. Some [])\<rparr>"

definition sample_nodes :: "(string, string) smap" where
  "sample_nodes = [(''/rcar/log-file'', ''a.log''), (''/rcar/log-level'', ''3''),
     (''/rcar/mongo-server'', ''db:1''), (''/rcar/port'', ''80'')]"

definition sample_files :: "string \<Rightarrow> string option" where
  "sample_files p = (if p = default_conf
     then Some (''[general]'' @ newline # ''zookeeper-hosts=h:2'' @ [newline]) else None)"

definition sample_sc :: system_config where
  "sample_sc = \<lparr>sc_serverName = ''rcar'', sc_DBServer = ''db:1'', sc_logFile = ''a.log'', sc_logLevel = 3, sc_port = 80,
     sc_zooConfig = Some \<lparr>zc_keeper = \<lparr>z_handle = True, z_observers = [(''mongo-server'', ())]\<rparr>,
       zc_optionNames = [''mongo-server''],
       zc_options = [(''log-file'', ''a.log''), (''log-level'', ''3''), (''mongo-server'', ''db:1''), (''port'', ''80'')],
       zc_rootPrefix = ''/rcar/''\<rparr>\<rparr>"

lemma sample_create: "create sample_files list_zoo sample_nodes [''srv'', ''-c'', ''x''] ''rcar'' SystemConfig = Some (True, sample_sc)"
  by code_simp

theorem create_starts_witness:
  "\<exists>f port level. ConfigFile (sample_files default_conf) = Inr f \<and>
     node_value list_zoo sample_nodes ''rcar'' ''port'' = Some port \<and> atoi port = Some 80 \<and>
     node_value list_zoo sample_nodes ''rcar'' ''log-level'' = Some level"
  using create_starts [OF sample_create] by (auto simp: sample_sc_def)

theorem create_never_refreshes_witness:
  "zc_event list_zoo [] ''/rcar/mongo-server'' (the (sc_zooConfig sample_sc)) = Some (the (sc_zooConfig sample_sc))"
  by (rule create_never_refreshes [OF sample_create]) (simp_all add: sample_sc_def)

theorem create_ignores_arguments_witness:
  "create sample_files list_zoo sample_nodes [''srv'', ''-c'', ''x''] ''rcar'' SystemConfig =
   create sample_files list_zoo sample_nodes [''srv''] ''rcar'' SystemConfig"
  by (rule create_ignores_arguments) simp_all

theorem create_without_zookeeper_witness:
  "create (\<lambda>p. Some (''[general]'' @ [newline])) list_zoo sample_nodes [''srv''] ''rcar'' SystemConfig = None"
  by (rule create_without_zookeeper [where f = "\<lparr>m_sections = [(''general'', [])], m_warned = []\<rparr>"]) (simp, simp, code_simp, code_simp)

theorem getNode_bound_witness:
  "getNode list_zoo sample_nodes \<lparr>z_handle = True, z_observers = [] :: (string, unit) smap\<rparr> ''/rcar/port'' = Some ''80''"
  using getNode_bound [of "\<lparr>z_handle = True, z_observers = [] :: (string, unit) smap\<rparr>" "''/rcar/port''" list_zoo sample_nodes "''80''"]
  by (simp add: list_zoo_def sample_nodes_def c_str_def)

end
