(* ===== verification/Config_Tool.thy ===== *)
theory Config_Tool
  imports Config_Sources
begin

text \<open>
  The program \<^verbatim>\<open>src/tool/config/config.cpp\<close>, which copies a configuration file into ZooKeeper,
  where the servers read their options, and lists what is there. What it prints is a list of lines;
  the entries that the ZooKeeper wrapper writes to the log are left out. As in
  \<^verbatim>\<open>Config_Sources\<close>, \<^term>\<open>None\<close> is undefined behaviour and \<open>zoo_api\<close> is the client library.
\<close>

section \<open>Options\<close>

record tool_option = option_item +
  oi_val :: "string option"
  oi_description :: string

definition optionItems :: "tool_option list" where
  "optionItems =
     [\<lparr>oi_key = ''host'', oi_shortName = ''h'', oi_hasValue = True, oi_val = Some ''127.0.0.1'',
        oi_description = ''specify zookeeper host''\<rparr>,
      \<lparr>oi_key = ''list'', oi_shortName = ''l'', oi_hasValue = False, oi_val = None,
        oi_description = ''list all items in config server''\<rparr>,
      \<lparr>oi_key = ''file'', oi_shortName = ''f'', oi_hasValue = True, oi_val = None,
        oi_description = ''config file for config server''\<rparr>]"

definition usage :: "string list" where
  "usage = ''rcar-config usage:'' #
     map (\<lambda>item. ''  -'' @ oi_key item @ '' :'' @ CHR 0x09 # oi_description item) optionItems"

text \<open>The index of the option and its name, which a short name is replaced with.\<close>

fun isValidOptions_in :: "tool_option list \<Rightarrow> nat \<Rightarrow> string \<Rightarrow> (nat \<times> string) option" where
  "isValidOptions_in [] i name = None"
| "isValidOptions_in (item # items) i name =
     (if c_str name = oi_key item then Some (i, name)
      else if c_str name = oi_shortName item then Some (i, oi_key item)
      else isValidOptions_in items (i + 1) name)"

definition isValidOptions :: "string \<Rightarrow> (nat \<times> string) option" where
  "isValidOptions name = isValidOptions_in optionItems 0 name"

text \<open>The loop of \<^verbatim>\<open>createOptions\<close> on \<^verbatim>\<open>argv[1..]\<close>; an empty argument is undefined, as in \<^verbatim>\<open>parse_args\<close>.\<close>

function createOptions_loop :: "string list \<Rightarrow> (string, string) smap \<Rightarrow> (bool \<times> (string, string) smap) option" where
  "createOptions_loop [] opts = Some (opts \<noteq> [], opts)"
| "createOptions_loop (item # as) opts =
     (if item = [] then None
      else if is_option item then
        (case isValidOptions (tl item) of
           None \<Rightarrow> Some (False, opts)
         | Some (index, key) \<Rightarrow>
             let (val, rest) =
               (if oi_hasValue (optionItems ! index) then collect_values as [] else ([], as))
             in if map_of opts key = None
                then createOptions_loop rest (smap_insert key val opts)
                else Some (False, opts))
      else createOptions_loop as opts)"
  by pat_completeness auto
termination
proof (relation "measure (\<lambda>(as, opts). length as)", goal_cases)
  case (2 item as opts a index key x val rest)
  then have "length rest \<le> length as"
    by (metis length_collect_values order_refl prod.sel(2))
  then show ?case by simp
qed auto

definition createOptions :: "string list \<Rightarrow> (bool \<times> (string, string) smap) option" where
  "createOptions argv = createOptions_loop (tl argv) []"

definition getOptionValue :: "(string, string) smap \<Rightarrow> string \<Rightarrow> string" where
  "getOptionValue opts key = (case map_of opts key of Some v \<Rightarrow> v | None \<Rightarrow> [])"

definition isOptionExist :: "(string, string) smap \<Rightarrow> string \<Rightarrow> bool" where
  "isOptionExist opts key \<longleftrightarrow> map_of opts key \<noteq> None"

section \<open>Listing\<close>

definition serverList :: "string list" where
  "serverList = [''rcar-apl-server'', ''rcar-image-server'', ''rcar-msg-server'']"

definition list_item :: "'z zoo_api \<Rightarrow> 'z \<Rightarrow> 'o zookeeper \<Rightarrow> string \<Rightarrow> string \<Rightarrow> string option" where
  "list_item api z keeper childItem j =
     (let item = childItem @ ''/'' @ j
      in map_option (\<lambda>val. CHR 0x09 # item @ '' = '' @ val) (getNode api z keeper item))"

definition list_server :: "'z zoo_api \<Rightarrow> 'z \<Rightarrow> 'o zookeeper \<Rightarrow> string \<Rightarrow> string list option" where
  "list_server api z keeper i =
     (if i \<notin> set serverList then Some []
      else do {
        childConfigs \<leftarrow> getChildNode api z keeper (''/'' @ i);
        lines \<leftarrow> those (map (list_item api z keeper (''/'' @ i)) childConfigs);
        Some ((''Configuration for '' @ ''/'' @ i) # lines)
      })"

definition listAllConfigItems :: "'z zoo_api \<Rightarrow> 'z \<Rightarrow> 'o zookeeper \<Rightarrow> string list option" where
  "listAllConfigItems api z keeper = do {
     rootConfigs \<leftarrow> getChildNode api z keeper ''/'';
     ls \<leftarrow> those (map (list_server api z keeper) rootConfigs);
     Some (''### Configuration items for rcar'' # concat ls)
   }"

section \<open>Updating\<close>

text \<open>The state of the loops: the lines printed so far and the service.\<close>

definition update_key :: "'z zoo_api \<Rightarrow> 'o zookeeper \<Rightarrow> config_file \<Rightarrow> string \<Rightarrow> string list \<times> 'z \<Rightarrow> string \<Rightarrow> string list \<times> 'z" where
  "update_key api keeper configFile i s j =
     (let (out, z) = s;
          val = (case get_string configFile i j of None \<Rightarrow> [] | Some v \<Rightarrow> v)
      in if val = [] then s
         else let item = (''/'' @ i) @ ''/'' @ j
              in if \<not> isNodeExist api z keeper item then (out, snd (createNode api keeper item val z))
                 else let (ok, z) = setNode api keeper item val z
                      in (if ok then out else out @ [''Error when creating path:'' @ item], z))"

definition update_section :: "'z zoo_api \<Rightarrow> 'o zookeeper \<Rightarrow> config_file \<Rightarrow> string list \<times> 'z \<Rightarrow> string \<Rightarrow> string list \<times> 'z" where
  "update_section api keeper configFile s i =
     (let (out, z) = s;
          rootName = ''/'' @ i;
          z = (if \<not> isNodeExist api z keeper rootName then snd (createNode api keeper rootName ''rcar'' z) else z);
          keys = (case get_keys configFile i of None \<Rightarrow> [] | Some ks \<Rightarrow> ks)
      in foldl (update_key api keeper configFile i) (out, z) keys)"

definition updateConfigItems :: "'z zoo_api \<Rightarrow> 'o zookeeper \<Rightarrow> (string \<Rightarrow> string option) \<Rightarrow> string \<Rightarrow> 'z \<Rightarrow> bool \<times> string list \<times> 'z" where
  "updateConfigItems api keeper files file z =
     (case ConfigFile (files (c_str file)) of
        Inl e \<Rightarrow> (False, [''Failed to load configuration file: '' @ file], z)
      | Inr configFile \<Rightarrow>
          (True, foldl (update_section api keeper configFile) ([], z) (get_sections configFile)))"

section \<open>The program\<close>

definition tool_main :: "'z zoo_api \<Rightarrow> (string \<Rightarrow> string option) \<Rightarrow> string list \<Rightarrow> 'z \<Rightarrow> (string list \<times> 'z) option" where
  "tool_main api files argv z = do {
     (ok, opts) \<leftarrow> createOptions argv;
     if \<not> ok then Some (''syntax error'' # usage, z)
     else let hosts = getOptionValue opts ''host''; configFile = getOptionValue opts ''file''
       in if hosts = [] then Some ([''syntax error, hosts are not specfied''], z)
          else let (connected, zkeeper) = zk_initialize api z hosts (zk_new :: unit zookeeper)
            in if \<not> connected then Some ([''Failed to initialize zooKeeper''], z)
               else if isOptionExist opts ''list''
                 then map_option (\<lambda>out. (out, z)) (listAllConfigItems api z zkeeper)
               else if configFile \<noteq> []
                 then let (ok, out, z) = updateConfigItems api zkeeper files configFile z
                   in Some (if ok then out else out @ [''Failed to load all configuration items from server''], z)
               else Some (usage, z)
   }"

section \<open>What the tool relies on\<close>

text \<open>
  Names of nodes that ZooKeeper documents as valid (a conservative part of them: printable ASCII without
  the separator, not a relative path and not the reserved name), and the path of a sequence of names.
\<close>

definition zoo_name :: "string \<Rightarrow> bool" where
  "zoo_name n \<longleftrightarrow> n \<noteq> [] \<and> list_all (\<lambda>c. 32 \<le> (of_char c :: nat) \<and> (of_char c :: nat) < 127 \<and> c \<noteq> CHR ''/'') n \<and>
     n \<notin> {''.'', ''..'', ''zookeeper''}"

definition zoo_path :: "string list \<Rightarrow> string" where
  "zoo_path ns = concat (map (\<lambda>n. ''/'' @ n) ns)"

text \<open>
  A service that is \<open>up\<close>: the session is connected and no other client writes. Then existing nodes can be
  set, nodes below an existing one (or the root) can be created, data being less than the limit of one
  megabyte, and the content of the others is not touched.
\<close>

definition zoo_service :: "'z zoo_api \<Rightarrow> ('z \<Rightarrow> bool) \<Rightarrow> bool" where
  "zoo_service api up \<longleftrightarrow>
     (\<forall>z p. up z \<longrightarrow> zoo_exists api z p = (zoo_get api z p \<noteq> None)) \<and>
     (\<forall>z p c. up z \<longrightarrow> zoo_get api z p \<noteq> None \<longrightarrow> length c < 2 ^ 20 \<longrightarrow>
        (\<exists>z'. zoo_set api z p c = Some z' \<and> up z' \<and> zoo_get api z' = (zoo_get api z)(p \<mapsto> c))) \<and>
     (\<forall>z ns n c. up z \<longrightarrow> list_all zoo_name (ns @ [n]) \<longrightarrow> ns = [] \<or> zoo_get api z (zoo_path ns) \<noteq> None \<longrightarrow>
        zoo_get api z (zoo_path (ns @ [n])) = None \<longrightarrow> length c < 2 ^ 20 \<longrightarrow>
        (\<exists>z'. zoo_create api z (zoo_path (ns @ [n])) c = Some z' \<and> up z' \<and>
           zoo_get api z' = (zoo_get api z)(zoo_path (ns @ [n]) \<mapsto> c)))"

text \<open>The file names nodes that ZooKeeper accepts.\<close>

definition names_ok :: "config_file \<Rightarrow> bool" where
  "names_ok f \<longleftrightarrow> list_all (\<lambda>(i, sec). zoo_name i \<and> list_all (zoo_name \<circ> fst) sec) (m_sections f)"

text \<open>The specification: the tree of nodes after a file is copied into it.\<close>

fun deploy :: "(string, cfg_section) smap \<Rightarrow> (string \<Rightarrow> string option) \<Rightarrow> string \<Rightarrow> string option" where
  "deploy [] g = g"
| "deploy ((i, sec) # ss) g =
     deploy ss ((if g (zoo_path [i]) = None then g(zoo_path [i] \<mapsto> ''rcar'') else g) ++
       map_of (map (\<lambda>(j, v). (zoo_path [i, j], v)) sec))"


section \<open>Paths\<close>

lemma zoo_path_simps: "zoo_path [i] = ''/'' @ i" "zoo_path [i, j] = (''/'' @ i) @ ''/'' @ j"
  by (simp_all add: zoo_path_def)

lemma zoo_nameD:
  assumes "zoo_name n"
  shows "CHR ''/'' \<notin> set n" "CHR 0x00 \<notin> set n"
proof -
  from assms have c: "32 \<le> (of_char c :: nat)" "c \<noteq> CHR ''/''" if "c \<in> set n" for c
    using that by (simp_all add: zoo_name_def list_all_iff)
  show "CHR ''/'' \<notin> set n" using c(2) by blast
  show "CHR 0x00 \<notin> set n" using c(1) [of "CHR 0x00"] by auto
qed

lemma c_str_path: "list_all zoo_name ns \<Longrightarrow> c_str (zoo_path ns) = zoo_path ns"
  by (rule c_str_id) (auto simp: zoo_path_def list_all_iff dest!: zoo_nameD(2))

lemma zoo_path_eq:
  assumes "zoo_name i" "zoo_name i'"
  shows "zoo_path [i, j] = zoo_path [i', j'] \<longleftrightarrow> i = i' \<and> j = j'"
    and "zoo_path [i, j] \<noteq> zoo_path [i']"
proof -
  have "takeWhile (\<lambda>c. c \<noteq> CHR ''/'') (i @ CHR ''/'' # j) = i" if "zoo_name i" for i j
    using zoo_nameD(1) [OF that] by (auto simp: takeWhile_append)
  with assms have "i = i'" if "i @ CHR ''/'' # j = i' @ CHR ''/'' # j'" using that by metis
  then show "zoo_path [i, j] = zoo_path [i', j'] \<longleftrightarrow> i = i' \<and> j = j'"
    by (auto simp: zoo_path_simps)
  show "zoo_path [i, j] \<noteq> zoo_path [i']"
    using zoo_nameD(1) [OF assms(2)] by (auto simp: zoo_path_simps)
qed

lemma nodes_lookup:
  assumes "zoo_name i" "zoo_name i'"
  shows "map_of (map (\<lambda>(j, v). (zoo_path [i, j], v)) es) (zoo_path [i', j']) = (if i = i' then map_of es j' else None)"
    and "map_of (map (\<lambda>(j, v). (zoo_path [i, j], v)) es) (zoo_path [i']) = None"
proof -
  have "(zoo_path [i', j'] = zoo_path [i, j]) = (i = i' \<and> j = j')" "(zoo_path [i'] = zoo_path [i, j]) = False" for j
    using zoo_path_eq(1) [OF assms, of j j'] zoo_path_eq(2) [OF assms, of j] by auto
  note eq = this
  show "map_of (map (\<lambda>(j, v). (zoo_path [i, j], v)) es) (zoo_path [i', j']) = (if i = i' then map_of es j' else None)"
  proof (induction es)
    case (Cons e es)
    then show ?case by (cases e) (simp only: list.map prod.case map_of.simps fst_conv snd_conv fun_upd_apply eq, auto)
  qed simp
  show "map_of (map (\<lambda>(j, v). (zoo_path [i, j], v)) es) (zoo_path [i']) = None"
  proof (induction es)
    case (Cons e es)
    then show ?case by (cases e) (simp only: list.map prod.case map_of.simps fst_conv snd_conv fun_upd_apply eq if_False)
  qed simp
qed

section \<open>The service after each step\<close>

lemma service_exists: "zoo_service api up \<Longrightarrow> up z \<Longrightarrow> zoo_exists api z p \<longleftrightarrow> zoo_get api z p \<noteq> None"
  by (simp add: zoo_service_def)

lemma service_set:
  assumes "zoo_service api up" "up z" "zoo_get api z p \<noteq> None" "length c < 2 ^ 20"
  obtains z' where "zoo_set api z p c = Some z'" "up z'" "zoo_get api z' = (zoo_get api z)(p \<mapsto> c)"
  using assms unfolding zoo_service_def by blast

lemma service_create:
  assumes "zoo_service api up" "up z" "list_all zoo_name (ns @ [n])" "ns = [] \<or> zoo_get api z (zoo_path ns) \<noteq> None"
    and "zoo_get api z (zoo_path (ns @ [n])) = None" "length c < 2 ^ 20"
  obtains z' where "zoo_create api z (zoo_path (ns @ [n])) c = Some z'" "up z'"
    "zoo_get api z' = (zoo_get api z)(zoo_path (ns @ [n]) \<mapsto> c)"
  using assms unfolding zoo_service_def by blast

lemma update_key_path:
  assumes "get_string f i j = Some v" "v \<noteq> []"
  shows "update_key api keeper f i (out, z) j =
     (let item = zoo_path [i, j]
      in if \<not> isNodeExist api z keeper item then (out, snd (createNode api keeper item v z))
         else let (ok, z) = setNode api keeper item v z
              in (if ok then out else out @ [''Error when creating path:'' @ item], z))"
  using assms by (simp add: update_key_def zoo_path_def)

lemma update_key_step:
  assumes "zoo_service api up" "up z" "z_handle keeper" "zoo_name i" "zoo_name j" "zoo_get api z (zoo_path [i]) \<noteq> None"
    and "get_string f i j = Some v" "v \<noteq> []" "length v < STREAM_SIZE"
  obtains z' where "update_key api keeper f i (out, z) j = (out, z')" "up z'"
    "zoo_get api z' = (zoo_get api z)(zoo_path [i, j] \<mapsto> v)"
proof -
  have p: "c_str (zoo_path [i, j]) = zoo_path [i, j]" "zoo_path [i, j] \<noteq> []" "length v < 2 ^ 20"
    using c_str_path [of "[i, j]"] assms(4,5,9) by (simp_all add: zoo_path_def STREAM_SIZE_def)
  show ?thesis
  proof (cases "zoo_get api z (zoo_path [i, j]) = None")
    case True
    from service_create [OF assms(1,2), of "[i]" j v] True assms(4-6) p(3) obtain z' where
      "zoo_create api z (zoo_path [i, j]) v = Some z'" "up z'" "zoo_get api z' = (zoo_get api z)(zoo_path [i, j] \<mapsto> v)"
      by auto
    with that True assms p service_exists [OF assms(1,2)] show ?thesis
      by (simp add: update_key_path isNodeExist_def createNode_def)
  next
    case False
    from service_set [OF assms(1,2) this p(3)] obtain z' where
      "zoo_set api z (zoo_path [i, j]) v = Some z'" "up z'" "zoo_get api z' = (zoo_get api z)(zoo_path [i, j] \<mapsto> v)" .
    with that False assms p service_exists [OF assms(1,2)] show ?thesis
      by (simp add: update_key_path isNodeExist_def setNode_def)
  qed
qed

lemma update_keys:
  assumes "zoo_service api up" "up z" "z_handle keeper" "zoo_name i" "zoo_get api z (zoo_path [i]) \<noteq> None"
    and "smap_ok es" "\<forall>(j, v) \<in> set es. zoo_name j \<and> get_string f i j = Some v \<and> v \<noteq> [] \<and> length v < STREAM_SIZE"
  shows "\<exists>z'. foldl (update_key api keeper f i) (out, z) (map fst es) = (out, z') \<and> up z' \<and>
     zoo_get api z' = zoo_get api z ++ map_of (map (\<lambda>(j, v). (zoo_path [i, j], v)) es)"
  using assms(2,5-)
proof (induction es arbitrary: z)
  case (Cons e es)
  obtain j v where e: "e = (j, v)" by (cases e)
  from Cons.prems(4) have jv: "zoo_name j" "get_string f i j = Some v" "v \<noteq> []" "length v < STREAM_SIZE"
    by (auto simp: e)
  from update_key_step [OF assms(1) Cons.prems(1) assms(3,4) jv(1) Cons.prems(2) jv(2-4)] obtain z1 where
    z1: "update_key api keeper f i (out, z) j = (out, z1)" "up z1"
      "zoo_get api z1 = (zoo_get api z)(zoo_path [i, j] \<mapsto> v)" .
  have "zoo_get api z1 (zoo_path [i]) \<noteq> None" "smap_ok es"
    using Cons.prems(2,3) z1(3) by (auto simp: e smap_ok_Cons)
  with Cons.IH [OF z1(2)] Cons.prems(4) obtain z' where
    z': "foldl (update_key api keeper f i) (out, z1) (map fst es) = (out, z')" "up z'"
      "zoo_get api z' = zoo_get api z1 ++ map_of (map (\<lambda>(j, v). (zoo_path [i, j], v)) es)" by auto
  have "j \<notin> fst ` set es" using Cons.prems(3) by (auto simp: e smap_ok_Cons)
  then have "zoo_path [i, j] \<notin> dom (map_of (map (\<lambda>(j, v). (zoo_path [i, j], v)) es))"
    by (simp add: domIff nodes_lookup [OF assms(4,4)] map_of_eq_None_iff)
  then have "zoo_get api z1 ++ map_of (map (\<lambda>(j, v). (zoo_path [i, j], v)) es) =
      zoo_get api z ++ map_of (map (\<lambda>(j, v). (zoo_path [i, j], v)) (e # es))"
    unfolding z1(3) by (subst map_add_upd_left) (simp_all add: e)
  with z'(3) have "zoo_get api z' = zoo_get api z ++ map_of (map (\<lambda>(j, v). (zoo_path [i, j], v)) (e # es))" by (rule trans)
  with z1(1) z'(1,2) show ?case
    by (intro exI [of _ z']) (simp only: e fst_conv foldl.simps list.map simp_thms)
qed simp

lemma update_section_step:
  assumes "zoo_service api up" "up z" "z_handle keeper" "names_ok f" "config_ok f" "values_short f"
    and "(i, sec) \<in> set (m_sections f)"
  shows "\<exists>z'. update_section api keeper f (out, z) i = (out, z') \<and> up z' \<and> zoo_get api z' = deploy [(i, sec)] (zoo_get api z)"
proof -
  from assms(4,7) have i: "zoo_name i" and js: "\<forall>(j, v) \<in> set sec. zoo_name j"
    by (fastforce simp: names_ok_def list_all_iff)+
  have find: "map_of (m_sections f) i = Some sec"
    using assms(5,7) by (intro map_of_is_SomeI) (auto simp: config_ok_def smap_ok_def strict_sorted_iff)
  have sec: "section_ok sec" using config_ok_find(2) [OF assms(5) find] .
  then have d: "distinct (map fst sec)" by (simp add: section_ok_def smap_ok_def strict_sorted_iff)
  have es: "\<forall>(j, v) \<in> set sec. zoo_name j \<and> get_string f i j = Some v \<and> v \<noteq> [] \<and> length v < STREAM_SIZE"
  proof (clarify)
    fix j v assume jv: "(j, v) \<in> set sec"
    then have "map_of sec j = Some v" using d by (rule map_of_is_SomeI [rotated])
    then show "zoo_name j \<and> get_string f i j = Some v \<and> v \<noteq> [] \<and> length v < STREAM_SIZE"
      using jv js sec assms(6,7) find
      by (auto simp: get_string_def section_ok_def stripped_def values_short_def)
  qed
  let ?g = "if zoo_get api z (zoo_path [i]) = None then (zoo_get api z)(zoo_path [i] \<mapsto> ''rcar'') else zoo_get api z"
  obtain z1 where z1: "(if \<not> isNodeExist api z keeper (zoo_path [i]) then snd (createNode api keeper (zoo_path [i]) ''rcar'' z) else z) = z1"
    "up z1" "zoo_get api z1 = ?g"
  proof (cases "zoo_get api z (zoo_path [i]) = None")
    case True
    from service_create [OF assms(1,2), of "[]" i "''rcar''"] True i obtain z' where
      "zoo_create api z (zoo_path [i]) ''rcar'' = Some z'" "up z'" "zoo_get api z' = ?g" by auto
    with that True assms(3) c_str_path [of "[i]"] i service_exists [OF assms(1,2)] show ?thesis
      by (simp add: isNodeExist_def createNode_def) (simp add: zoo_path_def)
  next
    case False
    with that [of z] assms(2,3) c_str_path [of "[i]"] i service_exists [OF assms(1,2)] show ?thesis
      by (simp add: isNodeExist_def) (auto simp: zoo_path_def)
  qed
  have "zoo_get api z1 (zoo_path [i]) \<noteq> None" using z1(3) by auto
  from update_keys [OF assms(1) z1(2) assms(3) i this _ es, of out] sec obtain z' where
    "foldl (update_key api keeper f i) (out, z1) (map fst sec) = (out, z')" "up z'"
    "zoo_get api z' = ?g ++ map_of (map (\<lambda>(j, v). (zoo_path [i, j], v)) sec)"
    by (auto simp: section_ok_def z1(3))
  moreover have "update_section api keeper f (out, z) i = foldl (update_key api keeper f i) (out, z1) (map fst sec)"
    using find by (simp add: update_section_def get_keys_def Let_def z1(1) [symmetric] zoo_path_simps)
  ultimately show ?thesis by simp
qed

lemma update_sections:
  assumes "zoo_service api up" "up z" "z_handle keeper" "names_ok f" "config_ok f" "values_short f"
    and "set ss \<subseteq> set (m_sections f)"
  shows "\<exists>z'. foldl (update_section api keeper f) (out, z) (map fst ss) = (out, z') \<and> up z' \<and>
     zoo_get api z' = deploy ss (zoo_get api z)"
  using assms(2,7)
proof (induction ss arbitrary: z)
  case (Cons s ss)
  obtain i sec where s: "s = (i, sec)" by (cases s)
  with Cons.prems(2) have "(i, sec) \<in> set (m_sections f)" by simp
  from update_section_step [OF assms(1) Cons.prems(1) assms(3-6) this] obtain z1 where
    z1: "update_section api keeper f (out, z) i = (out, z1)" "up z1" "zoo_get api z1 = deploy [(i, sec)] (zoo_get api z)" by blast
  with Cons.IH [OF z1(2)] Cons.prems(2) show ?case by (auto simp: s)
qed simp

text \<open>The code implements the specification.\<close>

lemma update_refines_deploy:
  assumes "zoo_service api up" "up z" "z_handle keeper" "ConfigFile (files (c_str conf)) = Inr f" "names_ok f"
  shows "\<exists>z'. updateConfigItems api keeper files conf z = (True, [], z') \<and> up z' \<and>
     zoo_get api z' = deploy (m_sections f) (zoo_get api z)"
  using update_sections [OF assms(1-3,5) ConfigFile_facts [OF assms(4)], of "m_sections f" "[]"] assms(4)
  by (auto simp: updateConfigItems_def get_sections_def)

lemma deploy_key:
  assumes "list_all (zoo_name \<circ> fst) ss" "distinct (map fst ss)" "zoo_name i"
  shows "deploy ss g (zoo_path [i, j]) =
     (case map_of ss i of None \<Rightarrow> g (zoo_path [i, j])
      | Some sec \<Rightarrow> (case map_of sec j of None \<Rightarrow> g (zoo_path [i, j]) | Some v \<Rightarrow> Some v))"
  using assms(1,2)
proof (induction ss arbitrary: g)
  case (Cons s ss)
  obtain i' sec where s: "s = (i', sec)" by (cases s)
  with Cons.prems have i': "zoo_name i'" "map_of ss i' = None" by (auto simp: map_of_eq_None_iff)
  from Cons.IH Cons.prems show ?case
    using i' zoo_path_eq(2) [OF assms(3) i'(1), of j] nodes_lookup(1) [OF i'(1) assms(3), of sec j]
    by (auto simp: s map_add_def split: option.splits)
qed simp

lemma deploy_other:
  assumes "\<forall>(i, sec) \<in> set ss. p \<noteq> zoo_path [i] \<and> (\<forall>(j, v) \<in> set sec. p \<noteq> zoo_path [i, j])"
  shows "deploy ss g p = g p"
  using assms
proof (induction ss arbitrary: g)
  case (Cons s ss)
  obtain i sec where s: "s = (i, sec)" by (cases s)
  with Cons.prems have "map_of (map (\<lambda>(j, v). (zoo_path [i, j], v)) sec) p = None"
    by (auto simp: map_of_eq_None_iff)
  with Cons show ?case by (auto simp: s map_add_def)
qed simp

lemma deploy_section:
  assumes "list_all (zoo_name \<circ> fst) ss" "distinct (map fst ss)" "zoo_name i"
  shows "deploy ss g (zoo_path [i]) =
     (if i \<in> fst ` set ss \<and> g (zoo_path [i]) = None then Some ''rcar'' else g (zoo_path [i]))"
  using assms(1,2)
proof (induction ss arbitrary: g)
  case (Cons s ss)
  obtain i' sec where s: "s = (i', sec)" by (cases s)
  with Cons.prems have i': "zoo_name i'" "i' \<notin> fst ` set ss" by auto
  have "zoo_path [i'] = zoo_path [i] \<longleftrightarrow> i' = i" by (simp add: zoo_path_def)
  with Cons.IH Cons.prems show ?case
    using i' nodes_lookup(2) [OF i'(1) assms(3), of sec]
    by (auto simp: s map_add_def split: option.splits)
qed simp

lemma names_okD:
  assumes "names_ok f" "ConfigFile content = Inr f"
  shows "list_all (zoo_name \<circ> fst) (m_sections f)" "distinct (map fst (m_sections f))"
    "get_string f i j = Some v \<Longrightarrow> zoo_name i \<and> zoo_name j \<and> v \<noteq> [] \<and> length v < STREAM_SIZE \<and> CHR 0x00 \<notin> set v"
proof -
  show "list_all (zoo_name \<circ> fst) (m_sections f)" using assms(1) by (auto simp: names_ok_def list_all_iff)
  show "distinct (map fst (m_sections f))" using ConfigFile_facts(1) [OF assms(2)]
    by (simp add: config_ok_def smap_ok_def strict_sorted_iff)
  assume "get_string f i j = Some v"
  then obtain sec where s: "(i, sec) \<in> set (m_sections f)" "(j, v) \<in> set sec"
    by (auto simp: get_string_def split: option.splits dest!: map_of_SomeD)
  with assms(1) have "zoo_name i" "zoo_name j" by (fastforce simp: names_ok_def list_all_iff)+
  moreover have "v \<noteq> []" "length v < STREAM_SIZE" "CHR 0x00 \<notin> set v"
    using s ConfigFile_facts [OF assms(2)] unfolding config_ok_def section_ok_def values_short_def stripped_def by auto
  ultimately show "zoo_name i \<and> zoo_name j \<and> v \<noteq> [] \<and> length v < STREAM_SIZE \<and> CHR 0x00 \<notin> set v" by simp
qed

lemma deployed_value:
  assumes "names_ok f" "ConfigFile content = Inr f" "get_string f i j = Some v"
  shows "deploy (m_sections f) g (zoo_path [i, j]) = Some v"
  using deploy_key [OF names_okD(1,2) [OF assms(1,2)], of i g j] names_okD(3) [OF assms] assms(3)
  by (cases "map_of (m_sections f) i") (simp_all add: get_string_def)

section \<open>Running the tool\<close>

lemma createOptions_update:
  assumes "hosts \<noteq> []" "conf \<noteq> []" "\<not> is_option hosts" "\<not> is_option conf"
  shows "createOptions [prog, ''-h'', hosts, ''-f'', conf] = Some (True, [(''file'', conf), (''host'', hosts)])"
  using assms
  by (simp add: createOptions_def is_option_def isValidOptions_def optionItems_def c_str_def)

lemma tool_main_update:
  assumes "hosts \<noteq> []" "conf \<noteq> []" "\<not> is_option hosts" "\<not> is_option conf" "zookeeper_init api z (c_str hosts)"
    and "updateConfigItems api \<lparr>z_handle = True, z_observers = [] :: (string, unit) smap\<rparr> files conf z = (True, out, z')"
  shows "tool_main api files [prog, ''-h'', hosts, ''-f'', conf] z = Some (out, z')"
  using assms
  by (simp add: tool_main_def createOptions_update getOptionValue_def isOptionExist_def zk_initialize_def zk_new_def)

text \<open>
  C11. Running \<^verbatim>\<open>rcar-config -h hosts -f file\<close> on a file whose names ZooKeeper accepts prints nothing and
  leaves every value of the file in the node of its section and key, an existing node or not. Every
  section has its node, with the content it had before or else \<^verbatim>\<open>rcar\<close>, and no other node changes.
\<close>

theorem config_tool_stores:
  assumes "zoo_service api up" "up z" "zookeeper_init api z (c_str hosts)"
    and "ConfigFile (files (c_str conf)) = Inr f" "names_ok f"
    and "hosts \<noteq> []" "conf \<noteq> []" "\<not> is_option hosts" "\<not> is_option conf"
  shows "\<exists>z'. tool_main api files [prog, ''-h'', hosts, ''-f'', conf] z = Some ([], z') \<and> up z' \<and>
     (\<forall>i j v. get_string f i j = Some v \<longrightarrow> zoo_get api z' (zoo_path [i, j]) = Some v) \<and>
     (\<forall>i \<in> set (get_sections f). zoo_get api z' (zoo_path [i]) =
        Some (case zoo_get api z (zoo_path [i]) of None \<Rightarrow> ''rcar'' | Some c \<Rightarrow> c)) \<and>
     (\<forall>p. (\<forall>i \<in> set (get_sections f). p \<noteq> zoo_path [i] \<and> (\<forall>j. get_string f i j \<noteq> None \<longrightarrow> p \<noteq> zoo_path [i, j])) \<longrightarrow>
        zoo_get api z' p = zoo_get api z p)"
proof -
  let ?k = "\<lparr>z_handle = True, z_observers = [] :: (string, unit) smap\<rparr>"
  have "z_handle ?k" by simp
  from update_refines_deploy [where files = files and conf = conf, OF assms(1,2) this assms(4,5)] obtain z' where
    z': "updateConfigItems api ?k files conf z = (True, [], z')" "up z'" "zoo_get api z' = deploy (m_sections f) (zoo_get api z)"
    by blast
  note n = names_okD [OF assms(5,4)]
  have "zoo_get api z' (zoo_path [i, j]) = Some v" if "get_string f i j = Some v" for i j v
    using deployed_value [OF assms(5,4) that] by (simp add: z'(3))
  moreover have "zoo_get api z' (zoo_path [i]) = Some (case zoo_get api z (zoo_path [i]) of None \<Rightarrow> ''rcar'' | Some c \<Rightarrow> c)"
    if "i \<in> set (get_sections f)" for i
    using deploy_section [OF n(1,2), of i] n(1) that
    by (auto simp: z'(3) get_sections_def list_all_iff split: option.splits)
  moreover have "zoo_get api z' p = zoo_get api z p"
    if p: "\<forall>i \<in> set (get_sections f). p \<noteq> zoo_path [i] \<and> (\<forall>j. get_string f i j \<noteq> None \<longrightarrow> p \<noteq> zoo_path [i, j])" for p
    unfolding z'(3)
  proof (rule deploy_other, clarify, rule conjI)
    fix i sec assume i: "(i, sec) \<in> set (m_sections f)"
    then have *: "i \<in> set (get_sections f)" "map_of (m_sections f) i = Some sec"
      using n(2) by (auto simp: get_sections_def intro: rev_image_eqI)
    with p show "p \<noteq> zoo_path [i]" by blast
    show "\<forall>(j, v) \<in> set sec. p \<noteq> zoo_path [i, j]"
    proof clarify
      fix j v assume "(j, v) \<in> set sec" "p = zoo_path [i, j]"
      moreover from this weak_map_of_SomeI obtain w where "map_of sec j = Some w" by fast
      ultimately show False using p * by (auto simp: get_string_def)
    qed
  qed
  ultimately show ?thesis using tool_main_update [OF assms(6-9,3) z'(1)] z'(2) by blast
qed

text \<open>The four options a server needs, in the section that has its name.\<close>

definition server_options :: "config_file \<Rightarrow> string \<Rightarrow> int \<Rightarrow> string \<Rightarrow> int \<Rightarrow> string \<Rightarrow> bool" where
  "server_options f server port fname level db \<longleftrightarrow>
     (\<exists>p l. get_string f server ''port'' = Some p \<and> atoi p = Some port \<and> length p < 64 \<and>
        get_string f server ''log-level'' = Some l \<and> atoi l = Some level \<and> length l < 64) \<and>
     get_string f server ''log-file'' = Some fname \<and> length fname < 64 \<and>
     get_string f server ''mongo-server'' = Some db \<and> length db < 64"

lemma deployed_node_value:
  assumes "names_ok f" "ConfigFile content = Inr f" "get_string f server key = Some v" "length v < 64"
    and "zoo_get api z = deploy (m_sections f) g"
  shows "node_value api z server key = Some v"
proof -
  note n = names_okD(3) [OF assms(1-3)]
  have p: "''/'' @ server @ ''/'' @ key = zoo_path [server, key]" by (simp add: zoo_path_def)
  show ?thesis
    unfolding node_value_def p
  proof (rule getNode_small)
    show "zoo_get api z (c_str (zoo_path [server, key])) = Some v"
      using c_str_path [of "[server, key]"] n deployed_value [OF assms(1-3)] by (simp add: assms(5))
  qed (use n assms(4) in \<open>simp_all add: zoo_path_def\<close>)
qed

lemma create_runs:
  assumes "ConfigFile (files default_conf) = Inr uf" "user_getGeneral uf ''zookeeper-hosts'' \<noteq> []" "[] \<notin> set (tl argv)" "server \<noteq> []"
    and "zookeeper_init api z (c_str (user_getGeneral uf ''zookeeper-hosts''))"
    and "node_value api z server ''port'' = Some p" "p \<noteq> []" "atoi p = Some port"
    and "node_value api z server ''log-file'' = Some fname" "fname \<noteq> []"
    and "node_value api z server ''log-level'' = Some l" "l \<noteq> []" "atoi l = Some level"
    and "node_value api z server ''mongo-server'' = Some db" "db \<noteq> []"
  shows "\<exists>sc. create files api z argv server SystemConfig = Some (True, sc) \<and>
     sc_port sc = port \<and> sc_logFile sc = fname \<and> sc_logLevel sc = level \<and> sc_DBServer sc = db \<and>
     sc_lookup api z sc = node_value api z server"
proof -
  obtain zc where zc: "zc_initialize api z (user_getGeneral uf ''zookeeper-hosts'') (''/'' @ server) [''mongo-server''] zc_new = (True, zc)"
    using assms(5) by (simp add: zc_initialize_def zk_initialize_def)
  note i = zc_initialize_ok [OF zc]
  let ?sc = "SystemConfig\<lparr>sc_serverName := server, sc_zooConfig := Some zc\<rparr>"
  have look: "sc_lookup api z ?sc k = node_value api z server k" for k
    using i(2-4) getNode_handle [of "zc_keeper zc" "\<lparr>z_handle = True, z_observers = [] :: (string, unit) smap\<rparr>" api z]
    by (simp add: sc_getGeneral_def zc_getGeneral_def node_value_def split: option.splits)
  have ok: "sc_ok ?sc" using i(3) by (simp add: sc_ok_def zc_ok_def)
  from loadConfigs_runs [OF ok, of api z] assms(6-) obtain sc where sc: "loadConfigs api z ?sc = Some (True, sc)"
    unfolding look by blast
  from loadConfigs_values [OF sc ok] assms(6-)
  have "sc_port sc = port \<and> sc_logFile sc = fname \<and> sc_logLevel sc = level \<and> sc_DBServer sc = db"
    unfolding look by auto
  moreover have "create files api z argv server SystemConfig = Some (True, sc)"
    using assms(1,2,4) zc sc by (simp add: create_default_file [OF assms(3,4)] UserConfig_def)
  moreover have "sc_lookup api z sc = node_value api z server"
    using loadConfigs_lookup [OF sc ok] look by (simp add: fun_eq_iff)
  ultimately show ?thesis by blast
qed

text \<open>
  What a deployment needs: a service that is up and reached under the hosts the tool and the servers are
  given, a file for the tool with names ZooKeeper accepts, and the default configuration file of the servers.
\<close>

definition deployment :: "'z zoo_api \<Rightarrow> ('z \<Rightarrow> bool) \<Rightarrow> (string \<Rightarrow> string option) \<Rightarrow> string \<Rightarrow> string \<Rightarrow> config_file \<Rightarrow> bool" where
  "deployment api up files hosts conf f \<longleftrightarrow>
     zoo_service api up \<and> ConfigFile (files (c_str conf)) = Inr f \<and> names_ok f \<and>
     hosts \<noteq> [] \<and> conf \<noteq> [] \<and> \<not> is_option hosts \<and> \<not> is_option conf \<and>
     (case ConfigFile (files default_conf) of Inl e \<Rightarrow> False
      | Inr uf \<Rightarrow> user_getGeneral uf ''zookeeper-hosts'' \<noteq> [] \<and>
          (\<forall>z. up z \<longrightarrow> zookeeper_init api z (c_str hosts) \<and>
             zookeeper_init api z (c_str (user_getGeneral uf ''zookeeper-hosts''))))"

text \<open>
  From the tool to the options of a server: after the tool copied a file whose section for the server has
  the four options, each shorter than the read buffer, \<^verbatim>\<open>SystemConfig::create\<close> succeeds with the values
  of the file, and the other short options of the section can be read.
\<close>

lemma deployed_create:
  assumes "deployment api up files hosts conf f" "up z" "server_options f server port fname level db" "[] \<notin> set (tl argv)"
  obtains z' sc where "tool_main api files [prog, ''-h'', hosts, ''-f'', conf] z = Some ([], z')"
    "create files api z' argv server SystemConfig = Some (True, sc)"
    "sc_port sc = port" "sc_logFile sc = fname" "sc_logLevel sc = level" "sc_DBServer sc = db"
    "\<And>key v. get_string f server key = Some v \<Longrightarrow> length v < 64 \<Longrightarrow> sc_lookup api z' sc key = Some v"
proof -
  from assms(1) obtain uf where d: "zoo_service api up" "ConfigFile (files (c_str conf)) = Inr f" "names_ok f"
    "hosts \<noteq> []" "conf \<noteq> []" "\<not> is_option hosts" "\<not> is_option conf"
    "ConfigFile (files default_conf) = Inr uf" "user_getGeneral uf ''zookeeper-hosts'' \<noteq> []"
    and i: "\<forall>z. up z \<longrightarrow> zookeeper_init api z (c_str hosts) \<and> zookeeper_init api z (c_str (user_getGeneral uf ''zookeeper-hosts''))"
    by (auto simp: deployment_def split: sum.splits)
  let ?k = "\<lparr>z_handle = True, z_observers = [] :: (string, unit) smap\<rparr>"
  have "z_handle ?k" by simp
  from update_refines_deploy [where files = files and conf = conf, OF d(1) assms(2) this d(2,3)] obtain z' where
    z': "updateConfigItems api ?k files conf z = (True, [], z')" "up z'" "zoo_get api z' = deploy (m_sections f) (zoo_get api z)"
    by blast
  from assms(3) obtain p l where o: "get_string f server ''port'' = Some p" "atoi p = Some port" "length p < 64"
    "get_string f server ''log-level'' = Some l" "atoi l = Some level" "length l < 64"
    "get_string f server ''log-file'' = Some fname" "length fname < 64"
    "get_string f server ''mongo-server'' = Some db" "length db < 64"
    unfolding server_options_def by blast
  note n = names_okD(3) [OF d(3,2)]
  note v = deployed_node_value [OF d(3,2) _ _ z'(3)]
  have "server \<noteq> []" using n [OF o(1)] by (auto simp: zoo_name_def)
  from create_runs [where files = files, OF d(8,9) assms(4) this _ v [OF o(1,3)] _ o(2) v [OF o(7,8)] _ v [OF o(4,6)] _ o(5) v [OF o(9,10)]]
    n [OF o(1)] n [OF o(4)] n [OF o(7)] n [OF o(9)] i z'(2)
  obtain sc where "create files api z' argv server SystemConfig = Some (True, sc)"
    "sc_port sc = port" "sc_logFile sc = fname" "sc_logLevel sc = level" "sc_DBServer sc = db"
    "sc_lookup api z' sc = node_value api z' server" by blast
  with that tool_main_update [OF d(4-7) _ z'(1)] assms(2) i v show ?thesis by (metis (no_types))
qed

text \<open>
  Without a host the tool stops, whatever else is asked for: the default the table of the options gives,
  \<^verbatim>\<open>127.0.0.1\<close>, is never used. And it reports success whatever the service refused.
\<close>

lemma tool_needs_host:
  assumes "conf \<noteq> []" "\<not> is_option conf"
  shows "tool_main api files [prog, ''-f'', conf] z = Some ([''syntax error, hosts are not specfied''], z)"
  using assms
  by (simp add: tool_main_def createOptions_def is_option_def isValidOptions_def optionItems_def c_str_def getOptionValue_def)

lemma update_reports_success: "fst (updateConfigItems api keeper files conf z) \<longleftrightarrow> (\<exists>f. ConfigFile (files (c_str conf)) = Inr f)"
  by (simp add: updateConfigItems_def split: sum.split)

section \<open>A run\<close>

lemma list_zoo_service: "zoo_service list_zoo smap_ok"
  by (auto simp: zoo_service_def list_zoo_def map_of_put fun_eq_iff)

text \<open>The file \<^verbatim>\<open>src/tool/config/rcar.conf\<close>, less its blank lines, which \<^verbatim>\<open>ConfigFile\<close> warns of.\<close>

definition rcar_conf :: string where
  "rcar_conf =
     concat (map (\<lambda>l. l @ [newline])
       [''[rcar-apl-server]'', ''mongo-server=localhost'', ''port=9092'', ''log-level=2'', ''log-file=./rcar-apl.log'',
        ''[rcar-image-server]'', ''mongo-server=localhost'', ''port=9093'', ''log-level=2'', ''log-file=./rcar-image.log'',
        ''[rcar-msg-server]'', ''mongo-server=localhost'', ''rabbitmq-server=localhost'', ''port=5672'', ''log-level=2'',
        ''log-file=./rcar-message.log''])"

definition rcar_file :: config_file where
  "rcar_file = \<lparr>m_sections =
     [(''rcar-apl-server'', [(''log-file'', ''./rcar-apl.log''), (''log-level'', ''2''), (''mongo-server'', ''localhost''), (''port'', ''9092'')]),
      (''rcar-image-server'', [(''log-file'', ''./rcar-image.log''), (''log-level'', ''2''), (''mongo-server'', ''localhost''), (''port'', ''9093'')]),
      (''rcar-msg-server'', [(''log-file'', ''./rcar-message.log''), (''log-level'', ''2''), (''mongo-server'', ''localhost''), (''port'', ''5672''),
         (''rabbitmq-server'', ''localhost'')])], m_warned = []\<rparr>"

definition tool_files :: "string \<Rightarrow> string option" where
  "tool_files p = (if p = ''rcar.conf'' then Some rcar_conf else sample_files p)"

lemma rcar_conf_parse: "ConfigFile (tool_files (c_str ''rcar.conf'')) = Inr rcar_file"
  by code_simp

lemma tool_default_conf: "ConfigFile (tool_files default_conf) = Inr \<lparr>m_sections = [(''general'', [(''zookeeper-hosts'', ''h:2'')])], m_warned = []\<rparr>"
  by code_simp

lemma rcar_names: "names_ok rcar_file"
  by code_simp

theorem config_tool_stores_witness:
  "\<exists>z'. tool_main list_zoo tool_files [''rcar-config'', ''-h'', ''h:2'', ''-f'', ''rcar.conf''] [] = Some ([], z') \<and>
     zoo_get list_zoo z' (zoo_path [''rcar-apl-server'', ''port'']) = Some ''9092''"
proof -
  have "get_string rcar_file ''rcar-apl-server'' ''port'' = Some ''9092''" by code_simp
  moreover have "zookeeper_init list_zoo [] (c_str ''h:2'')" by code_simp
  ultimately show ?thesis
    using config_tool_stores [where files = tool_files and conf = "''rcar.conf''", OF list_zoo_service _ _ rcar_conf_parse rcar_names, of "[]" "''h:2''" "''rcar-config''"]
    by (auto simp: is_option_def)
qed

lemma rcar_deployment: "deployment list_zoo smap_ok tool_files ''h:2'' ''rcar.conf'' rcar_file"
  using list_zoo_service rcar_conf_parse rcar_names tool_default_conf
  by (simp add: deployment_def is_option_def list_zoo_def user_getGeneral_def get_string_def GENERAL_SECTION_def c_str_def)

lemma rcar_options:
  "server_options rcar_file ''rcar-apl-server'' 9092 ''./rcar-apl.log'' 2 ''localhost''"
  "server_options rcar_file ''rcar-image-server'' 9093 ''./rcar-image.log'' 2 ''localhost''"
  "server_options rcar_file ''rcar-msg-server'' 5672 ''./rcar-message.log'' 2 ''localhost''"
proof -
  have n: "atoi ''9092'' = Some 9092" "atoi ''9093'' = Some 9093" "atoi ''5672'' = Some 5672" "atoi ''2'' = Some 2" by code_simp+
  show "server_options rcar_file ''rcar-apl-server'' 9092 ''./rcar-apl.log'' 2 ''localhost''"
    "server_options rcar_file ''rcar-image-server'' 9093 ''./rcar-image.log'' 2 ''localhost''"
    "server_options rcar_file ''rcar-msg-server'' 5672 ''./rcar-message.log'' 2 ''localhost''"
    by (simp_all add: server_options_def get_string_def rcar_file_def n)
qed

end
