(* ===== verification/Push_Utils.thy ===== *)
theory Push_Utils
  imports Log Config_File
begin

text \<open>
  \<^verbatim>\<open>src/msg-server/utils.cpp\<close>: the error exits of the push server, the hexadecimal dump of a frame and
  the clock. An exit carries what is written to the standard error stream; its status is always 1.
  \<^verbatim>\<open>amqp_error_string2\<close> of the AMQP client library is an argument, as is the time of the system.
  At the end the HTTP client of \<^verbatim>\<open>src/msg-server/http-client.cpp\<close>, as the transfer it asks libcurl for.
\<close>

section \<open>Numbers in hexadecimal\<close>

definition upper_hex_digit :: "nat \<Rightarrow> char" where
  "upper_hex_digit d = char_of (if d < 10 then 48 + d else 55 + d)"

fun upper_hex_digits :: "nat \<Rightarrow> string" where
  "upper_hex_digits n = (if n < 16 then [upper_hex_digit n] else upper_hex_digits (n div 16) @ [upper_hex_digit (n mod 16)])"

declare upper_hex_digits.simps [simp del]

text \<open>The directives \<^verbatim>\<open>%02X\<close>, \<^verbatim>\<open>%08X\<close> and \<^verbatim>\<open>%08lX\<close>.\<close>

definition hex_padded :: "nat \<Rightarrow> nat \<Rightarrow> string" where
  "hex_padded w n = (let s = upper_hex_digits n in replicate (w - length s) (CHR ''0'') @ s)"

section \<open>Error exits\<close>

datatype amqp_method = Connection_close int string | Channel_close int string | Other_method nat

datatype amqp_rpc_reply =
    AMQP_RESPONSE_NORMAL
  | AMQP_RESPONSE_NONE
  | AMQP_RESPONSE_LIBRARY_EXCEPTION int
  | AMQP_RESPONSE_SERVER_EXCEPTION amqp_method

text \<open>\<^term>\<open>None\<close>: the function returns.\<close>

type_synonym death = "string option"

text \<open>The outer \<^term>\<open>None\<close> is a directive without its argument, which is undefined.\<close>

definition die :: "string \<Rightarrow> fmt_arg list \<Rightarrow> death option" where
  "die fmt args = map_option (\<lambda>s. Some (s @ [newline])) (vsprintf fmt args)"

definition die_on_error :: "(int \<Rightarrow> string) \<Rightarrow> int \<Rightarrow> string \<Rightarrow> death" where
  "die_on_error amqp_error_string2 x ctxt =
     (if x < 0 then Some (ctxt @ '': '' @ amqp_error_string2 x @ [newline]) else None)"

definition die_on_amqp_error :: "(int \<Rightarrow> string) \<Rightarrow> amqp_rpc_reply \<Rightarrow> string \<Rightarrow> death" where
  "die_on_amqp_error amqp_error_string2 x ctxt =
     (case x of
        AMQP_RESPONSE_NORMAL \<Rightarrow> None
      | AMQP_RESPONSE_NONE \<Rightarrow> Some (ctxt @ '': missing RPC reply type!'' @ [newline])
      | AMQP_RESPONSE_LIBRARY_EXCEPTION e \<Rightarrow> Some (ctxt @ '': '' @ amqp_error_string2 e @ [newline])
      | AMQP_RESPONSE_SERVER_EXCEPTION (Connection_close code reply_text) \<Rightarrow>
          Some (ctxt @ '': server connection error '' @ show_int code @ '', message: '' @ c_str reply_text @ [newline])
      | AMQP_RESPONSE_SERVER_EXCEPTION (Channel_close code reply_text) \<Rightarrow>
          Some (ctxt @ '': server channel error '' @ show_int code @ '', message: '' @ c_str reply_text @ [newline])
      | AMQP_RESPONSE_SERVER_EXCEPTION (Other_method m) \<Rightarrow>
          Some (ctxt @ '': unknown server error, method id 0x'' @ hex_padded 8 m @ [newline]))"

section \<open>The dump\<close>

definition isprint :: "byte \<Rightarrow> bool" where
  "isprint c \<longleftrightarrow> 32 \<le> c \<and> c < 127"

text \<open>A row of the dump; \<open>chs\<close> is the part of the array of the source that is in use.\<close>

definition dump_row :: "nat \<Rightarrow> byte list \<Rightarrow> string" where
  "dump_row count chs =
     (let numinrow = length chs
      in hex_padded 8 (count - numinrow) @ '':'' @
         (if numinrow > 0 then
            concat (map (\<lambda>i. (if i = 8 then '' :'' else []) @ '' '' @ hex_padded 2 (unat (chs ! i))) [0..<numinrow]) @
            concat (map (\<lambda>i. (if i = 8 then '' :'' else []) @ ''   '') [numinrow..<16]) @
            ''  '' @
            map (\<lambda>i. if isprint (chs ! i) then char_of (unat (chs ! i)) else CHR ''.'') [0..<numinrow]
          else []))"

definition rows_eq :: "byte list \<Rightarrow> byte list \<Rightarrow> bool" where
  "rows_eq a b \<longleftrightarrow> list_all (\<lambda>i. a ! i = b ! i) [0..<16]"

definition dots_row :: string where
  "dots_row = ''          .. .. .. .. .. .. .. .. : .. .. .. .. .. .. .. ..''"

text \<open>The variables of the loop, with the lines printed so far.\<close>

record dump_state =
  d_out :: "string list"
  d_count :: nat
  d_chs :: "byte list"
  d_oldchs :: "byte list"
  d_dots :: bool

definition dump_init :: dump_state where
  "dump_init = \<lparr>d_out = [], d_count = 0, d_chs = [], d_oldchs = replicate 16 0, d_dots = False\<rparr>"

text \<open>The body of \<^verbatim>\<open>if (numinrow == 16)\<close>.\<close>

definition dump_flush :: "dump_state \<Rightarrow> dump_state" where
  "dump_flush st =
     (let st = (if rows_eq (d_oldchs st) (d_chs st) then
                  (if \<not> d_dots st then st\<lparr>d_dots := True, d_out := d_out st @ [dots_row]\<rparr> else st)
                else st\<lparr>d_dots := False, d_out := d_out st @ [dump_row (d_count st) (d_chs st)]\<rparr>)
      in st\<lparr>d_oldchs := d_chs st, d_chs := []\<rparr>)"

definition dump_byte :: "dump_state \<Rightarrow> byte \<Rightarrow> dump_state" where
  "dump_byte st ch =
     (let st = (if length (d_chs st) = 16 then dump_flush st else st)
      in st\<lparr>d_count := d_count st + 1, d_chs := d_chs st @ [ch]\<rparr>)"

definition amqp_dump :: "byte list \<Rightarrow> string list" where
  "amqp_dump buf =
     (let st = foldl dump_byte dump_init buf
      in d_out st @ [dump_row (d_count st) (d_chs st)] @
         (if d_chs st \<noteq> [] then [hex_padded 8 (d_count st) @ '':''] else []))"

section \<open>The clock\<close>

definition now_microseconds :: "64 word \<Rightarrow> 64 word \<Rightarrow> 64 word" where
  "now_microseconds tv_sec tv_usec = tv_sec * 1000000 + tv_usec"

text \<open>The request to \<^verbatim>\<open>nanosleep\<close>; the product of two \<^verbatim>\<open>int\<close>s that does not fit is undefined.\<close>

definition microsleep :: "int \<Rightarrow> (int \<times> int) option" where
  "microsleep usec = (if - (2 ^ 31) \<le> 1000 * usec \<and> 1000 * usec < 2 ^ 31 then Some (0, 1000 * usec) else None)"

section \<open>The HTTP client\<close>

text \<open>
  The options that are set before \<^verbatim>\<open>curl_easy_perform\<close>. libcurl takes the length of the fields of a post
  from the C string. The result of the transfer is not looked at.
\<close>

record curl_transfer =
  CURLOPT_URL :: string
  CURLOPT_POST :: bool
  CURLOPT_POSTFIELDS :: string
  CURLOPT_WRITEDATA :: bool
  CURLOPT_CONNECTTIMEOUT :: nat
  CURLOPT_TIMEOUT :: nat
  CURLOPT_VERBOSE :: bool
  CURLOPT_HTTPHEADER :: "string list"

definition HttpClient_post :: "string \<Rightarrow> string \<Rightarrow> curl_transfer \<times> int" where
  "HttpClient_post url input =
     (\<lparr>CURLOPT_URL = c_str url, CURLOPT_POST = True, CURLOPT_POSTFIELDS = c_str input, CURLOPT_WRITEDATA = False,
       CURLOPT_CONNECTTIMEOUT = 30, CURLOPT_TIMEOUT = 30, CURLOPT_VERBOSE = True,
       CURLOPT_HTTPHEADER =
         [''Content-Type:application/x-www-form-urlencoded;charset=utf-8'',
          ''User-Agent:BCCS_SDK/3.0(Linux;Linux kernel version 15.0.0)'']\<rparr>, 0)"

definition HttpClient_get :: "string \<Rightarrow> string \<Rightarrow> curl_transfer \<times> int" where
  "HttpClient_get url input =
     (\<lparr>CURLOPT_URL = c_str url, CURLOPT_POST = True, CURLOPT_POSTFIELDS = c_str input, CURLOPT_WRITEDATA = True,
       CURLOPT_CONNECTTIMEOUT = 3, CURLOPT_TIMEOUT = 3, CURLOPT_VERBOSE = False, CURLOPT_HTTPHEADER = []\<rparr>, 0)"

text \<open>
  The callback prints what has arrived as a C string, although libcurl does not terminate it: without a
  zero byte it reads past the end. It returns the size in bytes, as a \<^verbatim>\<open>size_t\<close>.
\<close>

definition writeDataCallback :: "string option \<Rightarrow> 64 word \<Rightarrow> 64 word \<Rightarrow> (string list \<times> 64 word) option" where
  "writeDataCallback buffer sz nmemb =
     (case buffer of
        None \<Rightarrow> Some ([], sz * nmemb)
      | Some data \<Rightarrow>
          (if CHR 0x00 \<in> set data then Some ([''Baidu Response Message:'', c_str data], sz * nmemb) else None))"

section \<open>The dump row by row\<close>

text \<open>The specification: rows of sixteen bytes, of which a repeated one is shown as dots, once.\<close>

function chunks :: "'a list \<Rightarrow> 'a list list" where
  "chunks xs = (if xs = [] then [] else take 16 xs # chunks (drop 16 xs))"
  by pat_completeness auto
termination
  by (relation "measure length") auto

declare chunks.simps [simp del]

fun show_rows :: "nat \<Rightarrow> byte list \<Rightarrow> bool \<Rightarrow> byte list list \<Rightarrow> string list" where
  "show_rows n old dots [] = []"
| "show_rows n old dots [row] = [dump_row (n + length row) row, hex_padded 8 (n + length row) @ '':'']"
| "show_rows n old dots (row # rows) =
     (if row = old then (if dots then [] else [dots_row]) else [dump_row (n + 16) row]) @
     show_rows (n + 16) row (row = old) rows"

definition dump_spec :: "byte list \<Rightarrow> string list" where
  "dump_spec buf = (if buf = [] then [hex_padded 8 0 @ '':''] else show_rows 0 (replicate 16 0) False (chunks buf))"

definition dump_end :: "dump_state \<Rightarrow> string list" where
  "dump_end st = d_out st @ [dump_row (d_count st) (d_chs st)] @
     (if d_chs st \<noteq> [] then [hex_padded 8 (d_count st) @ '':''] else [])"

lemma rows_eq_iff: "length a = 16 \<Longrightarrow> length b = 16 \<Longrightarrow> rows_eq a b \<longleftrightarrow> a = b"
  by (auto simp: rows_eq_def list_all_iff intro: nth_equalityI)

lemma dump_fill:
  assumes "length (d_chs st) + length bs \<le> 16"
  shows "foldl dump_byte st bs = st\<lparr>d_count := d_count st + length bs, d_chs := d_chs st @ bs\<rparr>"
  using assms
proof (induction bs arbitrary: st)
  case (Cons b bs)
  then have "dump_byte st b = st\<lparr>d_count := d_count st + 1, d_chs := d_chs st @ [b]\<rparr>"
    by (simp add: dump_byte_def)
  with Cons show ?case by simp
qed simp

lemma dump_rows:
  assumes "length (d_oldchs st) = 16" "d_chs st = []" "bs \<noteq> []"
  shows "dump_end (foldl dump_byte st bs) = d_out st @ show_rows (d_count st) (d_oldchs st) (d_dots st) (chunks bs)"
  using assms
proof (induction bs arbitrary: st rule: chunks.induct)
  case (1 bs)
  show ?case
  proof (cases "length bs \<le> 16")
    case True
    then have c: "chunks bs = [bs]" using 1(4) by (simp add: chunks.simps [of bs] chunks.simps [of "[]"])
    from True 1(3) have f: "foldl dump_byte st bs = st\<lparr>d_count := d_count st + length bs, d_chs := d_chs st @ bs\<rparr>"
      by (intro dump_fill) simp
    show ?thesis unfolding c f using 1(3,4) by (simp add: dump_end_def)
  next
    case False
    define row where "row = take 16 bs"
    obtain b rest where br: "drop 16 bs = b # rest" using False by (cases "drop 16 bs") auto
    have len: "length row = 16" using False by (simp add: row_def)
    have bs: "bs = row @ b # rest" using append_take_drop_id [of 16 bs] by (simp add: row_def br)
    let ?full = "st\<lparr>d_count := d_count st + 16, d_chs := row\<rparr>"
    have fill: "foldl dump_byte st row = ?full" using dump_fill [of st row] len 1(3) by simp
    have ch: "chunks bs = row # chunks (b # rest)" "chunks (b # rest) = take 16 (b # rest) # chunks (drop 16 (b # rest))"
      by (simp_all only: chunks.simps [of bs] chunks.simps [of "b # rest"] row_def br 1(4) list.distinct if_False)
    have "dump_byte ?full b = dump_byte (dump_flush ?full) b"
      by (simp add: dump_byte_def len) (simp add: dump_flush_def)
    then have "foldl dump_byte st bs = foldl dump_byte (dump_flush ?full) (b # rest)"
      unfolding bs foldl_append fill by simp
    moreover have "dump_end (foldl dump_byte (dump_flush ?full) (b # rest)) =
        d_out (dump_flush ?full) @ show_rows (d_count (dump_flush ?full)) (d_oldchs (dump_flush ?full)) (d_dots (dump_flush ?full)) (chunks (b # rest))"
      unfolding br [symmetric] using 1(2) len br
      by (intro 1(1) [OF 1(4)]) (auto simp: dump_flush_def Let_def)
    ultimately show ?thesis
      using 1(2) len by (simp add: ch dump_flush_def Let_def rows_eq_iff)
  qed
qed


end
