(* ===== verification/Base64.thy ===== *)
theory Base64
  imports Rcar_Prelude
begin

text \<open>
  The base64 codec of \<^verbatim>\<open>src/lib\<close>: the tables of \<^verbatim>\<open>modp_b64_data.h\<close>, the encoder and
  the little-endian decoder of \<^verbatim>\<open>modp_b64.cc\<close> on checked buffers, and the string wrappers
  of \<^verbatim>\<open>base64.cpp\<close> and \<^verbatim>\<open>base64.h\<close>. A codec interface is stated as a locale and interpreted
  on the wrappers.
\<close>

section \<open>Tables (modp\_b64\_data.h)\<close>

definition e0 :: "8 word list" where
  "e0 = map of_char (
    ''AAAABBBBCCCCDDDDEEEEFFFFGGGGHHHHIIIIJJJJKKKKLLLLMMMMNNNNOOOOPPPP'' @
    ''QQQQRRRRSSSSTTTTUUUUVVVVWWWWXXXXYYYYZZZZaaaabbbbccccddddeeeeffff'' @
    ''gggghhhhiiiijjjjkkkkllllmmmmnnnnooooppppqqqqrrrrssssttttuuuuvvvv'' @
    ''wwwwxxxxyyyyzzzz0000111122223333444455556666777788889999++++////'')"

definition e1 :: "8 word list" where
  "e1 = map of_char (
    ''ABCDEFGHIJKLMNOPQRSTUVWXYZabcdefghijklmnopqrstuvwxyz0123456789+/'' @
    ''ABCDEFGHIJKLMNOPQRSTUVWXYZabcdefghijklmnopqrstuvwxyz0123456789+/'' @
    ''ABCDEFGHIJKLMNOPQRSTUVWXYZabcdefghijklmnopqrstuvwxyz0123456789+/'' @
    ''ABCDEFGHIJKLMNOPQRSTUVWXYZabcdefghijklmnopqrstuvwxyz0123456789+/'')"

definition e2 :: "8 word list" where
  "e2 = map of_char (
    ''ABCDEFGHIJKLMNOPQRSTUVWXYZabcdefghijklmnopqrstuvwxyz0123456789+/'' @
    ''ABCDEFGHIJKLMNOPQRSTUVWXYZabcdefghijklmnopqrstuvwxyz0123456789+/'' @
    ''ABCDEFGHIJKLMNOPQRSTUVWXYZabcdefghijklmnopqrstuvwxyz0123456789+/'' @
    ''ABCDEFGHIJKLMNOPQRSTUVWXYZabcdefghijklmnopqrstuvwxyz0123456789+/'')"

definition d0 :: "32 word list" where
  "d0 = [
    0x01FFFFFF, 0x01FFFFFF, 0x01FFFFFF, 0x01FFFFFF, 0x01FFFFFF, 0x01FFFFFF, 0x01FFFFFF, 0x01FFFFFF,
    0x01FFFFFF, 0x01FFFFFF, 0x01FFFFFF, 0x01FFFFFF, 0x01FFFFFF, 0x01FFFFFF, 0x01FFFFFF, 0x01FFFFFF,
    0x01FFFFFF, 0x01FFFFFF, 0x01FFFFFF, 0x01FFFFFF, 0x01FFFFFF, 0x01FFFFFF, 0x01FFFFFF, 0x01FFFFFF,
    0x01FFFFFF, 0x01FFFFFF, 0x01FFFFFF, 0x01FFFFFF, 0x01FFFFFF, 0x01FFFFFF, 0x01FFFFFF, 0x01FFFFFF,
    0x01FFFFFF, 0x01FFFFFF, 0x01FFFFFF, 0x01FFFFFF, 0x01FFFFFF, 0x01FFFFFF, 0x01FFFFFF, 0x01FFFFFF,
    0x01FFFFFF, 0x01FFFFFF, 0x01FFFFFF, 0x000000F8, 0x01FFFFFF, 0x01FFFFFF, 0x01FFFFFF, 0x000000FC,
    0x000000D0, 0x000000D4, 0x000000D8, 0x000000DC, 0x000000E0, 0x000000E4, 0x000000E8, 0x000000EC,
    0x000000F0, 0x000000F4, 0x01FFFFFF, 0x01FFFFFF, 0x01FFFFFF, 0x01FFFFFF, 0x01FFFFFF, 0x01FFFFFF,
    0x01FFFFFF, 0x00000000, 0x00000004, 0x00000008, 0x0000000C, 0x00000010, 0x00000014, 0x00000018,
    0x0000001C, 0x00000020, 0x00000024, 0x00000028, 0x0000002C, 0x00000030, 0x00000034, 0x00000038,
    0x0000003C, 0x00000040, 0x00000044, 0x00000048, 0x0000004C, 0x00000050, 0x00000054, 0x00000058,
    0x0000005C, 0x00000060, 0x00000064, 0x01FFFFFF, 0x01FFFFFF, 0x01FFFFFF, 0x01FFFFFF, 0x01FFFFFF,
    0x01FFFFFF, 0x00000068, 0x0000006C, 0x00000070, 0x00000074, 0x00000078, 0x0000007C, 0x00000080,
    0x00000084, 0x00000088, 0x0000008C, 0x00000090, 0x00000094, 0x00000098, 0x0000009C, 0x000000A0,
    0x000000A4, 0x000000A8, 0x000000AC, 0x000000B0, 0x000000B4, 0x000000B8, 0x000000BC, 0x000000C0,
    0x000000C4, 0x000000C8, 0x000000CC, 0x01FFFFFF, 0x01FFFFFF, 0x01FFFFFF, 0x01FFFFFF, 0x01FFFFFF,
    0x01FFFFFF, 0x01FFFFFF, 0x01FFFFFF, 0x01FFFFFF, 0x01FFFFFF, 0x01FFFFFF, 0x01FFFFFF, 0x01FFFFFF,
    0x01FFFFFF, 0x01FFFFFF, 0x01FFFFFF, 0x01FFFFFF, 0x01FFFFFF, 0x01FFFFFF, 0x01FFFFFF, 0x01FFFFFF,
    0x01FFFFFF, 0x01FFFFFF, 0x01FFFFFF, 0x01FFFFFF, 0x01FFFFFF, 0x01FFFFFF, 0x01FFFFFF, 0x01FFFFFF,
    0x01FFFFFF, 0x01FFFFFF, 0x01FFFFFF, 0x01FFFFFF, 0x01FFFFFF, 0x01FFFFFF, 0x01FFFFFF, 0x01FFFFFF,
    0x01FFFFFF, 0x01FFFFFF, 0x01FFFFFF, 0x01FFFFFF, 0x01FFFFFF, 0x01FFFFFF, 0x01FFFFFF, 0x01FFFFFF,
    0x01FFFFFF, 0x01FFFFFF, 0x01FFFFFF, 0x01FFFFFF, 0x01FFFFFF, 0x01FFFFFF, 0x01FFFFFF, 0x01FFFFFF,
    0x01FFFFFF, 0x01FFFFFF, 0x01FFFFFF, 0x01FFFFFF, 0x01FFFFFF, 0x01FFFFFF, 0x01FFFFFF, 0x01FFFFFF,
    0x01FFFFFF, 0x01FFFFFF, 0x01FFFFFF, 0x01FFFFFF, 0x01FFFFFF, 0x01FFFFFF, 0x01FFFFFF, 0x01FFFFFF,
    0x01FFFFFF, 0x01FFFFFF, 0x01FFFFFF, 0x01FFFFFF, 0x01FFFFFF, 0x01FFFFFF, 0x01FFFFFF, 0x01FFFFFF,
    0x01FFFFFF, 0x01FFFFFF, 0x01FFFFFF, 0x01FFFFFF, 0x01FFFFFF, 0x01FFFFFF, 0x01FFFFFF, 0x01FFFFFF,
    0x01FFFFFF, 0x01FFFFFF, 0x01FFFFFF, 0x01FFFFFF, 0x01FFFFFF, 0x01FFFFFF, 0x01FFFFFF, 0x01FFFFFF,
    0x01FFFFFF, 0x01FFFFFF, 0x01FFFFFF, 0x01FFFFFF, 0x01FFFFFF, 0x01FFFFFF, 0x01FFFFFF, 0x01FFFFFF,
    0x01FFFFFF, 0x01FFFFFF, 0x01FFFFFF, 0x01FFFFFF, 0x01FFFFFF, 0x01FFFFFF, 0x01FFFFFF, 0x01FFFFFF,
    0x01FFFFFF, 0x01FFFFFF, 0x01FFFFFF, 0x01FFFFFF, 0x01FFFFFF, 0x01FFFFFF, 0x01FFFFFF, 0x01FFFFFF,
    0x01FFFFFF, 0x01FFFFFF, 0x01FFFFFF, 0x01FFFFFF, 0x01FFFFFF, 0x01FFFFFF, 0x01FFFFFF, 0x01FFFFFF,
    0x01FFFFFF, 0x01FFFFFF, 0x01FFFFFF, 0x01FFFFFF, 0x01FFFFFF, 0x01FFFFFF, 0x01FFFFFF, 0x01FFFFFF]"

definition d1 :: "32 word list" where
  "d1 = [
    0x01FFFFFF, 0x01FFFFFF, 0x01FFFFFF, 0x01FFFFFF, 0x01FFFFFF, 0x01FFFFFF, 0x01FFFFFF, 0x01FFFFFF,
    0x01FFFFFF, 0x01FFFFFF, 0x01FFFFFF, 0x01FFFFFF, 0x01FFFFFF, 0x01FFFFFF, 0x01FFFFFF, 0x01FFFFFF,
    0x01FFFFFF, 0x01FFFFFF, 0x01FFFFFF, 0x01FFFFFF, 0x01FFFFFF, 0x01FFFFFF, 0x01FFFFFF, 0x01FFFFFF,
    0x01FFFFFF, 0x01FFFFFF, 0x01FFFFFF, 0x01FFFFFF, 0x01FFFFFF, 0x01FFFFFF, 0x01FFFFFF, 0x01FFFFFF,
    0x01FFFFFF, 0x01FFFFFF, 0x01FFFFFF, 0x01FFFFFF, 0x01FFFFFF, 0x01FFFFFF, 0x01FFFFFF, 0x01FFFFFF,
    0x01FFFFFF, 0x01FFFFFF, 0x01FFFFFF, 0x0000E003, 0x01FFFFFF, 0x01FFFFFF, 0x01FFFFFF, 0x0000F003,
    0x00004003, 0x00005003, 0x00006003, 0x00007003, 0x00008003, 0x00009003, 0x0000A003, 0x0000B003,
    0x0000C003, 0x0000D003, 0x01FFFFFF, 0x01FFFFFF, 0x01FFFFFF, 0x01FFFFFF, 0x01FFFFFF, 0x01FFFFFF,
    0x01FFFFFF, 0x00000000, 0x00001000, 0x00002000, 0x00003000, 0x00004000, 0x00005000, 0x00006000,
    0x00007000, 0x00008000, 0x00009000, 0x0000A000, 0x0000B000, 0x0000C000, 0x0000D000, 0x0000E000,
    0x0000F000, 0x00000001, 0x00001001, 0x00002001, 0x00003001, 0x00004001, 0x00005001, 0x00006001,
    0x00007001, 0x00008001, 0x00009001, 0x01FFFFFF, 0x01FFFFFF, 0x01FFFFFF, 0x01FFFFFF, 0x01FFFFFF,
    0x01FFFFFF, 0x0000A001, 0x0000B001, 0x0000C001, 0x0000D001, 0x0000E001, 0x0000F001, 0x00000002,
    0x00001002, 0x00002002, 0x00003002, 0x00004002, 0x00005002, 0x00006002, 0x00007002, 0x00008002,
    0x00009002, 0x0000A002, 0x0000B002, 0x0000C002, 0x0000D002, 0x0000E002, 0x0000F002, 0x00000003,
    0x00001003, 0x00002003, 0x00003003, 0x01FFFFFF, 0x01FFFFFF, 0x01FFFFFF, 0x01FFFFFF, 0x01FFFFFF,
    0x01FFFFFF, 0x01FFFFFF, 0x01FFFFFF, 0x01FFFFFF, 0x01FFFFFF, 0x01FFFFFF, 0x01FFFFFF, 0x01FFFFFF,
    0x01FFFFFF, 0x01FFFFFF, 0x01FFFFFF, 0x01FFFFFF, 0x01FFFFFF, 0x01FFFFFF, 0x01FFFFFF, 0x01FFFFFF,
    0x01FFFFFF, 0x01FFFFFF, 0x01FFFFFF, 0x01FFFFFF, 0x01FFFFFF, 0x01FFFFFF, 0x01FFFFFF, 0x01FFFFFF,
    0x01FFFFFF, 0x01FFFFFF, 0x01FFFFFF, 0x01FFFFFF, 0x01FFFFFF, 0x01FFFFFF, 0x01FFFFFF, 0x01FFFFFF,
    0x01FFFFFF, 0x01FFFFFF, 0x01FFFFFF, 0x01FFFFFF, 0x01FFFFFF, 0x01FFFFFF, 0x01FFFFFF, 0x01FFFFFF,
    0x01FFFFFF, 0x01FFFFFF, 0x01FFFFFF, 0x01FFFFFF, 0x01FFFFFF, 0x01FFFFFF, 0x01FFFFFF, 0x01FFFFFF,
    0x01FFFFFF, 0x01FFFFFF, 0x01FFFFFF, 0x01FFFFFF, 0x01FFFFFF, 0x01FFFFFF, 0x01FFFFFF, 0x01FFFFFF,
    0x01FFFFFF, 0x01FFFFFF, 0x01FFFFFF, 0x01FFFFFF, 0x01FFFFFF, 0x01FFFFFF, 0x01FFFFFF, 0x01FFFFFF,
    0x01FFFFFF, 0x01FFFFFF, 0x01FFFFFF, 0x01FFFFFF, 0x01FFFFFF, 0x01FFFFFF, 0x01FFFFFF, 0x01FFFFFF,
    0x01FFFFFF, 0x01FFFFFF, 0x01FFFFFF, 0x01FFFFFF, 0x01FFFFFF, 0x01FFFFFF, 0x01FFFFFF, 0x01FFFFFF,
    0x01FFFFFF, 0x01FFFFFF, 0x01FFFFFF, 0x01FFFFFF, 0x01FFFFFF, 0x01FFFFFF, 0x01FFFFFF, 0x01FFFFFF,
    0x01FFFFFF, 0x01FFFFFF, 0x01FFFFFF, 0x01FFFFFF, 0x01FFFFFF, 0x01FFFFFF, 0x01FFFFFF, 0x01FFFFFF,
    0x01FFFFFF, 0x01FFFFFF, 0x01FFFFFF, 0x01FFFFFF, 0x01FFFFFF, 0x01FFFFFF, 0x01FFFFFF, 0x01FFFFFF,
    0x01FFFFFF, 0x01FFFFFF, 0x01FFFFFF, 0x01FFFFFF, 0x01FFFFFF, 0x01FFFFFF, 0x01FFFFFF, 0x01FFFFFF,
    0x01FFFFFF, 0x01FFFFFF, 0x01FFFFFF, 0x01FFFFFF, 0x01FFFFFF, 0x01FFFFFF, 0x01FFFFFF, 0x01FFFFFF,
    0x01FFFFFF, 0x01FFFFFF, 0x01FFFFFF, 0x01FFFFFF, 0x01FFFFFF, 0x01FFFFFF, 0x01FFFFFF, 0x01FFFFFF]"

definition d2 :: "32 word list" where
  "d2 = [
    0x01FFFFFF, 0x01FFFFFF, 0x01FFFFFF, 0x01FFFFFF, 0x01FFFFFF, 0x01FFFFFF, 0x01FFFFFF, 0x01FFFFFF,
    0x01FFFFFF, 0x01FFFFFF, 0x01FFFFFF, 0x01FFFFFF, 0x01FFFFFF, 0x01FFFFFF, 0x01FFFFFF, 0x01FFFFFF,
    0x01FFFFFF, 0x01FFFFFF, 0x01FFFFFF, 0x01FFFFFF, 0x01FFFFFF, 0x01FFFFFF, 0x01FFFFFF, 0x01FFFFFF,
    0x01FFFFFF, 0x01FFFFFF, 0x01FFFFFF, 0x01FFFFFF, 0x01FFFFFF, 0x01FFFFFF, 0x01FFFFFF, 0x01FFFFFF,
    0x01FFFFFF, 0x01FFFFFF, 0x01FFFFFF, 0x01FFFFFF, 0x01FFFFFF, 0x01FFFFFF, 0x01FFFFFF, 0x01FFFFFF,
    0x01FFFFFF, 0x01FFFFFF, 0x01FFFFFF, 0x00800F00, 0x01FFFFFF, 0x01FFFFFF, 0x01FFFFFF, 0x00C00F00,
    0x00000D00, 0x00400D00, 0x00800D00, 0x00C00D00, 0x00000E00, 0x00400E00, 0x00800E00, 0x00C00E00,
    0x00000F00, 0x00400F00, 0x01FFFFFF, 0x01FFFFFF, 0x01FFFFFF, 0x01FFFFFF, 0x01FFFFFF, 0x01FFFFFF,
    0x01FFFFFF, 0x00000000, 0x00400000, 0x00800000, 0x00C00000, 0x00000100, 0x00400100, 0x00800100,
    0x00C00100, 0x00000200, 0x00400200, 0x00800200, 0x00C00200, 0x00000300, 0x00400300, 0x00800300,
    0x00C00300, 0x00000400, 0x00400400, 0x00800400, 0x00C00400, 0x00000500, 0x00400500, 0x00800500,
    0x00C00500, 0x00000600, 0x00400600, 0x01FFFFFF, 0x01FFFFFF, 0x01FFFFFF, 0x01FFFFFF, 0x01FFFFFF,
    0x01FFFFFF, 0x00800600, 0x00C00600, 0x00000700, 0x00400700, 0x00800700, 0x00C00700, 0x00000800,
    0x00400800, 0x00800800, 0x00C00800, 0x00000900, 0x00400900, 0x00800900, 0x00C00900, 0x00000A00,
    0x00400A00, 0x00800A00, 0x00C00A00, 0x00000B00, 0x00400B00, 0x00800B00, 0x00C00B00, 0x00000C00,
    0x00400C00, 0x00800C00, 0x00C00C00, 0x01FFFFFF, 0x01FFFFFF, 0x01FFFFFF, 0x01FFFFFF, 0x01FFFFFF,
    0x01FFFFFF, 0x01FFFFFF, 0x01FFFFFF, 0x01FFFFFF, 0x01FFFFFF, 0x01FFFFFF, 0x01FFFFFF, 0x01FFFFFF,
    0x01FFFFFF, 0x01FFFFFF, 0x01FFFFFF, 0x01FFFFFF, 0x01FFFFFF, 0x01FFFFFF, 0x01FFFFFF, 0x01FFFFFF,
    0x01FFFFFF, 0x01FFFFFF, 0x01FFFFFF, 0x01FFFFFF, 0x01FFFFFF, 0x01FFFFFF, 0x01FFFFFF, 0x01FFFFFF,
    0x01FFFFFF, 0x01FFFFFF, 0x01FFFFFF, 0x01FFFFFF, 0x01FFFFFF, 0x01FFFFFF, 0x01FFFFFF, 0x01FFFFFF,
    0x01FFFFFF, 0x01FFFFFF, 0x01FFFFFF, 0x01FFFFFF, 0x01FFFFFF, 0x01FFFFFF, 0x01FFFFFF, 0x01FFFFFF,
    0x01FFFFFF, 0x01FFFFFF, 0x01FFFFFF, 0x01FFFFFF, 0x01FFFFFF, 0x01FFFFFF, 0x01FFFFFF, 0x01FFFFFF,
    0x01FFFFFF, 0x01FFFFFF, 0x01FFFFFF, 0x01FFFFFF, 0x01FFFFFF, 0x01FFFFFF, 0x01FFFFFF, 0x01FFFFFF,
    0x01FFFFFF, 0x01FFFFFF, 0x01FFFFFF, 0x01FFFFFF, 0x01FFFFFF, 0x01FFFFFF, 0x01FFFFFF, 0x01FFFFFF,
    0x01FFFFFF, 0x01FFFFFF, 0x01FFFFFF, 0x01FFFFFF, 0x01FFFFFF, 0x01FFFFFF, 0x01FFFFFF, 0x01FFFFFF,
    0x01FFFFFF, 0x01FFFFFF, 0x01FFFFFF, 0x01FFFFFF, 0x01FFFFFF, 0x01FFFFFF, 0x01FFFFFF, 0x01FFFFFF,
    0x01FFFFFF, 0x01FFFFFF, 0x01FFFFFF, 0x01FFFFFF, 0x01FFFFFF, 0x01FFFFFF, 0x01FFFFFF, 0x01FFFFFF,
    0x01FFFFFF, 0x01FFFFFF, 0x01FFFFFF, 0x01FFFFFF, 0x01FFFFFF, 0x01FFFFFF, 0x01FFFFFF, 0x01FFFFFF,
    0x01FFFFFF, 0x01FFFFFF, 0x01FFFFFF, 0x01FFFFFF, 0x01FFFFFF, 0x01FFFFFF, 0x01FFFFFF, 0x01FFFFFF,
    0x01FFFFFF, 0x01FFFFFF, 0x01FFFFFF, 0x01FFFFFF, 0x01FFFFFF, 0x01FFFFFF, 0x01FFFFFF, 0x01FFFFFF,
    0x01FFFFFF, 0x01FFFFFF, 0x01FFFFFF, 0x01FFFFFF, 0x01FFFFFF, 0x01FFFFFF, 0x01FFFFFF, 0x01FFFFFF,
    0x01FFFFFF, 0x01FFFFFF, 0x01FFFFFF, 0x01FFFFFF, 0x01FFFFFF, 0x01FFFFFF, 0x01FFFFFF, 0x01FFFFFF]"

definition d3 :: "32 word list" where
  "d3 = [
    0x01FFFFFF, 0x01FFFFFF, 0x01FFFFFF, 0x01FFFFFF, 0x01FFFFFF, 0x01FFFFFF, 0x01FFFFFF, 0x01FFFFFF,
    0x01FFFFFF, 0x01FFFFFF, 0x01FFFFFF, 0x01FFFFFF, 0x01FFFFFF, 0x01FFFFFF, 0x01FFFFFF, 0x01FFFFFF,
    0x01FFFFFF, 0x01FFFFFF, 0x01FFFFFF, 0x01FFFFFF, 0x01FFFFFF, 0x01FFFFFF, 0x01FFFFFF, 0x01FFFFFF,
    0x01FFFFFF, 0x01FFFFFF, 0x01FFFFFF, 0x01FFFFFF, 0x01FFFFFF, 0x01FFFFFF, 0x01FFFFFF, 0x01FFFFFF,
    0x01FFFFFF, 0x01FFFFFF, 0x01FFFFFF, 0x01FFFFFF, 0x01FFFFFF, 0x01FFFFFF, 0x01FFFFFF, 0x01FFFFFF,
    0x01FFFFFF, 0x01FFFFFF, 0x01FFFFFF, 0x003E0000, 0x01FFFFFF, 0x01FFFFFF, 0x01FFFFFF, 0x003F0000,
    0x00340000, 0x00350000, 0x00360000, 0x00370000, 0x00380000, 0x00390000, 0x003A0000, 0x003B0000,
    0x003C0000, 0x003D0000, 0x01FFFFFF, 0x01FFFFFF, 0x01FFFFFF, 0x01FFFFFF, 0x01FFFFFF, 0x01FFFFFF,
    0x01FFFFFF, 0x00000000, 0x00010000, 0x00020000, 0x00030000, 0x00040000, 0x00050000, 0x00060000,
    0x00070000, 0x00080000, 0x00090000, 0x000A0000, 0x000B0000, 0x000C0000, 0x000D0000, 0x000E0000,
    0x000F0000, 0x00100000, 0x00110000, 0x00120000, 0x00130000, 0x00140000, 0x00150000, 0x00160000,
    0x00170000, 0x00180000, 0x00190000, 0x01FFFFFF, 0x01FFFFFF, 0x01FFFFFF, 0x01FFFFFF, 0x01FFFFFF,
    0x01FFFFFF, 0x001A0000, 0x001B0000, 0x001C0000, 0x001D0000, 0x001E0000, 0x001F0000, 0x00200000,
    0x00210000, 0x00220000, 0x00230000, 0x00240000, 0x00250000, 0x00260000, 0x00270000, 0x00280000,
    0x00290000, 0x002A0000, 0x002B0000, 0x002C0000, 0x002D0000, 0x002E0000, 0x002F0000, 0x00300000,
    0x00310000, 0x00320000, 0x00330000, 0x01FFFFFF, 0x01FFFFFF, 0x01FFFFFF, 0x01FFFFFF, 0x01FFFFFF,
    0x01FFFFFF, 0x01FFFFFF, 0x01FFFFFF, 0x01FFFFFF, 0x01FFFFFF, 0x01FFFFFF, 0x01FFFFFF, 0x01FFFFFF,
    0x01FFFFFF, 0x01FFFFFF, 0x01FFFFFF, 0x01FFFFFF, 0x01FFFFFF, 0x01FFFFFF, 0x01FFFFFF, 0x01FFFFFF,
    0x01FFFFFF, 0x01FFFFFF, 0x01FFFFFF, 0x01FFFFFF, 0x01FFFFFF, 0x01FFFFFF, 0x01FFFFFF, 0x01FFFFFF,
    0x01FFFFFF, 0x01FFFFFF, 0x01FFFFFF, 0x01FFFFFF, 0x01FFFFFF, 0x01FFFFFF, 0x01FFFFFF, 0x01FFFFFF,
    0x01FFFFFF, 0x01FFFFFF, 0x01FFFFFF, 0x01FFFFFF, 0x01FFFFFF, 0x01FFFFFF, 0x01FFFFFF, 0x01FFFFFF,
    0x01FFFFFF, 0x01FFFFFF, 0x01FFFFFF, 0x01FFFFFF, 0x01FFFFFF, 0x01FFFFFF, 0x01FFFFFF, 0x01FFFFFF,
    0x01FFFFFF, 0x01FFFFFF, 0x01FFFFFF, 0x01FFFFFF, 0x01FFFFFF, 0x01FFFFFF, 0x01FFFFFF, 0x01FFFFFF,
    0x01FFFFFF, 0x01FFFFFF, 0x01FFFFFF, 0x01FFFFFF, 0x01FFFFFF, 0x01FFFFFF, 0x01FFFFFF, 0x01FFFFFF,
    0x01FFFFFF, 0x01FFFFFF, 0x01FFFFFF, 0x01FFFFFF, 0x01FFFFFF, 0x01FFFFFF, 0x01FFFFFF, 0x01FFFFFF,
    0x01FFFFFF, 0x01FFFFFF, 0x01FFFFFF, 0x01FFFFFF, 0x01FFFFFF, 0x01FFFFFF, 0x01FFFFFF, 0x01FFFFFF,
    0x01FFFFFF, 0x01FFFFFF, 0x01FFFFFF, 0x01FFFFFF, 0x01FFFFFF, 0x01FFFFFF, 0x01FFFFFF, 0x01FFFFFF,
    0x01FFFFFF, 0x01FFFFFF, 0x01FFFFFF, 0x01FFFFFF, 0x01FFFFFF, 0x01FFFFFF, 0x01FFFFFF, 0x01FFFFFF,
    0x01FFFFFF, 0x01FFFFFF, 0x01FFFFFF, 0x01FFFFFF, 0x01FFFFFF, 0x01FFFFFF, 0x01FFFFFF, 0x01FFFFFF,
    0x01FFFFFF, 0x01FFFFFF, 0x01FFFFFF, 0x01FFFFFF, 0x01FFFFFF, 0x01FFFFFF, 0x01FFFFFF, 0x01FFFFFF,
    0x01FFFFFF, 0x01FFFFFF, 0x01FFFFFF, 0x01FFFFFF, 0x01FFFFFF, 0x01FFFFFF, 0x01FFFFFF, 0x01FFFFFF,
    0x01FFFFFF, 0x01FFFFFF, 0x01FFFFFF, 0x01FFFFFF, 0x01FFFFFF, 0x01FFFFFF, 0x01FFFFFF, 0x01FFFFFF]"

section \<open>Encoder (modp\_b64.cc)\<close>

definition CHARPAD :: byte where
  "CHARPAD = of_char (CHR ''='')"

definition modp_b64_encode_len :: "nat \<Rightarrow> nat" where
  "modp_b64_encode_len A = (A + 2) div 3 * 4 + 1"

definition modp_b64_decode_len :: "nat \<Rightarrow> nat" where
  "modp_b64_decode_len A = A div 4 * 3 + 2"

text \<open>
  The loop \<^verbatim>\<open>for (i = 0; i < len - 2; i += 3)\<close> over the input \<open>str\<close>, with the write cursor
  \<open>p\<close> into \<open>dest\<close>. It returns the buffer, the cursor and the final \<open>i\<close>.
\<close>

function b64_enc_loop :: "buf \<Rightarrow> int \<Rightarrow> nat \<Rightarrow> buf \<Rightarrow> nat \<Rightarrow> (buf \<times> nat \<times> nat) option" where
  "b64_enc_loop str len i dest p =
     (if int i < len - 2 then do {
        t1 \<leftarrow> load8 str i;
        t2 \<leftarrow> load8 str (i + 1);
        t3 \<leftarrow> load8 str (i + 2);
        dest \<leftarrow> store8 dest p (e0 ! unat t1);
        dest \<leftarrow> store8 dest (p + 1) (e1 ! unat (push_bit 4 (t1 AND 0x03) OR (drop_bit 4 t2 AND 0x0F)));
        dest \<leftarrow> store8 dest (p + 2) (e1 ! unat (push_bit 2 (t2 AND 0x0F) OR (drop_bit 6 t3 AND 0x03)));
        dest \<leftarrow> store8 dest (p + 3) (e2 ! unat t3);
        b64_enc_loop str len (i + 3) dest (p + 4)
      } else Some (dest, p, i))"
  by pat_completeness auto
termination
  by (relation "measure (\<lambda>(str, len, i, dest, p). nat (len - int i))") auto

declare b64_enc_loop.simps [simp del]

text \<open>The \<^verbatim>\<open>switch (len - i)\<close> on the remaining bytes, the terminating zero and the returned length.\<close>

definition b64_enc_tail :: "buf \<Rightarrow> int \<Rightarrow> nat \<Rightarrow> buf \<Rightarrow> nat \<Rightarrow> (buf \<times> nat) option" where
  "b64_enc_tail str len i dest p =
     (if len - int i = 0 then Some (dest, p)
      else if len - int i = 1 then do {
        t1 \<leftarrow> load8 str i;
        dest \<leftarrow> store8 dest p (e0 ! unat t1);
        dest \<leftarrow> store8 dest (p + 1) (e1 ! unat (push_bit 4 (t1 AND 0x03)));
        dest \<leftarrow> store8 dest (p + 2) CHARPAD;
        dest \<leftarrow> store8 dest (p + 3) CHARPAD;
        Some (dest, p + 4)
      } else do {
        t1 \<leftarrow> load8 str i;
        t2 \<leftarrow> load8 str (i + 1);
        dest \<leftarrow> store8 dest p (e0 ! unat t1);
        dest \<leftarrow> store8 dest (p + 1) (e1 ! unat (push_bit 4 (t1 AND 0x03) OR (drop_bit 4 t2 AND 0x0F)));
        dest \<leftarrow> store8 dest (p + 2) (e2 ! unat (push_bit 2 (t2 AND 0x0F)));
        dest \<leftarrow> store8 dest (p + 3) CHARPAD;
        Some (dest, p + 4)
      })"

definition modp_b64_encode :: "buf \<Rightarrow> buf \<Rightarrow> int \<Rightarrow> (buf \<times> int) option" where
  "modp_b64_encode dest str len = do {
     (dest, p, i) \<leftarrow> b64_enc_loop str len 0 dest 0;
     (dest, p) \<leftarrow> b64_enc_tail str len i dest p;
     dest \<leftarrow> store8 dest p 0;
     Some (dest, to_int32 p)
   }"

section \<open>Decoder (modp\_b64.cc, little-endian branch)\<close>

definition BADCHAR :: uint32 where
  "BADCHAR = 0x01FFFFFF"

text \<open>The table index \<^verbatim>\<open>(y >> 8*k) & 0xff\<close>, and the three lookups the decoder makes.\<close>

definition lane :: "nat \<Rightarrow> uint32 \<Rightarrow> nat" where
  "lane k y = unat (drop_bit (8 * k) y AND 0xFF)"

definition lookup4 :: "uint32 \<Rightarrow> uint32" where
  "lookup4 y = d0 ! lane 0 y OR d1 ! lane 1 y OR d2 ! lane 2 y OR d3 ! lane 3 y"

definition lookup3 :: "uint32 \<Rightarrow> uint32" where
  "lookup3 y = d0 ! lane 0 y OR d1 ! lane 1 y OR d2 ! lane 2 y"

definition lookup2 :: "uint32 \<Rightarrow> uint32" where
  "lookup2 y = d0 ! lane 0 y OR d1 ! lane 1 y"

text \<open>
  The loop over the full groups. An early \<^verbatim>\<open>return -1\<close> is \<^term>\<open>Inl\<close> with the buffer as it is
  then; the four-byte store \<^verbatim>\<open>*destInt = x\<close> and the look-ahead load \<^verbatim>\<open>y = *srcInt++\<close> are checked.
\<close>

fun b64_dec_loop ::
  "buf \<Rightarrow> nat \<Rightarrow> nat \<Rightarrow> uint32 \<Rightarrow> buf \<Rightarrow> nat \<Rightarrow> (buf \<times> int + buf \<times> nat \<times> uint32) option" where
  "b64_dec_loop src 0 si y dest p = Some (Inr (dest, p, y))"
| "b64_dec_loop src (Suc n) si y dest p =
     (let x = lookup4 y in
      if x \<ge> BADCHAR then Some (Inl (dest, -1))
      else do {
        dest \<leftarrow> store32 dest p x;
        y \<leftarrow> load32 src si;
        b64_dec_loop src n (si + 4) y dest (p + 3)
      })"

text \<open>The \<^verbatim>\<open>switch (leftover)\<close> and the two returns after it.\<close>

definition b64_dec_tail :: "nat \<Rightarrow> nat \<Rightarrow> uint32 \<Rightarrow> buf \<Rightarrow> nat \<Rightarrow> (buf \<times> int) option" where
  "b64_dec_tail chunks leftover y dest p =
     (if leftover = 0 then
        (let x = lookup4 y in
         if x \<ge> BADCHAR then Some (dest, -1)
         else do {
           dest \<leftarrow> store8 dest p (byte_at 0 x);
           dest \<leftarrow> store8 dest (p + 1) (byte_at 1 x);
           dest \<leftarrow> store8 dest (p + 2) (byte_at 2 x);
           Some (dest, (int chunks + 1) * 3)
         })
      else if leftover = 1 then
        (let x = d0 ! lane 0 y in do {
           dest \<leftarrow> store8 dest p (byte_at 0 x);
           Some (dest, if x \<ge> BADCHAR then -1 else 3 * int chunks + int ((6 * leftover) div 8))
         })
      else if leftover = 2 then
        (let x = lookup2 y in do {
           dest \<leftarrow> store8 dest p (byte_at 0 x);
           Some (dest, if x \<ge> BADCHAR then -1 else 3 * int chunks + int ((6 * leftover) div 8))
         })
      else
        (let x = lookup3 y in do {
           dest \<leftarrow> store8 dest p (byte_at 0 x);
           dest \<leftarrow> store8 dest (p + 1) (byte_at 1 x);
           Some (dest, if x \<ge> BADCHAR then -1 else 3 * int chunks + int ((6 * leftover) div 8))
         }))"

text \<open>
  The whole decoder. \<open>len\<close> is the \<^verbatim>\<open>int\<close> argument; C++ \<^verbatim>\<open>%\<close> and \<^verbatim>\<open>/\<close> are only reached for
  \<open>len \<ge> 4\<close>, where they agree with \<open>mod\<close> and \<open>div\<close> on the natural number.
\<close>

definition modp_b64_decode :: "buf \<Rightarrow> buf \<Rightarrow> int \<Rightarrow> (buf \<times> int) option" where
  "modp_b64_decode dest src len =
     (if len = 0 then Some (dest, 0)
      else if len < 4 \<or> len mod 4 \<noteq> 0 then Some (dest, -1)
      else do {
        c1 \<leftarrow> load8 src (nat len - 1);
        n \<leftarrow> (if c1 = CHARPAD
              then do {
                c2 \<leftarrow> load8 src (nat len - 2);
                Some (if c2 = CHARPAD then nat len - 2 else nat len - 1)
              } else Some (nat len));
        let leftover = n mod 4;
        let chunks = (if leftover = 0 then n div 4 - 1 else n div 4);
        y \<leftarrow> load32 src 0;
        r \<leftarrow> b64_dec_loop src chunks 4 y dest 0;
        (case r of
           Inl res \<Rightarrow> Some res
         | Inr (dest, p, y) \<Rightarrow> b64_dec_tail chunks leftover y dest p)
      })"

section \<open>String wrappers\<close>

text \<open>
  \<^verbatim>\<open>base64.cpp\<close>: \<^verbatim>\<open>bool Base64Encode(const std::string&, std::string&)\<close> and its inverse. The
  result pairs the returned \<open>bool\<close> with the new value of \<open>output\<close>; on failure the old value
  is kept.
\<close>

definition Base64Encode :: "byte list \<Rightarrow> byte list \<Rightarrow> (bool \<times> byte list) option" where
  "Base64Encode input output = do {
     (temp, output_size) \<leftarrow> modp_b64_encode (replicate (modp_b64_encode_len (length input)) 0)
                              input (to_int32 (length input));
     Some (if output_size < 0 then (False, output) else (True, take (nat output_size) temp))
   }"

definition Base64Decode :: "byte list \<Rightarrow> byte list \<Rightarrow> (bool \<times> byte list) option" where
  "Base64Decode input output = do {
     (temp, output_size) \<leftarrow> modp_b64_decode (replicate (modp_b64_decode_len (length input)) 0)
                              input (to_int32 (length input));
     Some (if output_size < 0 then (False, output) else (True, take (nat output_size) temp))
   }"

text \<open>The self-modifying variant of \<^verbatim>\<open>base64.h\<close>, used by the image upload: an empty string on failure.\<close>

definition Base64Decode_inplace :: "byte list \<Rightarrow> byte list option" where
  "Base64Decode_inplace s = do {
     (x, d) \<leftarrow> modp_b64_decode (replicate (modp_b64_decode_len (length s)) 0) s (to_int32 (length s));
     Some (if d < 0 then [] else take (nat d) x)
   }"

text \<open>
  Its encoder: \<^verbatim>\<open>x.erase(d, npos)\<close> with a negative \<open>d\<close> converts to a huge position and throws
  \<^verbatim>\<open>std::out_of_range\<close>, here \<^term>\<open>None\<close> as well.
\<close>

definition Base64Encode_inplace :: "byte list \<Rightarrow> byte list option" where
  "Base64Encode_inplace s = do {
     (x, d) \<leftarrow> modp_b64_encode (replicate (modp_b64_encode_len (length s)) 0) s (to_int32 (length s));
     (if d < 0 then None else Some (take (nat d) x))
   }"

section \<open>Reference encoding\<close>

definition b64_alphabet :: "byte list" where
  "b64_alphabet = bytes_of ''ABCDEFGHIJKLMNOPQRSTUVWXYZabcdefghijklmnopqrstuvwxyz0123456789+/''"

abbreviation sextet :: "byte \<Rightarrow> byte" where
  "sextet s \<equiv> b64_alphabet ! unat s"

fun b64_spec :: "byte list \<Rightarrow> byte list" where
  "b64_spec [] = []"
| "b64_spec [a] = [sextet (drop_bit 2 a), sextet (push_bit 4 (a AND 3)), CHARPAD, CHARPAD]"
| "b64_spec [a, b] =
     [sextet (drop_bit 2 a), sextet (push_bit 4 (a AND 3) OR drop_bit 4 b),
      sextet (push_bit 2 (b AND 15)), CHARPAD]"
| "b64_spec (a # b # c # xs) =
     [sextet (drop_bit 2 a), sextet (push_bit 4 (a AND 3) OR drop_bit 4 b),
      sextet (push_bit 2 (b AND 15) OR drop_bit 6 c), sextet (c AND 63)] @ b64_spec xs"

definition b64_val :: "byte \<Rightarrow> byte option" where
  "b64_val c =
     (if 65 \<le> c \<and> c \<le> 90 then Some (c - 65)
      else if 97 \<le> c \<and> c \<le> 122 then Some (c - 71)
      else if 48 \<le> c \<and> c \<le> 57 then Some (c + 4)
      else if c = 43 then Some 62
      else if c = 47 then Some 63
      else None)"

abbreviation is_b64 :: "byte \<Rightarrow> bool" where
  "is_b64 c \<equiv> b64_val c \<noteq> None"

lemma length_b64_spec: "length (b64_spec xs) = 4 * ((length xs + 2) div 3)"
  by (induction xs rule: b64_spec.induct) (simp_all, arith)

definition dec_table :: "(byte \<Rightarrow> uint32) \<Rightarrow> uint32 list" where
  "dec_table f = map (\<lambda>i. case b64_val (of_nat i) of None \<Rightarrow> BADCHAR | Some s \<Rightarrow> f s) [0..<256]"

definition lane0 :: "byte \<Rightarrow> uint32" where "lane0 s = push_bit 2 (ucast s)"
definition lane1 :: "byte \<Rightarrow> uint32" where
  "lane1 s = ucast (drop_bit 4 s) OR push_bit 12 (ucast (s AND 15))"
definition lane2 :: "byte \<Rightarrow> uint32" where
  "lane2 s = push_bit 8 (ucast (drop_bit 2 s)) OR push_bit 22 (ucast (s AND 3))"
definition lane3 :: "byte \<Rightarrow> uint32" where "lane3 s = push_bit 16 (ucast s)"

lemmas lane_defs = lane0_def lane1_def lane2_def lane3_def

lemma e0_table: "e0 = map (\<lambda>i. b64_alphabet ! (i div 4)) [0..<256]"
  by code_simp

lemma e1_table: "e1 = map (\<lambda>i. b64_alphabet ! (i mod 64)) [0..<256]"
  by code_simp

lemma e2_table: "e2 = map (\<lambda>i. b64_alphabet ! (i mod 64)) [0..<256]"
  by code_simp

lemma d0_table: "d0 = dec_table lane0"
  by code_simp

lemma d1_table: "d1 = dec_table lane1"
  by code_simp

lemma d2_table: "d2 = dec_table lane2"
  by code_simp

lemma d3_table: "d3 = dec_table lane3"
  by code_simp

lemma b64_val_alphabet: "list_all (\<lambda>i. b64_val (b64_alphabet ! i) = Some (of_nat i)) [0..<64]"
  by code_simp

lemma b64_val_range: "list_all (\<lambda>i. case b64_val (of_nat i) of None \<Rightarrow> True | Some s \<Rightarrow> s < 64) [0..<256]"
  by code_simp

lemma word8_cases: "unat (c :: byte) < 256"
  using unsigned_less [of c] by simp

lemma dec_table_nth: "dec_table f ! unat c = (case b64_val c of None \<Rightarrow> BADCHAR | Some s \<Rightarrow> f s)"
  by (simp add: dec_table_def word8_cases)

lemma b64_val_sextet [simp]: "s < 64 \<Longrightarrow> b64_val (sextet s) = Some s"
proof -
  assume "s < 64"
  then have "unat s < 64" by (simp add: word_less_nat_alt)
  then show ?thesis using b64_val_alphabet by (simp add: list_all_iff)
qed

lemma b64_val_less: "b64_val c = Some s \<Longrightarrow> s < 64"
  using b64_val_range word8_cases [of c] by (auto simp: list_all_iff dest: bspec [of _ _ "unat c"])

lemma and_mask [simp]:
  "(a :: 'a::len word) AND 3 = take_bit 2 a"
  "a AND 15 = take_bit 4 a"
  "a AND 63 = take_bit 6 a"
  "a AND 255 = take_bit 8 a"
  by (simp_all add: take_bit_eq_mask mask_eq_exp_minus_1)

lemma less64_iff: "(s :: byte) < 64 \<longleftrightarrow> take_bit 6 s = s"
  by (simp add: word_less_nat_alt word_unat_eq_iff unsigned_take_bit_eq take_bit_nat_eq_self_iff)

lemma sextet_bounds [simp]:
  "drop_bit 2 (a :: byte) < 64" "push_bit 4 (take_bit 2 a :: byte) < 64"
  "push_bit 4 (take_bit 2 a :: byte) OR drop_bit 4 b < 64"
  "push_bit 2 (take_bit 4 b :: byte) < 64" "push_bit 2 (take_bit 4 b :: byte) OR drop_bit 6 c < 64"
  "take_bit 6 c < (64 :: byte)"
  unfolding less64_iff by (rule bit_word_eqI; auto simp: bit_simps dest: bit_imp_le_length)+

lemma masked_bits [simp]:
  "take_bit 4 (drop_bit 4 (b :: byte)) = drop_bit 4 b"
  "take_bit 2 (drop_bit 6 (b :: byte)) = drop_bit 6 b"
  "take_bit 6 (push_bit 2 (take_bit 4 b :: byte)) = push_bit 2 (take_bit 4 b)"
  by (rule bit_word_eqI; auto simp: bit_simps dest: bit_imp_le_length)+

lemma lane_unat: "lane k x = unat (byte_at k x)"
  by (simp add: lane_def byte_at_def unsigned_take_bit_eq unsigned_ucast_eq)

lemma Suc_Suc_diff2: "2 \<le> n \<Longrightarrow> Suc (Suc (n - 2)) = n"
  by arith

lemma ucast_split2: "push_bit 2 (ucast (drop_bit 2 a)) OR ucast (take_bit 2 a) = (ucast (a :: byte) :: uint32)"
  by (rule bit_word_eqI) (auto simp: bit_simps Suc_Suc_diff2)

lemma ucast_split4: "push_bit 4 (ucast (drop_bit 4 a)) OR ucast (take_bit 4 a) = (ucast (a :: byte) :: uint32)"
  by (rule bit_word_eqI) (auto simp: bit_simps)
lemma ucast_split6: "push_bit 6 (ucast (drop_bit 6 a)) OR ucast (take_bit 6 a) = (ucast (a :: byte) :: uint32)"
  by (rule bit_word_eqI) (auto simp: bit_simps)

lemma lane1_split:
  "lane1 (push_bit 4 (take_bit 2 a) OR drop_bit 4 b) =
   ucast (take_bit 2 a) OR push_bit 8 (push_bit 4 (ucast (drop_bit 4 b)))"
  unfolding lane1_def and_mask by (rule bit_word_eqI) (auto simp: bit_simps dest: bit_imp_le_length)
lemma lane2_split:
  "lane2 (push_bit 2 (take_bit 4 b) OR drop_bit 6 c) =
   push_bit 8 (ucast (take_bit 4 b)) OR push_bit 16 (push_bit 6 (ucast (drop_bit 6 c)))"
  unfolding lane2_def and_mask by (rule bit_word_eqI) (auto simp: bit_simps dest: bit_imp_le_length)

lemma group3:
  "lane0 (drop_bit 2 a) OR lane1 (push_bit 4 (take_bit 2 a) OR drop_bit 4 b) OR
   lane2 (push_bit 2 (take_bit 4 b) OR drop_bit 6 c) OR lane3 (take_bit 6 c) = le32 a b c 0"
proof -
  have "le32 a b c 0 = (push_bit 2 (ucast (drop_bit 2 a)) OR ucast (take_bit 2 a)) OR
     push_bit 8 (push_bit 4 (ucast (drop_bit 4 b)) OR ucast (take_bit 4 b)) OR
     push_bit 16 (push_bit 6 (ucast (drop_bit 6 c)) OR ucast (take_bit 6 c))"
    unfolding le32_def ucast_split2 ucast_split4 ucast_split6 by simp
  then show ?thesis
    by (simp add: lane1_split lane2_split lane0_def lane3_def push_bit_or or.assoc)
qed

lemma group1: "lane0 (drop_bit 2 a) OR lane1 (push_bit 4 (take_bit 2 a)) = le32 a 0 0 0"
  using ucast_split2 [of a] lane1_split [of a 0] by (simp add: lane0_def le32_def)

lemma group2:
  "lane0 (drop_bit 2 a) OR lane1 (push_bit 4 (take_bit 2 a) OR drop_bit 4 b) OR
   lane2 (push_bit 2 (take_bit 4 b)) = le32 a b 0 0"
  using group3 [of a b 0] by (simp add: lane3_def)

lemma unat_less_64: "(s :: byte) < 64 \<Longrightarrow> unat s < 64"
  by (simp add: word_less_nat_alt)

lemma enc_tables:
  "e0 ! unat a = sextet (drop_bit 2 a)"
  "s < 64 \<Longrightarrow> e1 ! unat s = sextet s"
  "e2 ! unat c = sextet (take_bit 6 c)"
  using word8_cases [of a] word8_cases [of s] word8_cases [of c]
  by (simp_all add: e0_table e1_table e2_table drop_bit_eq_div take_bit_eq_mod unat_less_64 unat_div unat_mod)

lemma dec_tables:
  "d0 ! unat c = (case b64_val c of None \<Rightarrow> BADCHAR | Some s \<Rightarrow> lane0 s)"
  "d1 ! unat c = (case b64_val c of None \<Rightarrow> BADCHAR | Some s \<Rightarrow> lane1 s)"
  "d2 ! unat c = (case b64_val c of None \<Rightarrow> BADCHAR | Some s \<Rightarrow> lane2 s)"
  "d3 ! unat c = (case b64_val c of None \<Rightarrow> BADCHAR | Some s \<Rightarrow> lane3 s)"
  by (simp_all only: d0_table d1_table d2_table d3_table dec_table_nth)

lemma lookup_le32:
  "lookup4 (le32 c0 c1 c2 c3) = d0 ! unat c0 OR d1 ! unat c1 OR d2 ! unat c2 OR d3 ! unat c3"
  "lookup3 (le32 c0 c1 c2 c3) = d0 ! unat c0 OR d1 ! unat c1 OR d2 ! unat c2"
  "lookup2 (le32 c0 c1 c2 c3) = d0 ! unat c0 OR d1 ! unat c1"
  by (simp_all add: lookup4_def lookup3_def lookup2_def lane_unat)

text \<open>The first four characters of an encoding give back the bytes they encode.\<close>

lemma lookup_spec:
  "lookup4 (le32 (sextet (drop_bit 2 a)) (sextet (push_bit 4 (take_bit 2 a) OR drop_bit 4 b))
     (sextet (push_bit 2 (take_bit 4 b) OR drop_bit 6 c)) (sextet (take_bit 6 c))) = le32 a b c 0"
  "lookup3 (le32 (sextet (drop_bit 2 a)) (sextet (push_bit 4 (take_bit 2 a) OR drop_bit 4 b))
     (sextet (push_bit 2 (take_bit 4 b))) w3) = le32 a b 0 0"
  "lookup2 (le32 (sextet (drop_bit 2 a)) (sextet (push_bit 4 (take_bit 2 a))) w2 w3) = le32 a 0 0 0"
  by (simp_all add: lookup_le32 dec_tables group1 group2 group3)

lemma le32_not_bad [simp]: "\<not> BADCHAR \<le> le32 a b c 0"
proof -
  have "le32 a b c 0 = take_bit 24 (le32 a b c 0)"
    unfolding le32_def by (rule bit_word_eqI) (auto simp: bit_simps dest: bit_imp_le_length)
  moreover have "take_bit 24 x < BADCHAR" for x :: uint32
  proof -
    have "unat (take_bit 24 x) < 2 ^ 24"
      by (simp only: unsigned_take_bit_eq take_bit_nat_less_exp)
    then show ?thesis by (simp add: BADCHAR_def word_less_nat_alt)
  qed
  ultimately show ?thesis by (metis linorder_not_le)
qed

section \<open>The encoder computes the reference encoding\<close>

lemma store8_at:
  "store8 (out @ r0 # rest) (length out) v = Some (out @ v # rest)"
  "store8 (out @ r0 # r1 # rest) (Suc (length out)) v = Some (out @ r0 # v # rest)"
  "store8 (out @ r0 # r1 # r2 # rest) (Suc (Suc (length out))) v = Some (out @ r0 # r1 # v # rest)"
  "store8 (out @ r0 # r1 # r2 # r3 # rest) (length out + 3) v = Some (out @ r0 # r1 # r2 # v # rest)"
  by (simp_all add: store8_def list_update_append eval_nat_numeral)

lemma load8_at:
  "load8 (pre @ a # xs) (length pre) = Some a"
  "load8 (pre @ a # b # xs) (Suc (length pre)) = Some b"
  "load8 (pre @ a # b # c # xs) (Suc (Suc (length pre))) = Some c"
  by (simp_all add: load8_def nth_append)

lemma encode_run:
  assumes "length (b64_spec xs) \<le> length rest"
  shows "do {
       (dest, p, i) \<leftarrow> b64_enc_loop (pre @ xs) (int (length (pre @ xs))) (length pre) (out @ rest) (length out);
       b64_enc_tail (pre @ xs) (int (length (pre @ xs))) i dest p
     } = Some (out @ b64_spec xs @ drop (length (b64_spec xs)) rest, length out + length (b64_spec xs))"
  using assms
proof (induction xs arbitrary: pre out rest rule: b64_spec.induct)
  case 1
  then show ?case
    by (subst b64_enc_loop.simps) (simp add: b64_enc_tail_def)
next
  case (2 a)
  then obtain r0 r1 r2 r3 rest' where "rest = r0 # r1 # r2 # r3 # rest'"
    by (auto simp: Suc_le_length_iff)
  then show ?case
    by (subst b64_enc_loop.simps)
       (simp add: b64_enc_tail_def load8_at store8_at enc_tables)
next
  case (3 a b)
  then obtain r0 r1 r2 r3 rest' where "rest = r0 # r1 # r2 # r3 # rest'"
    by (auto simp: Suc_le_length_iff)
  then show ?case
    by (subst b64_enc_loop.simps)
       (simp add: b64_enc_tail_def load8_at store8_at enc_tables)
next
  case (4 a b c xs)
  then obtain r0 r1 r2 r3 rest' where rest: "rest = r0 # r1 # r2 # r3 # rest'"
    by (auto simp: Suc_le_length_iff)
  let ?g = "[sextet (drop_bit 2 a), sextet (push_bit 4 (take_bit 2 a) OR drop_bit 4 b),
      sextet (push_bit 2 (take_bit 4 b) OR drop_bit 6 c), sextet (take_bit 6 c)]"
  have "b64_enc_loop (pre @ a # b # c # xs) (int (length (pre @ a # b # c # xs))) (length pre)
          (out @ rest) (length out)
      = b64_enc_loop ((pre @ [a, b, c]) @ xs) (int (length ((pre @ [a, b, c]) @ xs))) (length (pre @ [a, b, c]))
          ((out @ ?g) @ rest') (length (out @ ?g))"
    by (subst b64_enc_loop.simps)
       (simp add: rest load8_at store8_at enc_tables, simp add: eval_nat_numeral)
  with "4.IH" [of rest' "pre @ [a, b, c]" "out @ ?g"] "4.prems" rest
  show ?case by simp
qed

theorem modp_b64_encode_correct:
  assumes "modp_b64_encode_len (length s) \<le> length dest" and "length (b64_spec s) < 2147483648"
  shows "modp_b64_encode dest s (int (length s)) =
     Some (b64_spec s @ 0 # drop (length (b64_spec s) + 1) dest, int (length (b64_spec s)))"
proof -
  let ?n = "length (b64_spec s)"
  from assms(1) have n: "?n < length dest"
    by (simp add: modp_b64_encode_len_def length_b64_spec)
  then obtain r rest where r: "drop ?n dest = r # rest" "rest = drop (?n + 1) dest"
    by (metis Cons_nth_drop_Suc Suc_eq_plus1)
  show ?thesis
    using encode_run [of s dest "[]" "[]"] n assms(2) r
    by (auto simp: modp_b64_encode_def store8_at split: option.splits prod.splits
          simp flip: bind_assoc elim!: bind_eq_Some_conv [THEN iffD1, elim_format])
qed

section \<open>The decoder inverts it\<close>

fun first_word :: "byte list \<Rightarrow> uint32" where
  "first_word (c0 # c1 # c2 # c3 # cs) = le32 c0 c1 c2 c3"
| "first_word cs = 0"

lemma b64_spec_ge4: "xs \<noteq> [] \<Longrightarrow> \<exists>w0 w1 w2 w3 ws. b64_spec xs = w0 # w1 # w2 # w3 # ws"
  by (cases xs rule: b64_spec.cases) auto

lemma load32_spec:
  assumes "xs \<noteq> []" and "k = length pre"
  shows "load32 (pre @ b64_spec xs) k = Some (first_word (b64_spec xs))"
  using b64_spec_ge4 [OF assms(1)] assms(2) by (auto simp: load32_append)

lemma dec_loop_spec:
  assumes "3 * n < length xs" and "3 * n < length rest"
  shows "\<exists>rest'. length rest' = length rest - 3 * n \<and>
     b64_dec_loop (pre @ b64_spec xs) n (length pre + 4) (first_word (b64_spec xs)) (out @ rest) (length out)
     = Some (Inr (out @ take (3 * n) xs @ rest', length out + 3 * n, first_word (b64_spec (drop (3 * n) xs))))"
  using assms
proof (induction n arbitrary: pre xs out rest)
  case 0
  then show ?case by auto
next
  case (Suc n)
  from Suc.prems(1) obtain a b c xs' where xs: "xs = a # b # c # xs'" and n: "3 * n < length xs'"
    by (cases xs rule: b64_spec.cases) auto
  then have xs': "xs' \<noteq> []" by auto
  from Suc.prems(2) have "Suc (Suc (Suc (Suc (3 * n)))) \<le> length rest" by simp
  then obtain r0 r1 r2 r3 rest' where rest: "rest = r0 # r1 # r2 # r3 # rest'" and "3 * n \<le> length rest'"
    by (auto simp: Suc_le_length_iff)
  then have rest': "3 * n < length (0 # rest' :: byte list)" by simp
  let ?g = "[sextet (drop_bit 2 a), sextet (push_bit 4 (take_bit 2 a) OR drop_bit 4 b),
      sextet (push_bit 2 (take_bit 4 b) OR drop_bit 6 c), sextet (take_bit 6 c)]"
  have spec: "pre @ b64_spec xs = (pre @ ?g) @ b64_spec xs'"
    by (simp add: xs)
  have ld: "load32 (pre @ b64_spec xs) (length pre + 4) = Some (first_word (b64_spec xs'))"
    unfolding spec by (rule load32_spec [OF xs']) simp
  have x: "lookup4 (first_word (b64_spec xs)) = le32 a b c 0"
    by (simp add: xs lookup_spec)
  have "b64_dec_loop (pre @ b64_spec xs) (Suc n) (length pre + 4) (first_word (b64_spec xs)) (out @ rest) (length out)
     = b64_dec_loop (pre @ b64_spec xs) n (length pre + 8) (first_word (b64_spec xs'))
         (out @ [a, b, c] @ 0 # rest') (length out + 3)"
    using store32_append [of out r0 r1 r2 r3 rest' "le32 a b c 0"]
    by (simp add: rest x ld add.commute)
  also have "\<dots> = b64_dec_loop ((pre @ ?g) @ b64_spec xs') n (length (pre @ ?g) + 4) (first_word (b64_spec xs'))
        ((out @ [a, b, c]) @ 0 # rest') (length (out @ [a, b, c]))"
    unfolding spec by (simp add: eval_nat_numeral)
  finally have step: "b64_dec_loop (pre @ b64_spec xs) (Suc n) (length pre + 4) (first_word (b64_spec xs)) (out @ rest) (length out)
     = \<dots>" .
  have "take (3 * Suc n) xs = [a, b, c] @ take (3 * n) xs'" "drop (3 * Suc n) xs = drop (3 * n) xs'"
    "length rest - 3 * Suc n = length (0 # rest' :: byte list) - 3 * n"
    by (simp_all add: xs rest numeral_3_eq_3)
  with Suc.IH [OF n rest', of "pre @ ?g" "out @ [a, b, c]"] show ?case
    unfolding step by (auto simp: add.assoc)
qed

lemma b64_spec_append: "length xs = 3 * n \<Longrightarrow> b64_spec (xs @ ys) = b64_spec xs @ b64_spec ys"
proof (induction n arbitrary: xs)
  case 0
  then show ?case by simp
next
  case (Suc n)
  then obtain a b c xs' where "xs = a # b # c # xs'" "length xs' = 3 * n"
    by (cases xs rule: b64_spec.cases) auto
  with Suc.IH [of xs'] show ?case by simp
qed

lemma group_cases:
  fixes g :: "byte list"
  assumes "length g = 1 \<or> length g = 2 \<or> length g = 3"
  shows "(\<exists>a. g = [a]) \<or> (\<exists>a b. g = [a, b]) \<or> (\<exists>a b c. g = [a, b, c])"
  using assms by (cases g rule: b64_spec.cases) auto

lemma last_group:
  fixes s :: "byte list"
  assumes "s \<noteq> []"
  obtains p g n where "s = p @ g" "length p = 3 * n"
    "(\<exists>a. g = [a]) \<or> (\<exists>a b. g = [a, b]) \<or> (\<exists>a b c. g = [a, b, c])"
proof
  let ?n = "(length s - 1) div 3"
  from assms have "0 < length s" by simp
  then have lt: "3 * ?n < length s" and le: "length s \<le> 3 * ?n + 3" by arith+
  show "s = take (3 * ?n) s @ drop (3 * ?n) s" by simp
  show "length (take (3 * ?n) s) = 3 * ?n" using lt by simp
  have "length (drop (3 * ?n) s) = 1 \<or> length (drop (3 * ?n) s) = 2 \<or> length (drop (3 * ?n) s) = 3"
    unfolding length_drop using lt le by arith
  then show "(\<exists>a. drop (3 * ?n) s = [a]) \<or> (\<exists>a b. drop (3 * ?n) s = [a, b]) \<or>
      (\<exists>a b c. drop (3 * ?n) s = [a, b, c])"
    by (rule group_cases)
qed

lemma sextet_not_pad [simp]: "s < 64 \<Longrightarrow> sextet s \<noteq> CHARPAD"
proof
  assume "s < 64" "sextet s = CHARPAD"
  moreover have "b64_val CHARPAD = None" by (simp add: b64_val_def CHARPAD_def)
  ultimately show False using b64_val_sextet [of s] by simp
qed

definition npad :: "byte list \<Rightarrow> nat" where
  "npad src = (if src ! (length src - 1) = CHARPAD
     then if src ! (length src - 2) = CHARPAD then 2 else 1 else 0)"

text \<open>On a source of \<open>n + 1\<close> groups the decoder runs \<open>n\<close> rounds of the loop, whatever the padding.\<close>

lemma decode_groups:
  assumes "length src = 4 * n + 4"
  shows "modp_b64_decode dest src (int (length src)) = do {
      y \<leftarrow> load32 src 0;
      r \<leftarrow> b64_dec_loop src n 4 y dest 0;
      (case r of Inl res \<Rightarrow> Some res
       | Inr (dest, p, y) \<Rightarrow> b64_dec_tail n ((4 - npad src) mod 4) y dest p)
    }"
proof -
  let ?L = "4 * n + 4"
  have L: "int ?L \<noteq> 0" "\<not> (int ?L < 4 \<or> int ?L mod 4 \<noteq> 0)" "nat (int ?L) = ?L"
    "?L - 1 = 4 * n + 3" "?L - 2 = 4 * n + 2" "?L mod 4 = 0" "?L div 4 - 1 = n"
    "(4 * n + 2) mod 4 = 2" "(4 * n + 3) mod 4 = 3" "(4 * n + 2) div 4 = n" "(4 * n + 3) div 4 = n"
    by (simp_all del: add_2_eq_Suc')
  have ld: "load8 src (4 * n + 3) = Some (src ! (4 * n + 3))" "load8 src (4 * n + 2) = Some (src ! (4 * n + 2))"
    using assms by (simp_all add: load8_def)
  have num: "(4 - 2) mod 4 = (2 :: nat)" "(4 - 1) mod 4 = (3 :: nat)" "(4 - 0) mod 4 = (0 :: nat)" by simp_all
  consider "src ! (4 * n + 3) = CHARPAD" "src ! (4 * n + 2) = CHARPAD"
    | "src ! (4 * n + 3) = CHARPAD" "src ! (4 * n + 2) \<noteq> CHARPAD"
    | "src ! (4 * n + 3) \<noteq> CHARPAD" by blast
  then show ?thesis
    unfolding npad_def assms modp_b64_decode_def
    by cases (simp_all only: L ld num if_True if_False bind.bind_lunit Let_def refl zero_neq_numeral
       not_False_eq_True simp_thms zero_neq_numeral [symmetric])
qed

theorem modp_b64_decode_encoded:
  assumes "modp_b64_decode_len (length (b64_spec s)) \<le> length dest"
  shows "\<exists>rest. modp_b64_decode dest (b64_spec s) (int (length (b64_spec s))) = Some (s @ rest, int (length s))"
proof (cases "s = []")
  case True
  then show ?thesis by (simp add: modp_b64_decode_def)
next
  case False
  then obtain p g n where s: "s = p @ g" and n: "length p = 3 * n"
    and g: "(\<exists>a. g = [a]) \<or> (\<exists>a b. g = [a, b]) \<or> (\<exists>a b c. g = [a, b, c])"
    by (rule last_group)
  have spec: "b64_spec s = b64_spec p @ b64_spec g" and lp: "length (b64_spec p) = 4 * n"
    using n by (simp_all add: s b64_spec_append length_b64_spec)
  from g have lg: "length (b64_spec g) = 4" "g \<noteq> []" by auto
  have ls: "length (b64_spec s) = 4 * n + 4" by (simp add: spec lp lg)
  have room: "3 * n + 5 \<le> length dest"
    using assms by (simp add: ls modp_b64_decode_len_def)
  have "3 * n < length s" "3 * n < length dest" using n lg(2) room by (auto simp: s)
  from dec_loop_spec [OF this, of "[]" "[]"] obtain rest' where
    len: "length rest' = length dest - 3 * n" and
    loop: "b64_dec_loop (b64_spec s) n 4 (first_word (b64_spec s)) dest 0 =
       Some (Inr (p @ rest', length p, first_word (b64_spec g)))"
    using n by (auto simp: s)
  from len room have "5 \<le> length rest'" by simp
  then obtain r0 r1 r2 rest where rest': "rest' = r0 # r1 # r2 # rest"
    by (auto simp: numeral_eq_Suc Suc_le_length_iff)
  have pad: "npad (b64_spec s) =
      (if b64_spec g ! 3 = CHARPAD then if b64_spec g ! 2 = CHARPAD then 2 else 1 else 0)"
    by (simp add: npad_def spec nth_append lp lg)
  have "modp_b64_decode dest (b64_spec s) (int (length (b64_spec s))) =
      b64_dec_tail n ((4 - npad (b64_spec s)) mod 4) (first_word (b64_spec g)) (p @ rest') (length p)"
    unfolding decode_groups [OF ls] using load32_spec [OF False, of 0 "[]"] loop by simp
  moreover from g consider (one) a where "g = [a]" | (two) a b where "g = [a, b]" | (three) a b c where "g = [a, b, c]"
    by blast
  then have "\<exists>rest. b64_dec_tail n ((4 - npad (b64_spec s)) mod 4) (first_word (b64_spec g)) (p @ rest') (length p)
      = Some (p @ g @ rest, 3 * int n + int (length g))"
    unfolding pad by cases (simp_all add: b64_dec_tail_def rest' store8_at lookup_spec)
  ultimately show ?thesis by (simp add: s n)
qed

section \<open>Every input: validation and memory safety\<close>

lemma BADCHAR_mask: "BADCHAR = mask 25"
  by (simp add: BADCHAR_def mask_eq_exp_minus_1)

definition tab_word :: "uint32 \<Rightarrow> bool" where
  "tab_word x \<longleftrightarrow> x = BADCHAR \<or> x = take_bit 24 x"

lemma take_bit_not_bad: "\<not> BADCHAR \<le> take_bit 24 z"
proof -
  have "unat (take_bit 24 z) < 2 ^ 24"
    by (simp only: unsigned_take_bit_eq take_bit_nat_less_exp)
  then show ?thesis by (simp add: BADCHAR_def word_le_nat_alt)
qed

lemma BADCHAR_absorb: "BADCHAR OR take_bit 24 z = BADCHAR" "take_bit 24 z OR BADCHAR = BADCHAR"
  unfolding BADCHAR_mask by (rule bit_word_eqI; auto simp: bit_simps)+

lemma tab_word_bad: "tab_word x \<Longrightarrow> BADCHAR \<le> x \<longleftrightarrow> x = BADCHAR"
  using take_bit_not_bad [of x] by (auto simp: tab_word_def)

lemma tab_word_or:
  assumes "tab_word x" "tab_word y"
  shows "tab_word (x OR y)" "x OR y = BADCHAR \<longleftrightarrow> x = BADCHAR \<or> y = BADCHAR"
proof -
  have small: "take_bit 24 u OR take_bit 24 v \<noteq> BADCHAR" for u v
    using take_bit_not_bad [of "u OR v"] by auto
  from assms show "tab_word (x OR y)" "x OR y = BADCHAR \<longleftrightarrow> x = BADCHAR \<or> y = BADCHAR"
    unfolding tab_word_def using BADCHAR_absorb small by (metis or.idem take_bit_or)+
qed

text \<open>A table entry is either the bad-character mark or fits in 24 bits.\<close>

lemma lane_small:
  assumes "s < 64"
  shows "lane0 s = take_bit 24 (lane0 s)" "lane1 s = take_bit 24 (lane1 s)"
    "lane2 s = take_bit 24 (lane2 s)" "lane3 s = take_bit 24 (lane3 s)"
proof -
  from assms have s: "s = take_bit 6 s" by (simp add: less64_iff)
  show "lane0 s = take_bit 24 (lane0 s)" "lane1 s = take_bit 24 (lane1 s)"
    "lane2 s = take_bit 24 (lane2 s)" "lane3 s = take_bit 24 (lane3 s)"
    unfolding lane_defs and_mask
    by (subst (1 2) s, rule bit_word_eqI, auto simp: bit_simps dest: bit_imp_le_length)+
qed

abbreviation entry :: "(byte \<Rightarrow> uint32) \<Rightarrow> byte \<Rightarrow> uint32" where
  "entry f c \<equiv> (case b64_val c of None \<Rightarrow> BADCHAR | Some s \<Rightarrow> f s)"

lemma tab_word_entry:
  "tab_word (entry lane0 c)" "tab_word (entry lane1 c)" "tab_word (entry lane2 c)" "tab_word (entry lane3 c)"
  unfolding tab_word_def using lane_small b64_val_less by (auto split: option.split)

lemma entry_bad:
  "entry lane0 c = BADCHAR \<longleftrightarrow> \<not> is_b64 c" "entry lane1 c = BADCHAR \<longleftrightarrow> \<not> is_b64 c"
  "entry lane2 c = BADCHAR \<longleftrightarrow> \<not> is_b64 c" "entry lane3 c = BADCHAR \<longleftrightarrow> \<not> is_b64 c"
  using lane_small b64_val_less take_bit_not_bad by (auto split: option.split) (metis order_refl)+

lemma lookup_bad:
  "BADCHAR \<le> lookup4 (le32 c0 c1 c2 c3) \<longleftrightarrow> \<not> (is_b64 c0 \<and> is_b64 c1 \<and> is_b64 c2 \<and> is_b64 c3)"
  "BADCHAR \<le> lookup3 (le32 c0 c1 c2 c3) \<longleftrightarrow> \<not> (is_b64 c0 \<and> is_b64 c1 \<and> is_b64 c2)"
  "BADCHAR \<le> lookup2 (le32 c0 c1 c2 c3) \<longleftrightarrow> \<not> (is_b64 c0 \<and> is_b64 c1)"
  unfolding lookup_le32 dec_tables
  by (simp_all only: tab_word_bad tab_word_or tab_word_entry entry_bad de_Morgan_conj)

lemma dec_loop_any:
  assumes "4 * n + 4 \<le> length cs" and "n = 0 \<or> p + 3 * n < length dest"
  shows "\<exists>d. length d = length dest \<and>
     b64_dec_loop (pre @ cs) n (length pre + 4) (first_word cs) dest p =
       Some (if list_all is_b64 (take (4 * n) cs) then Inr (d, p + 3 * n, first_word (drop (4 * n) cs)) else Inl (d, -1))"
  using assms
proof (induction n arbitrary: pre cs dest p)
  case 0
  then show ?case by auto
next
  case (Suc n)
  then have "Suc (Suc (Suc (Suc (Suc (Suc (Suc (Suc (4 * n)))))))) \<le> length cs" by simp
  then obtain c0 c1 c2 c3 cs' where cs: "cs = c0 # c1 # c2 # c3 # cs'" and n: "4 * n + 4 \<le> length cs'"
    by (auto simp: Suc_le_length_iff)
  then obtain f0 f1 f2 f3 fs where cs': "cs' = f0 # f1 # f2 # f3 # fs"
    by (auto simp: numeral_eq_Suc Suc_le_length_iff)
  have tk: "take (4 * Suc n) cs = c0 # c1 # c2 # c3 # take (4 * n) cs'" "drop (4 * Suc n) cs = drop (4 * n) cs'"
    by (simp_all add: cs numeral_eq_Suc)
  show ?case
  proof (cases "BADCHAR \<le> lookup4 (first_word cs)")
    case True
    then show ?thesis unfolding tk by (auto simp: cs lookup_bad)
  next
    case False
    let ?x = "lookup4 (first_word cs)"
    from Suc.prems obtain dest' where st: "store32 dest p ?x = Some dest'"
      by (auto simp: store32_def)
    then have len: "length dest' = length dest" by (rule length_store32)
    have ld: "load32 (pre @ cs) (length pre + 4) = Some (first_word cs')"
      using load32_append [of "pre @ [c0, c1, c2, c3]" f0 f1 f2 f3 fs] by (simp add: cs cs' eval_nat_numeral)
    have step: "b64_dec_loop (pre @ cs) (Suc n) (length pre + 4) (first_word cs) dest p =
        b64_dec_loop ((pre @ [c0, c1, c2, c3]) @ cs') n (length (pre @ [c0, c1, c2, c3]) + 4) (first_word cs') dest' (p + 3)"
      using False st ld by (simp add: cs eval_nat_numeral)
    have good: "list_all is_b64 (take (4 * Suc n) cs) = list_all is_b64 (take (4 * n) cs')"
      using False unfolding tk by (auto simp: cs lookup_bad)
    have "n = 0 \<or> p + 3 + 3 * n < length dest'" using Suc.prems len by auto
    moreover have "p + 3 * Suc n = p + 3 + 3 * n" by simp
    ultimately show ?thesis
      using Suc.IH [OF n, of "p + 3" dest' "pre @ [c0, c1, c2, c3]"] unfolding step good len tk(2) by (simp only:)
  qed
qed

definition b64_result :: "byte list \<Rightarrow> int" where
  "b64_result src =
     (if src = [] then 0
      else if \<not> 4 dvd length src then -1
      else if list_all is_b64 (take (length src - npad src) src)
      then int (length src div 4 * 3 - npad src) else -1)"

lemma dec_tail_any:
  assumes "length cs = 4" and "k \<le> 2" and "p + 2 < length dest"
  shows "\<exists>d. length d = length dest \<and> b64_dec_tail n ((4 - k) mod 4) (first_word cs) dest p =
     Some (d, if list_all is_b64 (take (4 - k) cs) then int (3 * n + 3 - k) else -1)"
proof -
  from assms(1) obtain c0 c1 c2 c3 where cs: "cs = [c0, c1, c2, c3]"
    by (auto simp: numeral_eq_Suc length_Suc_conv)
  from assms(2) consider "k = 0" | "k = 1" | "k = 2" by linarith
  then show ?thesis
    using assms(3)
    by cases (auto simp: cs b64_dec_tail_def lookup_bad store8_def Let_def)
qed

theorem modp_b64_decode_total:
  assumes "modp_b64_decode_len (length src) \<le> length dest"
  shows "\<exists>d. length d = length dest \<and>
     modp_b64_decode dest src (int (length src)) = Some (d, b64_result src)"
proof (cases "src \<noteq> [] \<and> 4 dvd length src")
  case False
  have "int (length src) mod 4 = 0 \<longleftrightarrow> 4 dvd length src" by presburger
  with False show ?thesis by (auto simp: modp_b64_decode_def b64_result_def)
next
  case True
  then obtain m where "length src = 4 * m" by (auto elim: dvdE)
  moreover from this True have "m \<noteq> 0" by (cases m) auto
  ultimately obtain n where n: "length src = 4 * n + 4" by (cases m) auto
  let ?k = "npad src"
  have k: "?k \<le> 2" by (simp add: npad_def)
  have room: "3 * n + 5 \<le> length dest" using assms by (simp add: n modp_b64_decode_len_def)
  from n have "4 * n + 4 \<le> length src" by simp
  moreover have "n = 0 \<or> 0 + 3 * n < length dest" using room by simp
  ultimately obtain d where d: "length d = length dest" and
    loop: "b64_dec_loop src n 4 (first_word src) dest 0 =
       Some (if list_all is_b64 (take (4 * n) src) then Inr (d, 3 * n, first_word (drop (4 * n) src)) else Inl (d, -1))"
    using dec_loop_any [of n src 0 dest "[]"] by auto
  have "length (drop (4 * n) src) = 4" using n by simp
  moreover have "3 * n + 2 < length d" using room d by simp
  ultimately obtain d' where d': "length d' = length d" and
    tail: "b64_dec_tail n ((4 - ?k) mod 4) (first_word (drop (4 * n) src)) d (3 * n) =
      Some (d', if list_all is_b64 (take (4 - ?k) (drop (4 * n) src)) then int (3 * n + 3 - ?k) else -1)"
    using dec_tail_any [of "drop (4 * n) src" ?k "3 * n" d n] k by blast
  obtain c0 c1 c2 c3 cs where "src = c0 # c1 # c2 # c3 # cs"
    using n by (cases src rule: first_word.cases) auto
  then have ld: "load32 src 0 = Some (first_word src)"
    using load32_append [of "[]"] by simp
  have "take (length src - ?k) src = take (4 * n) src @ take (4 - ?k) (drop (4 * n) src)"
    using k by (simp add: n take_add [symmetric])
  moreover have "length src div 4 * 3 - ?k = 3 * n + 3 - ?k" by (simp add: n)
  ultimately have res: "b64_result src = (if list_all is_b64 (take (4 * n) src) then
      if list_all is_b64 (take (4 - ?k) (drop (4 * n) src)) then int (3 * n + 3 - ?k) else -1 else -1)"
    using True unfolding b64_result_def by (simp only: list_all_append) simp
  show ?thesis
    unfolding decode_groups [OF n] res using d d' by (simp add: ld loop tail)
qed

section \<open>The string wrappers form a codec\<close>

text \<open>
  What a client of a text codec relies on: encoding a message of admissible size always
  succeeds, and decoding gives the message back.
\<close>

locale codec =
  fixes enc :: "'m \<Rightarrow> 't option" and dec :: "'t \<Rightarrow> 'm option" and admissible :: "'m \<Rightarrow> bool"
  assumes enc_succeeds: "admissible m \<Longrightarrow> \<exists>t. enc m = Some t"
    and dec_enc: "admissible m \<Longrightarrow> enc m = Some t \<Longrightarrow> dec t = Some m"
begin

lemma enc_inj: "admissible m \<Longrightarrow> admissible m' \<Longrightarrow> enc m = enc m' \<Longrightarrow> m = m'"
  using enc_succeeds [of m] dec_enc [of m] dec_enc [of m'] by auto

text \<open>A batch is encoded element by element; decoding every element gives the batch back.\<close>

lemma batch_round_trip:
  assumes "list_all admissible ms"
  shows "\<exists>ts. those (map enc ms) = Some ts \<and> those (map dec ts) = Some ms"
  using assms
proof (induction ms)
  case Nil
  then show ?case by simp
next
  case (Cons m ms)
  then obtain ts where ts: "those (map enc ms) = Some ts" "those (map dec ts) = Some ms" by auto
  from Cons.prems enc_succeeds [of m] obtain t where "enc m = Some t" by auto
  with ts Cons.prems dec_enc [of m t] show ?case by simp
qed

end

definition b64_admissible :: "byte list \<Rightarrow> bool" where
  "b64_admissible s \<longleftrightarrow> (length s + 2) div 3 * 4 < 2147483648"

definition encode_text :: "byte list \<Rightarrow> byte list option" where
  "encode_text s = (case Base64Encode s [] of Some (True, t) \<Rightarrow> Some t | _ \<Rightarrow> None)"

definition decode_text :: "byte list \<Rightarrow> byte list option" where
  "decode_text t = (case Base64Decode t [] of Some (True, s) \<Rightarrow> Some s | _ \<Rightarrow> None)"

lemma b64_admissible_len:
  assumes "b64_admissible s"
  shows "length s < 2147483648" "length (b64_spec s) < 2147483648"
  using assms unfolding b64_admissible_def length_b64_spec by arith+

lemma encode_buffer:
  assumes "b64_admissible s"
  shows "\<exists>rest. modp_b64_encode (replicate (modp_b64_encode_len (length s)) 0) s (to_int32 (length s)) =
     Some (b64_spec s @ rest, int (length (b64_spec s)))"
  using modp_b64_encode_correct [of s] b64_admissible_len [OF assms] by simp

lemma decode_buffer:
  assumes "b64_admissible s"
  shows "\<exists>rest. modp_b64_decode (replicate (modp_b64_decode_len (length (b64_spec s))) 0) (b64_spec s)
     (to_int32 (length (b64_spec s))) = Some (s @ rest, int (length s))"
  using modp_b64_decode_encoded [of s] b64_admissible_len [OF assms] by simp

lemma Base64Encode_spec: "b64_admissible s \<Longrightarrow> Base64Encode s out = Some (True, b64_spec s)"
  using encode_buffer [of s] by (auto simp: Base64Encode_def)

lemma Base64Decode_spec: "b64_admissible s \<Longrightarrow> Base64Decode (b64_spec s) out = Some (True, s)"
  using decode_buffer [of s] by (auto simp: Base64Decode_def)

lemma Base64Encode_inplace_spec: "b64_admissible s \<Longrightarrow> Base64Encode_inplace s = Some (b64_spec s)"
  using encode_buffer [of s] by (auto simp: Base64Encode_inplace_def)

lemma Base64Decode_inplace_spec: "b64_admissible s \<Longrightarrow> Base64Decode_inplace (b64_spec s) = Some s"
  using decode_buffer [of s] by (auto simp: Base64Decode_inplace_def)

interpretation b64: codec encode_text decode_text b64_admissible
  by unfold_locales (auto simp: encode_text_def decode_text_def Base64Encode_spec Base64Decode_spec)

interpretation b64_inplace: codec Base64Encode_inplace Base64Decode_inplace b64_admissible
  by unfold_locales (auto simp: Base64Encode_inplace_spec Base64Decode_inplace_spec)

section \<open>Properties\<close>

text \<open>
  C18: Encoding and decoding through the string wrappers of \<^verbatim>\<open>base64.cpp\<close> is lossless. For
  every input whose encoding fits an \<open>int\<close>, \<^verbatim>\<open>Base64Encode\<close> returns true with some text, no
  access of the encoder or of the decoder leaves its buffer, and \<^verbatim>\<open>Base64Decode\<close> of that text
  returns true with the input, whatever the output strings held before.
\<close>

theorem base64_round_trip:
  assumes "b64_admissible s"
  shows "\<exists>t. Base64Encode s out = Some (True, t) \<and> Base64Decode t out' = Some (True, s)"
  using assms by (simp add: Base64Encode_spec Base64Decode_spec)

theorem base64_round_trip_witness:
  "\<exists>t. Base64Encode (bytes_of ''rcar'') [] = Some (True, t) \<and> Base64Decode t [] = Some (True, bytes_of ''rcar'')"
  by (rule base64_round_trip) (simp add: b64_admissible_def)

text \<open>
  C19: The encoder writes the RFC 4648 text of its input, a terminating zero after it, and
  nothing else of a buffer of the advertised size; it returns the length of the text without
  the zero.
\<close>

theorem modp_b64_encode_writes_spec:
  assumes "modp_b64_encode_len (length s) \<le> length dest" and "b64_admissible s"
  shows "modp_b64_encode dest s (int (length s)) =
     Some (b64_spec s @ 0 # drop (length (b64_spec s) + 1) dest, int (length (b64_spec s)))"
  by (rule modp_b64_encode_correct) (use assms b64_admissible_len in auto)

theorem modp_b64_encode_writes_spec_witness:
  "modp_b64_encode (replicate 10 7) (bytes_of ''rcar'') 4 = Some (bytes_of ''cmNhcg=='' @ [0, 7], 8)"
proof -
  have "b64_spec (bytes_of ''rcar'') = bytes_of ''cmNhcg==''" by code_simp
  moreover have "b64_admissible (bytes_of ''rcar'')"
    by (simp add: b64_admissible_def)
  ultimately show ?thesis
    using modp_b64_encode_writes_spec [of "bytes_of ''rcar''" "replicate 10 7"]
    by (simp add: modp_b64_encode_len_def)
qed

text \<open>
  C20: The decoder on every input, well-formed or not: with a destination of the advertised
  size it never leaves its buffers, and what it returns is determined by the text alone: 0 for
  the empty text, \<open>-1\<close> when the length is no multiple of four or a character before the
  padding is not of the alphabet, and the number of decoded bytes otherwise.
\<close>

theorem modp_b64_decode_validates:
  assumes "modp_b64_decode_len (length src) \<le> length dest"
  shows "\<exists>d. length d = length dest \<and>
     modp_b64_decode dest src (int (length src)) = Some (d, b64_result src)"
  using assms by (rule modp_b64_decode_total)

theorem modp_b64_decode_validates_witness:
  "\<exists>d. length d = 5 \<and> modp_b64_decode (replicate 5 0) (bytes_of ''cm,h'') 4 = Some (d, -1)"
proof -
  have "b64_result (bytes_of ''cm,h'') = -1" by code_simp
  then show ?thesis
    using modp_b64_decode_validates [of "bytes_of ''cm,h''" "replicate 5 0"]
    by (simp add: modp_b64_decode_len_def)
qed

end
