(* ===== verification/Api_Base.thy ===== *)
theory Api_Base
  imports Std_Map
begin

text \<open>
  What the request handlers of \<^verbatim>\<open>src/apl-server/uri\<close> are made of: JSON values and BSON documents
  as data, the libraries they call, the state they change, and the few control structures they use.

  jsoncpp, the MongoDB driver, the AMQP client and the clock are not part of the repository. Their
  calls are the fields of \<open>lib\<close>, as is the floating-point function \<^verbatim>\<open>get_distance\<close> of \<^verbatim>\<open>utils.h\<close>; \<^term>\<open>None\<close> is an exception of the library. The state of the
  database is of any type \<open>'db\<close>. A handler is a function on the \<open>world\<close>: the database, the messages
  published so far, the JSON object of the reply, the number of object identifiers generated and the
  time. It returns an API code or throws; a \<^verbatim>\<open>mongo::DBException\<close> is caught in the handler, any other
  exception leaves it. Logging is left out, apart from \<^verbatim>\<open>Resource::log\<close> itself, see theory \<open>Log\<close>.
\<close>

named_theorems api_simps \<open>unfolding of handlers and their building blocks\<close>

section \<open>Data\<close>

text \<open>A \<^verbatim>\<open>double\<close> is only passed on: its bits.\<close>

type_synonym double = "64 word"

datatype json =
  JNull | JInt int | JUInt nat | JReal double | JString string | JBool bool
  | JArray "json list" | JObject "(string, json) smap"

datatype bson =
  BString string | BInt int | BDouble double | BOid string | BBool bool
  | BArray "bson list" | BObj "(string \<times> bson) list"

section \<open>Error codes\<close>

definition APIE_OK :: int where [api_simps]: "APIE_OK = 0"
definition APIE_CLIENT_INTERNAL :: int where [api_simps]: "APIE_CLIENT_INTERNAL = 1"
definition APIE_NO_CONNECTION :: int where [api_simps]: "APIE_NO_CONNECTION = 2"
definition APIE_INVALID_CLIENT_REQ :: int where [api_simps]: "APIE_INVALID_CLIENT_REQ = 3"
definition APIE_INVALID_PARAM :: int where [api_simps]: "APIE_INVALID_PARAM = 4"
definition APIE_SERVER_INTERNAL :: int where [api_simps]: "APIE_SERVER_INTERNAL = 5"
definition APIE_USER_ALREADY_EXIST :: int where [api_simps]: "APIE_USER_ALREADY_EXIST = 6"
definition APIE_SELLER_ALREADY_EXIST :: int where [api_simps]: "APIE_SELLER_ALREADY_EXIST = 7"
definition APIE_NO_SERVICE :: int where [api_simps]: "APIE_NO_SERVICE = 8"
definition APIE_USER_NO_EXIST :: int where [api_simps]: "APIE_USER_NO_EXIST = 9"
definition APIE_SELLER_NO_EXIST :: int where [api_simps]: "APIE_SELLER_NO_EXIST = 10"
definition APIE_COMMODITY_NO_EXIST :: int where [api_simps]: "APIE_COMMODITY_NO_EXIST = 11"
definition APIE_MAINTENANCE_NO_EXIST :: int where [api_simps]: "APIE_MAINTENANCE_NO_EXIST = 12"
definition APIE_PWD_ERROR :: int where [api_simps]: "APIE_PWD_ERROR = 13"
definition APIE_CAR_NO_EXIST :: int where [api_simps]: "APIE_CAR_NO_EXIST = 14"
definition APIE_NO_FAVORITE :: int where [api_simps]: "APIE_NO_FAVORITE = 15"
definition APIE_NO_SELLER_FIND :: int where [api_simps]: "APIE_NO_SELLER_FIND = 16"

section \<open>Libraries\<close>

record 'db lib =
  js_member :: "json \<Rightarrow> string \<Rightarrow> json option"
  js_index :: "json \<Rightarrow> nat \<Rightarrow> json option"
  js_size :: "json \<Rightarrow> nat"
  js_empty :: "json \<Rightarrow> bool"
  js_asString :: "json \<Rightarrow> string option"
  js_asInt :: "json \<Rightarrow> int option"
  js_asDouble :: "json \<Rightarrow> double option"
  js_asUInt :: "json \<Rightarrow> nat option"
  js_iterate :: "json \<Rightarrow> json list"
  js_put :: "json \<Rightarrow> string \<Rightarrow> json \<Rightarrow> json option"
  js_append :: "json \<Rightarrow> json \<Rightarrow> json option"
  bs_getStringField :: "bson \<Rightarrow> string \<Rightarrow> string"
  bs_getIntField :: "bson \<Rightarrow> string \<Rightarrow> int"
  bs_getObjectField :: "bson \<Rightarrow> string \<Rightarrow> bson"
  bs_hasField :: "bson \<Rightarrow> string \<Rightarrow> bool"
  bs_elements :: "bson \<Rightarrow> bson list"
  bs_str :: "bson \<Rightarrow> string"
  bs_Obj :: "bson \<Rightarrow> bson option"
  bs_getField :: "bson \<Rightarrow> string \<Rightarrow> bson option"
  bs_index :: "bson \<Rightarrow> nat \<Rightarrow> bson option"
  bs_Double :: "bson \<Rightarrow> double option"
  bs_fieldToString :: "bson \<Rightarrow> string \<Rightarrow> string"
  bson_to_json :: "bson \<Rightarrow> json"
  json_to_bson :: "json \<Rightarrow> bson option"
  oid_string :: "nat \<Rightarrow> string"
  db_connect :: "'db \<Rightarrow> bool"
  db_query :: "'db \<Rightarrow> string \<Rightarrow> bson \<Rightarrow> bson list option"
  db_query_n :: "'db \<Rightarrow> string \<Rightarrow> bson \<Rightarrow> int \<Rightarrow> int \<Rightarrow> bson list option"
  db_insert :: "'db \<Rightarrow> string \<Rightarrow> bson \<Rightarrow> 'db option"
  db_update :: "'db \<Rightarrow> string \<Rightarrow> bson \<Rightarrow> bson \<Rightarrow> bool \<Rightarrow> bool \<Rightarrow> 'db option"
  db_remove :: "'db \<Rightarrow> string \<Rightarrow> bson \<Rightarrow> 'db option"
  mq_connect :: bool
  get_distance :: "double \<Rightarrow> double \<Rightarrow> double \<Rightarrow> double \<Rightarrow> double"

text \<open>\<^verbatim>\<open>v[key].asInt()\<close> and \<^verbatim>\<open>v[key].asString()\<close> as values\<close>

definition int_member :: "'db lib \<Rightarrow> json \<Rightarrow> string \<Rightarrow> int option" where
  "int_member L v key = Option.bind (js_member L v key) (js_asInt L)"

definition str_member :: "'db lib \<Rightarrow> json \<Rightarrow> string \<Rightarrow> string option" where
  "str_member L v key = Option.bind (js_member L v key) (js_asString L)"

section \<open>State and control\<close>

datatype exn = DBException | OtherException

datatype result = Ret int | Throw exn

record 'db world =
  w_db :: 'db
  w_published :: "json list"
  w_out :: json
  w_oids :: nat
  w_time :: string

type_synonym 'db prog = "'db world \<Rightarrow> result \<times> 'db world"

definition ret :: "int \<Rightarrow> 'db prog" where
  [api_simps]: "ret code w = (Ret code, w)"

definition throw :: "exn \<Rightarrow> 'db prog" where
  [api_simps]: "throw e w = (Throw e, w)"

text \<open>The value of a library call, or its exception.\<close>

definition val_or :: "exn \<Rightarrow> 'a option \<Rightarrow> ('a \<Rightarrow> 'db prog) \<Rightarrow> 'db prog" where
  [api_simps]: "val_or e x k = (case x of None \<Rightarrow> throw e | Some v \<Rightarrow> k v)"

text \<open>\<^verbatim>\<open>try { ... } catch (const mongo::DBException &e) { return APIE_SERVER_INTERNAL; }\<close>\<close>

definition try_db :: "'db prog \<Rightarrow> 'db prog" where
  [api_simps]: "try_db p w =
     (case p w of (Throw DBException, w') \<Rightarrow> (Ret APIE_SERVER_INTERNAL, w') | r \<Rightarrow> r)"

text \<open>\<^verbatim>\<open>content[key]\<close> and \<^verbatim>\<open>content[key].asString()\<close>\<close>

definition member_of :: "'db lib \<Rightarrow> json \<Rightarrow> string \<Rightarrow> (json \<Rightarrow> 'db prog) \<Rightarrow> 'db prog" where
  [api_simps]: "member_of L v key k = val_or OtherException (js_member L v key) k"

definition str_of :: "'db lib \<Rightarrow> json \<Rightarrow> string \<Rightarrow> (string \<Rightarrow> 'db prog) \<Rightarrow> 'db prog" where
  [api_simps]: "str_of L v key k = member_of L v key (\<lambda>x. val_or OtherException (js_asString L x) k)"

definition int_of :: "'db lib \<Rightarrow> json \<Rightarrow> string \<Rightarrow> (int \<Rightarrow> 'db prog) \<Rightarrow> 'db prog" where
  [api_simps]: "int_of L v key k = member_of L v key (\<lambda>x. val_or OtherException (js_asInt L x) k)"

definition double_of :: "'db lib \<Rightarrow> json \<Rightarrow> string \<Rightarrow> (double \<Rightarrow> 'db prog) \<Rightarrow> 'db prog" where
  [api_simps]: "double_of L v key k = member_of L v key (\<lambda>x. val_or OtherException (js_asDouble L x) k)"

text \<open>\<^verbatim>\<open>out[key] = v\<close> on the reply\<close>

definition out_put :: "'db lib \<Rightarrow> string \<Rightarrow> json \<Rightarrow> 'db prog \<Rightarrow> 'db prog" where
  [api_simps]: "out_put L key v p w =
     (case js_put L (w_out w) key v of None \<Rightarrow> throw OtherException w | Some j \<Rightarrow> p (w\<lparr>w_out := j\<rparr>))"

fun out_puts :: "'db lib \<Rightarrow> (string \<times> json) list \<Rightarrow> 'db prog \<Rightarrow> 'db prog" where
  "out_puts L [] p = p"
| "out_puts L ((key, v) # kvs) p = out_put L key v (out_puts L kvs p)"

text \<open>A value built by assigning members to a fresh \<^verbatim>\<open>Json::Value\<close>, and by appending to a fresh array\<close>

definition js_build :: "'db lib \<Rightarrow> (string \<times> json) list \<Rightarrow> json option" where
  "js_build L kvs = foldl (\<lambda>acc kv. Option.bind acc (\<lambda>j. js_put L j (fst kv) (snd kv))) (Some JNull) kvs"

definition js_array :: "'db lib \<Rightarrow> json list \<Rightarrow> json option" where
  "js_array L vs = foldl (\<lambda>acc v. Option.bind acc (\<lambda>j. js_append L j v)) (Some (JArray [])) vs"

text \<open>A list built by appending to a \<^verbatim>\<open>Json::Value\<close> that starts as null\<close>

definition js_list :: "'db lib \<Rightarrow> json list \<Rightarrow> json option" where
  "js_list L vs = foldl (\<lambda>acc v. Option.bind acc (\<lambda>j. js_append L j v)) (Some JNull) vs"

text \<open>Database calls\<close>

definition connect :: "'db lib \<Rightarrow> 'db prog \<Rightarrow> 'db prog" where
  [api_simps]: "connect L p w = (if db_connect L (w_db w) then p w else throw DBException w)"

definition query :: "'db lib \<Rightarrow> string \<Rightarrow> bson \<Rightarrow> (bson list \<Rightarrow> 'db prog) \<Rightarrow> 'db prog" where
  [api_simps]: "query L coll q k w = val_or DBException (db_query L (w_db w) coll q) k w"

text \<open>\<^verbatim>\<open>c.query(coll, q, num, offset)\<close>\<close>

definition query_n :: "'db lib \<Rightarrow> string \<Rightarrow> bson \<Rightarrow> int \<Rightarrow> int \<Rightarrow> (bson list \<Rightarrow> 'db prog) \<Rightarrow> 'db prog" where
  [api_simps]: "query_n L coll q num offset k w = val_or DBException (db_query_n L (w_db w) coll q num offset) k w"

definition db_change :: "'db option \<Rightarrow> 'db prog \<Rightarrow> 'db prog" where
  [api_simps]: "db_change d p w = (case d of None \<Rightarrow> throw DBException w | Some d \<Rightarrow> p (w\<lparr>w_db := d\<rparr>))"

definition insert_into :: "'db lib \<Rightarrow> string \<Rightarrow> bson \<Rightarrow> 'db prog \<Rightarrow> 'db prog" where
  [api_simps]: "insert_into L coll d p w = db_change (db_insert L (w_db w) coll d) p w"

definition update :: "'db lib \<Rightarrow> string \<Rightarrow> bson \<Rightarrow> bson \<Rightarrow> bool \<Rightarrow> bool \<Rightarrow> 'db prog \<Rightarrow> 'db prog" where
  [api_simps]: "update L coll q u upsert multi p w = db_change (db_update L (w_db w) coll q u upsert multi) p w"

definition remove_from :: "'db lib \<Rightarrow> string \<Rightarrow> bson \<Rightarrow> 'db prog \<Rightarrow> 'db prog" where
  [api_simps]: "remove_from L coll q p w = db_change (db_remove L (w_db w) coll q) p w"

text \<open>\<^verbatim>\<open>OID::gen().toString()\<close> and \<^verbatim>\<open>get_customstring_time()\<close>\<close>

definition gen_oid :: "'db lib \<Rightarrow> (string \<Rightarrow> 'db prog) \<Rightarrow> 'db prog" where
  [api_simps]: "gen_oid L k w = k (oid_string L (w_oids w)) (w\<lparr>w_oids := w_oids w + 1\<rparr>)"

definition get_customstring_time :: "(string \<Rightarrow> 'db prog) \<Rightarrow> 'db prog" where
  [api_simps]: "get_customstring_time k w = k (w_time w) w"

text \<open>A loop that collects a value for every element\<close>

fun for_each :: "('a \<Rightarrow> ('b \<Rightarrow> 'db prog) \<Rightarrow> 'db prog) \<Rightarrow> 'a list \<Rightarrow> 'b list \<Rightarrow> ('b list \<Rightarrow> 'db prog) \<Rightarrow> 'db prog" where
  "for_each f [] acc k = k acc"
| "for_each f (x # xs) acc k = f x (\<lambda>y. for_each f xs (acc @ [y]) k)"

section \<open>Collections and helpers of uri/db.cpp\<close>

definition DB_SESSION :: string where "DB_SESSION = ''rcar-base.session''"
definition DB_USR :: string where "DB_USR = ''rcar-user.user''"
definition DB_USRMNG :: string where "DB_USRMNG = ''rcar-user.usermng''"
definition DB_CAR :: string where "DB_CAR = ''rcar-carinfo.cars''"
definition DB_SELLER :: string where "DB_SELLER = ''rcar-seller.seller''"
definition DB_ACTIVITY :: string where "DB_ACTIVITY = ''rcar-seller.activity''"
definition DB_MSG :: string where "DB_MSG = ''rcar-msg.msg''"
definition DB_STORE :: string where "DB_STORE = ''rcar-commodity.commodities''"
definition DB_ADS :: string where "DB_ADS = ''rcar-advertisement.ads''"
definition DB_ACCUSATION :: string where "DB_ACCUSATION = ''rcar-base.accusation''"
definition DB_ORDER :: string where "DB_ORDER = ''rcar-order.order''"
definition DB_SOS :: string where "DB_SOS = ''rcar-sos.sos''"
definition DB_COUPON :: string where "DB_COUPON = ''rcar.coupon''"
definition DB_COMMENT :: string where "DB_COMMENT = ''rcar-base.comment''"
definition DB_CITY :: string where "DB_CITY = ''rcar-base.cities''"

lemmas db_names = DB_SESSION_def DB_USR_def DB_USRMNG_def DB_CAR_def DB_SELLER_def DB_ACTIVITY_def
  DB_MSG_def DB_STORE_def DB_ADS_def DB_ACCUSATION_def DB_ORDER_def DB_SOS_def DB_COUPON_def
  DB_COMMENT_def DB_CITY_def

abbreviation str_fields :: "(string \<times> string) list \<Rightarrow> bson" where
  "str_fields kvs \<equiv> BObj (map (\<lambda>(k, v). (k, BString v)) kvs)"

text \<open>\<^verbatim>\<open>rcar::tojson\<close> with and without a key, and \<^verbatim>\<open>rcar::fromjson\<close>\<close>

definition tojson_key :: "'db lib \<Rightarrow> bson \<Rightarrow> string \<Rightarrow> json" where
  "tojson_key L root key =
     bson_to_json L (if bs_hasField L root key then bs_getObjectField L root key else root)"

definition fromjson_key :: "'db lib \<Rightarrow> json \<Rightarrow> string \<Rightarrow> (bson \<Rightarrow> 'db prog) \<Rightarrow> 'db prog" where
  "fromjson_key L root key k = member_of L root key (\<lambda>v. val_or DBException (json_to_bson L v) k)"

definition fromjson :: "'db lib \<Rightarrow> json \<Rightarrow> (bson \<Rightarrow> 'db prog) \<Rightarrow> 'db prog" where
  "fromjson L root k = val_or DBException (json_to_bson L root) k"

fun getImageNames_loop :: "'db lib \<Rightarrow> nat \<Rightarrow> string list \<Rightarrow> (string list \<Rightarrow> 'db prog) \<Rightarrow> 'db prog" where
  "getImageNames_loop L 0 ids k = k ids"
| "getImageNames_loop L (Suc n) ids k =
     gen_oid L (\<lambda>oid. getImageNames_loop L n (ids @ [oid @ ''.jpeg'']) k)"

definition getImageNames :: "'db lib \<Rightarrow> json \<Rightarrow> (string list \<Rightarrow> 'db prog) \<Rightarrow> 'db prog" where
  "getImageNames L number k =
     val_or OtherException (js_asInt L number) (\<lambda>n. getImageNames_loop L (nat n) [] k)"

definition getImageNamesFromBson_root :: "'db lib \<Rightarrow> bson \<Rightarrow> json option" where
  "getImageNamesFromBson_root L names = js_array L (map (\<lambda>e. JString (bs_str L e)) (bs_elements L names))"

definition getImageNamesFromBson :: "'db lib \<Rightarrow> bson \<Rightarrow> string \<Rightarrow> json option" where
  "getImageNamesFromBson L root key =
     js_array L (if bs_hasField L root key
       then map (\<lambda>e. JString (bs_str L e)) (bs_elements L (bs_getObjectField L root key)) else [])"

fun getImagesNameFromJson_loop :: "'db lib \<Rightarrow> json \<Rightarrow> nat \<Rightarrow> nat \<Rightarrow> string list option" where
  "getImagesNameFromJson_loop L names i 0 = Some []"
| "getImagesNameFromJson_loop L names i (Suc n) = do {
     v \<leftarrow> js_index L names i;
     s \<leftarrow> js_asString L v;
     rest \<leftarrow> getImagesNameFromJson_loop L names (i + 1) n;
     Some (s # rest)
   }"

definition getImagesNameFromJson :: "'db lib \<Rightarrow> json \<Rightarrow> string list option" where
  "getImagesNameFromJson L names = getImagesNameFromJson_loop L names 0 (js_size L names)"

section \<open>Code that several handlers share\<close>

text \<open>New image names for a request, also told to the client: the two lines that every writer has.\<close>

definition new_images :: "'db lib \<Rightarrow> json \<Rightarrow> (bson \<Rightarrow> 'db prog) \<Rightarrow> 'db prog" where
  "new_images L content k =
     member_of L content ''images'' (\<lambda>number.
     getImageNames L number (\<lambda>names.
     val_or OtherException (getImageNamesFromBson_root L (BArray (map BString names))) (\<lambda>images.
     out_put L ''images'' images (k (BArray (map BString names))))))"

text \<open>
  The \<^verbatim>\<open>Json::Value\<close> a reader builds for one document: string members, each from a field of the
  document, and the image names. The list of these values for all documents of a cursor.
\<close>

definition str_members :: "'db lib \<Rightarrow> (string \<times> string) list \<Rightarrow> bson \<Rightarrow> (string \<times> json) list" where
  "str_members L fs d = map (\<lambda>(k, f). (k, JString (bs_getStringField L d f))) fs"

definition doc_info :: "'db lib \<Rightarrow> (string \<times> string) list \<Rightarrow> bson \<Rightarrow> json option" where
  "doc_info L fs d = do {
     images \<leftarrow> getImageNamesFromBson L d ''images'';
     js_build L (str_members L fs d @ [(''images'', images)])
   }"

definition doc_infos :: "'db lib \<Rightarrow> (string \<times> string) list \<Rightarrow> bson list \<Rightarrow> json option" where
  "doc_infos L fs ds = Option.bind (those (map (doc_info L fs) ds)) (js_list L)"

text \<open>The objects that are elements of an array; \<^verbatim>\<open>Obj()\<close> of anything else throws.\<close>

definition objs :: "'db lib \<Rightarrow> bson list \<Rightarrow> bson list option" where
  "objs L es = those (map (bs_Obj L) es)"

text \<open>\<^verbatim>\<open>p[i].Obj()\<close> for an \<^verbatim>\<open>int\<close>; an index that the array does not have throws, too.\<close>

definition obj_at :: "'db lib \<Rightarrow> bson \<Rightarrow> int \<Rightarrow> bson option" where
  "obj_at L p i = (if i < 0 then None else Option.bind (bs_index L p (nat i)) (bs_Obj L))"

definition objs_at :: "'db lib \<Rightarrow> bson \<Rightarrow> int list \<Rightarrow> bson list option" where
  "objs_at L p is = those (map (obj_at L p) is)"

definition nFields :: "'db lib \<Rightarrow> bson \<Rightarrow> int" where
  "nFields L p = int (length (bs_elements L p))"

section \<open>Publishing, uri/message.cpp\<close>

definition MessageTypePushToSingle :: int where "MessageTypePushToSingle = 1"
definition MessageTypePushToBatch :: int where "MessageTypePushToBatch = 2"

text \<open>Without a connection to the broker the message is dropped.\<close>

definition pushMessage :: "'db lib \<Rightarrow> json option \<Rightarrow> 'db prog \<Rightarrow> 'db prog" where
  [api_simps]: "pushMessage L msg p w =
     (case msg of None \<Rightarrow> throw OtherException w
      | Some m \<Rightarrow> if mq_connect L then p (w\<lparr>w_published := w_published w @ [m]\<rparr>) else p w)"

definition push_single :: "'db lib \<Rightarrow> string \<Rightarrow> string \<Rightarrow> json \<Rightarrow> json option" where
  "push_single L to target msg = js_build L
     [(''method'', JInt MessageTypePushToSingle), (''to'', JString to), (''target'', JString target), (''msg'', msg)]"

definition push_batch :: "'db lib \<Rightarrow> string \<Rightarrow> string list \<Rightarrow> json \<Rightarrow> json option" where
  "push_batch L to ids msg = do {
     targets \<leftarrow> js_array L (map JString ids);
     js_build L [(''method'', JInt MessageTypePushToBatch), (''to'', JString to), (''targets'', targets), (''msg'', msg)]
   }"

definition pushMessageToUsers :: "'db lib \<Rightarrow> string list \<Rightarrow> json \<Rightarrow> 'db prog \<Rightarrow> 'db prog" where
  "pushMessageToUsers L ids msg p =
     (if ids = [] \<or> js_empty L msg then p else pushMessage L (push_batch L ''user'' ids msg) p)"

definition pushMessageToUser :: "'db lib \<Rightarrow> string \<Rightarrow> json \<Rightarrow> 'db prog \<Rightarrow> 'db prog" where
  "pushMessageToUser L ident msg p =
     (if ident = [] \<or> js_empty L msg then p else pushMessage L (push_single L ''user'' ident msg) p)"

definition pushMessageToSellers :: "'db lib \<Rightarrow> string list \<Rightarrow> json \<Rightarrow> 'db prog \<Rightarrow> 'db prog" where
  "pushMessageToSellers L ids msg p = pushMessage L (push_batch L ''seller'' ids msg) p"

definition pushMessageToSeller :: "'db lib \<Rightarrow> string \<Rightarrow> json \<Rightarrow> 'db prog \<Rightarrow> 'db prog" where
  "pushMessageToSeller L ident msg p =
     (if ident = [] \<or> js_empty L msg then p else pushMessage L (push_single L ''seller'' ident msg) p)"

section \<open>Resources\<close>

text \<open>The methods \<^verbatim>\<open>Resource\<close> itself implements all answer 400.\<close>

definition Resource_default :: "'db lib \<Rightarrow> json \<Rightarrow> 'db prog" where
  "Resource_default L content = ret 400"

end
