(* ===== verification/Api_Laws.thy ===== *)
theory Api_Laws
  imports Api_Base
begin

text \<open>
  Reasoning about handlers. First what the handlers rely on: the documented behaviour of jsoncpp
  (\<open>json_ok\<close>), of the BSON accessors (\<open>bson_ok\<close>) and of the MongoDB driver (\<open>mongo_ok\<close>), as
  hypotheses on a \<open>lib\<close>. Then a weakest-precondition calculus for the control structures of
  the handlers, and the contract that all handlers share as a locale. Last a library that satisfies
  the hypotheses, for the witnesses.
\<close>

named_theorems wp_simps \<open>weakest preconditions of the building blocks\<close>

section \<open>Documented behaviour of the libraries\<close>

definition json_ok :: "'db lib \<Rightarrow> bool" where
  "json_ok L \<longleftrightarrow>
     (\<forall>m k. js_member L (JObject m) k = Some (case map_of m k of None \<Rightarrow> JNull | Some v \<Rightarrow> v)) \<and>
     (\<forall>k. js_member L JNull k = Some JNull) \<and>
     (\<forall>s. js_asString L (JString s) = Some s) \<and> js_asString L JNull = Some [] \<and>
     (\<forall>n. js_asInt L (JInt n) = Some n) \<and> js_asInt L JNull = Some 0 \<and>
     (\<forall>d. js_asDouble L (JReal d) = Some d) \<and> js_asDouble L JNull = Some 0 \<and>
     (\<forall>k v. js_put L JNull k v = Some (JObject [(k, v)])) \<and>
     (\<forall>m k v. js_put L (JObject m) k v = Some (JObject (smap_put k v m))) \<and>
     (\<forall>vs v. js_append L (JArray vs) v = Some (JArray (vs @ [v]))) \<and> (\<forall>v. js_append L JNull v = Some (JArray [v])) \<and>
     (\<forall>vs i. js_index L (JArray vs) i = Some (if i < length vs then vs ! i else JNull)) \<and>
     (\<forall>i. js_index L JNull i = Some JNull) \<and>
     (\<forall>vs. js_size L (JArray vs) = length vs) \<and> (\<forall>m. js_size L (JObject m) = length m) \<and> js_size L JNull = 0 \<and>
     (\<forall>vs. js_iterate L (JArray vs) = vs) \<and> js_iterate L JNull = [] \<and>
     (\<forall>vs. js_empty L (JArray vs) = (vs = [])) \<and> (\<forall>m. js_empty L (JObject m) = (m = [])) \<and> js_empty L JNull"

text \<open>The first field of a name.\<close>

fun bfield :: "bson \<Rightarrow> string \<Rightarrow> bson option" where
  "bfield (BObj fs) k = map_of fs k"
| "bfield _ k = None"

text \<open>The accessors also read an element of an array by its number, which is not the name of a field.\<close>

fun name_key :: "string \<Rightarrow> bool" where
  "name_key [] = True"
| "name_key (c # cs) = (c \<notin> set ''0123456789'')"

definition fields_ok :: "'db lib \<Rightarrow> bool" where
  "fields_ok L \<longleftrightarrow> (\<forall>d k. name_key k \<longrightarrow>
     bs_getStringField L d k = (case bfield d k of Some (BString s) \<Rightarrow> s | _ \<Rightarrow> []) \<and>
     bs_hasField L d k = (bfield d k \<noteq> None) \<and>
     bs_getObjectField L d k =
        (case bfield d k of Some (BObj fs) \<Rightarrow> BObj fs | Some (BArray vs) \<Rightarrow> BArray vs | _ \<Rightarrow> BObj []) \<and>
     bs_getField L d k = bfield d k)"

definition values_ok :: "'db lib \<Rightarrow> bool" where
  "values_ok L \<longleftrightarrow>
     (\<forall>vs. bs_elements L (BArray vs) = vs) \<and> (\<forall>fs. bs_elements L (BObj fs) = map snd fs) \<and>
     (\<forall>s. bs_str L (BString s) = s) \<and> (\<forall>d. bs_Double L (BDouble d) = Some d) \<and>
     (\<forall>s. bs_Obj L (BString s) = None) \<and> (\<forall>fs. bs_Obj L (BObj fs) = Some (BObj fs)) \<and> (\<forall>vs. bs_Obj L (BArray vs) = Some (BArray vs)) \<and>
     (\<forall>vs i. bs_index L (BArray vs) i = (if i < length vs then Some (vs ! i) else None)) \<and>
     (\<forall>fs. bs_index L (BObj fs) 0 = map_of fs ''0'')"

definition prints_ok :: "'db lib \<Rightarrow> bool" where
  "prints_ok L \<longleftrightarrow> (\<forall>d k s. bfield d k = Some (BString s) \<longrightarrow> bs_fieldToString L d k = k @ '': \"'' @ s @ ''\"'')"

definition bson_ok :: "'db lib \<Rightarrow> bool" where
  "bson_ok L \<longleftrightarrow> fields_ok L \<and> values_ok L \<and> prints_ok L"

text \<open>
  Queries by string fields, and the update operators \<^verbatim>\<open>$set\<close>, \<^verbatim>\<open>$push\<close>, \<^verbatim>\<open>$pull\<close> and \<^verbatim>\<open>$addToSet\<close>.
  A field that is an array matches the values of its elements. The laws are for the names of fields,
  not for paths with dots and operators.
\<close>

fun has_value :: "bson \<Rightarrow> bson option \<Rightarrow> bool" where
  "has_value v None = False"
| "has_value v (Some (BArray vs)) = (v = BArray vs \<or> v \<in> set vs)"
| "has_value v (Some x) = (x = v)"

definition matches :: "(string \<times> string) list \<Rightarrow> bson \<Rightarrow> bool" where
  "matches q d \<longleftrightarrow> (\<forall>(k, v) \<in> set q. has_value (BString v) (bfield d k))"

fun plain_keys :: "(string \<times> 'a) list \<Rightarrow> bool" where
  "plain_keys [] = True"
| "plain_keys ((k, v) # kvs) = (CHR ''.'' \<notin> set k \<and> CHR ''$'' \<notin> set k \<and> plain_keys kvs)"

fun put_field :: "string \<Rightarrow> bson \<Rightarrow> (string \<times> bson) list \<Rightarrow> (string \<times> bson) list" where
  "put_field k v [] = [(k, v)]"
| "put_field k v ((k', v') # fs) = (if k' = k then (k, v) # fs else (k', v') # put_field k v fs)"

fun set_field :: "string \<Rightarrow> bson \<Rightarrow> bson \<Rightarrow> bson" where
  "set_field k v (BObj fs) = BObj (put_field k v fs)"
| "set_field k v d = d"

fun elems :: "bson option \<Rightarrow> bson list" where
  "elems (Some (BArray vs)) = vs"
| "elems _ = []"

text \<open>What \<^verbatim>\<open>$pull\<close> removes: the elements equal to a value, or those with all the fields of a document.\<close>

fun pulls :: "bson \<Rightarrow> bson \<Rightarrow> bool" where
  "pulls (BObj fs) x \<longleftrightarrow> (\<forall>(k, v) \<in> set fs. has_value v (bfield x k))"
| "pulls v x \<longleftrightarrow> x = v"

datatype operator = Set_op | Push_op | Pull_op | AddToSet_op

fun op_doc :: "operator \<Rightarrow> (string \<times> bson) list \<Rightarrow> bson" where
  "op_doc Set_op kvs = BObj [(''$set'', BObj kvs)]"
| "op_doc Push_op kvs = BObj [(''$push'', BObj kvs)]"
| "op_doc Pull_op kvs = BObj [(''$pull'', BObj kvs)]"
| "op_doc AddToSet_op kvs = BObj [(''$addToSet'', BObj kvs)]"

fun apply_op :: "operator \<Rightarrow> string \<times> bson \<Rightarrow> bson \<Rightarrow> bson" where
  "apply_op Set_op (k, v) d = set_field k v d"
| "apply_op Push_op (k, v) d = set_field k (BArray (elems (bfield d k) @ [v])) d"
| "apply_op Pull_op (k, v) d =
     (if bfield d k = None then d else set_field k (BArray (filter (\<lambda>x. \<not> pulls v x) (elems (bfield d k)))) d)"
| "apply_op AddToSet_op (k, v) d =
     (if v \<in> set (elems (bfield d k)) then d else set_field k (BArray (elems (bfield d k) @ [v])) d)"

definition apply_ops :: "operator \<Rightarrow> (string \<times> bson) list \<Rightarrow> bson \<Rightarrow> bson" where
  "apply_ops oper kvs d = fold (apply_op oper) kvs d"

text \<open>An update with several operators\<close>

fun op_name :: "operator \<Rightarrow> string" where
  "op_name Set_op = ''$set''"
| "op_name Push_op = ''$push''"
| "op_name Pull_op = ''$pull''"
| "op_name AddToSet_op = ''$addToSet''"

definition op_docs :: "(operator \<times> (string \<times> bson) list) list \<Rightarrow> bson" where
  "op_docs us = BObj (map (\<lambda>(oper, kvs). (op_name oper, BObj kvs)) us)"

definition apply_all :: "(operator \<times> (string \<times> bson) list) list \<Rightarrow> bson \<Rightarrow> bson" where
  "apply_all us d = fold (\<lambda>(oper, kvs). apply_ops oper kvs) us d"

lemma op_docs_single: "op_docs [(oper, kvs)] = op_doc oper kvs"
  by (cases oper) (simp_all add: op_docs_def)

fun update_first :: "('a \<Rightarrow> bool) \<Rightarrow> ('a \<Rightarrow> 'a) \<Rightarrow> 'a list \<Rightarrow> 'a list" where
  "update_first P f [] = []"
| "update_first P f (x # xs) = (if P x then f x # xs else x # update_first P f xs)"

text \<open>
  \<open>docs db c\<close> is the content of collection \<open>c\<close>. The driver adds an \<^verbatim>\<open>_id\<close> to a document that has
  none; every call may fail with an exception instead.
\<close>

definition with_id :: "bson \<Rightarrow> bson \<Rightarrow> bson" where
  "with_id i d = (case d of BObj fs \<Rightarrow> if map_of fs ''_id'' = None then BObj ((''_id'', i) # fs) else d | _ \<Rightarrow> d)"

definition finds_ok :: "'db lib \<Rightarrow> ('db \<Rightarrow> string \<Rightarrow> bson list) \<Rightarrow> bool" where
  "finds_ok L docs \<longleftrightarrow>
     (\<forall>db c q ds. db_query L db c (str_fields q) = Some ds \<longrightarrow> plain_keys q \<longrightarrow> ds = filter (matches q) (docs db c))"

text \<open>A limit of 0 is no limit.\<close>

definition pages_ok :: "'db lib \<Rightarrow> ('db \<Rightarrow> string \<Rightarrow> bson list) \<Rightarrow> bool" where
  "pages_ok L docs \<longleftrightarrow>
     (\<forall>db c q num offset ds. db_query_n L db c (str_fields q) num offset = Some ds \<longrightarrow> plain_keys q \<longrightarrow> 0 \<le> num \<longrightarrow> 0 \<le> offset \<longrightarrow>
        ds = (if num = 0 then id else take (nat num)) (drop (nat offset) (filter (matches q) (docs db c))))"

definition inserts_ok :: "'db lib \<Rightarrow> ('db \<Rightarrow> string \<Rightarrow> bson list) \<Rightarrow> bool" where
  "inserts_ok L docs \<longleftrightarrow>
     (\<forall>db c d db'. db_insert L db c d = Some db' \<longrightarrow> (\<exists>i. docs db' = (docs db)(c := docs db c @ [with_id i d])))"

definition updates_ok :: "'db lib \<Rightarrow> ('db \<Rightarrow> string \<Rightarrow> bson list) \<Rightarrow> bool" where
  "updates_ok L docs \<longleftrightarrow>
     (\<forall>db c q us ups db'. db_update L db c (str_fields q) (op_docs us) ups False = Some db' \<longrightarrow>
        plain_keys q \<longrightarrow> (\<forall>(oper, kvs) \<in> set us. plain_keys kvs) \<longrightarrow> (\<exists>d \<in> set (docs db c). matches q d) \<or> \<not> ups \<longrightarrow>
        docs db' = (docs db)(c := update_first (matches q) (apply_all us) (docs db c)))"

text \<open>An upsert that matches nothing inserts the fields of the query, changed by the operator.\<close>

definition upserts_ok :: "'db lib \<Rightarrow> ('db \<Rightarrow> string \<Rightarrow> bson list) \<Rightarrow> bool" where
  "upserts_ok L docs \<longleftrightarrow>
     (\<forall>db c q oper kvs db'. db_update L db c (str_fields q) (op_doc oper kvs) True False = Some db' \<longrightarrow>
        plain_keys q \<longrightarrow> plain_keys kvs \<longrightarrow> \<not> (\<exists>d \<in> set (docs db c). matches q d) \<longrightarrow>
        (\<exists>i. docs db' = (docs db)(c := docs db c @ [with_id i (apply_ops oper kvs (str_fields q))])))"

definition removes_ok :: "'db lib \<Rightarrow> ('db \<Rightarrow> string \<Rightarrow> bson list) \<Rightarrow> bool" where
  "removes_ok L docs \<longleftrightarrow>
     (\<forall>db c q db'. db_remove L db c (str_fields q) = Some db' \<longrightarrow> plain_keys q \<longrightarrow>
        docs db' = (docs db)(c := filter (\<lambda>d. \<not> matches q d) (docs db c)))"

text \<open>Whatever the query and the update are, other collections stay as they are.\<close>

definition frames_ok :: "'db lib \<Rightarrow> ('db \<Rightarrow> string \<Rightarrow> bson list) \<Rightarrow> bool" where
  "frames_ok L docs \<longleftrightarrow>
     (\<forall>db c q u ups multi db' c'. db_update L db c q u ups multi = Some db' \<longrightarrow> c' \<noteq> c \<longrightarrow> docs db' c' = docs db c')"

text \<open>
  What any query finds is in the collection and has the fields of the query, apart from those with a
  path or with operators, which are documents.
\<close>

fun is_doc :: "bson \<Rightarrow> bool" where
  "is_doc (BObj fs) = True"
| "is_doc _ = False"

definition selects :: "(string \<times> bson) list \<Rightarrow> bson \<Rightarrow> bool" where
  "selects fs d \<longleftrightarrow> (\<forall>(k, v) \<in> set fs. plain_keys [(k, v)] \<longrightarrow> \<not> is_doc v \<longrightarrow> has_value v (bfield d k))"

definition narrows_ok :: "'db lib \<Rightarrow> ('db \<Rightarrow> string \<Rightarrow> bson list) \<Rightarrow> bool" where
  "narrows_ok L docs \<longleftrightarrow>
     (\<forall>db c fs ds. db_query L db c (BObj fs) = Some ds \<longrightarrow> (\<forall>d \<in> set ds. d \<in> set (docs db c) \<and> selects fs d)) \<and>
     (\<forall>db c fs num offset ds. db_query_n L db c (BObj fs) num offset = Some ds \<longrightarrow>
        (\<forall>d \<in> set ds. d \<in> set (docs db c) \<and> selects fs d))"

definition mongo_ok :: "'db lib \<Rightarrow> ('db \<Rightarrow> string \<Rightarrow> bson list) \<Rightarrow> bool" where
  "mongo_ok L docs \<longleftrightarrow> finds_ok L docs \<and> pages_ok L docs \<and> inserts_ok L docs \<and> updates_ok L docs \<and>
     upserts_ok L docs \<and> removes_ok L docs \<and> frames_ok L docs \<and> narrows_ok L docs"

lemma mongo_query:
  "mongo_ok L docs \<Longrightarrow> db_query L db c (str_fields q) = Some ds \<Longrightarrow> plain_keys q \<Longrightarrow> ds = filter (matches q) (docs db c)"
  unfolding mongo_ok_def finds_ok_def by blast

lemma mongo_query_n:
  assumes "mongo_ok L docs" "db_query_n L db c (str_fields q) num offset = Some ds" "plain_keys q" "0 \<le> num" "0 \<le> offset"
  shows "ds = (if num = 0 then id else take (nat num)) (drop (nat offset) (filter (matches q) (docs db c)))"
  using assms unfolding mongo_ok_def pages_ok_def by blast

lemma mongo_insert:
  "mongo_ok L docs \<Longrightarrow> db_insert L db c d = Some db' \<Longrightarrow> \<exists>i. docs db' = (docs db)(c := docs db c @ [with_id i d])"
  unfolding mongo_ok_def inserts_ok_def by blast

lemma mongo_updates:
  "mongo_ok L docs \<Longrightarrow> db_update L db c (str_fields q) (op_docs us) ups False = Some db' \<Longrightarrow>
     (\<exists>d \<in> set (docs db c). matches q d) \<or> \<not> ups \<Longrightarrow> plain_keys q \<Longrightarrow> (\<forall>(oper, kvs) \<in> set us. plain_keys kvs) \<Longrightarrow>
     docs db' = (docs db)(c := update_first (matches q) (apply_all us) (docs db c))"
  unfolding mongo_ok_def updates_ok_def by blast

lemma mongo_update:
  assumes "mongo_ok L docs" "db_update L db c (str_fields q) (op_doc oper kvs) ups False = Some db'"
    and "(\<exists>d \<in> set (docs db c). matches q d) \<or> \<not> ups" "plain_keys q" "plain_keys kvs"
  shows "docs db' = (docs db)(c := update_first (matches q) (apply_ops oper kvs) (docs db c))"
proof -
  have "apply_all [(oper, kvs)] = apply_ops oper kvs" by (rule ext) (simp add: apply_all_def)
  then show ?thesis
    using mongo_updates [OF assms(1), of db c q "[(oper, kvs)]"] assms(2-5) by (simp add: op_docs_single)
qed

lemma mongo_upsert:
  assumes "mongo_ok L docs" "db_update L db c (str_fields q) (op_doc oper kvs) True False = Some db'"
    and "\<not> (\<exists>d \<in> set (docs db c). matches q d)" "plain_keys q" "plain_keys kvs"
  shows "\<exists>i. docs db' = (docs db)(c := docs db c @ [with_id i (apply_ops oper kvs (str_fields q))])"
  using assms unfolding mongo_ok_def upserts_ok_def by blast

lemma mongo_frame:
  "mongo_ok L docs \<Longrightarrow> db_update L db c q u ups multi = Some db' \<Longrightarrow> c' \<noteq> c \<Longrightarrow> docs db' c' = docs db c'"
  unfolding mongo_ok_def frames_ok_def by blast

lemma mongo_narrow:
  "mongo_ok L docs \<Longrightarrow> db_query L db c (BObj fs) = Some ds \<Longrightarrow> d \<in> set ds \<Longrightarrow> d \<in> set (docs db c) \<and> selects fs d"
  unfolding mongo_ok_def narrows_ok_def by blast

lemma mongo_narrow_n:
  "mongo_ok L docs \<Longrightarrow> db_query_n L db c (BObj fs) num offset = Some ds \<Longrightarrow> d \<in> set ds \<Longrightarrow>
     d \<in> set (docs db c) \<and> selects fs d"
  unfolding mongo_ok_def narrows_ok_def by blast

lemma mongo_set:
  assumes "mongo_ok L docs" "db_update L db c (str_fields q) (BObj [(''$set'', BObj kvs)]) ups False = Some db'"
    and "(\<exists>d \<in> set (docs db c). matches q d) \<or> \<not> ups" "plain_keys q" "plain_keys kvs"
  shows "docs db' = (docs db)(c := update_first (matches q) (apply_ops Set_op kvs) (docs db c))"
  using mongo_update [OF assms(1) assms(2) [folded op_doc.simps] assms(3-5)] .

lemma mongo_push:
  assumes "mongo_ok L docs" "db_update L db c (str_fields q) (BObj [(''$push'', BObj kvs)]) ups False = Some db'"
    and "(\<exists>d \<in> set (docs db c). matches q d) \<or> \<not> ups" "plain_keys q" "plain_keys kvs"
  shows "docs db' = (docs db)(c := update_first (matches q) (apply_ops Push_op kvs) (docs db c))"
  using mongo_update [OF assms(1) assms(2) [folded op_doc.simps] assms(3-5)] .

lemma mongo_pull:
  assumes "mongo_ok L docs" "db_update L db c (str_fields q) (BObj [(''$pull'', BObj kvs)]) ups False = Some db'"
    and "(\<exists>d \<in> set (docs db c). matches q d) \<or> \<not> ups" "plain_keys q" "plain_keys kvs"
  shows "docs db' = (docs db)(c := update_first (matches q) (apply_ops Pull_op kvs) (docs db c))"
  using mongo_update [OF assms(1) assms(2) [folded op_doc.simps] assms(3-5)] .

lemma mongo_remove:
  "mongo_ok L docs \<Longrightarrow> db_remove L db c (str_fields q) = Some db' \<Longrightarrow> plain_keys q \<Longrightarrow>
     docs db' = (docs db)(c := filter (\<lambda>d. \<not> matches q d) (docs db c))"
  unfolding mongo_ok_def removes_ok_def by blast

lemma bson_ok_fields [simp]:
  assumes "bson_ok L" "name_key k"
  shows "bs_getStringField L d k = (case bfield d k of Some (BString s) \<Rightarrow> s | _ \<Rightarrow> [])"
    and "bs_hasField L d k = (bfield d k \<noteq> None)" and "bs_getField L d k = bfield d k"
    and "bs_getObjectField L d k =
        (case bfield d k of Some (BObj fs) \<Rightarrow> BObj fs | Some (BArray vs) \<Rightarrow> BArray vs | _ \<Rightarrow> BObj [])"
  using assms unfolding bson_ok_def fields_ok_def by simp_all

lemma bson_ok_values [simp]:
  assumes "bson_ok L"
  shows "bs_elements L (BArray vs) = vs" "bs_elements L (BObj fs) = map snd fs" "bs_str L (BString s) = s"
    and "bs_Obj L (BString t) = None" "bs_Obj L (BObj fs) = Some (BObj fs)" "bs_Obj L (BArray vs) = Some (BArray vs)" "bs_Double L (BDouble x) = Some x"
    and "bs_index L (BArray vs) i = (if i < length vs then Some (vs ! i) else None)" "bs_index L (BObj fs) 0 = map_of fs ''0''"
  using assms unfolding bson_ok_def values_ok_def by simp_all

lemma bson_ok_toString: "bson_ok L \<Longrightarrow> bfield d k = Some (BString s) \<Longrightarrow> bs_fieldToString L d k = k @ '': \"'' @ s @ ''\"''"
  unfolding bson_ok_def prints_ok_def by simp

section \<open>Fields of updated documents\<close>

lemma map_of_put_field: "map_of (put_field k v fs) k' = (if k' = k then Some v else map_of fs k')"
  by (induction k v fs rule: put_field.induct) auto

lemma bfield_set_field:
  "bfield (set_field k v d) k' = (case d of BObj fs \<Rightarrow> if k' = k then Some v else bfield d k' | _ \<Rightarrow> None)"
  by (cases d) (simp_all add: map_of_put_field)

lemma bfield_set_other [simp]: "k' \<noteq> k \<Longrightarrow> bfield (set_field k v d) k' = bfield d k'"
  by (cases d) (simp_all add: map_of_put_field)

lemma bfield_set_same: "bfield d k' = Some x \<Longrightarrow> bfield (set_field k v d) k = Some v"
  by (cases d) (simp_all add: map_of_put_field)

lemma bfield_apply_op_other: "k' \<noteq> k \<Longrightarrow> bfield (apply_op oper (k, v) d) k' = bfield d k'"
  by (cases oper) simp_all

lemma bfield_apply_ops_other: "k' \<notin> fst ` set kvs \<Longrightarrow> bfield (apply_ops oper kvs d) k' = bfield d k'"
proof (induction kvs arbitrary: d)
  case (Cons kv kvs)
  then show ?case by (cases kv) (simp add: apply_ops_def bfield_apply_op_other)
qed (simp add: apply_ops_def)

lemma set_field_isobj: "bfield d k' \<noteq> None \<Longrightarrow> \<exists>fs. set_field k v d = BObj fs"
  by (cases d) auto

lemma bfield_apply_set:
  assumes "bfield d k0 = Some x" "distinct (map fst kvs)" "(k, v) \<in> set kvs"
  shows "bfield (apply_ops Set_op kvs d) k = Some v"
  using assms
proof (induction kvs arbitrary: d x k0)
  case (Cons kv kvs)
  obtain k1 v1 where kv: "kv = (k1, v1)" by (cases kv)
  have s: "bfield (set_field k1 v1 d) k1 = Some v1" using Cons.prems(1) by (rule bfield_set_same)
  show ?case
  proof (cases "(k, v) = kv")
    case True
    with Cons.prems(2) kv have "k \<notin> fst ` set kvs" by auto
    with True kv s show ?thesis
      using bfield_apply_ops_other [of k kvs Set_op "set_field k1 v1 d"] by (simp add: apply_ops_def)
  next
    case False
    with Cons.prems(3) have "(k, v) \<in> set kvs" by simp
    with Cons.prems(2) Cons.IH [OF s] kv show ?thesis by (simp add: apply_ops_def)
  qed
qed simp

lemma set_update_first: "d \<in> set (update_first P f xs) \<Longrightarrow> d \<in> set xs \<or> (\<exists>x \<in> set xs. P x \<and> d = f x)"
  by (induction xs) (auto split: if_splits)

lemma update_first_hit: "x \<in> set xs \<Longrightarrow> P x \<Longrightarrow> \<exists>y \<in> set xs. P y \<and> f y \<in> set (update_first P f xs)"
  by (induction xs) auto

lemma find_update_first:
  assumes "List.find P xs = Some x" "P (f x)"
  shows "List.find P (update_first P f xs) = Some (f x)"
  using assms by (induction xs) (auto split: if_splits)

lemma find_update_first_other:
  assumes "\<And>x. x \<in> set xs \<Longrightarrow> P x \<Longrightarrow> \<not> Q x" "\<And>x. x \<in> set xs \<Longrightarrow> P x \<Longrightarrow> \<not> Q (f x)"
  shows "List.find Q (update_first P f xs) = List.find Q xs"
  using assms by (induction xs) auto

lemma bfield_with_id [simp]: "k \<noteq> ''_id'' \<Longrightarrow> bfield (with_id i d) k = bfield d k"
  by (auto simp: with_id_def split: bson.splits)

lemma matches_isobj: "matches q d \<Longrightarrow> (k, v) \<in> set q \<Longrightarrow> \<exists>x. bfield d k = Some x"
  by (cases "bfield d k") (auto simp: matches_def)

section \<open>Documents that a query finds\<close>

text \<open>The first document that a query by string fields finds.\<close>

definition lookup :: "('db \<Rightarrow> string \<Rightarrow> bson list) \<Rightarrow> 'db \<Rightarrow> string \<Rightarrow> (string \<times> string) list \<Rightarrow> bson option" where
  "lookup docs db c q = List.find (matches q) (docs db c)"

lemma find_filter: "List.find P xs = (case filter P xs of [] \<Rightarrow> None | x # _ \<Rightarrow> Some x)"
  by (induction xs) auto

definition string_field :: "bson \<Rightarrow> string \<Rightarrow> string" where
  "string_field d k = (case bfield d k of Some (BString s) \<Rightarrow> s | _ \<Rightarrow> [])"

lemma lookup_query:
  assumes "mongo_ok L docs" "db_query L db c (str_fields q) = Some ds" "plain_keys q"
  shows "lookup docs db c q = (case ds of [] \<Rightarrow> None | d # _ \<Rightarrow> Some d)"
  using mongo_query [OF assms] by (simp add: lookup_def find_filter)

lemma find_query:
  assumes "mongo_ok L docs" "db_query L db c (str_fields q) = Some (d # ds)" "plain_keys q"
  shows "List.find (matches q) (docs db c) = Some d"
  using mongo_query [OF assms] find_filter [of "matches q" "docs db c"] by (metis list.simps(5))

lemma find_filter_other:
  assumes "\<And>x. x \<in> set xs \<Longrightarrow> P x \<Longrightarrow> \<not> Q x"
  shows "List.find Q (filter (\<lambda>x. \<not> P x) xs) = List.find Q xs"
  using assms by (induction xs) auto

section \<open>Arrays of the document that a query finds\<close>

definition array_at :: "('db \<Rightarrow> string \<Rightarrow> bson list) \<Rightarrow> 'db \<Rightarrow> string \<Rightarrow> string \<Rightarrow> string \<Rightarrow> string \<Rightarrow> bson list" where
  "array_at docs db c idk v key = (case lookup docs db c [(idk, v)] of None \<Rightarrow> [] | Some d \<Rightarrow> elems (bfield d key))"

lemma array_at_found: "lookup docs db c [(idk, v)] = Some d \<Longrightarrow> array_at docs db c idk v key = elems (bfield d key)"
  by (simp add: array_at_def)

lemma lookup_isobj: "lookup docs db c [(k, v)] = Some d \<Longrightarrow> \<exists>x. bfield d k = Some x"
  using matches_isobj [of "[(k, v)]" d k v] by (auto simp: lookup_def find_Some_iff)

lemma find_append_new: "List.find P xs = None \<Longrightarrow> P y \<Longrightarrow> List.find P (xs @ [y]) = Some y"
  by (induction xs) (auto split: if_splits)

lemma array_at_update:
  assumes "mongo_ok L docs" "lookup docs db c [(idk, v)] = Some d"
    and "db_update L db c (str_fields [(idk, v)]) (op_docs us) ups False = Some db'"
    and "plain_keys [(idk, v)]" "\<forall>(oper, kvs) \<in> set us. plain_keys kvs \<and> idk \<notin> fst ` set kvs"
  shows "array_at docs db' c idk v key = elems (bfield (apply_all us d) key)"
proof -
  have "bfield (apply_all us x) idk = bfield x idk" for x
    using assms(5) by (induction us arbitrary: x) (auto simp: apply_all_def bfield_apply_ops_other)
  then have "matches [(idk, v)] (apply_all us d)"
    using assms(2) by (simp add: lookup_def find_Some_iff matches_def) metis
  moreover have "\<exists>x \<in> set (docs db c). matches [(idk, v)] x"
    using assms(2) by (auto simp: lookup_def find_Some_iff)
  then have "docs db' = (docs db)(c := update_first (matches [(idk, v)]) (apply_all us) (docs db c))"
    using assms(5) by (intro mongo_updates [OF assms(1,3) _ assms(4)]) auto
  ultimately have "lookup docs db' c [(idk, v)] = Some (apply_all us d)"
    using assms(2) by (simp add: lookup_def find_update_first)
  then show ?thesis by (rule array_at_found)
qed

lemma array_at_op:
  assumes "mongo_ok L docs" "lookup docs db c [(idk, v)] = Some d"
    and "db_update L db c (str_fields [(idk, v)]) (op_doc oper [(key, x)]) ups False = Some db'"
    and "plain_keys [(idk, v)]" "plain_keys [(key, x)]" "idk \<noteq> key"
  shows "array_at docs db' c idk v k = elems (bfield (apply_op oper (key, x) d) k)"
  using array_at_update [OF assms(1,2), of "[(oper, [(key, x)])]" ups db' k] assms(3-6)
  by (simp add: op_docs_single apply_ops_def apply_all_def)

lemma array_at_push:
  assumes "mongo_ok L docs" "lookup docs db c [(idk, v)] = Some d"
    and "db_update L db c (str_fields [(idk, v)]) (BObj [(''$push'', BObj [(key, x)])]) ups False = Some db'"
    and "plain_keys [(idk, v)]" "plain_keys [(key, x)]" "idk \<noteq> key"
  shows "array_at docs db' c idk v k = array_at docs db c idk v k @ (if k = key then [x] else [])"
proof -
  obtain y where "bfield d idk = Some y" using lookup_isobj [OF assms(2)] ..
  from bfield_set_same [OF this] show ?thesis
    using array_at_op [OF assms(1,2), of Push_op key x ups db' k] assms(3-6) array_at_found [OF assms(2)] by simp
qed

lemma array_at_pull:
  assumes "mongo_ok L docs" "lookup docs db c [(idk, v)] = Some d"
    and "db_update L db c (str_fields [(idk, v)]) (BObj [(''$pull'', BObj [(key, x)])]) ups False = Some db'"
    and "plain_keys [(idk, v)]" "plain_keys [(key, x)]" "idk \<noteq> key"
  shows "array_at docs db' c idk v k = (if k = key then filter (\<lambda>y. \<not> pulls x y) else id) (array_at docs db c idk v k)"
proof -
  obtain y where "bfield d idk = Some y" using lookup_isobj [OF assms(2)] ..
  from bfield_set_same [OF this] show ?thesis
    using array_at_op [OF assms(1,2), of Pull_op key x ups db' k] assms(3-6) array_at_found [OF assms(2)] by simp
qed

lemma array_at_insert:
  assumes "mongo_ok L docs" "lookup docs db c [(idk, v)] = None" "idk \<noteq> ''_id''"
    and "db_insert L db c (BObj ((idk, BString v) # fs)) = Some db'"
  shows "array_at docs db c idk v key = [] \<and> (key \<noteq> ''_id'' \<longrightarrow> key \<noteq> idk \<longrightarrow> array_at docs db' c idk v key = elems (map_of fs key))"
proof -
  obtain i where i: "docs db' = (docs db)(c := docs db c @ [with_id i (BObj ((idk, BString v) # fs))])"
    using mongo_insert [OF assms(1,4)] ..
  have new: "matches [(idk, v)] (with_id i (BObj ((idk, BString v) # fs)))" using assms(3) by (simp add: matches_def)
  have none: "List.find (matches [(idk, v)]) (docs db c) = None" using assms(2) by (simp add: lookup_def)
  from find_append_new [OF none new] have "lookup docs db' c [(idk, v)] = Some (with_id i (BObj ((idk, BString v) # fs)))"
    by (simp add: lookup_def i)
  with assms(2,3) show ?thesis by (simp add: array_at_def)
qed

text \<open>An upsert that finds no document makes one with the array.\<close>

lemma array_at_upsert:
  assumes "mongo_ok L docs" "db_update L db c (str_fields [(idk, v)]) (BObj [(''$push'', BObj [(key, x)])]) True False = Some db'"
    and "plain_keys [(idk, v)]" "plain_keys [(key, x)]" "idk \<noteq> key" "key \<noteq> ''_id''" "idk \<noteq> ''_id''" "k \<noteq> ''_id''" "k \<noteq> idk"
  shows "array_at docs db' c idk v k = array_at docs db c idk v k @ (if k = key then [x] else [])"
proof (cases "lookup docs db c [(idk, v)]")
  case None
  then have none: "List.find (matches [(idk, v)]) (docs db c) = None" "\<not> (\<exists>d \<in> set (docs db c). matches [(idk, v)] d)"
    by (auto simp: lookup_def find_None_iff)
  obtain i where i: "docs db' = (docs db)(c := docs db c @ [with_id i (apply_ops Push_op [(key, x)] (str_fields [(idk, v)]))])"
    using mongo_upsert [OF assms(1) _ none(2) assms(3,4), of Push_op db'] assms(2) by auto
  have new: "matches [(idk, v)] (with_id i (apply_ops Push_op [(key, x)] (str_fields [(idk, v)])))"
    using assms(5,7) by (simp add: matches_def apply_ops_def)
  from find_append_new [OF none(1) new] i
  have "lookup docs db' c [(idk, v)] = Some (with_id i (apply_ops Push_op [(key, x)] (str_fields [(idk, v)])))" by (simp add: lookup_def)
  with None assms(5-9) show ?thesis by (simp add: array_at_def apply_ops_def)
qed (rule array_at_push [OF assms(1) _ assms(2-5)])

section \<open>Weakest preconditions\<close>

definition wp :: "'db prog \<Rightarrow> (result \<Rightarrow> 'db world \<Rightarrow> bool) \<Rightarrow> 'db world \<Rightarrow> bool" where
  "wp p Q w = (case p w of (r, w') \<Rightarrow> Q r w')"

lemma wp_ret [wp_simps]: "wp (ret c) Q w = Q (Ret c) w"
  by (simp add: wp_def ret_def)

lemma wp_throw [wp_simps]: "wp (throw e) Q w = Q (Throw e) w"
  by (simp add: wp_def throw_def)

lemma wp_val_or [wp_simps]:
  "wp (val_or e x k) Q w = (case x of None \<Rightarrow> Q (Throw e) w | Some v \<Rightarrow> wp (k v) Q w)"
  by (simp add: val_or_def wp_simps split: option.split)

lemma wp_try_db [wp_simps]:
  "wp (try_db p) Q w = wp p (\<lambda>r. Q (if r = Throw DBException then Ret APIE_SERVER_INTERNAL else r)) w"
  by (auto simp: wp_def try_db_def split: prod.splits result.splits exn.splits)

lemma wp_member_of [wp_simps]:
  "wp (member_of L v key k) Q w = (case js_member L v key of None \<Rightarrow> Q (Throw OtherException) w | Some x \<Rightarrow> wp (k x) Q w)"
  by (simp add: member_of_def wp_simps)

lemma wp_out_put [wp_simps]:
  "wp (out_put L key v p) Q w =
     (case js_put L (w_out w) key v of None \<Rightarrow> Q (Throw OtherException) w | Some j \<Rightarrow> wp p Q (w\<lparr>w_out := j\<rparr>))"
  by (simp add: wp_def out_put_def throw_def split: option.split)

lemma wp_connect [wp_simps]:
  "wp (connect L p) Q w = (if db_connect L (w_db w) then wp p Q w else Q (Throw DBException) w)"
  by (simp add: wp_def connect_def throw_def)

lemma wp_query [wp_simps]:
  "wp (query L c q k) Q w =
     (case db_query L (w_db w) c q of None \<Rightarrow> Q (Throw DBException) w | Some ds \<Rightarrow> wp (k ds) Q w)"
  by (simp add: wp_def query_def val_or_def throw_def split: option.split)

lemma wp_query_n [wp_simps]:
  "wp (query_n L c q num offset k) Q w =
     (case db_query_n L (w_db w) c q num offset of None \<Rightarrow> Q (Throw DBException) w | Some ds \<Rightarrow> wp (k ds) Q w)"
  by (simp add: wp_def query_n_def val_or_def throw_def split: option.split)

lemma wp_db_change: "wp (db_change d p) Q w = (case d of None \<Rightarrow> Q (Throw DBException) w | Some d \<Rightarrow> wp p Q (w\<lparr>w_db := d\<rparr>))"
  by (simp add: wp_def db_change_def throw_def split: option.split)

lemma wp_insert_into [wp_simps]:
  "wp (insert_into L c d p) Q w =
     (case db_insert L (w_db w) c d of None \<Rightarrow> Q (Throw DBException) w | Some db \<Rightarrow> wp p Q (w\<lparr>w_db := db\<rparr>))"
  using wp_db_change [of "db_insert L (w_db w) c d" p Q w] by (simp add: wp_def insert_into_def)

lemma wp_update [wp_simps]:
  "wp (update L c q u ups multi p) Q w =
     (case db_update L (w_db w) c q u ups multi of None \<Rightarrow> Q (Throw DBException) w | Some db \<Rightarrow> wp p Q (w\<lparr>w_db := db\<rparr>))"
  using wp_db_change [of "db_update L (w_db w) c q u ups multi" p Q w] by (simp add: wp_def update_def)

lemma wp_remove_from [wp_simps]:
  "wp (remove_from L c q p) Q w =
     (case db_remove L (w_db w) c q of None \<Rightarrow> Q (Throw DBException) w | Some db \<Rightarrow> wp p Q (w\<lparr>w_db := db\<rparr>))"
  using wp_db_change [of "db_remove L (w_db w) c q" p Q w] by (simp add: wp_def remove_from_def)

lemma wp_gen_oid [wp_simps]:
  "wp (gen_oid L k) Q w = wp (k (oid_string L (w_oids w))) Q (w\<lparr>w_oids := w_oids w + 1\<rparr>)"
  by (simp add: wp_def gen_oid_def)

lemma wp_time [wp_simps]: "wp (get_customstring_time k) Q w = wp (k (w_time w)) Q w"
  by (simp add: wp_def get_customstring_time_def)

lemma wp_if [wp_simps]: "wp (if b then p else q) Q w = (if b then wp p Q w else wp q Q w)"
  by simp

lemma wpI: "(\<And>r w'. p w = (r, w') \<Longrightarrow> Q r w') \<Longrightarrow> wp p Q w"
  by (simp add: wp_def split: prod.split)

lemma wpD: "wp p Q w \<Longrightarrow> p w = (r, w') \<Longrightarrow> Q r w'"
  by (simp add: wp_def)

lemma wp_str_of [wp_simps]:
  "wp (str_of L v key k) Q w =
     (case Option.bind (js_member L v key) (js_asString L) of None \<Rightarrow> Q (Throw OtherException) w | Some s \<Rightarrow> wp (k s) Q w)"
  by (simp add: str_of_def wp_simps split: option.split)

lemma wp_mono: "wp p Q w \<Longrightarrow> (\<And>r w'. Q r w' \<Longrightarrow> Q' r w') \<Longrightarrow> wp p Q' w"
  by (auto simp: wp_def split: prod.splits)

lemma wp_trivial: "(\<And>r w'. Q r w') \<Longrightarrow> wp p Q w"
  by (simp add: wp_def split: prod.split)

lemma wp_pushMessage [wp_simps]:
  "wp (pushMessage L msg p) Q w =
     (case msg of None \<Rightarrow> Q (Throw OtherException) w
      | Some m \<Rightarrow> wp p Q (if mq_connect L then w\<lparr>w_published := w_published w @ [m]\<rparr> else w))"
  by (simp add: wp_def pushMessage_def throw_def split: option.split)

lemma wp_fromjson_key [wp_simps]:
  "wp (fromjson_key L v key k) Q w =
     (case js_member L v key of None \<Rightarrow> Q (Throw OtherException) w
      | Some x \<Rightarrow> (case json_to_bson L x of None \<Rightarrow> Q (Throw DBException) w | Some b \<Rightarrow> wp (k b) Q w))"
  by (simp add: fromjson_key_def wp_simps split: option.split)

text \<open>\<open>keeps P p\<close>: running \<open>p\<close> keeps the property \<open>P\<close> of the database.\<close>

definition keeps :: "('db \<Rightarrow> bool) \<Rightarrow> 'db prog \<Rightarrow> bool" where
  "keeps P p \<longleftrightarrow> (\<forall>w. P (w_db w) \<longrightarrow> wp p (\<lambda>r w'. P (w_db w')) w)"

lemma keeps_ret [intro!]: "keeps P (ret c)"
  by (simp add: keeps_def wp_simps)

lemma keeps_throw [intro!]: "keeps P (throw e)"
  by (simp add: keeps_def wp_simps)

lemma keeps_val_or [intro!]: "(\<And>v. keeps P (k v)) \<Longrightarrow> keeps P (val_or e x k)"
  by (simp add: keeps_def wp_simps split: option.split)

lemma keeps_member_of [intro!]: "(\<And>v. keeps P (k v)) \<Longrightarrow> keeps P (member_of L j key k)"
  by (simp add: keeps_def wp_simps split: option.split)

lemma keeps_str_of [intro!]: "(\<And>v. keeps P (k v)) \<Longrightarrow> keeps P (str_of L j key k)"
  by (simp add: keeps_def wp_simps split: option.split)

lemma keeps_try_db [intro!]: "keeps P p \<Longrightarrow> keeps P (try_db p)"
  by (simp add: keeps_def wp_simps)

lemma keeps_connect [intro!]: "keeps P p \<Longrightarrow> keeps P (connect L p)"
  by (simp add: keeps_def wp_simps)

lemma keeps_query [intro!]: "(\<And>ds. keeps P (k ds)) \<Longrightarrow> keeps P (query L c q k)"
  by (simp add: keeps_def wp_simps split: option.split)

lemma keeps_query_n [intro!]: "(\<And>ds. keeps P (k ds)) \<Longrightarrow> keeps P (query_n L c q num offset k)"
  by (simp add: keeps_def wp_simps split: option.split)

lemma keeps_int_of [intro!]: "(\<And>i. keeps P (k i)) \<Longrightarrow> keeps P (int_of L v key k)"
  unfolding int_of_def by (intro keeps_member_of keeps_val_or)

lemma keeps_double_of [intro!]: "(\<And>d. keeps P (k d)) \<Longrightarrow> keeps P (double_of L v key k)"
  unfolding double_of_def by (intro keeps_member_of keeps_val_or)

lemma keeps_gen_oid [intro!]: "(\<And>s. keeps P (k s)) \<Longrightarrow> keeps P (gen_oid L k)"
  by (simp add: keeps_def wp_simps)

lemma keeps_time [intro!]: "(\<And>s. keeps P (k s)) \<Longrightarrow> keeps P (get_customstring_time k)"
  by (simp add: keeps_def wp_simps)

lemma keeps_out_put [intro!]: "keeps P p \<Longrightarrow> keeps P (out_put L key v p)"
  by (simp add: keeps_def wp_simps split: option.split)

lemma keeps_out_puts [intro!]: "keeps P p \<Longrightarrow> keeps P (out_puts L kvs p)"
  by (induction L kvs p rule: out_puts.induct) auto

lemma keeps_if [intro!]: "(b \<Longrightarrow> keeps P p) \<Longrightarrow> (\<not> b \<Longrightarrow> keeps P q) \<Longrightarrow> keeps P (if b then p else q)"
  by simp

lemma keeps_case_list [intro!]:
  "(xs = [] \<Longrightarrow> keeps P p) \<Longrightarrow> (\<And>y ys. xs = y # ys \<Longrightarrow> keeps P (k y ys)) \<Longrightarrow> keeps P (case xs of [] \<Rightarrow> p | y # ys \<Rightarrow> k y ys)"
  by (cases xs) simp_all

lemma keeps_insert_into:
  "(\<And>db db'. P db \<Longrightarrow> db_insert L db c d = Some db' \<Longrightarrow> P db') \<Longrightarrow> keeps P p \<Longrightarrow> keeps P (insert_into L c d p)"
  by (simp add: keeps_def wp_simps split: option.split)

lemma keeps_update:
  "(\<And>db db'. P db \<Longrightarrow> db_update L db c q u ups multi = Some db' \<Longrightarrow> P db') \<Longrightarrow> keeps P p \<Longrightarrow> keeps P (update L c q u ups multi p)"
  by (simp add: keeps_def wp_simps split: option.split)

lemma keeps_remove_from:
  "(\<And>db db'. P db \<Longrightarrow> db_remove L db c q = Some db' \<Longrightarrow> P db') \<Longrightarrow> keeps P p \<Longrightarrow> keeps P (remove_from L c q p)"
  by (simp add: keeps_def wp_simps split: option.split)

lemma keeps_query_update:
  assumes "\<And>db db' ds. P db \<Longrightarrow> db_query L db c q = Some ds \<Longrightarrow> ds \<noteq> [] \<Longrightarrow> db_update L db c q u ups False = Some db' \<Longrightarrow> P db'"
    and "keeps P p1" "keeps P p2"
  shows "keeps P (query L c q (\<lambda>ds. if ds = [] then p1 else update L c q u ups False p2))"
  using assms by (simp add: keeps_def wp_simps split: option.split)

section \<open>What holds when a handler succeeds\<close>

text \<open>\<open>on_ok p X\<close>: if \<open>p\<close> answers success then \<open>X\<close> holds of the world it leaves.\<close>

named_theorems ok_simps \<open>success conditions of the building blocks\<close>

definition on_ok :: "'db prog \<Rightarrow> ('db world \<Rightarrow> bool) \<Rightarrow> 'db world \<Rightarrow> bool" where
  "on_ok p X w \<longleftrightarrow> wp p (\<lambda>r w'. r = Ret APIE_OK \<longrightarrow> X w') w"

lemma apie_ok_other:
  "APIE_OK \<noteq> APIE_SERVER_INTERNAL" "APIE_OK \<noteq> APIE_INVALID_CLIENT_REQ" "APIE_OK \<noteq> APIE_SELLER_NO_EXIST"
  "APIE_OK \<noteq> APIE_COMMODITY_NO_EXIST" "APIE_OK \<noteq> APIE_USER_NO_EXIST" "APIE_OK \<noteq> APIE_PWD_ERROR"
  "APIE_OK \<noteq> APIE_USER_ALREADY_EXIST" "APIE_OK \<noteq> APIE_SELLER_ALREADY_EXIST" "APIE_OK \<noteq> APIE_CAR_NO_EXIST"
  "APIE_OK \<noteq> APIE_NO_FAVORITE" "APIE_OK \<noteq> APIE_NO_SELLER_FIND" "APIE_OK \<noteq> APIE_MAINTENANCE_NO_EXIST"
  by (simp_all add: api_simps)

lemmas apie_ne = apie_ok_other apie_ok_other [symmetric]

lemma on_okD: "on_ok p X w \<Longrightarrow> p w = (Ret APIE_OK, w') \<Longrightarrow> X w'"
  by (simp add: on_ok_def wp_def)

lemma on_ok_ret [ok_simps]: "on_ok (ret c) X w \<longleftrightarrow> c = APIE_OK \<longrightarrow> X w"
  by (simp add: on_ok_def wp_simps)

lemma on_ok_throw [ok_simps]: "on_ok (throw e) X w"
  by (simp add: on_ok_def wp_simps)

lemma on_ok_try_db [ok_simps]: "on_ok (try_db p) X w = on_ok p X w"
  by (auto simp: on_ok_def wp_def try_db_def apie_ne split: prod.splits result.splits exn.splits)

lemma on_ok_val_or [ok_simps]: "on_ok (val_or e x k) X w \<longleftrightarrow> (\<forall>v. x = Some v \<longrightarrow> on_ok (k v) X w)"
  by (simp add: on_ok_def wp_simps split: option.split)

lemma on_ok_member_of [ok_simps]: "on_ok (member_of L v key k) X w \<longleftrightarrow> (\<forall>x. js_member L v key = Some x \<longrightarrow> on_ok (k x) X w)"
  by (simp add: on_ok_def wp_simps split: option.split)

lemma on_ok_str_of [ok_simps]: "on_ok (str_of L v key k) X w \<longleftrightarrow> (\<forall>s. str_member L v key = Some s \<longrightarrow> on_ok (k s) X w)"
  by (simp add: on_ok_def wp_simps str_member_def split: option.split)

lemma on_ok_int_of [ok_simps]: "on_ok (int_of L v key k) X w \<longleftrightarrow> (\<forall>i. int_member L v key = Some i \<longrightarrow> on_ok (k i) X w)"
  by (auto simp: int_of_def int_member_def ok_simps split: bind_splits)

lemma on_ok_double_of [ok_simps]:
  "on_ok (double_of L v key k) X w \<longleftrightarrow> (\<forall>d. Option.bind (js_member L v key) (js_asDouble L) = Some d \<longrightarrow> on_ok (k d) X w)"
  by (auto simp: double_of_def ok_simps split: bind_splits)

lemma on_ok_out_put [ok_simps]:
  "on_ok (out_put L key v p) X w \<longleftrightarrow> (\<forall>j. js_put L (w_out w) key v = Some j \<longrightarrow> on_ok p X (w\<lparr>w_out := j\<rparr>))"
  by (simp add: on_ok_def wp_simps split: option.split)

lemma on_ok_connect [ok_simps]: "on_ok (connect L p) X w \<longleftrightarrow> (db_connect L (w_db w) \<longrightarrow> on_ok p X w)"
  by (simp add: on_ok_def wp_simps)

lemma on_ok_query [ok_simps]:
  "on_ok (query L c q k) X w \<longleftrightarrow> (\<forall>ds. db_query L (w_db w) c q = Some ds \<longrightarrow> on_ok (k ds) X w)"
  by (simp add: on_ok_def wp_simps split: option.split)

lemma on_ok_query_n [ok_simps]:
  "on_ok (query_n L c q num offset k) X w \<longleftrightarrow> (\<forall>ds. db_query_n L (w_db w) c q num offset = Some ds \<longrightarrow> on_ok (k ds) X w)"
  by (simp add: on_ok_def wp_simps split: option.split)

lemma on_ok_insert_into [ok_simps]:
  "on_ok (insert_into L c d p) X w \<longleftrightarrow> (\<forall>db. db_insert L (w_db w) c d = Some db \<longrightarrow> on_ok p X (w\<lparr>w_db := db\<rparr>))"
  by (simp add: on_ok_def wp_simps split: option.split)

lemma on_ok_update [ok_simps]:
  "on_ok (update L c q u ups multi p) X w \<longleftrightarrow>
     (\<forall>db. db_update L (w_db w) c q u ups multi = Some db \<longrightarrow> on_ok p X (w\<lparr>w_db := db\<rparr>))"
  by (simp add: on_ok_def wp_simps split: option.split)

lemma on_ok_remove_from [ok_simps]:
  "on_ok (remove_from L c q p) X w \<longleftrightarrow> (\<forall>db. db_remove L (w_db w) c q = Some db \<longrightarrow> on_ok p X (w\<lparr>w_db := db\<rparr>))"
  by (simp add: on_ok_def wp_simps split: option.split)

lemma on_ok_gen_oid [ok_simps]:
  "on_ok (gen_oid L k) X w = on_ok (k (oid_string L (w_oids w))) X (w\<lparr>w_oids := w_oids w + 1\<rparr>)"
  by (simp add: on_ok_def wp_simps)

lemma on_ok_time [ok_simps]: "on_ok (get_customstring_time k) X w = on_ok (k (w_time w)) X w"
  by (simp add: on_ok_def wp_simps)

lemma on_ok_if [ok_simps]: "on_ok (if b then p else q) X w \<longleftrightarrow> (b \<longrightarrow> on_ok p X w) \<and> (\<not> b \<longrightarrow> on_ok q X w)"
  by simp

lemma on_ok_case_list [ok_simps]:
  "on_ok (case xs of [] \<Rightarrow> p | y # ys \<Rightarrow> k y ys) X w \<longleftrightarrow>
     (xs = [] \<longrightarrow> on_ok p X w) \<and> (\<forall>y ys. xs = y # ys \<longrightarrow> on_ok (k y ys) X w)"
  by (cases xs) simp_all

lemma on_ok_case_option [ok_simps]:
  "on_ok (case x of None \<Rightarrow> p | Some y \<Rightarrow> k y) X w \<longleftrightarrow> (x = None \<longrightarrow> on_ok p X w) \<and> (\<forall>y. x = Some y \<longrightarrow> on_ok (k y) X w)"
  by (cases x) simp_all

lemma on_ok_pushMessage [ok_simps]:
  "on_ok (pushMessage L msg p) X w \<longleftrightarrow>
     (\<forall>m. msg = Some m \<longrightarrow> on_ok p X (if mq_connect L then w\<lparr>w_published := w_published w @ [m]\<rparr> else w))"
  by (cases msg) (simp_all add: on_ok_def wp_simps)

text \<open>A loop whose body leaves the database alone.\<close>

lemma on_ok_for_each:
  assumes "\<And>x k. (\<And>y w'. w_db w' = db \<Longrightarrow> on_ok (k y) X w') \<Longrightarrow> (\<And>w'. w_db w' = db \<Longrightarrow> on_ok (f x k) X w')"
    and "\<And>ys w'. w_db w' = db \<Longrightarrow> on_ok (k ys) X w'" "w_db w = db"
  shows "on_ok (for_each f xs acc k) X w"
  using assms(2,3)
proof (induction xs arbitrary: acc w)
  case (Cons x xs)
  show ?case unfolding for_each.simps by (rule assms(1)) (use Cons in auto)
qed simp

text \<open>Naming images leaves the database and the messages alone.\<close>

lemma wp_getImageNames_loop:
  assumes "\<And>ids w'. w_db w' = w_db w \<Longrightarrow> w_out w' = w_out w \<Longrightarrow> w_published w' = w_published w \<Longrightarrow> wp (k ids) Q w'"
  shows "wp (getImageNames_loop L n ids k) Q w"
  using assms
proof (induction n arbitrary: ids w)
  case (Suc n)
  show ?case unfolding getImageNames_loop.simps wp_gen_oid by (rule Suc.IH) (simp add: Suc.prems)
qed simp

lemma wp_new_images:
  assumes "\<And>names w'. w_db w' = w_db w \<Longrightarrow> w_published w' = w_published w \<Longrightarrow> wp (k (BArray (map BString names))) Q w'"
    and "\<And>w'. w_db w' = w_db w \<Longrightarrow> Q (Throw OtherException) w'"
  shows "wp (new_images L content k) Q w"
  unfolding new_images_def getImageNames_def wp_member_of wp_val_or
  by (auto simp: assms wp_val_or wp_out_put intro!: wp_getImageNames_loop split: option.split)

lemma on_ok_new_images:
  assumes "\<And>names w'. w_db w' = w_db w \<Longrightarrow> w_published w' = w_published w \<Longrightarrow> on_ok (k (BArray (map BString names))) X w'"
  shows "on_ok (new_images L content k) X w"
  unfolding on_ok_def by (rule wp_new_images) (simp_all add: assms [unfolded on_ok_def])

section \<open>Invariants over sequences of requests\<close>

text \<open>All worlds that sequences of requests to the handlers \<open>hs\<close> lead to.\<close>

inductive reach :: "('db lib \<Rightarrow> json \<Rightarrow> 'db prog) list \<Rightarrow> 'db lib \<Rightarrow> 'db world \<Rightarrow> 'db world \<Rightarrow> bool" for hs L w0 where
  start: "reach hs L w0 w0"
| request: "reach hs L w0 w \<Longrightarrow> h \<in> set hs \<Longrightarrow> h L content w = (r, w') \<Longrightarrow> reach hs L w0 w'"

lemma reach_keeps:
  assumes "reach hs L w0 w" "P (w_db w0)" "\<And>h content. h \<in> set hs \<Longrightarrow> keeps P (h L content)"
  shows "P (w_db w)"
  using assms(1)
proof induction
  case (request w h content r w')
  from assms(3) [OF request(2)] request(4) have "wp (h L content) (\<lambda>r w'. P (w_db w')) w" by (simp add: keeps_def)
  then show ?case using request(3) by (rule wpD)
qed (rule assms(2))

text \<open>A property of every document of a collection, and what keeps it.\<close>

definition all_docs :: "('db \<Rightarrow> string \<Rightarrow> bson list) \<Rightarrow> string \<Rightarrow> (bson \<Rightarrow> bool) \<Rightarrow> 'db \<Rightarrow> bool" where
  "all_docs docs c P db \<longleftrightarrow> (\<forall>d \<in> set (docs db c). P d)"

lemma all_insert:
  assumes "mongo_ok L docs" "\<And>i. c' = c \<Longrightarrow> P (with_id i d)" "keeps (all_docs docs c P) p"
  shows "keeps (all_docs docs c P) (insert_into L c' d p)"
proof (rule keeps_insert_into [OF _ assms(3)])
  fix db db' assume "all_docs docs c P db" "db_insert L db c' d = Some db'"
  then show "all_docs docs c P db'"
    using mongo_insert [OF assms(1)] assms(2) by (fastforce simp: all_docs_def split: if_splits)
qed

lemma all_ops:
  assumes "all_docs docs c P db" "docs db' = (docs db)(c' := update_first Q (apply_ops oper kvs) (docs db c'))"
    and "\<And>d. c' = c \<Longrightarrow> P d \<Longrightarrow> P (apply_ops oper kvs d)"
  shows "all_docs docs c P db'"
  using assms by (fastforce simp: all_docs_def dest!: set_update_first split: if_splits)

lemma all_update:
  assumes "mongo_ok L docs" "\<And>d. c' = c \<Longrightarrow> P d \<Longrightarrow> P (apply_ops oper kvs d)" "keeps (all_docs docs c P) p"
    and "plain_keys q" "plain_keys kvs"
  shows "keeps (all_docs docs c P) (update L c' (str_fields q) (op_doc oper kvs) False False p)"
proof (rule keeps_update [OF _ assms(3)])
  fix db db'
  assume *: "all_docs docs c P db" "db_update L db c' (str_fields q) (op_doc oper kvs) False False = Some db'"
  from mongo_update [OF assms(1) *(2)]
  have "docs db' = (docs db)(c' := update_first (matches q) (apply_ops oper kvs) (docs db c'))" using assms(4,5) by simp
  with *(1) show "all_docs docs c P db'" using assms(2) by (rule all_ops)
qed

lemmas all_set = all_update [where oper = Set_op, unfolded op_doc.simps]
  and all_push = all_update [where oper = Push_op, unfolded op_doc.simps]
  and all_pull = all_update [where oper = Pull_op, unfolded op_doc.simps]

lemma all_update_other:
  assumes "mongo_ok L docs" "c' \<noteq> c" "keeps (all_docs docs c P) p"
  shows "keeps (all_docs docs c P) (update L c' q u ups multi p)"
  using mongo_frame [OF assms(1)] assms(2) by (intro keeps_update [OF _ assms(3)]) (metis all_docs_def)

lemma all_query_set:
  assumes "mongo_ok L docs" "\<And>d. c' = c \<Longrightarrow> P d \<Longrightarrow> P (apply_ops Set_op kvs d)"
    and "keeps (all_docs docs c P) p1" "keeps (all_docs docs c P) p2" "plain_keys q" "plain_keys kvs"
  shows "keeps (all_docs docs c P) (query L c' (str_fields q) (\<lambda>ds. if ds = [] then p1
     else update L c' (str_fields q) (BObj [(''$set'', BObj kvs)]) True False p2))"
proof (rule keeps_query_update [OF _ assms(3,4)])
  fix db db' ds
  assume *: "all_docs docs c P db" "db_query L db c' (str_fields q) = Some ds" "ds \<noteq> []"
    "db_update L db c' (str_fields q) (BObj [(''$set'', BObj kvs)]) True False = Some db'"
  from mongo_query [OF assms(1) *(2) assms(5)] *(3) have "\<exists>d \<in> set (docs db c'). matches q d" by (metis filter_False)
  with mongo_set [OF assms(1) *(4) _ assms(5,6)]
  have "docs db' = (docs db)(c' := update_first (matches q) (apply_ops Set_op kvs) (docs db c'))" by simp
  with *(1) show "all_docs docs c P db'" using assms(2) by (rule all_ops)
qed

lemma all_remove:
  assumes "mongo_ok L docs" "keeps (all_docs docs c P) p" "plain_keys q"
  shows "keeps (all_docs docs c P) (remove_from L c' (str_fields q) p)"
  using mongo_remove [OF assms(1) _ assms(3)] by (intro keeps_remove_from [OF _ assms(2)]) (auto simp: all_docs_def)

text \<open>No two documents of collection \<open>c\<close> have the same strings in the fields \<open>ks\<close>, and what keeps it.\<close>

definition keys_of :: "string list \<Rightarrow> bson \<Rightarrow> bson option list" where
  "keys_of ks d = map (bfield d) ks"

definition unique_keys :: "('db \<Rightarrow> string \<Rightarrow> bson list) \<Rightarrow> string \<Rightarrow> string list \<Rightarrow> 'db \<Rightarrow> bool" where
  "unique_keys docs c ks db \<longleftrightarrow>
     (\<forall>vs. count_list (map (keys_of ks) (docs db c)) (map (\<lambda>v. Some (BString v)) vs) \<le> 1)"

lemma unique_keys_cong: "docs db' c = docs db c \<Longrightarrow> unique_keys docs c ks db \<Longrightarrow> unique_keys docs c ks db'"
  by (simp add: unique_keys_def)

lemma map_update_first: "(\<And>x. g (f x) = g x) \<Longrightarrow> map g (update_first P f xs) = map g xs"
  by (induction xs) auto

lemma count_map_filter: "count_list (map g (filter P xs)) y \<le> count_list (map g xs) y"
  by (induction xs) auto

lemma unique_ops:
  assumes "unique_keys docs c ks db" "docs db' = (docs db)(c' := update_first P (apply_ops oper kvs) (docs db c'))"
    and "c' = c \<Longrightarrow> set ks \<inter> fst ` set kvs = {}"
  shows "unique_keys docs c ks db'"
proof (cases "c' = c")
  case True
  have "keys_of ks (apply_ops oper kvs d) = keys_of ks d" for d
    using assms(3) [OF True] by (auto simp: keys_of_def intro: bfield_apply_ops_other)
  then have "map (keys_of ks) (docs db' c) = map (keys_of ks) (docs db c)"
    by (simp add: assms(2) True map_update_first)
  with assms(1) show ?thesis by (simp add: unique_keys_def)
next
  case False
  with assms(1,2) show ?thesis by (intro unique_keys_cong [of docs db' c db]) auto
qed

lemma unique_update:
  assumes "mongo_ok L docs" "c' = c \<Longrightarrow> set ks \<inter> fst ` set kvs = {}" "keeps (unique_keys docs c ks) p"
    and "plain_keys q" "plain_keys kvs"
  shows "keeps (unique_keys docs c ks) (update L c' (str_fields q) (BObj [(''$set'', BObj kvs)]) False False p)"
proof (rule keeps_update [OF _ assms(3)])
  fix db db'
  assume *: "unique_keys docs c ks db" "db_update L db c' (str_fields q) (BObj [(''$set'', BObj kvs)]) False False = Some db'"
  from mongo_set [OF assms(1) *(2) _ assms(4,5)]
  have "docs db' = (docs db)(c' := update_first (matches q) (apply_ops Set_op kvs) (docs db c'))" by simp
  with *(1) show "unique_keys docs c ks db'" using assms(2) by (rule unique_ops)
qed

lemma unique_update_other:
  assumes "mongo_ok L docs" "c' \<noteq> c" "keeps (unique_keys docs c ks) p"
  shows "keeps (unique_keys docs c ks) (update L c' q u ups multi p)"
  using mongo_frame [OF assms(1)] assms(2) by (intro keeps_update [OF _ assms(3)]) (metis unique_keys_cong)

lemma unique_query_update:
  assumes "mongo_ok L docs" "c' = c \<Longrightarrow> set ks \<inter> fst ` set kvs = {}"
    and "keeps (unique_keys docs c ks) p1" "keeps (unique_keys docs c ks) p2" "plain_keys q" "plain_keys kvs"
  shows "keeps (unique_keys docs c ks) (query L c' (str_fields q) (\<lambda>ds. if ds = [] then p1
     else update L c' (str_fields q) (BObj [(''$set'', BObj kvs)]) True False p2))"
proof (rule keeps_query_update [OF _ assms(3,4)])
  fix db db' ds
  assume *: "unique_keys docs c ks db" "db_query L db c' (str_fields q) = Some ds" "ds \<noteq> []"
    "db_update L db c' (str_fields q) (BObj [(''$set'', BObj kvs)]) True False = Some db'"
  from mongo_query [OF assms(1) *(2) assms(5)] *(3) have "\<exists>d \<in> set (docs db c'). matches q d" by (metis filter_False)
  with mongo_set [OF assms(1) *(4) _ assms(5,6)]
  have "docs db' = (docs db)(c' := update_first (matches q) (apply_ops Set_op kvs) (docs db c'))" by simp
  with *(1) show "unique_keys docs c ks db'" using assms(2) by (rule unique_ops)
qed

lemma unique_remove:
  assumes "mongo_ok L docs" "keeps (unique_keys docs c ks) p" "plain_keys q"
  shows "keeps (unique_keys docs c ks) (remove_from L c' (str_fields q) p)"
proof (rule keeps_remove_from [OF _ assms(2)])
  fix db db' assume "unique_keys docs c ks db" "db_remove L db c' (str_fields q) = Some db'"
  with mongo_remove [OF assms(1) _ assms(3)] show "unique_keys docs c ks db'"
    by (auto simp: unique_keys_def intro: order_trans [OF count_map_filter])
qed

lemma unique_insert:
  assumes "mongo_ok L docs" "c' \<noteq> c" "keeps (unique_keys docs c ks) p"
  shows "keeps (unique_keys docs c ks) (insert_into L c' d p)"
proof (rule keeps_insert_into [OF _ assms(3)])
  fix db db' assume "unique_keys docs c ks db" "db_insert L db c' d = Some db'"
  with mongo_insert [OF assms(1)] assms(2) show "unique_keys docs c ks db'"
    by (fastforce simp: unique_keys_def)
qed

text \<open>A document is inserted after a query for its keys has found nothing.\<close>

lemma unique_keys_insert:
  assumes "mongo_ok L docs" "unique_keys docs c ks db" "db_query L db c (str_fields q) = Some []"
    and "db_insert L db c d = Some db'" "map fst q = ks" "\<forall>(k, v) \<in> set q. bfield d k = Some (BString v)"
    and "''_id'' \<notin> set ks" "plain_keys q"
  shows "unique_keys docs c ks db'"
proof -
  let ?vs = "map (\<lambda>v. Some (BString v)) (map snd q)"
  have k: "keys_of ks x = ?vs \<longleftrightarrow> (\<forall>(k, v) \<in> set q. bfield x k = Some (BString v))" for x
    by (auto simp: keys_of_def assms(5) [symmetric])
  then have k': "keys_of ks x = ?vs \<Longrightarrow> matches q x" for x by (fastforce simp: matches_def)
  from mongo_query [OF assms(1,3,8)] have "\<forall>x \<in> set (docs db c). \<not> matches q x"
    by (metis empty_filter_conv)
  then have "?vs \<notin> set (map (keys_of ks) (docs db c))"
    using k' by (metis (no_types, lifting) in_set_conv_nth length_map nth_map nth_mem)
  then have "count_list (map (keys_of ks) (docs db c)) ?vs = 0" by (rule count_notin)
  moreover obtain i where "docs db' c = docs db c @ [with_id i d]" using mongo_insert [OF assms(1,4)] by auto
  moreover have "keys_of ks (with_id i d) = keys_of ks d" for i
    using assms(7) unfolding keys_of_def by (intro map_cong [OF refl] bfield_with_id) auto
  then have "keys_of ks (with_id i d) = ?vs" for i using k [of d] assms(6) by simp
  ultimately show ?thesis using assms(2) by (auto simp: unique_keys_def)
qed

lemma keeps_case_option [intro!]:
  "keeps P p \<Longrightarrow> (\<And>y. keeps P (k y)) \<Longrightarrow> keeps P (case x of None \<Rightarrow> p | Some y \<Rightarrow> k y)"
  by (cases x) simp_all

lemma keeps_pushMessage [intro!]: "keeps P p \<Longrightarrow> keeps P (pushMessage L msg p)"
  by (auto simp: keeps_def wp_def pushMessage_def throw_def split: option.split prod.splits)

lemma keeps_push:
  assumes "keeps P p"
  shows "keeps P (pushMessageToUsers L ids msg p)" "keeps P (pushMessageToUser L i msg p)"
    "keeps P (pushMessageToSellers L ids msg p)" "keeps P (pushMessageToSeller L i msg p)"
  using assms by (auto simp: pushMessageToUsers_def pushMessageToUser_def pushMessageToSellers_def pushMessageToSeller_def)

lemma keeps_fromjson [intro!]: "(\<And>v. keeps P (k v)) \<Longrightarrow> keeps P (fromjson L j k)"
  unfolding fromjson_def by (rule keeps_val_or)

lemma keeps_fromjson_key [intro!]: "(\<And>v. keeps P (k v)) \<Longrightarrow> keeps P (fromjson_key L j key k)"
  unfolding fromjson_key_def by (intro keeps_member_of keeps_val_or)

lemma keeps_getImageNames_loop: "(\<And>ids. keeps P (k ids)) \<Longrightarrow> keeps P (getImageNames_loop L n ids k)"
  by (induction L n ids k rule: getImageNames_loop.induct) auto

lemma keeps_getImageNames [intro!]: "(\<And>ids. keeps P (k ids)) \<Longrightarrow> keeps P (getImageNames L j k)"
  unfolding getImageNames_def by (intro keeps_val_or keeps_getImageNames_loop)

lemma keeps_new_images: "(\<And>names. keeps P (k (BArray (map BString names)))) \<Longrightarrow> keeps P (new_images L content k)"
  unfolding new_images_def by (intro keeps_member_of keeps_getImageNames keeps_val_or keeps_out_put)

lemma keeps_for_each: "(\<And>x k. (\<And>y. keeps P (k y)) \<Longrightarrow> keeps P (f x k)) \<Longrightarrow> (\<And>ys. keeps P (k ys)) \<Longrightarrow> keeps P (for_each f xs acc k)"
  by (induction xs arbitrary: acc) auto

lemma keeps_Let [intro!]: "(\<And>x. x = e \<Longrightarrow> keeps P (k x)) \<Longrightarrow> keeps P (let x = e in k x)"
  by simp

section \<open>Collections that a handler leaves alone\<close>

definition content_is :: "('db \<Rightarrow> string \<Rightarrow> bson list) \<Rightarrow> string \<Rightarrow> bson list \<Rightarrow> 'db \<Rightarrow> bool" where
  "content_is docs c X db \<longleftrightarrow> docs db c = X"

lemma same_insert:
  assumes "mongo_ok L docs" "c' \<noteq> c" "keeps (content_is docs c X) p"
  shows "keeps (content_is docs c X) (insert_into L c' d p)"
  using mongo_insert [OF assms(1)] assms(2) by (intro keeps_insert_into [OF _ assms(3)]) (fastforce simp: content_is_def)

lemma same_update:
  assumes "mongo_ok L docs" "c' \<noteq> c" "keeps (content_is docs c X) p"
  shows "keeps (content_is docs c X) (update L c' q u ups multi p)"
  using mongo_frame [OF assms(1)] assms(2) by (intro keeps_update [OF _ assms(3)]) (metis content_is_def)

lemma same_remove:
  assumes "mongo_ok L docs" "c' \<noteq> c" "plain_keys q" "keeps (content_is docs c X) p"
  shows "keeps (content_is docs c X) (remove_from L c' (str_fields q) p)"
  using mongo_remove [OF assms(1) _ assms(3)] assms(2)
  by (intro keeps_remove_from [OF _ assms(4)]) (fastforce simp: content_is_def)

text \<open>Handlers that leave a collection alone keep every property of its content.\<close>

lemma keeps_content:
  assumes "\<And>X. keeps (content_is docs c X) p" "\<And>db db'. docs db' c = docs db c \<Longrightarrow> P db \<Longrightarrow> P db'"
  shows "keeps P p"
proof -
  have "wp p (\<lambda>r w'. P (w_db w')) w" if "P (w_db w)" for w
  proof -
    have "wp p (\<lambda>r w'. content_is docs c (docs (w_db w) c) (w_db w')) w"
      using assms(1) by (simp add: keeps_def content_is_def)
    then show ?thesis by (rule wp_mono) (rule assms(2) [OF _ that], simp add: content_is_def)
  qed
  then show ?thesis by (simp add: keeps_def)
qed

named_theorems keeps_rules \<open>introduction rules for \<open>keeps\<close>\<close>

lemmas [keeps_rules] = keeps_str_of keeps_int_of keeps_double_of keeps_member_of keeps_gen_oid keeps_time keeps_if keeps_ret keeps_throw
  keeps_try_db keeps_connect keeps_case_list keeps_case_option keeps_query keeps_query_n keeps_out_puts keeps_out_put keeps_val_or
  keeps_Let keeps_new_images keeps_getImageNames keeps_for_each keeps_push keeps_fromjson keeps_fromjson_key

section \<open>Requests\<close>

text \<open>A request whose members are strings; a member that is missing reads as the empty string.\<close>

definition req :: "(string \<times> string) list \<Rightarrow> json" where
  "req kvs = JObject (map (\<lambda>(k, v). (k, JString v)) kvs)"

definition arg :: "(string \<times> string) list \<Rightarrow> string \<Rightarrow> string" where
  "arg kvs k = (case map_of kvs k of None \<Rightarrow> [] | Some v \<Rightarrow> v)"

lemma js_member_req: "json_ok L \<Longrightarrow> js_member L (req kvs) k = Some (case map_of kvs k of None \<Rightarrow> JNull | Some v \<Rightarrow> JString v)"
  by (auto simp: json_ok_def req_def map_of_map split: option.splits)

lemma str_of_req [simp]: "json_ok L \<Longrightarrow> str_of L (req kvs) k f = f (arg kvs k)"
  by (auto simp: str_of_def member_of_def js_member_req val_or_def arg_def json_ok_def split: option.splits)

lemma str_member_req [simp]: "json_ok L \<Longrightarrow> str_member L (req kvs) k = Some (arg kvs k)"
  by (auto simp: str_member_def js_member_req arg_def json_ok_def split: option.splits)

section \<open>JSON values the handlers build\<close>

lemma js_build_obj:
  assumes "json_ok L"
  shows "js_build L ((k, v) # kvs) = Some (JObject (foldl (\<lambda>m kv. smap_put (fst kv) (snd kv) m) [(k, v)] kvs))"
proof -
  have "foldl (\<lambda>acc kv. Option.bind acc (\<lambda>j. js_put L j (fst kv) (snd kv))) (Some (JObject m)) kvs =
      Some (JObject (foldl (\<lambda>m kv. smap_put (fst kv) (snd kv) m) m kvs))" for m
    using assms by (induction kvs arbitrary: m) (auto simp: json_ok_def)
  with assms show ?thesis by (simp add: js_build_def json_ok_def)
qed

lemma js_array_all: "json_ok L \<Longrightarrow> js_array L vs = Some (JArray vs)"
proof -
  assume ok: "json_ok L"
  have "foldl (\<lambda>acc v. Option.bind acc (\<lambda>j. js_append L j v)) (Some (JArray us)) vs = Some (JArray (us @ vs))" for us
    using ok by (induction vs arbitrary: us) (auto simp: json_ok_def)
  from this [of "[]"] show "js_array L vs = Some (JArray vs)" by (simp add: js_array_def)
qed

lemma str_of_null: "json_ok L \<Longrightarrow> str_of L JNull k f = f []"
  by (simp add: str_of_def member_of_def val_or_def json_ok_def)

lemma no_images: "json_ok L \<Longrightarrow> getImageNames L JNull k = k []"
  by (simp add: getImageNames_def val_or_def json_ok_def)

lemma no_image_names: "json_ok L \<Longrightarrow> bson_ok L \<Longrightarrow> getImageNamesFromBson_root L (BArray []) = Some (JArray [])"
  by (simp add: getImageNamesFromBson_root_def js_array_all)

lemma json_ok_null:
  assumes "json_ok L"
  shows "js_member L JNull k = Some JNull" "js_asDouble L JNull = Some 0" "js_put L JNull k v = Some (JObject [(k, v)])"
    "js_put L (JObject m) k v = Some (JObject (smap_put k v m))" "js_empty L (JArray vs) = (vs = [])" "js_size L (JArray vs) = length vs"
  using assms by (simp_all add: json_ok_def)

lemma js_empty_obj: "json_ok L \<Longrightarrow> js_empty L (JObject m) = (m = [])"
  by (simp add: json_ok_def)

lemma js_list_all: "json_ok L \<Longrightarrow> js_list L vs = Some (if vs = [] then JNull else JArray vs)"
proof (cases vs)
  case (Cons v us)
  assume ok: "json_ok L"
  have "foldl (\<lambda>acc v. Option.bind acc (\<lambda>j. js_append L j v)) (Some (JArray us)) vs = Some (JArray (us @ vs))" for us vs
    using ok by (induction vs arbitrary: us) (auto simp: json_ok_def)
  with Cons ok show ?thesis by (simp add: js_list_def json_ok_def)
qed (simp add: js_list_def)

section \<open>The contract of a handler\<close>

text \<open>
  Every handler checks the role and the identifier of its request before it does anything: a request
  that fails the check is refused and changes nothing. A server that only gets such requests stays
  as it is.
\<close>

fun run_requests :: "('db lib \<Rightarrow> json \<Rightarrow> 'db prog) \<Rightarrow> 'db lib \<Rightarrow> json list \<Rightarrow> 'db world \<Rightarrow> result list \<times> 'db world" where
  "run_requests h L [] w = ([], w)"
| "run_requests h L (r # rs) w =
     (let (x, w) = h L r w; (xs, w) = run_requests h L rs w in (x # xs, w))"

locale guarded =
  fixes h :: "'db lib \<Rightarrow> json \<Rightarrow> 'db prog" and role ident :: string
  assumes refuses: "json_ok L \<Longrightarrow> arg kvs ''role'' \<noteq> role \<or> arg kvs ident = [] \<Longrightarrow>
    h L (req kvs) w = (Ret APIE_INVALID_CLIENT_REQ, w)"
begin

lemma refuses_all:
  assumes "json_ok L" "\<forall>kvs \<in> set rs. arg kvs ''role'' \<noteq> role \<or> arg kvs ident = []"
  shows "run_requests h L (map req rs) w = (map (\<lambda>_. Ret APIE_INVALID_CLIENT_REQ) rs, w)"
  using assms(2) by (induction rs) (simp_all add: refuses [OF assms(1)])

end

section \<open>A library for the witnesses\<close>

fun mem_get :: "(string \<times> bson list) list \<Rightarrow> string \<Rightarrow> bson list" where
  "mem_get db c = (case map_of db c of None \<Rightarrow> [] | Some ds \<Rightarrow> ds)"

definition mem_put :: "string \<Rightarrow> bson list \<Rightarrow> (string \<times> bson list) list \<Rightarrow> (string \<times> bson list) list" where
  "mem_put c ds db = (c, ds) # filter (\<lambda>e. fst e \<noteq> c) db"

fun str_query :: "bson \<Rightarrow> (string \<times> string) list" where
  "str_query (BObj fs) = map (\<lambda>(k, v). (k, case v of BString s \<Rightarrow> s | _ \<Rightarrow> [])) fs"
| "str_query _ = []"

definition op_of :: "string \<Rightarrow> operator" where
  "op_of k = (if k = ''$set'' then Set_op else if k = ''$push'' then Push_op else if k = ''$pull'' then Pull_op else AddToSet_op)"

fun ops_of :: "bson \<Rightarrow> (operator \<times> (string \<times> bson) list) list" where
  "ops_of (BObj fs) = map (\<lambda>(k, v). (op_of k, case v of BObj kvs \<Rightarrow> kvs | _ \<Rightarrow> [])) fs"
| "ops_of _ = []"

fun mem_matches :: "bson \<Rightarrow> bson \<Rightarrow> bool" where
  "mem_matches (BObj fs) d \<longleftrightarrow> (\<forall>(k, v) \<in> set fs. has_value v (bfield d k))"
| "mem_matches _ d = True"

definition mem_lib :: "(string \<times> bson list) list lib" where
  "mem_lib = \<lparr>
     js_member = (\<lambda>j k. case j of JObject m \<Rightarrow> Some (case map_of m k of None \<Rightarrow> JNull | Some v \<Rightarrow> v) | JNull \<Rightarrow> Some JNull | _ \<Rightarrow> None),
     js_index = (\<lambda>j i. case j of JArray vs \<Rightarrow> Some (if i < length vs then vs ! i else JNull) | JNull \<Rightarrow> Some JNull | _ \<Rightarrow> None),
     js_size = (\<lambda>j. case j of JArray vs \<Rightarrow> length vs | JObject m \<Rightarrow> length m | _ \<Rightarrow> 0),
     js_empty = (\<lambda>j. case j of JArray vs \<Rightarrow> vs = [] | JObject m \<Rightarrow> m = [] | JNull \<Rightarrow> True | _ \<Rightarrow> False),
     js_asString = (\<lambda>j. case j of JString s \<Rightarrow> Some s | JNull \<Rightarrow> Some [] | _ \<Rightarrow> None),
     js_asInt = (\<lambda>j. case j of JInt n \<Rightarrow> Some n | JNull \<Rightarrow> Some 0 | _ \<Rightarrow> None),
     js_asDouble = (\<lambda>j. case j of JReal d \<Rightarrow> Some d | JNull \<Rightarrow> Some 0 | _ \<Rightarrow> None),
     js_asUInt = (\<lambda>j. case j of JUInt n \<Rightarrow> Some n | JNull \<Rightarrow> Some 0 | _ \<Rightarrow> None),
     js_iterate = (\<lambda>j. case j of JArray vs \<Rightarrow> vs | JObject m \<Rightarrow> map snd m | _ \<Rightarrow> []),
     js_put = (\<lambda>j k v. case j of JNull \<Rightarrow> Some (JObject [(k, v)]) | JObject m \<Rightarrow> Some (JObject (smap_put k v m)) | _ \<Rightarrow> None),
     js_append = (\<lambda>j v. case j of JArray vs \<Rightarrow> Some (JArray (vs @ [v])) | JNull \<Rightarrow> Some (JArray [v]) | _ \<Rightarrow> None),
     bs_getStringField = (\<lambda>d k. case bfield d k of Some (BString s) \<Rightarrow> s | _ \<Rightarrow> []),
     bs_getIntField = (\<lambda>d k. case bfield d k of Some (BInt n) \<Rightarrow> n | _ \<Rightarrow> - (2 ^ 31)),
     bs_getObjectField = (\<lambda>d k. case bfield d k of Some (BObj fs) \<Rightarrow> BObj fs | Some (BArray vs) \<Rightarrow> BArray vs | _ \<Rightarrow> BObj []),
     bs_hasField = (\<lambda>d k. bfield d k \<noteq> None),
     bs_elements = (\<lambda>d. case d of BArray vs \<Rightarrow> vs | BObj fs \<Rightarrow> map snd fs | _ \<Rightarrow> []),
     bs_str = (\<lambda>d. case d of BString s \<Rightarrow> s | _ \<Rightarrow> []),
     bs_Obj = (\<lambda>d. case d of BObj fs \<Rightarrow> Some (BObj fs) | BArray vs \<Rightarrow> Some (BArray vs) | _ \<Rightarrow> None),
     bs_getField = bfield,
     bs_index = (\<lambda>d i. case d of BArray vs \<Rightarrow> if i < length vs then Some (vs ! i) else None
       | BObj fs \<Rightarrow> if i = 0 then map_of fs ''0'' else map_of fs ''1'' | _ \<Rightarrow> None),
     bs_Double = (\<lambda>d. case d of BDouble x \<Rightarrow> Some x | _ \<Rightarrow> None),
     bs_fieldToString = (\<lambda>d k. case bfield d k of Some (BString s) \<Rightarrow> k @ '': \"'' @ s @ ''\"'' | _ \<Rightarrow> ''EOO''),
     bson_to_json = (\<lambda>d. JNull),
     json_to_bson = (\<lambda>j. Some (BObj [])),
     oid_string = (\<lambda>n. replicate n (CHR ''0'') @ ''1''),
     db_connect = (\<lambda>db. True),
     db_query = (\<lambda>db c q. Some (filter (mem_matches q) (mem_get db c))),
     db_query_n = (\<lambda>db c q num offset. Some ((if num = 0 then id else take (nat num)) (drop (nat offset) (filter (mem_matches q) (mem_get db c))))),
     db_insert = (\<lambda>db c d. Some (mem_put c (mem_get db c @ [with_id (BOid ''i'') d]) db)),
     db_update = (\<lambda>db c q u ups multi. let us = ops_of u; ds = mem_get db c in
        Some (mem_put c (if ups \<and> \<not> list_ex (matches (str_query q)) ds then ds @ [with_id (BOid ''i'') (apply_all us q)]
          else update_first (matches (str_query q)) (apply_all us) ds) db)),
     db_remove = (\<lambda>db c q. Some (mem_put c (filter (\<lambda>d. \<not> matches (str_query q) d) (mem_get db c)) db)),
     mq_connect = True,
     get_distance = (\<lambda>_ _ _ _. 0)\<rparr>"

lemma json_ok_mem: "json_ok mem_lib"
  by (simp add: json_ok_def mem_lib_def)

lemma bson_ok_mem: "bson_ok mem_lib"
  by (simp add: bson_ok_def fields_ok_def values_ok_def prints_ok_def mem_lib_def)

lemma str_query_fields [simp]: "str_query (str_fields q) = q"
  by (induction q) auto

lemma mem_matches_fields [simp]: "mem_matches (str_fields q) = matches q"
  by (rule ext) (auto simp: matches_def)

lemma op_of_name [simp]: "op_of (op_name oper) = oper"
  by (cases oper) (simp_all add: op_of_def)

lemma ops_of_docs [simp]: "ops_of (op_docs us) = us"
  by (induction us) (auto simp: op_docs_def)

lemma ops_of_doc [simp]: "ops_of (op_doc oper kvs) = [(oper, kvs)]"
  using ops_of_docs [of "[(oper, kvs)]"] by (simp only: op_docs_single)

lemma apply_all_single [simp]: "apply_all [(oper, kvs)] d = apply_ops oper kvs d"
  by (simp add: apply_all_def)

lemma map_of_mem_put: "map_of (mem_put c ds db) c' = (if c' = c then Some ds else map_of db c')"
  by (induction db) (auto simp: mem_put_def)

lemma mem_get_put: "mem_get (mem_put c ds db) = (mem_get db)(c := ds)"
  by (rule ext) (simp add: map_of_mem_put)

lemma mem_updates: "updates_ok mem_lib mem_get" "upserts_ok mem_lib mem_get" "frames_ok mem_lib mem_get"
  unfolding updates_ok_def upserts_ok_def frames_ok_def
  by (auto simp: mem_lib_def mem_get_put list_ex_iff Let_def split: prod.splits simp del: mem_get.simps str_query.simps)

lemma mem_finds: "finds_ok mem_lib mem_get" "pages_ok mem_lib mem_get" "inserts_ok mem_lib mem_get" "removes_ok mem_lib mem_get"
  unfolding finds_ok_def pages_ok_def inserts_ok_def removes_ok_def
  by (auto simp: mem_lib_def mem_get_put simp del: mem_get.simps str_query.simps mem_matches.simps)

lemma mem_narrows: "narrows_ok mem_lib mem_get"
  unfolding narrows_ok_def
  by (auto simp: mem_lib_def selects_def simp del: mem_get.simps split: if_splits dest!: in_set_takeD in_set_dropD)

lemma mongo_ok_mem: "mongo_ok mem_lib mem_get"
  by (simp add: mongo_ok_def mem_finds mem_updates mem_narrows)

lemma mq_mem: "mq_connect mem_lib"
  by (simp add: mem_lib_def)

definition mem_world :: "(string \<times> bson list) list \<Rightarrow> (string \<times> bson list) list world" where
  "mem_world db = \<lparr>w_db = db, w_published = [], w_out = JNull, w_oids = 0, w_time = ''t''\<rparr>"

end
