(* ===== verification/Account_Api.thy ===== *)
theory Account_Api
  imports Api_Laws
begin

text \<open>
  The account resources of users and sellers: \<^verbatim>\<open>uri/user/session.cpp\<close>, \<^verbatim>\<open>uri/user/user.cpp\<close>,
  \<^verbatim>\<open>uri/user/password.cpp\<close>, \<^verbatim>\<open>uri/seller/session.cpp\<close> and \<^verbatim>\<open>uri/seller/password.cpp\<close>. Each
  definition is one method of a resource; the argument \<open>content\<close> is the JSON value of the request.
\<close>

section \<open>user/session\<close>

definition login_fields :: "string \<Rightarrow> string \<Rightarrow> string \<Rightarrow> string \<Rightarrow> (string \<times> bson) list" where
  "login_fields push_user_id push_channel_id device_type time =
     [(''push_user_id'', BString push_user_id), (''push_channel_id'', BString push_channel_id),
      (''device_type'', BString device_type), (''status'', BString ''login''),
      (''time'', BString time), (''online'', BInt 1)]"

definition user_Session_Post :: "'db lib \<Rightarrow> json \<Rightarrow> 'db prog" where
  "user_Session_Post L content =
     str_of L content ''role'' (\<lambda>role.
     str_of L content ''user_id'' (\<lambda>user_id.
     str_of L content ''pwd'' (\<lambda>pwd.
     str_of L content ''push_user_id'' (\<lambda>push_user_id.
     str_of L content ''push_channel_id'' (\<lambda>push_channel_id.
     str_of L content ''device_type'' (\<lambda>device_type.
     get_customstring_time (\<lambda>time.
     if role = [] \<or> user_id = [] \<or> pwd = [] then ret APIE_INVALID_CLIENT_REQ
     else if role \<noteq> ''user'' then ret APIE_INVALID_CLIENT_REQ
     else try_db (
       connect L (
       query L DB_USR (str_fields [(''user_id'', user_id)]) (\<lambda>cursor.
       case cursor of
         [] \<Rightarrow> ret APIE_USER_NO_EXIST
       | user # _ \<Rightarrow>
           if pwd \<noteq> bs_getStringField L user ''pwd'' then ret APIE_PWD_ERROR
           else query L DB_SESSION (str_fields [(''role'', ''user''), (''identifier'', user_id)]) (\<lambda>cursor.
             if cursor = [] then
               insert_into L DB_SESSION (BObj ([(''role'', BString role), (''identifier'', BString user_id),
                   (''role'', BString ''user'')] @ login_fields push_user_id push_channel_id device_type time))
                 (ret APIE_OK)
             else
               update L DB_SESSION (str_fields [(''role'', ''user''), (''identifier'', user_id)])
                 (BObj [(''$set'', BObj (login_fields push_user_id push_channel_id device_type time))]) True False
                 (ret APIE_OK))))))))))))"

definition user_Session_Delete :: "'db lib \<Rightarrow> json \<Rightarrow> 'db prog" where
  "user_Session_Delete L content =
     str_of L content ''role'' (\<lambda>role.
     str_of L content ''user_id'' (\<lambda>user_id.
     if role = [] \<or> user_id = [] then ret APIE_INVALID_CLIENT_REQ
     else if role \<noteq> ''user'' then ret APIE_INVALID_CLIENT_REQ
     else try_db (
       connect L (
       query L DB_SESSION (str_fields [(''role'', role), (''user_id'', user_id)]) (\<lambda>cursor.
       if cursor = [] then ret APIE_INVALID_CLIENT_REQ
       else update L DB_SESSION (str_fields [(''role'', role), (''user_id'', user_id)])
              (BObj [(''$set'', str_fields [(''status'', ''unlogin'')])]) False False
              (ret APIE_OK))))))"

section \<open>user/\<close>

definition user_User_Get :: "'db lib \<Rightarrow> json \<Rightarrow> 'db prog" where
  "user_User_Get L content =
     str_of L content ''role'' (\<lambda>role.
     str_of L content ''user_id'' (\<lambda>user_id.
     if role = [] \<or> user_id = [] then ret APIE_INVALID_CLIENT_REQ
     else if role \<noteq> ''user'' then ret APIE_INVALID_CLIENT_REQ
     else try_db (
       connect L (
       query L DB_SESSION (str_fields [(''role'', role), (''user_id'', user_id)]) (\<lambda>cursor.
       if cursor = [] then ret APIE_INVALID_CLIENT_REQ
       else query L DB_USR (str_fields [(''user_id'', user_id)]) (\<lambda>cursor.
         case cursor of
           [] \<Rightarrow> ret APIE_USER_NO_EXIST
         | p # _ \<Rightarrow>
             out_puts L
               [(''user_name'', JString (bs_getStringField L p ''user_name'')),
                (''sex'', JString (bs_getStringField L p ''sex'')),
                (''email'', JString (bs_getStringField L p ''email'')),
                (''home_city'', JString (bs_getStringField L p ''home_city'')),
                (''home_addr'', JString (bs_getStringField L p ''home_addr''))]
             (val_or OtherException (getImageNamesFromBson L p ''images'') (\<lambda>images.
              out_put L ''images'' images (ret APIE_OK)))))))))"

definition user_User_Post :: "'db lib \<Rightarrow> json \<Rightarrow> 'db prog" where
  "user_User_Post L content =
     str_of L content ''role'' (\<lambda>role.
     str_of L content ''mobile'' (\<lambda>user_id.
     str_of L content ''pwd'' (\<lambda>pwd.
     if role = [] \<or> user_id = [] \<or> pwd = [] then ret APIE_INVALID_CLIENT_REQ
     else if role \<noteq> ''user'' then ret APIE_INVALID_CLIENT_REQ
     else try_db (
       connect L (
       query L DB_USR (str_fields [(''user_id'', user_id)]) (\<lambda>cursor.
       if cursor \<noteq> [] then ret APIE_USER_ALREADY_EXIST
       else gen_oid L (\<lambda>oid.
         insert_into L DB_USR (BObj [(''_id'', BOid oid), (''user_id'', BString user_id),
             (''pwd'', BString pwd), (''online'', BInt 0)])
           (out_put L ''user_id'' (JString user_id) (ret APIE_OK)))))))))"

definition user_User_Delete :: "'db lib \<Rightarrow> json \<Rightarrow> 'db prog" where
  "user_User_Delete L content =
     str_of L content ''role'' (\<lambda>role.
     str_of L content ''user_id'' (\<lambda>user_id.
     if role = [] \<or> user_id = [] then ret APIE_INVALID_CLIENT_REQ
     else if role \<noteq> ''user'' then ret APIE_INVALID_CLIENT_REQ
     else try_db (
       connect L (
       query L DB_USR (str_fields [(''user_id'', user_id)]) (\<lambda>cursor.
       if cursor \<noteq> [] then
         remove_from L DB_USR (str_fields [(''user_id'', user_id)]) (ret APIE_OK)
       else ret APIE_USER_NO_EXIST)))))"

definition user_User_Patch :: "'db lib \<Rightarrow> json \<Rightarrow> 'db prog" where
  "user_User_Patch L content =
     str_of L content ''role'' (\<lambda>role.
     str_of L content ''user_id'' (\<lambda>user_id.
     str_of L content ''user_name'' (\<lambda>user_name.
     str_of L content ''sex'' (\<lambda>sex.
     str_of L content ''email'' (\<lambda>email.
     str_of L content ''home_city'' (\<lambda>home_city.
     str_of L content ''home_addr'' (\<lambda>home_addr.
     if role = [] \<or> user_id = [] then ret APIE_INVALID_CLIENT_REQ
     else if role \<noteq> ''user'' then ret APIE_INVALID_CLIENT_REQ
     else try_db (
       connect L (
       query L DB_SESSION (str_fields [(''role'', role), (''user_id'', user_id)]) (\<lambda>cursor.
       if cursor = [] then ret APIE_INVALID_CLIENT_REQ
       else update L DB_USR (str_fields [(''user_id'', user_id)])
              (BObj [(''$set'', str_fields [(''user_name'', user_name), (''sex'', sex), (''email'', email),
                 (''home_city'', home_city), (''home_addr'', home_addr)])]) False False
              (ret APIE_OK)))))))))))"

section \<open>user/pwd\<close>

definition user_Password_Post :: "'db lib \<Rightarrow> json \<Rightarrow> 'db prog" where
  "user_Password_Post L content =
     str_of L content ''role'' (\<lambda>role.
     str_of L content ''user_id'' (\<lambda>user_id.
     str_of L content ''pwd'' (\<lambda>pwd.
     if role = [] \<or> user_id = [] \<or> pwd = [] then ret APIE_INVALID_CLIENT_REQ
     else if role \<noteq> ''user'' then ret APIE_INVALID_CLIENT_REQ
     else try_db (
       connect L (
       query L DB_USR (str_fields [(''user_id'', user_id)]) (\<lambda>cursor.
       if cursor = [] then ret APIE_USER_NO_EXIST
       else update L DB_USR (str_fields [(''user_id'', user_id)])
              (BObj [(''$set'', str_fields [(''pwd'', pwd)])]) False False
              (ret APIE_OK)))))))"

section \<open>seller/session and seller/pwd\<close>

definition seller_Session_Post :: "'db lib \<Rightarrow> json \<Rightarrow> 'db prog" where
  "seller_Session_Post L content =
     str_of L content ''role'' (\<lambda>role.
     str_of L content ''id'' (\<lambda>seller_id.
     str_of L content ''pwd'' (\<lambda>pwd.
     str_of L content ''push_user_id'' (\<lambda>push_user_id.
     str_of L content ''push_channel_id'' (\<lambda>push_channel_id.
     str_of L content ''device_type'' (\<lambda>device_type.
     get_customstring_time (\<lambda>time.
     if role = [] \<or> seller_id = [] \<or> pwd = [] then ret APIE_INVALID_CLIENT_REQ
     else if role \<noteq> ''seller'' then ret APIE_INVALID_CLIENT_REQ
     else try_db (
       connect L (
       query L DB_SELLER (str_fields [(''seller_id'', seller_id)]) (\<lambda>cursor.
       case cursor of
         [] \<Rightarrow> ret APIE_SELLER_NO_EXIST
       | seller # _ \<Rightarrow>
           if pwd \<noteq> bs_getStringField L seller ''pwd'' then ret APIE_PWD_ERROR
           else query L DB_SESSION (str_fields [(''role'', ''seller''), (''identifier'', seller_id)]) (\<lambda>cursor.
             if cursor = [] then
               insert_into L DB_SESSION (BObj ([(''role'', BString role), (''identifier'', BString seller_id),
                   (''role'', BString ''seller'')] @ login_fields push_user_id push_channel_id device_type time))
                 (ret APIE_OK)
             else
               update L DB_SESSION (str_fields [(''role'', ''seller''), (''identifier'', seller_id)])
                 (BObj [(''$set'', BObj (login_fields push_user_id push_channel_id device_type time))]) True False
                 (ret APIE_OK))))))))))))"

definition seller_Session_Delete :: "'db lib \<Rightarrow> json \<Rightarrow> 'db prog" where
  "seller_Session_Delete L content =
     str_of L content ''role'' (\<lambda>role.
     str_of L content ''seller_id'' (\<lambda>seller_id.
     if role = [] \<or> seller_id = [] then ret APIE_INVALID_CLIENT_REQ
     else if role \<noteq> ''seller'' then ret APIE_INVALID_CLIENT_REQ
     else try_db (
       connect L (
       query L DB_SESSION (str_fields [(''role'', role), (''seller_id'', seller_id)]) (\<lambda>cursor.
       if cursor = [] then ret APIE_INVALID_CLIENT_REQ
       else update L DB_SESSION (str_fields [(''role'', role), (''seller_id'', seller_id)])
              (BObj [(''$set'', str_fields [(''status'', ''unlogin'')])]) False False
              (ret APIE_OK))))))"

definition seller_Password_Post :: "'db lib \<Rightarrow> json \<Rightarrow> 'db prog" where
  "seller_Password_Post L content =
     str_of L content ''role'' (\<lambda>role.
     str_of L content ''seller_id'' (\<lambda>seller_id.
     str_of L content ''pwd'' (\<lambda>pwd.
     if role = [] \<or> seller_id = [] \<or> pwd = [] then ret APIE_INVALID_CLIENT_REQ
     else if role \<noteq> ''seller'' then ret APIE_INVALID_CLIENT_REQ
     else try_db (
       connect L (
       query L DB_SELLER (str_fields [(''seller_id'', seller_id)]) (\<lambda>cursor.
       if cursor = [] then ret APIE_SELLER_NO_EXIST
       else update L DB_SELLER (str_fields [(''seller_id'', seller_id)])
              (BObj [(''$set'', str_fields [(''pwd'', pwd)])]) False False
              (ret APIE_OK)))))))"

section \<open>The contract\<close>

lemmas account_defs = user_Session_Post_def user_Session_Delete_def user_User_Get_def user_User_Post_def
  user_User_Delete_def user_User_Patch_def user_Password_Post_def seller_Session_Post_def
  seller_Session_Delete_def seller_Password_Post_def

interpretation user_session_post: guarded user_Session_Post "''user''" "''user_id''"
  by unfold_locales (auto simp: account_defs ret_def get_customstring_time_def)

interpretation user_session_delete: guarded user_Session_Delete "''user''" "''user_id''"
  by unfold_locales (auto simp: account_defs ret_def)

interpretation user_get: guarded user_User_Get "''user''" "''user_id''"
  by unfold_locales (auto simp: account_defs ret_def)

interpretation user_post: guarded user_User_Post "''user''" "''mobile''"
  by unfold_locales (auto simp: account_defs ret_def)

interpretation user_delete: guarded user_User_Delete "''user''" "''user_id''"
  by unfold_locales (auto simp: account_defs ret_def)

interpretation user_patch: guarded user_User_Patch "''user''" "''user_id''"
  by unfold_locales (auto simp: account_defs ret_def)

interpretation user_password: guarded user_Password_Post "''user''" "''user_id''"
  by unfold_locales (auto simp: account_defs ret_def)

interpretation seller_session_post: guarded seller_Session_Post "''seller''" "''id''"
  by unfold_locales (auto simp: account_defs ret_def get_customstring_time_def)

interpretation seller_session_delete: guarded seller_Session_Delete "''seller''" "''seller_id''"
  by unfold_locales (auto simp: account_defs ret_def)

interpretation seller_password: guarded seller_Password_Post "''seller''" "''seller_id''"
  by unfold_locales (auto simp: account_defs ret_def)

text \<open>
  Requests with a wrong role or without the identifier are refused by every account handler of
  users, and any number of them leaves the whole state as it is.
\<close>

theorem account_refuses:
  assumes "json_ok L" "\<forall>kvs \<in> set rs. arg kvs ''role'' \<noteq> ''user'' \<or> arg kvs ''user_id'' = []"
    and "h \<in> {user_Session_Post, user_Session_Delete, user_User_Get, user_User_Delete, user_User_Patch, user_Password_Post}"
  shows "run_requests h L (map req rs) w = (map (\<lambda>_. Ret APIE_INVALID_CLIENT_REQ) rs, w)"
  using assms(3) user_session_post.refuses_all [OF assms(1,2)] user_session_delete.refuses_all [OF assms(1,2)]
    user_get.refuses_all [OF assms(1,2)] user_delete.refuses_all [OF assms(1,2)]
    user_patch.refuses_all [OF assms(1,2)] user_password.refuses_all [OF assms(1,2)]
  by blast

theorem account_refuses_witness:
  "run_requests user_User_Delete mem_lib (map req [[(''role'', ''seller''), (''user_id'', ''bob'')], [(''role'', ''user'')]]) (mem_world []) =
     ([Ret APIE_INVALID_CLIENT_REQ, Ret APIE_INVALID_CLIENT_REQ], mem_world [])"
  using account_refuses [OF json_ok_mem, of "[[(''role'', ''seller''), (''user_id'', ''bob'')], [(''role'', ''user'')]]" user_User_Delete "mem_world []"]
  by (simp add: arg_def)

section \<open>Logging in\<close>

text \<open>
  What a login of \<open>who\<close> in \<open>role\<close> has to do: the account exists and has this password, and afterwards
  there is a session of the account with status \<open>login\<close>; nothing but the sessions changes.
\<close>

definition login_spec ::
  "('db \<Rightarrow> string \<Rightarrow> bson list) \<Rightarrow> string \<Rightarrow> string \<Rightarrow> int \<Rightarrow> string \<Rightarrow> string \<Rightarrow> string \<Rightarrow> 'db \<Rightarrow> result \<Rightarrow> 'db \<Rightarrow> bool" where
  "login_spec docs coll key missing role who pwd db r db' \<longleftrightarrow>
     (case r of
        Ret c \<Rightarrow>
          (c = APIE_OK \<and>
             (\<exists>acc. lookup docs db coll [(key, who)] = Some acc \<and> string_field acc ''pwd'' = pwd) \<and>
             (\<exists>s \<in> set (docs db' DB_SESSION). matches [(''role'', role), (''identifier'', who), (''status'', ''login'')] s) \<and>
             (\<forall>c. c \<noteq> DB_SESSION \<longrightarrow> docs db' c = docs db c)) \<or>
          (c = missing \<and> lookup docs db coll [(key, who)] = None \<and> db' = db) \<or>
          (c = APIE_PWD_ERROR \<and>
             (\<exists>acc. lookup docs db coll [(key, who)] = Some acc \<and> string_field acc ''pwd'' \<noteq> pwd) \<and> db' = db) \<or>
          (c = APIE_SERVER_INTERNAL \<and> db' = db)
      | Throw e \<Rightarrow> False)"

definition session_doc :: "string \<Rightarrow> string \<Rightarrow> (string \<times> bson) list \<Rightarrow> bson" where
  "session_doc role who fs = BObj ([(''role'', BString role), (''identifier'', BString who), (''role'', BString role)] @ fs)"

lemma login_insert:
  assumes "mongo_ok L docs" "db_insert L db DB_SESSION (session_doc role who (login_fields a b c t)) = Some db'"
  shows "\<exists>s \<in> set (docs db' DB_SESSION). matches [(''role'', role), (''identifier'', who), (''status'', ''login'')] s"
    and "\<forall>c. c \<noteq> DB_SESSION \<longrightarrow> docs db' c = docs db c"
  using mongo_insert [OF assms] by (auto simp: session_doc_def matches_def login_fields_def)

lemma login_update:
  assumes "mongo_ok L docs" "db_query L db DB_SESSION (str_fields q) = Some ds" "ds \<noteq> []"
    and "db_update L db DB_SESSION (str_fields q) (op_doc Set_op (login_fields a b c t)) True False = Some db'"
    and q: "q = [(''role'', role), (''identifier'', who)]"
  shows "\<exists>s \<in> set (docs db' DB_SESSION). matches [(''role'', role), (''identifier'', who), (''status'', ''login'')] s"
    and "\<forall>c. c \<noteq> DB_SESSION \<longrightarrow> docs db' c = docs db c"
proof -
  have pl: "plain_keys q" "plain_keys (login_fields a b c t)" by (simp_all add: q login_fields_def)
  from mongo_query [OF assms(1,2) pl(1)] assms(3) obtain d where d: "d \<in> set (docs db DB_SESSION)" "matches q d"
    by (metis filter_False)
  from mongo_update [OF assms(1,4) _ pl] d have upd:
    "docs db' = (docs db)(DB_SESSION := update_first (matches q) (apply_ops Set_op (login_fields a b c t)) (docs db DB_SESSION))"
    by blast
  then show "\<forall>c. c \<noteq> DB_SESSION \<longrightarrow> docs db' c = docs db c" by simp
  from update_first_hit [of d _ "matches q", OF d, of "apply_ops Set_op (login_fields a b c t)"] obtain e where
    e: "matches q e" "apply_ops Set_op (login_fields a b c t) e \<in> set (docs db' DB_SESSION)"
    by (auto simp: upd)
  then obtain x where "bfield e ''role'' = Some x" using matches_isobj [of q e "''role''" role] by (auto simp: q)
  then have "matches [(''role'', role), (''identifier'', who), (''status'', ''login'')] (apply_ops Set_op (login_fields a b c t) e)"
    using e(1) bfield_apply_set [of e "''role''" x "login_fields a b c t" "''status''" "BString ''login''"]
    by (simp add: matches_def bfield_apply_ops_other login_fields_def q)
  with e(2) show "\<exists>s \<in> set (docs db' DB_SESSION). matches [(''role'', role), (''identifier'', who), (''status'', ''login'')] s" by blast
qed

text \<open>The body that both login handlers share.\<close>

definition login_body ::
  "'db lib \<Rightarrow> string \<Rightarrow> string \<Rightarrow> int \<Rightarrow> string \<Rightarrow> string \<Rightarrow> string \<Rightarrow> (string \<times> bson) list \<Rightarrow> 'db prog" where
  "login_body L coll key missing role who pwd fs =
     connect L (query L coll (str_fields [(key, who)]) (\<lambda>cursor.
       case cursor of
         [] \<Rightarrow> ret missing
       | acc # _ \<Rightarrow>
           if pwd \<noteq> bs_getStringField L acc ''pwd'' then ret APIE_PWD_ERROR
           else query L DB_SESSION (str_fields [(''role'', role), (''identifier'', who)]) (\<lambda>cursor.
             if cursor = [] then insert_into L DB_SESSION (session_doc role who fs) (ret APIE_OK)
             else update L DB_SESSION (str_fields [(''role'', role), (''identifier'', who)]) (op_doc Set_op fs) True False
                    (ret APIE_OK))))"

lemma login_body_correct:
  assumes "bson_ok L" "mongo_ok L docs" "fs = login_fields a b c t" "plain_keys [(key, who)]"
  shows "wp (try_db (login_body L coll key missing role who pwd fs))
     (\<lambda>r w'. login_spec docs coll key missing role who pwd (w_db w) r (w_db w')) w"
proof (cases "db_connect L (w_db w)")
  case False
  then show ?thesis by (simp add: login_body_def wp_simps login_spec_def)
next
  case conn: True
  let ?q = "[(''role'', role), (''identifier'', who)]"
  show ?thesis
  proof (cases "db_query L (w_db w) coll (str_fields [(key, who)])")
    case None
    with conn show ?thesis by (simp add: login_body_def wp_simps login_spec_def)
  next
    case (Some ds)
    note found = lookup_query [OF assms(2) Some assms(4)]
    show ?thesis
    proof (cases ds)
      case Nil
      with conn Some found show ?thesis by (simp add: login_body_def wp_simps login_spec_def)
    next
      case (Cons acc rest)
      have pwd: "bs_getStringField L acc ''pwd'' = string_field acc ''pwd''"
        using assms(1) by (simp add: string_field_def)
      have ok: "wp (query L DB_SESSION (str_fields ?q) (\<lambda>cursor.
             if cursor = [] then insert_into L DB_SESSION (session_doc role who fs) (ret APIE_OK)
             else update L DB_SESSION (str_fields ?q) (op_doc Set_op fs) True False (ret APIE_OK)))
          (\<lambda>r w'. login_spec docs coll key missing role who pwd (w_db w)
             (if r = Throw DBException then Ret APIE_SERVER_INTERNAL else r) (w_db w')) w"
        if "pwd = string_field acc ''pwd''"
        using that Cons found login_insert [OF assms(2)] login_update [OF assms(2)]
        by (auto simp: wp_simps login_spec_def assms(3) split: option.split)
      show ?thesis
        using conn Some Cons found pwd ok by (simp add: login_body_def wp_simps) (simp add: login_spec_def)
    qed
  qed
qed

lemma user_login_lemma:
  assumes "json_ok L" "bson_ok L" "mongo_ok L docs"
    and "arg kvs ''role'' = ''user''" "arg kvs ''user_id'' = who" "who \<noteq> []" "arg kvs ''pwd'' = pwd" "pwd \<noteq> []"
    and "user_Session_Post L (req kvs) w = (r, w')"
  shows "login_spec docs DB_USR ''user_id'' APIE_USER_NO_EXIST ''user'' who pwd (w_db w) r (w_db w')"
proof -
  have "user_Session_Post L (req kvs) w = try_db (login_body L DB_USR ''user_id'' APIE_USER_NO_EXIST ''user'' who pwd
      (login_fields (arg kvs ''push_user_id'') (arg kvs ''push_channel_id'') (arg kvs ''device_type'') (w_time w))) w"
    unfolding user_Session_Post_def str_of_req [OF assms(1)] assms(4,5,7) login_body_def session_doc_def
      op_doc.simps get_customstring_time_def
    using assms(6,8) by simp
  note run = assms(9) [unfolded this]
  show ?thesis by (rule wpD [OF login_body_correct [OF assms(2,3) refl] run]) simp
qed

lemma seller_login_lemma:
  assumes "json_ok L" "bson_ok L" "mongo_ok L docs"
    and "arg kvs ''role'' = ''seller''" "arg kvs ''id'' = who" "who \<noteq> []" "arg kvs ''pwd'' = pwd" "pwd \<noteq> []"
    and "seller_Session_Post L (req kvs) w = (r, w')"
  shows "login_spec docs DB_SELLER ''seller_id'' APIE_SELLER_NO_EXIST ''seller'' who pwd (w_db w) r (w_db w')"
proof -
  have "seller_Session_Post L (req kvs) w = try_db (login_body L DB_SELLER ''seller_id'' APIE_SELLER_NO_EXIST ''seller'' who pwd
      (login_fields (arg kvs ''push_user_id'') (arg kvs ''push_channel_id'') (arg kvs ''device_type'') (w_time w))) w"
    unfolding seller_Session_Post_def str_of_req [OF assms(1)] assms(4,5,7) login_body_def session_doc_def
      op_doc.simps get_customstring_time_def
    using assms(6,8) by simp
  note run = assms(9) [unfolded this]
  show ?thesis by (rule wpD [OF login_body_correct [OF assms(2,3) refl] run]) simp
qed

section \<open>Sessions\<close>

text \<open>No session document has a field \<^verbatim>\<open>user_id\<close>, \<^verbatim>\<open>seller_id\<close> or \<^verbatim>\<open>uid\<close>: logins write \<^verbatim>\<open>identifier\<close>.\<close>

definition session_keys_ok :: "('db \<Rightarrow> string \<Rightarrow> bson list) \<Rightarrow> 'db \<Rightarrow> bool" where
  "session_keys_ok docs = all_docs docs DB_SESSION (\<lambda>d. \<forall>k \<in> {''user_id'', ''seller_id'', ''uid''}. bfield d k = None)"

definition account_handlers :: "('db lib \<Rightarrow> json \<Rightarrow> 'db prog) list" where
  "account_handlers = [user_Session_Post, user_Session_Delete, user_User_Get, user_User_Post, user_User_Delete,
     user_User_Patch, user_Password_Post, seller_Session_Post, seller_Session_Delete, seller_Password_Post]"

lemma account_keeps:
  assumes "mongo_ok L docs" "h \<in> set account_handlers"
  shows "keeps (session_keys_ok docs) (h L content)"
proof -
  note rules = keeps_str_of keeps_time keeps_if keeps_ret keeps_try_db keeps_connect keeps_case_list
    all_query_set [OF assms(1)] keeps_query keeps_gen_oid keeps_out_puts keeps_out_put keeps_val_or
    all_insert [OF assms(1)] all_set [OF assms(1)] all_remove [OF assms(1)]
  have "keeps (session_keys_ok docs) (user_Session_Post L content)" "keeps (session_keys_ok docs) (user_Session_Delete L content)"
    "keeps (session_keys_ok docs) (user_User_Get L content)" "keeps (session_keys_ok docs) (user_User_Post L content)"
    "keeps (session_keys_ok docs) (user_User_Delete L content)" "keeps (session_keys_ok docs) (user_User_Patch L content)"
    "keeps (session_keys_ok docs) (user_Password_Post L content)" "keeps (session_keys_ok docs) (seller_Session_Post L content)"
    "keeps (session_keys_ok docs) (seller_Session_Delete L content)" "keeps (session_keys_ok docs) (seller_Password_Post L content)"
    unfolding account_defs session_keys_ok_def
    by ((intro rules; simp add: db_names login_fields_def bfield_apply_ops_other))+
  with assms(2) show ?thesis by (auto simp: account_handlers_def)
qed

lemma session_query_empty:
  assumes "mongo_ok L docs" "session_keys_ok docs db" "db_query L db DB_SESSION (str_fields q) = Some ds"
    and "k \<in> {''user_id'', ''seller_id'', ''uid''}" "k \<in> fst ` set q" "plain_keys q"
  shows "ds = []"
proof -
  have "\<not> matches q d" if "d \<in> set (docs db DB_SESSION)" for d
    using assms(2,4,5) that matches_isobj [of q d k] by (fastforce simp: session_keys_ok_def all_docs_def)
  then show ?thesis using mongo_query [OF assms(1,3,6)] by (simp add: filter_empty_conv)
qed

lemma session_query:
  assumes "mongo_ok L docs" "session_keys_ok docs db" "k \<in> {''user_id'', ''seller_id'', ''uid''}"
  shows "db_query L db DB_SESSION (str_fields [(''role'', r), (k, v)]) = Some ds \<Longrightarrow> ds = []"
    and "db_query L db DB_SESSION (str_fields [(k, v)]) = Some ds \<Longrightarrow> ds = []"
  using session_query_empty [OF assms(1,2) _ assms(3)] assms(3) by (fastforce simp del: list.map)+

section \<open>Accounts are unique\<close>

definition users_unique :: "('db \<Rightarrow> string \<Rightarrow> bson list) \<Rightarrow> 'db \<Rightarrow> bool" where
  "users_unique docs = unique_keys docs DB_USR [''user_id'']"

lemma unique_query_insert:
  assumes "mongo_ok L docs" "\<And>s. bfield (d s) ''user_id'' = Some (BString u)"
    and "keeps (unique_keys docs DB_USR [''user_id'']) p1" "\<And>s. keeps (unique_keys docs DB_USR [''user_id'']) (p2 s)"
  shows "keeps (unique_keys docs DB_USR [''user_id'']) (query L DB_USR (str_fields [(''user_id'', u)])
     (\<lambda>ds. if ds \<noteq> [] then p1 else gen_oid L (\<lambda>s. insert_into L DB_USR (d s) (p2 s))))"
proof -
  have "unique_keys docs DB_USR [''user_id''] db'"
    if *: "unique_keys docs DB_USR [''user_id''] db" "db_query L db DB_USR (str_fields [(''user_id'', u)]) = Some []"
      "db_insert L db DB_USR (d s) = Some db'" for db db' s
    by (rule unique_keys_insert [OF assms(1) *]) (simp_all add: matches_def assms(2))
  then show ?thesis
    using assms(3,4) unfolding keeps_def by (auto simp: wp_simps split: option.split)
qed

lemma account_unique:
  assumes "mongo_ok L docs" "h \<in> set account_handlers"
  shows "keeps (users_unique docs) (h L content)"
proof -
  note rules = keeps_str_of keeps_time keeps_if keeps_ret keeps_try_db keeps_connect keeps_case_list
    unique_query_update [OF assms(1)] unique_query_insert [OF assms(1)] keeps_query keeps_gen_oid keeps_out_puts keeps_out_put keeps_val_or
    unique_insert [OF assms(1)] unique_update [OF assms(1)] unique_remove [OF assms(1)]
  have "keeps (users_unique docs) (user_Session_Post L content)" "keeps (users_unique docs) (user_Session_Delete L content)"
    "keeps (users_unique docs) (user_User_Get L content)" "keeps (users_unique docs) (user_User_Post L content)"
    "keeps (users_unique docs) (user_User_Delete L content)" "keeps (users_unique docs) (user_User_Patch L content)"
    "keeps (users_unique docs) (user_Password_Post L content)" "keeps (users_unique docs) (seller_Session_Post L content)"
    "keeps (users_unique docs) (seller_Session_Delete L content)" "keeps (users_unique docs) (seller_Password_Post L content)"
    unfolding account_defs users_unique_def by ((intro rules; simp add: db_names login_fields_def))+
  with assms(2) show ?thesis by (auto simp: account_handlers_def)
qed

text \<open>
  C14. No sequence of account requests registers two users with the same identifier.
\<close>

theorem account_reach_unique:
  assumes "mongo_ok L docs" "users_unique docs (w_db w0)" "reach account_handlers L w0 w"
  shows "users_unique docs (w_db w)"
  using assms(3,2) account_unique [OF assms(1)] by (rule reach_keeps)

section \<open>Changing the password\<close>

lemma password_changed:
  assumes "json_ok L" "mongo_ok L docs" "arg kvs ''user_id'' = who" "arg kvs ''pwd'' = pwd"
    and "user_Password_Post L (req kvs) w = (Ret APIE_OK, w')"
  shows "\<exists>acc. lookup docs (w_db w') DB_USR [(''user_id'', who)] = Some acc \<and> string_field acc ''pwd'' = pwd"
proof -
  let ?q = "[(''user_id'', who)]"
  have "wp (user_Password_Post L (req kvs)) (\<lambda>r w'. r = Ret APIE_OK \<longrightarrow>
      (\<exists>ds. db_query L (w_db w) DB_USR (str_fields ?q) = Some ds \<and> ds \<noteq> [] \<and>
        db_update L (w_db w) DB_USR (str_fields ?q) (BObj [(''$set'', str_fields [(''pwd'', pwd)])]) False False = Some (w_db w'))) w"
    using assms(1,3,4) by (auto simp: user_Password_Post_def wp_simps APIE_OK_def APIE_SERVER_INTERNAL_def
        APIE_USER_NO_EXIST_def APIE_INVALID_CLIENT_REQ_def split: option.split)
  from wpD [OF this assms(5)] obtain ds where ds: "db_query L (w_db w) DB_USR (str_fields ?q) = Some ds" "ds \<noteq> []"
    and upd: "db_update L (w_db w) DB_USR (str_fields ?q) (BObj [(''$set'', str_fields [(''pwd'', pwd)])]) False False = Some (w_db w')"
    by auto
  from lookup_query [OF assms(2) ds(1)] ds(2) obtain d where d: "List.find (matches ?q) (docs (w_db w) DB_USR) = Some d"
    by (cases ds) (auto simp: lookup_def)
  then have m: "matches ?q d" by (auto simp: find_Some_iff)
  then obtain x where x: "bfield d ''user_id'' = Some x" using matches_isobj [of ?q d "''user_id''"] by auto
  let ?d = "set_field ''pwd'' (BString pwd) d"
  have f: "apply_ops Set_op (map (\<lambda>(k, v). (k, BString v)) [(''pwd'', pwd)]) d = ?d" by (simp add: apply_ops_def)
  have "matches ?q ?d" using m by (simp add: matches_def)
  with mongo_set [OF assms(2) upd] find_update_first [OF d, of "apply_ops Set_op (map (\<lambda>(k, v). (k, BString v)) [(''pwd'', pwd)])"]
  have "lookup docs (w_db w') DB_USR ?q = Some ?d" unfolding f by (simp add: lookup_def)
  moreover have "string_field ?d ''pwd'' = pwd" using bfield_set_same [OF x] by (simp add: string_field_def)
  ultimately show ?thesis by blast
qed

text \<open>
  C15. After a successful change of the password, a login with the new password succeeds and a login
  with another one is refused, unless the database fails.
\<close>

theorem password_then_login:
  assumes "json_ok L" "bson_ok L" "mongo_ok L docs"
    and "arg kvs ''user_id'' = who" "arg kvs ''pwd'' = pwd" "user_Password_Post L (req kvs) w = (Ret APIE_OK, w')"
    and "arg login ''role'' = ''user''" "arg login ''user_id'' = who" "who \<noteq> []" "arg login ''pwd'' = pwd'" "pwd' \<noteq> []"
    and "user_Session_Post L (req login) w' = (r, w'')"
  shows "r = Ret APIE_SERVER_INTERNAL \<or> r = (if pwd' = pwd then Ret APIE_OK else Ret APIE_PWD_ERROR)"
  using password_changed [OF assms(1,3-6)] user_login_lemma [OF assms(1-3,7-12)]
  by (auto simp: login_spec_def APIE_OK_def APIE_SERVER_INTERNAL_def APIE_PWD_ERROR_def APIE_USER_NO_EXIST_def split: result.splits)


text \<open>
  The same for the login of a seller.
\<close>

theorem seller_login:
  assumes "json_ok L" "bson_ok L" "mongo_ok L docs"
    and "arg kvs ''role'' = ''seller''" "arg kvs ''id'' = who" "who \<noteq> []" "arg kvs ''pwd'' = pwd" "pwd \<noteq> []"
    and "seller_Session_Post L (req kvs) w = (r, w')"
  shows "login_spec docs DB_SELLER ''seller_id'' APIE_SELLER_NO_EXIST ''seller'' who pwd (w_db w) r (w_db w')"
  using assms by (rule seller_login_lemma)

section \<open>Witnesses\<close>

definition bob_db :: "(string \<times> bson list) list" where
  "bob_db = [(DB_USR, [str_fields [(''user_id'', ''bob''), (''pwd'', ''pw'')]]),
     (DB_SELLER, [str_fields [(''seller_id'', ''s1''), (''pwd'', ''pw'')]])]"

definition bob_login :: "(string \<times> string) list" where
  "bob_login = [(''role'', ''user''), (''user_id'', ''bob''), (''pwd'', ''pw'')]"

definition s1_login :: "(string \<times> string) list" where
  "s1_login = [(''role'', ''seller''), (''id'', ''s1''), (''pwd'', ''pw'')]"

abbreviation run_of :: "'a prog \<Rightarrow> 'a world \<Rightarrow> result" where
  "run_of p w \<equiv> fst (p w)"

lemma bob_arg: "arg bob_login ''role'' = ''user''" "arg bob_login ''user_id'' = ''bob''" "arg bob_login ''pwd'' = ''pw''"
  by (simp_all add: arg_def bob_login_def)

lemma s1_arg: "arg s1_login ''role'' = ''seller''" "arg s1_login ''id'' = ''s1''" "arg s1_login ''pwd'' = ''pw''"
  by (simp_all add: arg_def s1_login_def)


theorem seller_login_witness:
  "login_spec mem_get DB_SELLER ''seller_id'' APIE_SELLER_NO_EXIST ''seller'' ''s1'' ''pw'' bob_db
     (run_of (seller_Session_Post mem_lib (req s1_login)) (mem_world bob_db))
     (w_db (snd (seller_Session_Post mem_lib (req s1_login) (mem_world bob_db))))"
  using seller_login [OF json_ok_mem bson_ok_mem mongo_ok_mem s1_arg(1,2) _ s1_arg(3) _ surjective_pairing, of "mem_world bob_db"]
  by (simp add: mem_world_def)

lemma bob_logged_in: "run_of (user_Session_Post mem_lib (req bob_login)) (mem_world bob_db) = Ret APIE_OK"
  by code_simp

lemma bob_reach: "reach account_handlers mem_lib (mem_world bob_db) (snd (user_Session_Post mem_lib (req bob_login) (mem_world bob_db)))"
  by (rule request [OF start, of user_Session_Post]) (simp add: account_handlers_def, rule surjective_pairing)

lemma bob_sessions: "session_keys_ok mem_get (w_db (mem_world bob_db))"
  by (simp add: session_keys_ok_def all_docs_def mem_world_def bob_db_def db_names)

theorem account_reach_unique_witness:
  "users_unique mem_get (w_db (snd (user_Session_Post mem_lib (req bob_login) (mem_world bob_db))))"
  by (rule account_reach_unique [OF mongo_ok_mem _ bob_reach])
    (simp add: users_unique_def unique_keys_def keys_of_def mem_world_def bob_db_def db_names)

theorem password_then_login_witness:
  "run_of (user_Session_Post mem_lib (req bob_login)) (snd (user_Password_Post mem_lib (req bob_login) (mem_world bob_db)))
     \<in> {Ret APIE_SERVER_INTERNAL, Ret APIE_OK}"
proof -
  have "user_Password_Post mem_lib (req bob_login) (mem_world bob_db) =
      (Ret APIE_OK, snd (user_Password_Post mem_lib (req bob_login) (mem_world bob_db)))"
    by (rule prod_eqI) (code_simp, simp)
  from password_then_login [OF json_ok_mem bson_ok_mem mongo_ok_mem bob_arg(2,3) this bob_arg(1,2) _ bob_arg(3) _ surjective_pairing]
  show ?thesis by auto
qed

section \<open>Frame\<close>

text \<open>The requests of this theory write no collections but sessions, users and sellers.\<close>

lemma account_untouched:
  assumes "mongo_ok L docs" "h \<in> set account_handlers" "c \<notin> {DB_SESSION, DB_USR, DB_SELLER}"
  shows "keeps (content_is docs c X) (h L content)"
proof -
  have ne: "DB_SESSION \<noteq> c" "DB_USR \<noteq> c" "DB_SELLER \<noteq> c" using assms(3) by auto
  have "\<forall>h \<in> set account_handlers. keeps (content_is docs c X) (h L content)"
    unfolding account_handlers_def list.set ball_simps account_defs
    by (intro conjI TrueI keeps_rules same_insert [OF assms(1)] same_update [OF assms(1)] same_remove [OF assms(1)]; simp add: ne)
  with assms(2) show ?thesis by blast
qed

end
