(* ===== verification/Order_Api.thy ===== *)
theory Order_Api
  imports Api_Laws Config_File
begin

text \<open>
  The orders: \<^verbatim>\<open>uri/user/order.cpp\<close>, \<^verbatim>\<open>uri/seller/order.cpp\<close> and the constants of \<^verbatim>\<open>uri/order.h\<close>.
  A user places an order with target sellers, sellers reply to it, the user selects one of them, cancels
  or deletes the order, and the seller completes it. The properties are about the life of an order:
  which changes of its status the requests make, which statuses exist, and who may change it.
\<close>

section \<open>Constants\<close>

text \<open>The bytes of the UTF-8 literals.\<close>

definition OrderServiceTypeMaintenance :: string where
  "OrderServiceTypeMaintenance = [CHR 0xE8, CHR 0xBD, CHR 0xA6, CHR 0xE8, CHR 0xBE, CHR 0x86, CHR 0xE4, CHR 0xBF, CHR 0x9D, CHR 0xE5, CHR 0x85, CHR 0xBB]"

definition OrderServiceTypeFault :: string where
  "OrderServiceTypeFault = [CHR 0xE6, CHR 0x95, CHR 0x85, CHR 0xE9, CHR 0x9A, CHR 0x9C, CHR 0xE7, CHR 0xBB, CHR 0xB4, CHR 0xE4, CHR 0xBF, CHR 0xAE]"

definition OrderTypeBook :: string where
  "OrderTypeBook = ''books''"

definition OrderTypeBidding :: string where
  "OrderTypeBidding = ''bidding''"

section \<open>Loops over JSON arrays and BSON elements\<close>

fun json_strings :: "'db lib \<Rightarrow> json \<Rightarrow> nat \<Rightarrow> nat \<Rightarrow> string list \<Rightarrow> (string list \<Rightarrow> 'db prog) \<Rightarrow> 'db prog" where
  "json_strings L v i 0 acc k = k acc"
| "json_strings L v i (Suc n) acc k =
     val_or OtherException (js_index L v i) (\<lambda>x.
     val_or OtherException (js_asString L x) (\<lambda>s.
     json_strings L v (i + 1) n (acc @ [s]) k))"

text \<open>The reply of the selected seller; \<^verbatim>\<open>Obj()\<close> of an element that is no object throws.\<close>

fun find_reply :: "'db lib \<Rightarrow> string \<Rightarrow> bson list \<Rightarrow> bson option option" where
  "find_reply L seller_id [] = Some None"
| "find_reply L seller_id (e # es) = do {
     seller \<leftarrow> bs_Obj L e;
     if seller_id = bs_getStringField L seller ''seller_id'' then Some (Some seller)
     else find_reply L seller_id es
   }"

fun find_car :: "'db lib \<Rightarrow> string \<Rightarrow> bson list \<Rightarrow> bson option option" where
  "find_car L platenumber [] = Some None"
| "find_car L platenumber (e # es) = do {
     car \<leftarrow> bs_Obj L e;
     if platenumber = bs_getStringField L car ''platenumber'' then Some (Some car)
     else find_car L platenumber es
   }"

fun match_services :: "'db lib \<Rightarrow> string \<Rightarrow> bson list \<Rightarrow> bson list option" where
  "match_services L service_id [] = Some []"
| "match_services L service_id (e # es) = do {
     service \<leftarrow> bs_Obj L e;
     rest \<leftarrow> match_services L service_id es;
     Some ((if bs_getStringField L service ''service_id'' = service_id
            then [str_fields [(''service_id'', bs_getStringField L service ''service_id''),
                    (''service_type'', bs_getStringField L service ''type''),
                    (''price'', bs_getStringField L service ''price''),
                    (''title'', bs_getStringField L service ''title'')]]
            else []) @ rest)
   }"

fun detail_services :: "'db lib \<Rightarrow> json \<Rightarrow> bson list \<Rightarrow> nat \<Rightarrow> nat \<Rightarrow> bson list \<Rightarrow> (bson list \<Rightarrow> 'db prog) \<Rightarrow> 'db prog" where
  "detail_services L service_list services i 0 acc k = k acc"
| "detail_services L service_list services i (Suc n) acc k =
     val_or OtherException (js_index L service_list i) (\<lambda>v.
     val_or OtherException (js_asString L v) (\<lambda>service_id.
     val_or DBException (match_services L service_id services) (\<lambda>found.
     detail_services L service_list services (i + 1) n (acc @ found) k)))"

section \<open>user/order\<close>

definition user_Order_Get :: "'db lib \<Rightarrow> json \<Rightarrow> 'db prog" where
  "user_Order_Get L content =
     str_of L content ''role'' (\<lambda>role.
     str_of L content ''user_id'' (\<lambda>user_id.
     str_of L content ''order_id'' (\<lambda>order_id.
     str_of L content ''status'' (\<lambda>status.
     if role = [] \<or> role \<noteq> ''user'' \<or> user_id = [] \<or> order_id = [] then ret APIE_INVALID_CLIENT_REQ
     else try_db (
       connect L (
       query L DB_ORDER (str_fields [(''order_id'', order_id), (''user_id'', user_id)]) (\<lambda>cursor.
       case cursor of
         [] \<Rightarrow> ret APIE_INVALID_CLIENT_REQ
       | obj # _ \<Rightarrow>
           if status \<noteq> [] then
             out_puts L [(''order_status'', JString (bs_getStringField L obj ''status'')),
                         (''order_id'', JString (bs_getStringField L obj ''order_id''))] (ret APIE_OK)
           else
             out_puts L
               [(''order_id'', JString (bs_getStringField L obj ''order_id'')),
                (''user_id'', JString user_id),
                (''order_type'', JString (bs_getStringField L obj ''order_type'')),
                (''order_service_type'', JString (bs_getStringField L obj ''order_service_type'')),
                (''date_time'', JString (bs_getStringField L obj ''date_time'')),
                (''status'', JString (bs_getStringField L obj ''status'')),
                (''platenumber'', JString (bs_getStringField L obj ''platenumber'')),
                (''selected_seller'', JString (bs_getStringField L obj ''selected_seller'')),
                (''detail'', tojson_key L obj ''detail'')]
             (if bs_getStringField L obj ''status'' = ''confirmed'' \<and> bs_hasField L obj ''replies'' then
                val_or DBException
                  (find_reply L (bs_getStringField L obj ''selected_seller'')
                     (bs_elements L (bs_getObjectField L obj ''replies''))) (\<lambda>found.
                case found of
                  None \<Rightarrow> ret APIE_OK
                | Some seller \<Rightarrow> out_put L ''seller'' (bson_to_json L seller) (ret APIE_OK))
              else ret APIE_OK))))))))"

text \<open>An undefined \<^verbatim>\<open>atoi\<close> of the radius counts as an exception.\<close>

definition getSellersId :: "'db lib \<Rightarrow> json \<Rightarrow> json \<Rightarrow> (string list \<Rightarrow> 'db prog) \<Rightarrow> 'db prog" where
  "getSellersId L location condition k =
     str_of L condition ''radius'' (\<lambda>radius_text.
     val_or OtherException (atoi radius_text) (\<lambda>radius.
     str_of L condition ''type'' (\<lambda>type.
     str_of L condition ''level'' (\<lambda>level.
     member_of L location ''lat'' (\<lambda>lat_value. val_or OtherException (js_asDouble L lat_value) (\<lambda>lat.
     member_of L location ''lng'' (\<lambda>lng_value. val_or OtherException (js_asDouble L lng_value) (\<lambda>lng.
     query L DB_SELLER
       (BObj [(''location'', BObj [(''$near'', BArray [BDouble lng, BDouble lat]),
          (''$maxDistance'', BInt (if radius = 0 then 10 else radius))])]) (\<lambda>cursor.
     k (map (\<lambda>seller. bs_getStringField L seller ''seller_id'')
          (filter (\<lambda>seller. type = ''all'' \<or> type = bs_getStringField L seller ''type'') cursor)))))))))))"

text \<open>The field \<^verbatim>\<open>detail\<close> of the order, if the order has one.\<close>

definition makeOrderDetail :: "'db lib \<Rightarrow> string \<Rightarrow> string \<Rightarrow> json \<Rightarrow> ((string \<times> bson) list \<Rightarrow> 'db prog) \<Rightarrow> 'db prog" where
  "makeOrderDetail L orderType serviceType content k =
     str_of L content ''position'' (\<lambda>position.
     member_of L content ''items'' (\<lambda>items.
     if orderType = OrderTypeBook then
       member_of L content ''service_list'' (\<lambda>service_list.
       member_of L content ''target_seller'' (\<lambda>sellers.
       val_or OtherException (js_index L sellers 0) (\<lambda>first.
       val_or OtherException (js_asString L first) (\<lambda>seller_id.
       query L DB_SELLER (str_fields [(''seller_id'', seller_id)]) (\<lambda>cursor.
       case cursor of
         [] \<Rightarrow> k [(''detail'', BObj [])]
       | seller # _ \<Rightarrow>
           detail_services L service_list (bs_elements L (bs_getObjectField L seller ''services'')) 0
             (js_size L service_list) [] (\<lambda>services.
           k [(''detail'', BObj [(''seller_name'', BString (bs_getStringField L seller ''name'')),
                (''services'', BArray services)])]))))))
     else if serviceType = OrderServiceTypeMaintenance then
       fromjson L items (\<lambda>detail. k [(''detail'', detail)])
     else if serviceType = OrderServiceTypeFault then
       str_of L content ''touser'' (\<lambda>touser.
       json_strings L items 0 (js_size L items) [] (\<lambda>texts.
       k [(''detail'', BObj [(''position'', BString position), (''touser'', BString touser),
            (''items'', BArray (map BString texts))])]))
     else k []))"

definition user_Order_Post :: "'db lib \<Rightarrow> json \<Rightarrow> 'db prog" where
  "user_Order_Post L content =
     str_of L content ''role'' (\<lambda>role.
     str_of L content ''user_id'' (\<lambda>user_id.
     str_of L content ''mode'' (\<lambda>mode.
     str_of L content ''date_time'' (\<lambda>date.
     str_of L content ''order_type'' (\<lambda>order_type.
     str_of L content ''order_service_type'' (\<lambda>order_service_type.
     str_of L content ''position'' (\<lambda>position.
     member_of L content ''target_seller'' (\<lambda>sellers.
     member_of L content ''condition'' (\<lambda>condition.
     member_of L content ''location'' (\<lambda>location.
     gen_oid L (\<lambda>order_id.
     if role = [] \<or> user_id = [] \<or> role \<noteq> ''user'' \<or> js_empty L sellers then ret APIE_INVALID_CLIENT_REQ
     else try_db (
       connect L (
       query L DB_USR (str_fields [(''user_id'', user_id)]) (\<lambda>cursor.
       case cursor of
         [] \<Rightarrow> ret APIE_USER_NO_EXIST
       | user # _ \<Rightarrow>
           (if js_empty L sellers then getSellersId L location condition
            else json_strings L sellers 0 (js_size L sellers) []) (\<lambda>target_sellers.
           if target_sellers = [] then ret APIE_NO_SERVICE
           else
             str_of L content ''publicate_time'' (\<lambda>publicate_time.
             str_of L content ''platenumber'' (\<lambda>platenumber.
             member_of L location ''lat'' (\<lambda>lat_value. val_or OtherException (js_asDouble L lat_value) (\<lambda>lat.
             member_of L location ''lng'' (\<lambda>lng_value. val_or OtherException (js_asDouble L lng_value) (\<lambda>lng.
             val_or DBException (find_car L platenumber (bs_elements L (bs_getObjectField L user ''cars''))) (\<lambda>car.
             str_of L condition ''radius'' (\<lambda>radius.
             str_of L condition ''seller'' (\<lambda>seller.
             str_of L condition ''level'' (\<lambda>level.
             member_of L content ''images'' (\<lambda>images.
             getImageNames L images (\<lambda>names.
             val_or OtherException (getImageNamesFromBson_root L (BArray (map BString names))) (\<lambda>json_names.
             out_put L ''images'' json_names (
             makeOrderDetail L order_type order_service_type content (\<lambda>detail.
             insert_into L DB_ORDER
               (BObj ([(''role'', BString ''user''), (''user_id'', BString user_id),
                  (''user_name'', BString (bs_getStringField L user ''name'')),
                  (''order_id'', BString order_id), (''order_type'', BString order_type),
                  (''order_service_type'', BString order_service_type), (''date_time'', BString date),
                  (''publicate_time'', BString publicate_time), (''platenumber'', BString platenumber),
                  (''location'', BArray [BDouble lat, BDouble lng])] @
                  (case car of None \<Rightarrow> [] | Some c \<Rightarrow> [(''car_band'', BString (bs_getStringField L c ''band''))]) @
                  [(''condition'', str_fields [(''radius'', radius), (''seller'', seller), (''level'', level)]),
                   (''images'', BArray (map BString names))] @
                  detail @
                  [(''status'', BString ''new''), (''target_seller'', BArray (map BString target_sellers))])) (
             out_put L ''order_id'' (JString order_id) (
             val_or OtherException (js_build L [(''source'', JString ''user''), (''kind'', JString ''order''),
                 (''type'', JString order_service_type), (''order_id'', JString order_id)]) (\<lambda>msg.
             pushMessageToSellers L target_sellers msg (ret APIE_OK))))))))))))))))))))))))))))))))))"

definition user_Order_Put :: "'db lib \<Rightarrow> json \<Rightarrow> 'db prog" where
  "user_Order_Put L content =
     str_of L content ''role'' (\<lambda>role.
     str_of L content ''user_id'' (\<lambda>user_id.
     str_of L content ''order_id'' (\<lambda>order_id.
     str_of L content ''status'' (\<lambda>status.
     if user_id = [] \<or> order_id = [] \<or> status = [] then ret APIE_INVALID_CLIENT_REQ
     else if role \<noteq> ''user'' then ret APIE_INVALID_CLIENT_REQ
     else try_db (
       connect L (
       query L DB_ORDER (str_fields [(''order_id'', order_id)]) (\<lambda>cursor.
       case cursor of
         [] \<Rightarrow> ret APIE_OK
       | order # _ \<Rightarrow>
           let order_status = bs_getStringField L order ''status'' in
           if order_status = ''new'' then
             if status = ''canceled'' then
               update L DB_ORDER (str_fields [(''order_id'', order_id)])
                 (BObj [(''$set'', str_fields [(''status'', ''canceled'')])]) False False (ret APIE_OK)
             else if status = ''agree'' then
               str_of L content ''seller_id'' (\<lambda>seller_id.
               update L DB_ORDER (str_fields [(''order_id'', order_id)])
                 (BObj [(''$set'', str_fields [(''status'', ''confirmed''), (''selected_seller'', seller_id)])])
                 False False (ret APIE_OK))
             else ret APIE_OK
           else if order_status = ''canceled'' then
             if status = ''delete'' then
               remove_from L DB_ORDER (str_fields [(''order_id'', order_id)]) (ret APIE_OK)
             else ret APIE_OK
           else if order_status = ''selected'' then
             if status = ''cancel'' then
               update L DB_ORDER (str_fields [(''order_id'', order_id)])
                 (BObj [(''$set'', str_fields [(''status'', ''canceled'')])]) False False (ret APIE_OK)
             else if status = ''delete'' then
               remove_from L DB_ORDER (str_fields [(''order_id'', order_id)]) (ret APIE_OK)
             else ret APIE_OK
           else ret APIE_SERVER_INTERNAL)))))))"

definition user_Order_Delete :: "'db lib \<Rightarrow> json \<Rightarrow> 'db prog" where
  "user_Order_Delete L content =
     str_of L content ''role'' (\<lambda>role.
     str_of L content ''user_id'' (\<lambda>user_id.
     str_of L content ''order_id'' (\<lambda>order_id.
     if role = [] \<or> role \<noteq> ''user'' \<or> user_id = [] \<or> order_id = [] then ret APIE_INVALID_CLIENT_REQ
     else try_db (
       connect L (
       query L DB_ORDER (str_fields [(''user_id'', user_id), (''order_id'', order_id)]) (\<lambda>cursor.
       if cursor \<noteq> [] then
         remove_from L DB_ORDER (str_fields [(''user_id'', user_id), (''order_id'', order_id)]) (ret APIE_OK)
       else ret APIE_OK))))))"

section \<open>seller/order\<close>

definition seller_Order_Get :: "'db lib \<Rightarrow> json \<Rightarrow> 'db prog" where
  "seller_Order_Get L content =
     str_of L content ''role'' (\<lambda>role.
     str_of L content ''seller_id'' (\<lambda>seller_id.
     str_of L content ''order_id'' (\<lambda>order_id.
     str_of L content ''status'' (\<lambda>statusOnly.
     if role = [] \<or> role \<noteq> ''seller'' \<or> seller_id = [] \<or> order_id = [] then ret APIE_INVALID_CLIENT_REQ
     else try_db (
       connect L (
       query L DB_ORDER (str_fields [(''order_id'', order_id)]) (\<lambda>cursor.
       case cursor of
         [] \<Rightarrow> ret APIE_OK
       | obj # _ \<Rightarrow>
           if statusOnly \<noteq> [] then
             out_puts L [(''order_id'', JString (bs_getStringField L obj ''order_id'')),
                         (''order_status'', JString (bs_getStringField L obj ''status''))] (ret APIE_OK)
           else
             out_puts L
               ([(''order_id'', JString (bs_getStringField L obj ''order_id'')),
                (''order_type'', JString (bs_getStringField L obj ''order_type'')),
                (''order_service_type'', JString (bs_getStringField L obj ''order_service_type'')),
                (''user_id'', JString (bs_getStringField L obj ''user_id'')),
                (''user_name'', JString (bs_getStringField L obj ''user_name'')),
                (''date_time'', JString (bs_getStringField L obj ''date_time'')),
                (''status'', JString (bs_getStringField L obj ''status'')),
                (''platenumber'', JString (bs_getStringField L obj ''platenumber'')),
                (''car_band'', JString (bs_getStringField L obj ''car_band''))] @
                (if bs_hasField L obj ''replies'' then [(''replies'', tojson_key L obj ''replies'')] else []) @
                [(''detail'', tojson_key L obj ''detail'')]) (ret APIE_OK))))))))"

definition seller_Order_Put :: "'db lib \<Rightarrow> json \<Rightarrow> 'db prog" where
  "seller_Order_Put L content =
     str_of L content ''role'' (\<lambda>role.
     str_of L content ''seller_id'' (\<lambda>seller_id.
     str_of L content ''order_id'' (\<lambda>order_id.
     str_of L content ''status'' (\<lambda>status.
     if seller_id = [] \<or> order_id = [] \<or> status = [] then ret APIE_INVALID_CLIENT_REQ
     else if role \<noteq> ''seller'' then ret APIE_INVALID_CLIENT_REQ
     else try_db (
       connect L (
       query L DB_ORDER (str_fields [(''order_id'', order_id)]) (\<lambda>cursor.
       case cursor of
         [] \<Rightarrow> ret APIE_INVALID_CLIENT_REQ
       | order # _ \<Rightarrow>
           let user_id = bs_getStringField L order ''user_id'';
               order_type = bs_getStringField L order ''order_type'';
               order_service_type = bs_getStringField L order ''order_service_type'';
               order_status = bs_getStringField L order ''status''
           in if status = ''agree'' then
                str_of L content ''cost'' (\<lambda>cost.
                str_of L content ''time'' (\<lambda>time.
                str_of L content ''feedback'' (\<lambda>feedback.
                if order_status = ''new'' then
                  (\<lambda>k. if order_type = OrderTypeBidding \<and> order_service_type = OrderServiceTypeMaintenance then
                          fromjson_key L content ''mileage_items'' (\<lambda>mileage_items.
                          fromjson_key L content ''user_items'' (\<lambda>user_items.
                          k [(''mileage_items'', mileage_items), (''user_items'', user_items)]))
                        else k [])
                  (\<lambda>extra.
                   let reply = BObj ([(''seller_id'', BString seller_id), (''cost'', BString cost),
                         (''time'', BString time), (''feedback'', BString feedback),
                         (''status'', BString ''agree'')] @ extra)
                   in (if \<not> bs_hasField L order ''replies'' then
                         update L DB_ORDER (str_fields [(''order_id'', order_id)])
                           (BObj [(''$set'', BObj [(''replies'', BArray [reply])])]) False False
                       else
                         update L DB_ORDER (str_fields [(''order_id'', order_id)])
                           (BObj [(''$push'', BObj [(''replies'', reply)])]) False False)
                      (val_or OtherException (js_build L [(''source'', JString ''seller''), (''kind'', JString ''order''),
                          (''type'', JString ''order''), (''order_id'', JString order_id),
                          (''seller_id'', JString seller_id), (''status'', JString ''agree'')]) (\<lambda>msg.
                       pushMessageToUser L user_id msg (ret APIE_OK))))
                else ret APIE_SERVER_INTERNAL)))
              else if status = ''ignore'' then
                update L DB_ORDER (str_fields [(''order_id'', order_id)])
                  (BObj [(''$pull'', BObj [(''target_seller'', BString seller_id)])]) False False (ret APIE_OK)
              else if status = ''canceled'' then
                update L DB_ORDER (str_fields [(''order_id'', order_id)])
                  (BObj [(''$pull'', BObj [(''target_seller'', BString seller_id)])]) False False (ret APIE_OK)
              else if status = ''completed'' then
                update L DB_ORDER (str_fields [(''order_id'', order_id)])
                  (BObj [(''$set'', str_fields [(''status'', ''completed'')])]) False False (ret APIE_OK)
              else ret APIE_OK)))))))"

section \<open>Contract and shared facts\<close>

lemmas order_defs = user_Order_Get_def user_Order_Post_def user_Order_Put_def user_Order_Delete_def
  seller_Order_Get_def seller_Order_Put_def

interpretation user_order_get: guarded user_Order_Get "''user''" "''user_id''"
  by unfold_locales (auto simp: order_defs ret_def)


interpretation user_order_delete: guarded user_Order_Delete "''user''" "''user_id''"
  by unfold_locales (auto simp: order_defs ret_def)

interpretation seller_order_get: guarded seller_Order_Get "''seller''" "''seller_id''"
  by unfold_locales (auto simp: order_defs ret_def)


lemma keeps_json_strings [intro!]: "(\<And>ss. keeps P (k ss)) \<Longrightarrow> keeps P (json_strings L v i n acc k)"
  by (induction L v i n acc k rule: json_strings.induct) auto

lemma keeps_detail_services: "(\<And>ss. keeps P (k ss)) \<Longrightarrow> keeps P (detail_services L sl sv i n acc k)"
  by (induction L sl sv i n acc k rule: detail_services.induct) auto

lemma keeps_getSellersId: "(\<And>ss. keeps P (k ss)) \<Longrightarrow> keeps P (getSellersId L a b k)"
  unfolding getSellersId_def by (intro keeps_str_of keeps_val_or keeps_member_of keeps_query)

lemma keeps_if_app:
  "(b \<Longrightarrow> keeps P (f k)) \<Longrightarrow> (\<not> b \<Longrightarrow> keeps P (g k)) \<Longrightarrow> keeps P ((if b then f else g) k)"
  by simp

text \<open>A handler that passes on what \<open>makeOrderDetail\<close> gives only sees a field \<^verbatim>\<open>detail\<close>.\<close>

lemma keeps_makeOrderDetail:
  assumes "keeps P (k [])" "\<And>d. keeps P (k [(''detail'', d)])"
  shows "keeps P (makeOrderDetail L a b content k)"
  unfolding makeOrderDetail_def
  by (intro keeps_str_of keeps_member_of keeps_val_or keeps_query keeps_case_list keeps_if keeps_detail_services
      keeps_fromjson keeps_json_strings assms)

section \<open>Which statuses an order can have\<close>

definition order_statuses :: "string set" where
  "order_statuses = {''new'', ''canceled'', ''confirmed'', ''completed''}"

definition status_ok :: "bson \<Rightarrow> bool" where
  "status_ok d \<longleftrightarrow> (\<forall>s. bfield d ''status'' = Some (BString s) \<longrightarrow> s \<in> order_statuses)"

definition order_handlers :: "('db lib \<Rightarrow> json \<Rightarrow> 'db prog) list" where
  "order_handlers = [user_Order_Get, user_Order_Post, user_Order_Put, user_Order_Delete, seller_Order_Get, seller_Order_Put]"

lemma bfield_set_cases:
  "bfield (apply_ops Set_op kvs d) k = Some v \<Longrightarrow> (k, v) \<in> set kvs \<or> bfield d k = Some v"
proof (induction kvs arbitrary: d)
  case (Cons kv kvs)
  obtain k1 v1 where kv: "kv = (k1, v1)" by (cases kv)
  from Cons have "(k, v) \<in> set kvs \<or> bfield (set_field k1 v1 d) k = Some v" by (simp add: apply_ops_def kv)
  then show ?case by (cases d) (auto simp: kv map_of_put_field split: if_splits)
qed (simp add: apply_ops_def)

lemma status_ok_set:
  assumes "status_ok d" "\<forall>s. (''status'', BString s) \<in> set kvs \<longrightarrow> s \<in> order_statuses"
  shows "status_ok (apply_ops Set_op kvs d)"
  using assms bfield_set_cases [of kvs d "''status''"] unfolding status_ok_def by blast

lemma status_ok_other: "status_ok d \<Longrightarrow> ''status'' \<notin> fst ` set kvs \<Longrightarrow> status_ok (apply_ops oper kvs d)"
  by (simp add: status_ok_def bfield_apply_ops_other)

lemma order_keeps_status:
  assumes "mongo_ok L docs" "h \<in> set order_handlers"
  shows "keeps (all_docs docs DB_ORDER status_ok) (h L content)"
proof -
  note rules = keeps_str_of keeps_member_of keeps_if keeps_ret keeps_try_db keeps_connect keeps_case_list keeps_Let
    keeps_query keeps_gen_oid keeps_out_puts keeps_out_put keeps_val_or keeps_case_option
    all_insert [OF assms(1)] all_set [OF assms(1)] all_push [OF assms(1)] all_pull [OF assms(1)] all_remove [OF assms(1)]
    keeps_if_app keeps_getSellersId keeps_json_strings keeps_getImageNames keeps_makeOrderDetail keeps_push keeps_fromjson_key
  have "keeps (all_docs docs DB_ORDER status_ok) (user_Order_Get L content)"
    unfolding user_Order_Get_def by (intro rules)
  moreover have "keeps (all_docs docs DB_ORDER status_ok) (user_Order_Post L content)"
    unfolding user_Order_Post_def
    by (intro rules) (auto simp: status_ok_def order_statuses_def map_of_append split: option.split)
  moreover have "keeps (all_docs docs DB_ORDER status_ok) (user_Order_Put L content)"
    unfolding user_Order_Put_def
    by (intro rules; auto intro!: status_ok_set simp: order_statuses_def)
  moreover have "keeps (all_docs docs DB_ORDER status_ok) (user_Order_Delete L content)"
    unfolding user_Order_Delete_def by (intro rules; simp)
  moreover have "keeps (all_docs docs DB_ORDER status_ok) (seller_Order_Get L content)"
    unfolding seller_Order_Get_def by (intro rules)
  moreover have "keeps (all_docs docs DB_ORDER status_ok) (seller_Order_Put L content)"
    unfolding seller_Order_Put_def
    by (intro rules; auto intro!: status_ok_set status_ok_other [of _ _ Push_op] status_ok_other [of _ _ Pull_op] simp: order_statuses_def)
  ultimately show ?thesis using assms(2) by (auto simp: order_handlers_def)
qed

section \<open>The life of an order\<close>

text \<open>What a request with status \<open>t\<close> of the user does to an order with status \<open>s\<close>, and the same for the seller.\<close>

datatype change = Keep | Set_status string | Remove | Refuse

definition user_change :: "string \<Rightarrow> string \<Rightarrow> change" where
  "user_change s t =
     (if s = ''new'' then
        if t = ''canceled'' then Set_status ''canceled'' else if t = ''agree'' then Set_status ''confirmed'' else Keep
      else if s = ''canceled'' then if t = ''delete'' then Remove else Keep
      else if s = ''selected'' then
        if t = ''cancel'' then Set_status ''canceled'' else if t = ''delete'' then Remove else Keep
      else Refuse)"

definition seller_change :: "string \<Rightarrow> string \<Rightarrow> change" where
  "seller_change s t =
     (if t = ''agree'' then if s = ''new'' then Keep else Refuse
      else if t = ''completed'' then Set_status ''completed'' else Keep)"

definition the_order :: "('db \<Rightarrow> string \<Rightarrow> bson list) \<Rightarrow> 'db \<Rightarrow> string \<Rightarrow> bson option" where
  "the_order docs db oid = List.find (matches [(''order_id'', oid)]) (docs db DB_ORDER)"

text \<open>The identifier of an order is a string.\<close>

definition string_id :: "bson \<Rightarrow> bool" where
  "string_id d \<longleftrightarrow> (\<exists>s. bfield d ''order_id'' = Some (BString s))"

abbreviation string_ids :: "('db \<Rightarrow> string \<Rightarrow> bson list) \<Rightarrow> 'db \<Rightarrow> bool" where
  "string_ids docs \<equiv> all_docs docs DB_ORDER string_id"

lemma matches_one_id: "string_id d \<Longrightarrow> matches [(''order_id'', a)] d \<Longrightarrow> matches [(''order_id'', b)] d \<Longrightarrow> a = b"
  by (auto simp: string_id_def matches_def)

abbreviation order_status :: "bson \<Rightarrow> string" where
  "order_status d \<equiv> (case bfield d ''status'' of Some (BString s) \<Rightarrow> s | _ \<Rightarrow> [])"

text \<open>The order afterwards, as the change says; only this order is touched.\<close>

definition changed :: "change \<Rightarrow> ('db \<Rightarrow> string \<Rightarrow> bson list) \<Rightarrow> 'db \<Rightarrow> 'db \<Rightarrow> string \<Rightarrow> bson \<Rightarrow> result \<Rightarrow> bool" where
  "changed ch docs db db' oid d r \<longleftrightarrow>
     (case ch of
        Keep \<Rightarrow> r = Ret APIE_OK \<and> (\<exists>d'. the_order docs db' oid = Some d' \<and> bfield d' ''status'' = bfield d ''status'')
      | Set_status s \<Rightarrow> r = Ret APIE_OK \<and> (\<exists>d'. the_order docs db' oid = Some d' \<and> order_status d' = s)
      | Remove \<Rightarrow> r = Ret APIE_OK \<and> the_order docs db' oid = None
      | Refuse \<Rightarrow> r = Ret APIE_SERVER_INTERNAL \<and> db' = db) \<and>
     (\<forall>oid'. oid' \<noteq> oid \<longrightarrow> the_order docs db' oid' = the_order docs db oid')"

lemma order_ops:
  assumes "docs db' = (docs db)(DB_ORDER := update_first (matches [(''order_id'', oid)]) (apply_ops oper kvs) (docs db DB_ORDER))"
    and "the_order docs db oid = Some d" "''order_id'' \<notin> fst ` set kvs"
  shows "the_order docs db' oid = Some (apply_ops oper kvs d)"
    and "string_ids docs db \<Longrightarrow> \<forall>oid'. oid' \<noteq> oid \<longrightarrow> the_order docs db' oid' = the_order docs db oid'"
proof -
  have m: "matches [(''order_id'', o')] (apply_ops oper kvs x) = matches [(''order_id'', o')] x" for o' x
    using assms(3) by (simp add: matches_def bfield_apply_ops_other)
  have "matches [(''order_id'', oid)] d" using assms(2) by (metis find_Some_iff the_order_def)
  then show "the_order docs db' oid = Some (apply_ops oper kvs d)"
    using find_update_first [OF assms(2) [unfolded the_order_def], of "apply_ops oper kvs"] m
    by (simp add: assms(1) the_order_def)
  show "\<forall>oid'. oid' \<noteq> oid \<longrightarrow> the_order docs db' oid' = the_order docs db oid'" if "string_ids docs db"
    using m matches_one_id that by (auto simp: assms(1) the_order_def all_docs_def intro!: find_update_first_other)
qed

lemma order_removed:
  assumes "docs db' = (docs db)(DB_ORDER := filter (\<lambda>d. \<not> matches [(''order_id'', oid)] d) (docs db DB_ORDER))"
    and "string_ids docs db"
  shows "the_order docs db' oid = None" "\<forall>oid'. oid' \<noteq> oid \<longrightarrow> the_order docs db' oid' = the_order docs db oid'"
  using matches_one_id assms(2) by (auto simp: assms(1) the_order_def find_None_iff all_docs_def intro!: find_filter_other)

lemma order_query:
  assumes "mongo_ok L docs" "db_query L db DB_ORDER (str_fields [(''order_id'', oid)]) = Some ds"
  shows "the_order docs db oid = (case ds of [] \<Rightarrow> None | d # _ \<Rightarrow> Some d)"
  using mongo_query [OF assms] by (simp add: the_order_def find_filter)

lemma order_has_id: "the_order docs db oid = Some d \<Longrightarrow> \<exists>x. bfield d ''order_id'' = Some x"
  by (auto simp: the_order_def find_Some_iff intro: matches_isobj)

text \<open>The three kinds of updates the order handlers make.\<close>

lemma set_status_changed:
  assumes "mongo_ok L docs" "the_order docs db oid = Some d"
    and "db_update L db DB_ORDER (str_fields [(''order_id'', oid)]) (BObj [(''$set'', BObj kvs)]) False False = Some db'"
    and "''order_id'' \<notin> fst ` set kvs" "distinct (map fst kvs)" "(''status'', BString s) \<in> set kvs"
    and "string_ids docs db" "plain_keys kvs"
  shows "changed (Set_status s) docs db db' oid d (Ret APIE_OK)"
proof -
  from mongo_set [OF assms(1,3)] assms(8) have u:
    "docs db' = (docs db)(DB_ORDER := update_first (matches [(''order_id'', oid)]) (apply_ops Set_op kvs) (docs db DB_ORDER))"
    by simp
  obtain x where "bfield d ''order_id'' = Some x" using order_has_id [OF assms(2)] ..
  from bfield_apply_set [OF this assms(5,6)] have "order_status (apply_ops Set_op kvs d) = s" by simp
  then show ?thesis using order_ops [OF u assms(2,4)] assms(7) by (simp add: changed_def)
qed

lemma other_field_changed:
  assumes "mongo_ok L docs" "the_order docs db oid = Some d"
    and "db_update L db DB_ORDER (str_fields [(''order_id'', oid)]) (op_doc oper kvs) False False = Some db'"
    and "''order_id'' \<notin> fst ` set kvs" "''status'' \<notin> fst ` set kvs" "string_ids docs db" "plain_keys kvs"
  shows "changed Keep docs db db' oid d (Ret APIE_OK)"
proof -
  from mongo_update [OF assms(1,3)] assms(7) have u:
    "docs db' = (docs db)(DB_ORDER := update_first (matches [(''order_id'', oid)]) (apply_ops oper kvs) (docs db DB_ORDER))"
    by simp
  show ?thesis using order_ops [OF u assms(2,4)] assms(5,6) by (simp add: changed_def bfield_apply_ops_other)
qed

lemmas push_changed = other_field_changed [where oper = Push_op, unfolded op_doc.simps]
  and pull_changed = other_field_changed [where oper = Pull_op, unfolded op_doc.simps]
  and replies_changed = other_field_changed [where oper = Set_op, unfolded op_doc.simps]

lemma removed_changed:
  assumes "mongo_ok L docs" "db_remove L db DB_ORDER (str_fields [(''order_id'', oid)]) = Some db'" "string_ids docs db"
  shows "changed Remove docs db db' oid d (Ret APIE_OK)"
  using order_removed [OF mongo_remove [OF assms(1,2)] assms(3)] by (simp add: changed_def)

lemma kept_changed: "the_order docs db oid = Some d \<Longrightarrow> changed Keep docs db db oid d (Ret APIE_OK)"
  by (simp add: changed_def)

lemma refused_changed: "changed Refuse docs db db oid d (Ret APIE_SERVER_INTERNAL)"
  by (simp add: changed_def)


definition agree_message :: "string \<Rightarrow> string \<Rightarrow> string \<Rightarrow> json" where
  "agree_message user_id order_id seller_id =
     JObject [(''method'', JInt MessageTypePushToSingle),
       (''msg'', JObject [(''kind'', JString ''order''), (''order_id'', JString order_id), (''seller_id'', JString seller_id),
          (''source'', JString ''seller''), (''status'', JString ''agree''), (''type'', JString ''order'')]),
       (''target'', JString user_id), (''to'', JString ''user'')]"

lemma agree_message_build:
  assumes "json_ok L" "u \<noteq> []"
  shows "wp (val_or OtherException (js_build L [(''source'', JString ''seller''), (''kind'', JString ''order''),
      (''type'', JString ''order''), (''order_id'', JString oid), (''seller_id'', JString sid), (''status'', JString ''agree'')])
      (\<lambda>msg. pushMessageToUser L u msg p)) Q w =
    wp p Q (if mq_connect L then w\<lparr>w_published := w_published w @ [agree_message u oid sid]\<rparr> else w)"
proof -
  have "js_build L [(''source'', JString ''seller''), (''kind'', JString ''order''),
      (''type'', JString ''order''), (''order_id'', JString oid), (''seller_id'', JString sid), (''status'', JString ''agree'')] =
    Some (JObject [(''kind'', JString ''order''), (''order_id'', JString oid), (''seller_id'', JString sid),
          (''source'', JString ''seller''), (''status'', JString ''agree''), (''type'', JString ''order'')])"
    by (simp add: js_build_obj [OF assms(1)])
  moreover have "push_single L ''user'' u (JObject [(''kind'', JString ''order''), (''order_id'', JString oid), (''seller_id'', JString sid),
          (''source'', JString ''seller''), (''status'', JString ''agree''), (''type'', JString ''order'')]) = Some (agree_message u oid sid)"
    by (simp add: push_single_def js_build_obj [OF assms(1)] agree_message_def)
  ultimately show ?thesis
    using assms by (simp add: wp_simps pushMessageToUser_def json_ok_def)
qed

text \<open>The document of a reply.\<close>

definition is_reply :: "(string \<times> string) list \<Rightarrow> bson \<Rightarrow> bool" where
  "is_reply kvs d \<longleftrightarrow> matches [(''seller_id'', arg kvs ''seller_id''), (''cost'', arg kvs ''cost''),
     (''time'', arg kvs ''time''), (''feedback'', arg kvs ''feedback''), (''status'', ''agree'')] d"

lemma order_update_doc:
  assumes "mongo_ok L docs" "the_order docs db oid = Some d" "''order_id'' \<notin> fst ` set kvs" "plain_keys kvs"
    and "db_update L db DB_ORDER (str_fields [(''order_id'', oid)]) (op_doc oper kvs) False False = Some db'"
  shows "the_order docs db' oid = Some (apply_ops oper kvs d)"
proof -
  from mongo_update [OF assms(1,5)] assms(4) have
    "docs db' = (docs db)(DB_ORDER := update_first (matches [(''order_id'', oid)]) (apply_ops oper kvs) (docs db DB_ORDER))"
    by simp
  then show ?thesis using assms(2,3) by (rule order_ops)
qed

lemma reply_stored:
  assumes "bson_ok L" "mongo_ok L docs" "the_order docs db oid = Some d"
    and "(if \<not> bs_hasField L d ''replies''
       then db_update L db DB_ORDER (str_fields [(''order_id'', oid)]) (BObj [(''$set'', BObj [(''replies'', BArray [reply])])]) False False
       else db_update L db DB_ORDER (str_fields [(''order_id'', oid)]) (BObj [(''$push'', BObj [(''replies'', reply)])]) False False) = Some db'"
  shows "\<exists>d'. the_order docs db' oid = Some d' \<and> elems (bfield d' ''replies'') = elems (bfield d ''replies'') @ [reply]"
proof -
  obtain x where id: "bfield d ''order_id'' = Some x" using order_has_id [OF assms(3)] ..
  show ?thesis
  proof (cases "bs_hasField L d ''replies''")
    case True
    from order_update_doc [OF assms(2,3), of "[(''replies'', reply)]" Push_op, simplified] True assms(4)
    have "the_order docs db' oid = Some (set_field ''replies'' (BArray (elems (bfield d ''replies'') @ [reply])) d)"
      by (simp add: apply_ops_def)
    with bfield_set_same [OF id, of "''replies''"] show ?thesis by simp
  next
    case False
    then have "bfield d ''replies'' = None" using assms(1) by simp
    moreover from order_update_doc [OF assms(2,3), of "[(''replies'', BArray [reply])]" Set_op, simplified] False assms(4)
    have "the_order docs db' oid = Some (set_field ''replies'' (BArray [reply]) d)"
      by (simp add: apply_ops_def)
    ultimately show ?thesis using bfield_set_same [OF id, of "''replies''"] by simp
  qed
qed

text \<open>Storing the reply and telling the user.\<close>

definition send_reply :: "'db lib \<Rightarrow> bson \<Rightarrow> string \<Rightarrow> string \<Rightarrow> bson \<Rightarrow> 'db prog" where
  "send_reply L order oid sid reply =
     (if \<not> bs_hasField L order ''replies''
      then update L DB_ORDER (str_fields [(''order_id'', oid)]) (BObj [(''$set'', BObj [(''replies'', BArray [reply])])]) False False
      else update L DB_ORDER (str_fields [(''order_id'', oid)]) (BObj [(''$push'', BObj [(''replies'', reply)])]) False False)
     (val_or OtherException (js_build L [(''source'', JString ''seller''), (''kind'', JString ''order''),
        (''type'', JString ''order''), (''order_id'', JString oid), (''seller_id'', JString sid), (''status'', JString ''agree'')])
        (\<lambda>msg. pushMessageToUser L (bs_getStringField L order ''user_id'') msg (ret APIE_OK)))"

definition agree_doc :: "(string \<times> string) list \<Rightarrow> (string \<times> bson) list \<Rightarrow> bson" where
  "agree_doc kvs extra = BObj ([(''seller_id'', BString (arg kvs ''seller_id'')), (''cost'', BString (arg kvs ''cost'')),
     (''time'', BString (arg kvs ''time'')), (''feedback'', BString (arg kvs ''feedback'')), (''status'', BString ''agree'')] @ extra)"

lemma agree_doc_reply: "is_reply kvs (agree_doc kvs extra)"
  by (simp add: is_reply_def agree_doc_def matches_def)

lemma seller_Order_Put_agree:
  assumes "json_ok L" "arg kvs ''role'' = ''seller''" "arg kvs ''seller_id'' \<noteq> []" "arg kvs ''order_id'' \<noteq> []"
    and "arg kvs ''status'' = ''agree''"
  shows "seller_Order_Put L (req kvs) =
     try_db (connect L (query L DB_ORDER (str_fields [(''order_id'', arg kvs ''order_id'')]) (\<lambda>cursor.
       case cursor of
         [] \<Rightarrow> ret APIE_INVALID_CLIENT_REQ
       | order # _ \<Rightarrow>
           if bs_getStringField L order ''status'' = ''new'' then
             if bs_getStringField L order ''order_type'' = OrderTypeBidding \<and>
                bs_getStringField L order ''order_service_type'' = OrderServiceTypeMaintenance then
               fromjson_key L (req kvs) ''mileage_items'' (\<lambda>mileage_items.
               fromjson_key L (req kvs) ''user_items'' (\<lambda>user_items.
               send_reply L order (arg kvs ''order_id'') (arg kvs ''seller_id'')
                 (agree_doc kvs [(''mileage_items'', mileage_items), (''user_items'', user_items)])))
             else send_reply L order (arg kvs ''order_id'') (arg kvs ''seller_id'') (agree_doc kvs [])
           else ret APIE_SERVER_INTERNAL)))"
  unfolding seller_Order_Put_def str_of_req [OF assms(1)] assms(2,5) send_reply_def agree_doc_def Let_def
  using assms(3,4) by simp

lemma send_reply_wp:
  assumes "json_ok L" "bson_ok L" "mongo_ok L docs" "mq_connect L" "the_order docs (w_db w) oid = Some d"
    and "bs_getStringField L d ''user_id'' = u" "u \<noteq> []"
  shows "wp (send_reply L d oid sid reply) (\<lambda>r w'. r = Throw DBException \<and> w' = w \<or>
     r = Ret APIE_OK \<and> w_published w' = w_published w @ [agree_message u oid sid] \<and>
     (\<exists>d'. the_order docs (w_db w') oid = Some d' \<and> elems (bfield d' ''replies'') = elems (bfield d ''replies'') @ [reply])) w"
  using reply_stored [OF assms(2,3,5), of reply] assms(4,6)
  by (cases "bs_hasField L d ''replies''")
    (auto simp: send_reply_def wp_update agree_message_build [OF assms(1,7)] wp_ret split: option.split)

text \<open>
  C3. A seller can agree to an order only while it is new: then the reply is added to the replies of the
  order and one message is published to its user. Otherwise, or when the database fails, the request
  answers an internal error and changes nothing.
\<close>

theorem seller_agrees:
  assumes "json_ok L" "bson_ok L" "mongo_ok L docs" "mq_connect L"
    and "arg kvs ''role'' = ''seller''" "arg kvs ''seller_id'' = sid" "sid \<noteq> []" "arg kvs ''order_id'' = oid" "oid \<noteq> []"
    and "arg kvs ''status'' = ''agree''" "the_order docs (w_db w) oid = Some d"
    and "bfield d ''user_id'' = Some (BString u)" "u \<noteq> []"
    and "seller_Order_Put L (req kvs) w = (r, w')"
  shows "r = Ret APIE_OK \<and> order_status d = ''new'' \<and> w_published w' = w_published w @ [agree_message u oid sid] \<and>
       (\<exists>d' reply. the_order docs (w_db w') oid = Some d' \<and> is_reply kvs reply \<and>
          elems (bfield d' ''replies'') = elems (bfield d ''replies'') @ [reply]) \<or>
     r = Ret APIE_SERVER_INTERNAL \<and> w' = w"
proof -
  define Q where "Q r w' \<longleftrightarrow> r = Ret APIE_OK \<and> order_status d = ''new'' \<and> w_published w' = w_published w @ [agree_message u oid sid] \<and>
       (\<exists>d' reply. the_order docs (w_db w') oid = Some d' \<and> is_reply kvs reply \<and>
          elems (bfield d' ''replies'') = elems (bfield d ''replies'') @ [reply]) \<or>
     r = Ret APIE_SERVER_INTERNAL \<and> w' = w" for r w'
  have u: "bs_getStringField L d ''user_id'' = u" "bs_getStringField L d ''status'' = order_status d"
    using assms(2,12) by simp_all
  have fail: "Q (Ret APIE_SERVER_INTERNAL) w" by (simp add: Q_def)
  have send: "wp (send_reply L d oid sid (agree_doc kvs extra)) (\<lambda>r. Q (if r = Throw DBException then Ret APIE_SERVER_INTERNAL else r)) w"
    if "order_status d = ''new''" for extra
    using that agree_doc_reply by (intro wp_mono [OF send_reply_wp [OF assms(1-4,11) u(1) assms(13)]]) (auto simp: Q_def)
  have "wp (seller_Order_Put L (req kvs)) Q w"
  proof (cases "db_query L (w_db w) DB_ORDER (str_fields [(''order_id'', oid)])")
    case None
    with assms(1,5-10) fail show ?thesis by (simp add: seller_Order_Put_agree wp_simps)
  next
    case (Some ds)
    with order_query [OF assms(3) Some] assms(11) obtain ds' where ds: "ds = d # ds'" by (cases ds) auto
    from assms(1,5-10) Some ds fail send show ?thesis
      by (simp add: seller_Order_Put_agree wp_simps u js_member_req split: option.split)
  qed
  from wpD [OF this assms(14)] show ?thesis unfolding Q_def .
qed

text \<open>
  Changing an order ignores who asks: the requests of two users that only differ in the user
  identifier are answered in the same way.
\<close>

theorem order_put_any_user:
  assumes "json_ok L" "arg kvs ''user_id'' \<noteq> []" "arg kvs' ''user_id'' \<noteq> []" "\<And>k. k \<noteq> ''user_id'' \<Longrightarrow> arg kvs' k = arg kvs k"
  shows "user_Order_Put L (req kvs') = user_Order_Put L (req kvs)"
proof -
  have "arg kvs' ''role'' = arg kvs ''role''" "arg kvs' ''order_id'' = arg kvs ''order_id''"
    "arg kvs' ''status'' = arg kvs ''status''" "arg kvs' ''seller_id'' = arg kvs ''seller_id''"
    by (rule assms(4); simp)+
  then show ?thesis
    unfolding user_Order_Put_def str_of_req [OF assms(1)] by (simp only: assms(2,3) simp_thms)
qed


section \<open>Placing an order\<close>

text \<open>A request whose members are strings, apart from the list of target sellers.\<close>

definition order_req :: "(string \<times> string) list \<Rightarrow> string list \<Rightarrow> json" where
  "order_req kvs ts = JObject ((''target_seller'', JArray (map JString ts)) # map (\<lambda>(k, v). (k, JString v)) kvs)"

lemma js_member_order_req:
  assumes "json_ok L"
  shows "js_member L (order_req kvs ts) k = Some (if k = ''target_seller'' then JArray (map JString ts)
     else case map_of kvs k of None \<Rightarrow> JNull | Some v \<Rightarrow> JString v)"
  using assms by (auto simp: json_ok_def order_req_def map_of_map split: option.splits)

lemma str_of_order_req:
  assumes "json_ok L" "k \<noteq> ''target_seller''"
  shows "str_of L (order_req kvs ts) k f = f (arg kvs k)"
  using assms by (auto simp: str_of_def member_of_def js_member_order_req val_or_def arg_def json_ok_def split: option.splits)

lemma json_strings_array:
  assumes "json_ok L"
  shows "n + i = length ts \<Longrightarrow> json_strings L (JArray (map JString ts)) i n acc k = k (acc @ drop i ts)"
proof (induction n arbitrary: i acc)
  case (Suc n)
  then have "i < length ts" by simp
  with Suc assms show ?case by (simp add: json_ok_def val_or_def Cons_nth_drop_Suc)
qed simp

definition order_message :: "string list \<Rightarrow> string \<Rightarrow> string \<Rightarrow> json" where
  "order_message ts order_id type =
     JObject [(''method'', JInt MessageTypePushToBatch),
       (''msg'', JObject [(''kind'', JString ''order''), (''order_id'', JString order_id), (''source'', JString ''user''),
          (''type'', JString type)]),
       (''targets'', JArray (map JString ts)), (''to'', JString ''seller'')]"

lemma order_message_build:
  assumes "json_ok L"
  shows "wp (val_or OtherException (js_build L [(''source'', JString ''user''), (''kind'', JString ''order''),
      (''type'', JString type), (''order_id'', JString oid)]) (\<lambda>msg. pushMessageToSellers L ts msg p)) Q w =
    wp p Q (if mq_connect L then w\<lparr>w_published := w_published w @ [order_message ts oid type]\<rparr> else w)"
  by (simp add: wp_simps js_build_obj [OF assms] pushMessageToSellers_def push_batch_def js_array_all [OF assms] order_message_def)

text \<open>The order is written and the sellers are told; this is the end of the handler.\<close>

lemma order_written:
  assumes "json_ok L" "mongo_ok L docs" "mq_connect L" "w_out w = JObject [(''images'', JArray [])]"
    and "matches [(''order_id'', oid), (''user_id'', u), (''status'', ''new'')] d" "elems (bfield d ''target_seller'') = map BString ts"
  shows "wp (insert_into L DB_ORDER d (out_put L ''order_id'' (JString oid)
      (val_or OtherException (js_build L [(''source'', JString ''user''), (''kind'', JString ''order''),
        (''type'', JString type), (''order_id'', JString oid)]) (\<lambda>msg. pushMessageToSellers L ts msg (ret APIE_OK)))))
    (\<lambda>r w'. r = Throw DBException \<or>
     (\<exists>d. docs (w_db w') = (docs (w_db w))(DB_ORDER := docs (w_db w) DB_ORDER @ [d]) \<and>
        matches [(''order_id'', oid), (''user_id'', u), (''status'', ''new'')] d \<and>
        elems (bfield d ''target_seller'') = map BString ts) \<and>
     w_out w' = JObject [(''images'', JArray []), (''order_id'', JString oid)] \<and>
     w_published w' = w_published w @ [order_message ts oid type]) w"
proof (cases "db_insert L (w_db w) DB_ORDER d")
  case None
  then show ?thesis by (simp add: wp_insert_into)
next
  case (Some db)
  from mongo_insert [OF assms(2) Some] obtain i where
    i: "docs db = (docs (w_db w))(DB_ORDER := docs (w_db w) DB_ORDER @ [with_id i d])" by blast
  have "matches [(''order_id'', oid), (''user_id'', u), (''status'', ''new'')] (with_id i d)"
    "elems (bfield (with_id i d) ''target_seller'') = map BString ts"
    using assms(5,6) by (simp_all add: matches_def)
  with i Some assms(3,4) show ?thesis
    by (simp add: wp_insert_into wp_out_put order_message_build [OF assms(1)] wp_ret json_ok_null [OF assms(1)])
      (intro exI [of _ "with_id i d"], simp)
qed


section \<open>Witnesses\<close>

definition o1 :: bson where
  "o1 = str_fields [(''order_id'', ''o1''), (''user_id'', ''bob''), (''status'', ''new'')]"

definition order_db :: "(string \<times> bson list) list" where
  "order_db = [(DB_ORDER, [o1]), (DB_USR, [str_fields [(''user_id'', ''bob'')]])]"

definition cancel_req :: "(string \<times> string) list" where
  "cancel_req = [(''role'', ''user''), (''user_id'', ''bob''), (''order_id'', ''o1''), (''status'', ''canceled'')]"

definition seller_req :: "string \<Rightarrow> (string \<times> string) list" where
  "seller_req t = [(''role'', ''seller''), (''seller_id'', ''s1''), (''order_id'', ''o1''), (''status'', t)]"

lemma the_o1: "the_order mem_get (w_db (mem_world order_db)) ''o1'' = Some o1"
  by (simp add: the_order_def mem_world_def order_db_def o1_def matches_def)

lemma o1_string: "string_ids mem_get (w_db (mem_world order_db))"
  by (simp add: all_docs_def string_id_def mem_world_def order_db_def o1_def)

lemma o1_status: "order_status o1 = ''new''" "bfield o1 ''user_id'' = Some (BString ''bob'')"
  by (simp_all add: o1_def)

lemma cancel_args: "arg cancel_req ''role'' = ''user''" "arg cancel_req ''user_id'' = ''bob''"
  "arg cancel_req ''order_id'' = ''o1''" "arg cancel_req ''status'' = ''canceled''"
  by (simp_all add: cancel_req_def arg_def)

lemma seller_args: "arg (seller_req t) ''role'' = ''seller''" "arg (seller_req t) ''seller_id'' = ''s1''"
  "arg (seller_req t) ''order_id'' = ''o1''" "arg (seller_req t) ''status'' = t"
  by (simp_all add: seller_req_def arg_def)



theorem seller_agrees_witness:
  "let (r, w') = seller_Order_Put mem_lib (req (seller_req ''agree'')) (mem_world order_db)
   in r = Ret APIE_OK \<and> w_published w' = [agree_message ''bob'' ''o1'' ''s1''] \<or> r = Ret APIE_SERVER_INTERNAL \<and> w' = mem_world order_db"
  using seller_agrees [OF json_ok_mem bson_ok_mem mongo_ok_mem mq_mem seller_args(1,2) _ seller_args(3) _ seller_args(4) the_o1 o1_status(2) _ surjective_pairing]
  by (auto simp: split_def mem_world_def)

theorem order_put_any_user_witness:
  "user_Order_Put mem_lib (req [(''role'', ''user''), (''user_id'', ''eve''), (''order_id'', ''o1''), (''status'', ''canceled'')]) =
   user_Order_Put mem_lib (req cancel_req)"
  by (rule order_put_any_user [OF json_ok_mem]) (auto simp: cancel_req_def arg_def)

definition place_req :: "(string \<times> string) list" where
  "place_req = [(''role'', ''user''), (''user_id'', ''bob''), (''order_type'', ''bidding''), (''order_service_type'', ''wash'')]"

lemma place_args: "arg place_req ''role'' = ''user''" "arg place_req ''user_id'' = ''bob''"
  "arg place_req ''order_type'' \<noteq> OrderTypeBook" "arg place_req ''order_service_type'' \<noteq> OrderServiceTypeMaintenance"
  "arg place_req ''order_service_type'' \<noteq> OrderServiceTypeFault" "map_of place_req ''condition'' = None"
  "map_of place_req ''location'' = None" "map_of place_req ''images'' = None"
  by (simp_all add: place_req_def arg_def OrderTypeBook_def OrderServiceTypeMaintenance_def OrderServiceTypeFault_def)


section \<open>Frame\<close>

text \<open>The requests of this theory write no collections but orders.\<close>

lemma order_untouched:
  assumes "mongo_ok L docs" "h \<in> set order_handlers" "c \<noteq> DB_ORDER"
  shows "keeps (content_is docs c X) (h L content)"
proof -
  have ne: "DB_ORDER \<noteq> c" using assms(3) by auto
  have "\<forall>h \<in> set order_handlers. keeps (content_is docs c X) (h L content)"
    unfolding order_handlers_def list.set ball_simps user_Order_Get_def user_Order_Post_def user_Order_Put_def user_Order_Delete_def
      seller_Order_Get_def seller_Order_Put_def
    by (intro conjI TrueI keeps_rules keeps_if_app keeps_getSellersId keeps_json_strings keeps_makeOrderDetail
        same_insert [OF assms(1)] same_update [OF assms(1)] same_remove [OF assms(1)]; simp add: ne)
  with assms(2) show ?thesis by blast
qed

end
