(* ===== verification/Resource_Mgr.thy ===== *)
theory Resource_Mgr
  imports Account_Api Order_Api Config_Sources
begin

text \<open>
  The HTTP front end of the application server: \<^verbatim>\<open>src/apl-server/request.cpp\<close>,
  \<^verbatim>\<open>resource.h\<close> and \<^verbatim>\<open>resource-mgr.cpp\<close>. libevent is not part of the repository: decoding a URI,
  the query parameter \<open>q\<close> and parsing JSON are the fields of \<open>http_lib\<close>. A request that ends in an
  exception is swallowed by \<^verbatim>\<open>httpCallback\<close> and gets no reply.
\<close>

section \<open>Requests\<close>

datatype command = EVHTTP_REQ_GET | EVHTTP_REQ_POST | EVHTTP_REQ_HEAD | EVHTTP_REQ_PUT
  | EVHTTP_REQ_DELETE | EVHTTP_REQ_PATCH | EVHTTP_REQ_OTHER

datatype http_method = HTTPMethodGet | HTTPMethodPost | HTTPMethodDelete | HTTPMethodPut
  | HTTPMethodPatch | HTTPMethodUnknown

record http_lib =
  decode_uri :: "string \<Rightarrow> string"
  query_param :: "string \<Rightarrow> string option"
  json_parse :: "string \<Rightarrow> json option"

record http_request =
  command :: command
  uri :: string
  body :: string
  headers :: "(string \<times> string) list"

text \<open>The constructor: the JSON value of the request, or \<^verbatim>\<open>RequestException\<close>.\<close>

definition Request :: "http_lib \<Rightarrow> http_request \<Rightarrow> json option" where
  "Request H r =
     (if command r = EVHTTP_REQ_GET \<or> command r = EVHTTP_REQ_HEAD \<or> command r = EVHTTP_REQ_DELETE then
        (case query_param H (uri r) of None \<Rightarrow> Some JNull | Some v \<Rightarrow> json_parse H v)
      else json_parse H (body r))"

definition get_method :: "http_request \<Rightarrow> http_method" where
  "get_method r =
     (if command r = EVHTTP_REQ_POST then HTTPMethodPost
      else if command r = EVHTTP_REQ_GET then HTTPMethodGet
      else if command r = EVHTTP_REQ_DELETE then HTTPMethodDelete
      else if command r = EVHTTP_REQ_PUT then HTTPMethodPut
      else HTTPMethodUnknown)"

text \<open>\<^verbatim>\<open>if (strcmp(name, header->key)) return header->value;\<close>\<close>

definition get_env :: "http_request \<Rightarrow> string \<Rightarrow> string option" where
  "get_env r name = map_option snd (List.find (\<lambda>(key, val). name \<noteq> key) (headers r))"

text \<open>Positions are \<^verbatim>\<open>std::size_t\<close>, of 64 bits; \<^verbatim>\<open>npos\<close> is the largest one.\<close>

type_synonym size_t = "64 word"

definition pos_of :: "nat option \<Rightarrow> size_t" where
  "pos_of p = (case p of None \<Rightarrow> - 1 | Some n \<Rightarrow> of_nat n)"

definition substr :: "string \<Rightarrow> size_t \<Rightarrow> size_t \<Rightarrow> string option" where
  "substr s pos count = (if length s < unat pos then None else Some (take (unat count) (drop (unat pos) s)))"

definition getResourceName :: "http_lib \<Rightarrow> http_request \<Rightarrow> string option" where
  "getResourceName H r =
     (let decoded_uri = c_str (decode_uri H (uri r));
          pos1 = pos_of (find_sub decoded_uri ''api/v1.0/'') + 8;
          pos2 = pos_of (find_sub decoded_uri ''?'')
      in substr decoded_uri (pos1 + 1) (pos2 - pos1 - 1))"

section \<open>Resources\<close>

record 'db resource =
  r_Get :: "'db lib \<Rightarrow> json \<Rightarrow> 'db prog"
  r_Post :: "'db lib \<Rightarrow> json \<Rightarrow> 'db prog"
  r_Put :: "'db lib \<Rightarrow> json \<Rightarrow> 'db prog"
  r_Delete :: "'db lib \<Rightarrow> json \<Rightarrow> 'db prog"
  r_Patch :: "'db lib \<Rightarrow> json \<Rightarrow> 'db prog"

definition Resource :: "'db resource" where
  "Resource = \<lparr>r_Get = Resource_default, r_Post = Resource_default, r_Put = Resource_default,
     r_Delete = Resource_default, r_Patch = Resource_default\<rparr>"

text \<open>
  \<^verbatim>\<open>m_allocators\<close> is a \<^verbatim>\<open>std::map\<close> with the \<^emph>\<open>address\<close> of the name as the key: an entry has the address, the name
  found there, and the resource. \<^verbatim>\<open>m_ctrls\<close> is keyed by address too.
\<close>

datatype resource_flag = TF_DISABLED | TF_ENABLED

text \<open>A subsystem is its name and what its initializer returns.\<close>

record 'db manager =
  m_allocators :: "(nat, string \<times> 'db resource) smap"
  m_ctrls :: "(nat, resource_flag) smap"
  m_subsystem_init_list :: "(nat, string \<times> bool) smap"

definition new_manager :: "'db manager" where
  "new_manager = \<lparr>m_allocators = [], m_ctrls = [], m_subsystem_init_list = []\<rparr>"

definition registerSubsystem :: "nat \<Rightarrow> string \<Rightarrow> bool \<Rightarrow> 'db manager \<Rightarrow> 'db manager" where
  "registerSubsystem addr name initializer m =
     m\<lparr>m_subsystem_init_list := smap_insert addr (name, initializer) (m_subsystem_init_list m)\<rparr>"

text \<open>The result of \<^verbatim>\<open>initialize\<close> and the paths it gives to \<^verbatim>\<open>evhttp_set_cb\<close>.\<close>

definition initialize :: "'db manager \<Rightarrow> bool \<times> string list" where
  "initialize m =
     (if list_all (\<lambda>e. snd (snd e)) (m_subsystem_init_list m)
      then (True, map (\<lambda>e. ''/rcar/api/v1.0/'' @ fst (snd e)) (m_allocators m))
      else (False, []))"

definition registerResource :: "nat \<Rightarrow> string \<Rightarrow> 'db resource \<Rightarrow> 'db manager \<Rightarrow> 'db manager" where
  "registerResource addr name res m = m\<lparr>m_allocators := smap_insert addr (name, res) (m_allocators m)\<rparr>"

definition createResource :: "'db manager \<Rightarrow> string \<Rightarrow> 'db resource option" where
  "createResource m api_name =
     (if api_name = [] then None
      else map_option (\<lambda>e. snd (snd e)) (List.find (\<lambda>e. api_name = fst (snd e)) (m_allocators m)))"

text \<open>The argument is the address of the caller's \<^verbatim>\<open>std::string\<close> buffer.\<close>

definition hasResource :: "'db manager \<Rightarrow> nat \<Rightarrow> bool" where
  "hasResource m addr \<longleftrightarrow> map_of (m_allocators m) addr \<noteq> None"

definition enableResource :: "nat \<Rightarrow> 'db manager \<Rightarrow> 'db manager" where
  "enableResource addr m =
     (if map_of (m_allocators m) addr \<noteq> None then m\<lparr>m_ctrls := smap_put addr TF_ENABLED (m_ctrls m)\<rparr> else m)"

definition disableResource :: "nat \<Rightarrow> 'db manager \<Rightarrow> 'db manager" where
  "disableResource addr m =
     (if map_of (m_allocators m) addr \<noteq> None then m\<lparr>m_ctrls := smap_put addr TF_DISABLED (m_ctrls m)\<rparr> else m)"

text \<open>Reading \<^verbatim>\<open>m_ctrls[...]\<close> makes an entry when there is none.\<close>

definition isResourceEnabled :: "nat \<Rightarrow> 'db manager \<Rightarrow> bool \<times> 'db manager" where
  "isResourceEnabled addr m =
     (if map_of (m_allocators m) addr \<noteq> None then
        (let ctrls = smap_insert addr TF_DISABLED (m_ctrls m)
         in (map_of ctrls addr = Some TF_ENABLED, m\<lparr>m_ctrls := ctrls\<rparr>))
      else (False, m))"

section \<open>Handling a request\<close>

datatype reply = Reply json | No_reply

text \<open>\<^verbatim>\<open>Request::finish\<close>: the reply object with its \<^verbatim>\<open>api_result\<close>.\<close>

definition finish :: "'db lib \<Rightarrow> int \<Rightarrow> 'db world \<Rightarrow> reply \<times> 'db world" where
  "finish L result w =
     (case js_put L (w_out w) ''api_result'' (JInt result) of
        None \<Rightarrow> (No_reply, w)
      | Some out \<Rightarrow> (Reply out, w\<lparr>w_out := out\<rparr>))"

definition handleRequest :: "'db lib \<Rightarrow> http_lib \<Rightarrow> 'db manager \<Rightarrow> http_request \<Rightarrow> json \<Rightarrow> 'db world \<Rightarrow> reply \<times> 'db world" where
  "handleRequest L H m r content w =
     (case getResourceName H r of
        None \<Rightarrow> (No_reply, w)
      | Some name \<Rightarrow>
          (case createResource m name of
             None \<Rightarrow> finish L 400 w
           | Some res \<Rightarrow>
               let run = (\<lambda>p. case p w of (Ret code, w') \<Rightarrow> finish L code w' | (Throw e, w') \<Rightarrow> (No_reply, w'))
               in case get_method r of
                    HTTPMethodGet \<Rightarrow> run (r_Get res L content)
                  | HTTPMethodPost \<Rightarrow> run (r_Post res L content)
                  | HTTPMethodPut \<Rightarrow> run (r_Put res L content)
                  | HTTPMethodDelete \<Rightarrow> run (r_Delete res L content)
                  | HTTPMethodPatch \<Rightarrow> run (r_Patch res L content)
                  | HTTPMethodUnknown \<Rightarrow> finish L 400 w))"

text \<open>The reply object belongs to the request: it starts as null.\<close>

definition httpCallback :: "'db lib \<Rightarrow> http_lib \<Rightarrow> 'db manager \<Rightarrow> http_request \<Rightarrow> 'db world \<Rightarrow> reply \<times> 'db world" where
  "httpCallback L H m r w =
     (case Request H r of
        None \<Rightarrow> (No_reply, w)
      | Some content \<Rightarrow> handleRequest L H m r content (w\<lparr>w_out := JNull\<rparr>))"

section \<open>The resources of this development\<close>

definition api_table :: "(string \<times> 'db resource) list" where
  "api_table =
     [(''user/session'', Resource\<lparr>r_Post := user_Session_Post, r_Delete := user_Session_Delete\<rparr>),
      (''user/'', Resource\<lparr>r_Get := user_User_Get, r_Post := user_User_Post, r_Delete := user_User_Delete, r_Patch := user_User_Patch\<rparr>),
      (''user/pwd'', Resource\<lparr>r_Post := user_Password_Post\<rparr>),
      (''user/order'', Resource\<lparr>r_Get := user_Order_Get, r_Post := user_Order_Post, r_Put := user_Order_Put, r_Delete := user_Order_Delete\<rparr>),
      (''seller/session'', Resource\<lparr>r_Post := seller_Session_Post, r_Delete := seller_Session_Delete\<rparr>),
      (''seller/pwd'', Resource\<lparr>r_Post := seller_Password_Post\<rparr>),
      (''seller/order'', Resource\<lparr>r_Get := seller_Order_Get, r_Put := seller_Order_Put\<rparr>)]"

text \<open>Registering a table under the addresses of its names.\<close>

fun register_all :: "nat \<Rightarrow> (string \<times> 'db resource) list \<Rightarrow> 'db manager \<Rightarrow> 'db manager" where
  "register_all addr [] m = m"
| "register_all addr ((name, res) # rs) m = register_all (addr + 1) rs (registerResource addr name res m)"

definition api_manager :: "'db manager" where
  "api_manager = register_all 0 api_table new_manager"

section \<open>The name of a resource\<close>

lemma find_sub_char: "find_sub s [c] = (if c \<in> set s then Some (length (takeWhile (\<lambda>x. x \<noteq> c) s)) else None)"
  by (induction s) auto

lemma find_api: "find_sub (''/rcar/api/v1.0/'' @ s) ''api/v1.0/'' = Some 6"
  by simp

text \<open>The request is for the resource \<open>name\<close>: its path, up to a query, is the one \<open>initialize\<close> registers.\<close>

definition request_for :: "http_lib \<Rightarrow> string \<Rightarrow> http_request \<Rightarrow> bool" where
  "request_for H name r \<longleftrightarrow>
     takeWhile (\<lambda>c. c \<noteq> CHR ''?'') (decode_uri H (uri r)) = ''/rcar/api/v1.0/'' @ name \<and>
     length (decode_uri H (uri r)) < 2 ^ 63 \<and> CHR 0x00 \<notin> set (decode_uri H (uri r))"

lemma getResourceName_for:
  assumes "request_for H name r"
  shows "getResourceName H r = Some name"
proof -
  define s where "s = decode_uri H (uri r)"
  define path where "path = takeWhile (\<lambda>c. c \<noteq> CHR ''?'') s"
  from assms have path: "path = ''/rcar/api/v1.0/'' @ name" and len: "length s < 2 ^ 63" and nul: "CHR 0x00 \<notin> set s"
    by (simp_all add: request_for_def s_def path_def)
  obtain rest where s: "s = path @ rest" by (metis path_def takeWhile_dropWhile_id)
  have plen: "length path = 15 + length name" "15 + length name \<le> length s" by (simp_all add: s path)
  have api: "find_sub s ''api/v1.0/'' = Some 6" unfolding s path append_assoc by (rule find_api)
  have drop: "drop 15 s = name @ rest" by (simp add: s path)
  have "c_str (decode_uri H (uri r)) = s" using nul by (simp add: c_str_id s_def)
  then have start: "getResourceName H r = Some (take (unat (pos_of (find_sub s ''?'') - 14 - 1 :: size_t)) (name @ rest))"
    using plen drop by (simp add: getResourceName_def api pos_of_def substr_def)
  show ?thesis
  proof (cases "CHR ''?'' \<in> set s")
    case True
    then have "find_sub s ''?'' = Some (15 + length name)"
      unfolding find_sub_char using plen(1) unfolding path_def by simp
    then have pos: "pos_of (find_sub s ''?'') - 14 - 1 = of_nat (length name)" by (simp add: pos_of_def)
    have small: "length name < 2 ^ 64" using plen(2) len by simp
    have "unat (of_nat (length name) :: size_t) = length name"
      using small by (simp add: unsigned_of_nat take_bit_nat_eq_self)
    then show ?thesis unfolding start pos by simp
  next
    case False
    then have "path = s" unfolding path_def by (auto simp: takeWhile_eq_all_conv)
    then have "rest = []" using s by simp
    moreover have "unat (- 16 :: size_t) = 2 ^ 64 - 16" by simp
    ultimately show ?thesis using False plen(2) len by (simp add: start find_sub_char pos_of_def)
  qed
qed

section \<open>Finding a resource\<close>

definition names_distinct :: "'db manager \<Rightarrow> bool" where
  "names_distinct m \<longleftrightarrow> distinct (map (\<lambda>e. fst (snd e)) (m_allocators m))"

lemma find_distinct:
  assumes "distinct (map f xs)" "x \<in> set xs"
  shows "List.find (\<lambda>y. f x = f y) xs = Some x"
  using assms by (induction xs) (auto simp: image_iff)

lemma createResource_registered:
  assumes "names_distinct m" "(addr, name, res) \<in> set (m_allocators m)" "name \<noteq> []"
  shows "createResource m name = Some res"
  using find_distinct [OF assms(1) [unfolded names_distinct_def] assms(2)] assms(3) by (simp add: createResource_def)

text \<open>The method of the resource that a command runs.\<close>

definition method_of :: "command \<Rightarrow> 'db resource \<Rightarrow> ('db lib \<Rightarrow> json \<Rightarrow> 'db prog) option" where
  "method_of c res =
     (case c of EVHTTP_REQ_GET \<Rightarrow> Some (r_Get res) | EVHTTP_REQ_POST \<Rightarrow> Some (r_Post res)
      | EVHTTP_REQ_PUT \<Rightarrow> Some (r_Put res) | EVHTTP_REQ_DELETE \<Rightarrow> Some (r_Delete res) | _ \<Rightarrow> None)"

definition api_reply :: "(string, json) smap \<Rightarrow> int \<Rightarrow> reply" where
  "api_reply out code = Reply (JObject (smap_put ''api_result'' (JInt code) out))"

lemma finish_null: "json_ok L \<Longrightarrow> w_out w = JNull \<Longrightarrow> fst (finish L code w) = api_reply [] code"
  by (simp add: finish_def json_ok_def api_reply_def)

lemma finish_object: "json_ok L \<Longrightarrow> w_out w = JObject out \<Longrightarrow> fst (finish L code w) = api_reply out code"
  by (simp add: finish_def json_ok_def api_reply_def)

lemma finish_keeps:
  "w_db (snd (finish L code w)) = w_db w" "w_published (snd (finish L code w)) = w_published w"
  by (simp_all add: finish_def split: option.split)

lemma handleRequest_for:
  assumes "names_distinct m" "(addr, name, res) \<in> set (m_allocators m)" "name \<noteq> []" "request_for H name r"
  shows "handleRequest L H m r content w =
     (case method_of (command r) res of
        None \<Rightarrow> finish L 400 w
      | Some h \<Rightarrow> (case h L content w of (Ret code, w') \<Rightarrow> finish L code w' | (Throw e, w') \<Rightarrow> (No_reply, w')))"
  unfolding handleRequest_def getResourceName_for [OF assms(4)] option.case createResource_registered [OF assms(1-3)] get_method_def
  by (cases "command r") (simp_all add: method_of_def)

text \<open>
  C6. A well-formed request for a registered resource runs exactly the method of its command, on the
  JSON value of the request and an empty reply; the answer is what the method put into the reply, with
  the code it returned as \<open>api_result\<close>, and the database and the published messages are as the
  method left them.
\<close>

theorem dispatch:
  assumes "json_ok L" "names_distinct m" "(addr, name, res) \<in> set (m_allocators m)" "name \<noteq> []"
    and "request_for H name r" "Request H r = Some content" "method_of (command r) res = Some h"
    and "h L content (w\<lparr>w_out := JNull\<rparr>) = (Ret code, w')" "w_out w' = JNull \<and> out = [] \<or> w_out w' = JObject out"
    and "httpCallback L H m r w = (answer, w'')"
  shows "answer = api_reply out code \<and> w_db w'' = w_db w' \<and> w_published w'' = w_published w'"
proof -
  have run: "httpCallback L H m r w = finish L code w'"
    unfolding httpCallback_def assms(6) option.case handleRequest_for [OF assms(2-5)] assms(7) option.case assms(8)
    by simp
  have "fst (finish L code w') = api_reply out code"
    using assms(9) finish_null [OF assms(1)] finish_object [OF assms(1)] by blast
  moreover have "finish L code w' = (answer, w'')" using run assms(10) by simp
  ultimately show ?thesis using finish_keeps [of L code w'] by simp
qed

text \<open>
  Every other request leaves the database and the published messages alone: one whose JSON does not
  parse gets no reply at all, one for an unknown resource the code 400, and so does a
  \<^verbatim>\<open>PATCH\<close> request to any resource, although \<open>initialize\<close> allows the method and
  resources implement it.
\<close>

theorem bad_requests:
  assumes "json_ok L" "httpCallback L H m r w = (answer, w')"
    and "Request H r = None \<or>
      (Request H r = Some content \<and> getResourceName H r = Some name \<and>
        (createResource m name = None \<or> command r = EVHTTP_REQ_PATCH))"
  shows "w_db w' = w_db w \<and> w_published w' = w_published w \<and>
    answer = (if Request H r = None then No_reply else api_reply [] 400)"
proof (cases "Request H r = None")
  case True
  with assms(2) show ?thesis by (auto simp: httpCallback_def)
next
  case False
  with assms(3) have c: "Request H r = Some content" and n: "getResourceName H r = Some name"
    and bad: "createResource m name = None \<or> command r = EVHTTP_REQ_PATCH" by auto
  have "httpCallback L H m r w = finish L 400 (w\<lparr>w_out := JNull\<rparr>)"
    unfolding httpCallback_def c handleRequest_def n option.case
    using bad by (auto simp: get_method_def split: option.split)
  with assms(2) False finish_keeps [of L 400 "w\<lparr>w_out := JNull\<rparr>"] finish_null [OF assms(1), of "w\<lparr>w_out := JNull\<rparr>" 400]
  show ?thesis by auto
qed

section \<open>Switching resources on and off\<close>

definition manager_ok :: "'db manager \<Rightarrow> bool" where
  "manager_ok m \<longleftrightarrow> smap_ok (m_allocators m) \<and> smap_ok (m_ctrls m)"

lemma manager_ok_ops:
  assumes "manager_ok m"
  shows "manager_ok (registerResource addr name res m)" "manager_ok (enableResource addr m)"
    "manager_ok (disableResource addr m)" "manager_ok (snd (isResourceEnabled addr m))"
  using assms by (simp_all add: manager_ok_def registerResource_def enableResource_def disableResource_def isResourceEnabled_def Let_def)

lemma ctrl_ops_dispatch:
  "m_allocators (enableResource addr m) = m_allocators m" "m_allocators (disableResource addr m) = m_allocators m"
  by (simp_all add: enableResource_def disableResource_def)

lemma httpCallback_ctrls:
  assumes "m_allocators m' = m_allocators m"
  shows "httpCallback L H m' r w = httpCallback L H m r w"
  unfolding httpCallback_def handleRequest_def createResource_def assms ..

text \<open>
  A resource reads as enabled after it was enabled, and as disabled after it was disabled, when
  the caller passes the address it was registered with; an address nothing was registered with never
  reads as enabled, whatever name is stored there. Disabling a resource does not keep requests from it.
\<close>

theorem resource_switch:
  assumes "manager_ok m"
  shows "fst (isResourceEnabled a (enableResource b m)) = (hasResource m a \<and> (a = b \<or> fst (isResourceEnabled a m))) \<and>
    fst (isResourceEnabled a (disableResource b m)) = (hasResource m a \<and> a \<noteq> b \<and> fst (isResourceEnabled a m)) \<and>
    fst (isResourceEnabled a (snd (isResourceEnabled b m))) = fst (isResourceEnabled a m) \<and>
    httpCallback L H (disableResource b m) r w = httpCallback L H m r w"
proof -
  have ok: "smap_ok (m_allocators m)" "smap_ok (m_ctrls m)" using assms by (simp_all add: manager_ok_def)
  have "httpCallback L H (disableResource b m) r w = httpCallback L H m r w"
    by (rule httpCallback_ctrls [OF ctrl_ops_dispatch(2)])
  moreover have "fst (isResourceEnabled a (snd (isResourceEnabled b m))) = fst (isResourceEnabled a m)"
    using ok by (auto simp: isResourceEnabled_def smap_simps Let_def split: option.splits)
  moreover have "fst (isResourceEnabled a (enableResource b m)) = (hasResource m a \<and> (a = b \<or> fst (isResourceEnabled a m)))"
    using ok by (auto simp: isResourceEnabled_def enableResource_def hasResource_def smap_simps Let_def split: option.splits)
  moreover have "fst (isResourceEnabled a (disableResource b m)) = (hasResource m a \<and> a \<noteq> b \<and> fst (isResourceEnabled a m))"
    using ok by (auto simp: isResourceEnabled_def disableResource_def hasResource_def smap_simps Let_def split: option.splits)
  ultimately show ?thesis by blast
qed

section \<open>Witnesses\<close>

text \<open>A front end that decodes nothing and knows one JSON text.\<close>

definition demo_http :: "json \<Rightarrow> http_lib" where
  "demo_http j = \<lparr>decode_uri = (\<lambda>s. s), query_param = (\<lambda>s. None),
     json_parse = (\<lambda>s. if s = ''body'' then Some j else None)\<rparr>"

definition demo_request :: "command \<Rightarrow> string \<Rightarrow> string \<Rightarrow> http_request" where
  "demo_request c name b = \<lparr>command = c, uri = ''/rcar/api/v1.0/'' @ name, body = b, headers = []\<rparr>"

lemma api_names: "names_distinct api_manager"
  by (simp add: names_distinct_def api_manager_def api_table_def new_manager_def registerResource_def)

lemma api_session:
  "(0, ''user/session'', Resource\<lparr>r_Post := user_Session_Post, r_Delete := user_Session_Delete\<rparr>) \<in> set (m_allocators api_manager)"
  by (simp add: api_manager_def api_table_def new_manager_def registerResource_def)

lemma demo_for: "request_for (demo_http j) ''user/session'' (demo_request c ''user/session'' b)"
  by (simp add: request_for_def demo_http_def demo_request_def)

definition bob_world :: "(string \<times> bson list) list world" where
  "bob_world = snd (user_Session_Post mem_lib (req bob_login) (mem_world bob_db))"

lemma bob_session: "user_Session_Post mem_lib (req bob_login) (mem_world bob_db\<lparr>w_out := JNull\<rparr>) = (Ret APIE_OK, bob_world)"
  using bob_logged_in by (simp add: bob_world_def mem_world_def prod_eq_iff)

lemma bob_world_out: "w_out bob_world = JNull"
  by code_simp

theorem dispatch_witness:
  "fst (httpCallback mem_lib (demo_http (req bob_login)) api_manager (demo_request EVHTTP_REQ_POST ''user/session'' ''body'') (mem_world bob_db))
     = api_reply [] APIE_OK"
proof -
  let ?H = "demo_http (req bob_login)" and ?r = "demo_request EVHTTP_REQ_POST ''user/session'' ''body''"
  have "Request ?H ?r = Some (req bob_login)" by (simp add: demo_http_def demo_request_def Request_def)
  moreover have "method_of (command ?r) (Resource\<lparr>r_Post := user_Session_Post, r_Delete := user_Session_Delete\<rparr>) = Some user_Session_Post"
    by (simp add: demo_request_def method_of_def)
  ultimately show ?thesis
    using dispatch [where h = user_Session_Post and w = "mem_world bob_db" and out = "[]",
        OF json_ok_mem api_names api_session _ demo_for _ _ bob_session _ surjective_pairing]
    by (auto simp: bob_world_out)
qed

theorem bad_requests_witness:
  "fst (httpCallback mem_lib (demo_http JNull) api_manager (demo_request EVHTTP_REQ_PATCH ''user/'' ''body'') (mem_world bob_db))
     = api_reply [] 400"
proof -
  let ?r = "demo_request EVHTTP_REQ_PATCH ''user/'' ''body''"
  have "getResourceName (demo_http JNull) ?r = Some ''user/''"
    by (rule getResourceName_for) (simp add: request_for_def demo_http_def demo_request_def)
  then show ?thesis
    using bad_requests [OF json_ok_mem surjective_pairing, of "demo_http JNull" ?r JNull "''user/''" api_manager "mem_world bob_db"]
    by (simp add: Request_def demo_http_def demo_request_def)
qed

lemma api_manager_ok: "manager_ok api_manager"
  by (simp add: manager_ok_def api_manager_def api_table_def new_manager_def registerResource_def smap_ok_def)

lemma api_addresses: "hasResource api_manager 3" "\<not> hasResource api_manager 77"
  by (simp_all add: hasResource_def api_manager_def api_table_def new_manager_def registerResource_def)

theorem resource_switch_witness:
  "fst (isResourceEnabled 3 (enableResource 3 (api_manager :: (string \<times> bson list) list manager))) \<and>
   \<not> fst (isResourceEnabled 77 (enableResource 77 (api_manager :: (string \<times> bson list) list manager)))"
  using resource_switch [OF api_manager_ok, of 3 3 mem_lib "demo_http JNull" "demo_request EVHTTP_REQ_GET [] []" "mem_world []"]
    resource_switch [OF api_manager_ok, of 77 77 mem_lib "demo_http JNull" "demo_request EVHTTP_REQ_GET [] []" "mem_world []"]
  by (simp add: api_addresses)

end
