(* ===== verification/Image_Server.thy ===== *)
theory Image_Server
  imports Base64 Resource_Mgr
begin

text \<open>
  The image server, \<^verbatim>\<open>src/image-server\<close>: images are uploaded as base64 text in JSON, stored in GridFS
  with two thumbnails, and downloaded by name. GridFS, the JPEG library and libevent are not part of the
  repository: they are the fields of \<open>image_lib\<close> and \<open>image_http\<close>; \<^term>\<open>None\<close> from a database call
  is a \<^verbatim>\<open>DBException\<close>. A handler returns the answers it sent, the new state of the file store and how it
  ended.
\<close>

section \<open>Libraries\<close>

text \<open>A file of GridFS is the list of its chunks.\<close>

type_synonym gfile = "byte list list"

record 'fs image_lib =
  fs_connect :: "'fs \<Rightarrow> bool"
  fs_store :: "'fs \<Rightarrow> string \<Rightarrow> string \<Rightarrow> string \<Rightarrow> byte list \<Rightarrow> 'fs option"
  fs_find :: "'fs \<Rightarrow> string \<Rightarrow> string \<Rightarrow> string \<Rightarrow> gfile option option"
  gf_getChunk :: "gfile \<Rightarrow> nat \<Rightarrow> byte list option"
  epeg_size :: "byte list \<Rightarrow> (int \<times> int) option"
  epeg_output :: "byte list \<Rightarrow> int \<Rightarrow> int \<Rightarrow> byte list"

record image_http =
  h_decode_uri :: "string \<Rightarrow> string"
  h_query :: "string \<Rightarrow> string \<Rightarrow> string option"
  h_parse :: "string \<Rightarrow> json option"

datatype image_reply = Ok_image "byte list" | Ok_empty | Error404

datatype image_end = Finished | Json_thrown | Out_of_range | Undefined

type_synonym 'fs image_result = "image_reply list \<times> 'fs \<times> image_end"

section \<open>handler.cpp\<close>

definition get_val :: "image_http \<Rightarrow> string \<Rightarrow> string \<Rightarrow> string" where
  "get_val H u key = (case h_query H u key of None \<Rightarrow> [] | Some v \<Rightarrow> v)"

definition find_last :: "string \<Rightarrow> char \<Rightarrow> nat option" where
  "find_last s c = (if c \<in> set s then Some (length s - 1 - length (takeWhile (\<lambda>x. x \<noteq> c) (rev s))) else None)"

definition get_image_id :: "image_http \<Rightarrow> string \<Rightarrow> string option" where
  "get_image_id H u =
     (let decoded_uri = c_str (h_decode_uri H u);
          pos1 = pos_of (find_last decoded_uri (CHR ''/''));
          pos2 = pos_of (find_sub decoded_uri ''?'')
      in substr decoded_uri (pos1 + 1) (pos2 - pos1 - 1))"

definition get_image_target :: "image_http \<Rightarrow> string \<Rightarrow> string" where
  "get_image_target H u = get_val H u ''target''"

definition get_image_size :: "image_http \<Rightarrow> string \<Rightarrow> string" where
  "get_image_size H u = get_val H u ''size''"

definition get_image_thumbnail :: "image_http \<Rightarrow> string \<Rightarrow> string" where
  "get_image_thumbnail H u = get_val H u ''thumbnail''"

definition create_out_json_object :: "image_http \<Rightarrow> string \<Rightarrow> json" where
  "create_out_json_object H input = (case h_parse H input of None \<Rightarrow> JNull | Some v \<Rightarrow> v)"

section \<open>thumbnail.cpp\<close>

definition max_dimension :: int where "max_dimension = 0"
definition inset_flag :: int where "inset_flag = 0"

text \<open>The width and height of the thumbnail of an image of \<open>w\<close> by \<open>h\<close>.\<close>

definition thumb_size :: "int \<Rightarrow> int \<Rightarrow> int \<Rightarrow> int \<Rightarrow> int \<times> int" where
  "thumb_size w h thumb_height thumb_width =
     (let thumb_width = (if thumb_width < 0 then w * (- thumb_width) div 100 else thumb_width);
          thumb_height = (if thumb_height < 0 then h * (- thumb_height) div 100 else thumb_height)
      in if max_dimension > 0 then
           (if w > h XOR inset_flag then (max_dimension, max_dimension * h div w)
            else (max_dimension * w div h, max_dimension))
         else if inset_flag \<noteq> 0 then
           (let thumb_width = max thumb_width (thumb_height * w div h)
            in (thumb_width, max thumb_height (thumb_width * h div w)))
         else (thumb_width, thumb_height))"

definition create_image_thumbnail :: "'fs image_lib \<Rightarrow> byte list \<Rightarrow> int \<Rightarrow> int \<Rightarrow> byte list option" where
  "create_image_thumbnail G data thumb_height thumb_width =
     (case epeg_size G data of
        None \<Rightarrow> None
      | Some (w, h) \<Rightarrow>
          let (thumb_width, thumb_height) = thumb_size w h thumb_height thumb_width
          in Some (epeg_output G data thumb_width thumb_height))"

section \<open>upload.cpp\<close>

definition store_thumbnail :: "'fs image_lib \<Rightarrow> string \<Rightarrow> string \<Rightarrow> int \<Rightarrow> string \<Rightarrow> byte list \<Rightarrow> 'fs \<Rightarrow> 'fs option" where
  "store_thumbnail G target coll n name outImage fs =
     (case create_image_thumbnail G outImage n n of
        Some thumb \<Rightarrow>
          if 0 < length thumb then fs_store G fs (''rcar-thumbnails-'' @ target) coll name thumb else Some fs
      | None \<Rightarrow> Some fs)"

fun upload_loop :: "'db lib \<Rightarrow> 'fs image_lib \<Rightarrow> string \<Rightarrow> json \<Rightarrow> nat \<Rightarrow> nat \<Rightarrow> image_reply list \<Rightarrow> 'fs \<Rightarrow> 'fs image_result" where
  "upload_loop L G target images i 0 sent fs = (sent, fs, Finished)"
| "upload_loop L G target images i (Suc n) sent fs =
     (case js_index L images i of
        None \<Rightarrow> (sent, fs, Json_thrown)
      | Some img \<Rightarrow>
     (case str_member L img ''name'' of
        None \<Rightarrow> (sent, fs, Json_thrown)
      | Some name \<Rightarrow>
     (case str_member L img ''data'' of
        None \<Rightarrow> (sent, fs, Json_thrown)
      | Some data \<Rightarrow>
     (case Base64Decode_inplace (bytes_of data) of
        None \<Rightarrow> (sent, fs, Undefined)
      | Some outImage \<Rightarrow>
     (case fs_store G fs (''rcar-images-'' @ target) ''fs'' name outImage of
        None \<Rightarrow> (sent, fs, Finished)
      | Some fs \<Rightarrow>
     (case store_thumbnail G target ''32x32'' 32 name outImage fs of
        None \<Rightarrow> (sent, fs, Finished)
      | Some fs \<Rightarrow>
     (case store_thumbnail G target ''64x64'' 64 name outImage fs of
        None \<Rightarrow> (sent, fs, Finished)
      | Some fs \<Rightarrow> upload_loop L G target images (i + 1) n (sent @ [Ok_empty]) fs)))))))"

definition handleImageUpload :: "'db lib \<Rightarrow> 'fs image_lib \<Rightarrow> image_http \<Rightarrow> string \<Rightarrow> 'fs \<Rightarrow> 'fs image_result" where
  "handleImageUpload L G H input fs =
     (let inp = create_out_json_object H input
      in if js_empty L inp then ([], fs, Finished)
         else (case str_member L inp ''target'' of
           None \<Rightarrow> ([], fs, Json_thrown)
         | Some target \<Rightarrow>
             if target \<noteq> ''seller'' \<and> target \<noteq> ''user'' then ([], fs, Finished)
             else if \<not> fs_connect G fs then ([], fs, Finished)
             else (case js_member L inp ''images'' of
               None \<Rightarrow> ([], fs, Json_thrown)
             | Some images \<Rightarrow> upload_loop L G target images 0 (js_size L images) [] fs)))"

section \<open>download.cpp\<close>

fun read_chunks :: "'fs image_lib \<Rightarrow> gfile \<Rightarrow> nat \<Rightarrow> nat \<Rightarrow> byte list option" where
  "read_chunks G f i 0 = Some []"
| "read_chunks G f i (Suc n) = do {
     data \<leftarrow> gf_getChunk G f i;
     rest \<leftarrow> read_chunks G f (i + 1) n;
     Some (data @ rest)
   }"

text \<open>The loop here runs while \<^verbatim>\<open>i <= numberChunks\<close>, and copies into a buffer of the length of the file.\<close>

definition thumbnail_on_demand :: "'fs image_lib \<Rightarrow> string \<Rightarrow> string \<Rightarrow> string \<Rightarrow> gfile \<Rightarrow> 'fs \<Rightarrow> 'fs image_result" where
  "thumbnail_on_demand G target sz imageName f fs =
     (case read_chunks G f 0 (length f + 1) of
        None \<Rightarrow> ([Error404], fs, Finished)
      | Some data \<Rightarrow>
          if length (concat f) < length data then ([], fs, Undefined)
          else
            let n = (if sz = ''64x64'' then 64 else 32)
            in (case create_image_thumbnail G data n n of
                 None \<Rightarrow> ([], fs, Finished)
               | Some thumb \<Rightarrow>
                   if 0 < length thumb then
                     (case fs_store G fs (''rcar-thumbnails-'' @ target) sz imageName thumb of
                        None \<Rightarrow> ([Error404], fs, Finished)
                      | Some fs \<Rightarrow> ([Ok_image thumb], fs, Finished))
                   else ([], fs, Finished)))"

definition handleImageDownload :: "'fs image_lib \<Rightarrow> image_http \<Rightarrow> string \<Rightarrow> 'fs \<Rightarrow> 'fs image_result" where
  "handleImageDownload G H u fs =
     (case get_image_id H u of
        None \<Rightarrow> ([], fs, Out_of_range)
      | Some imageName \<Rightarrow>
      let sz = get_image_size H u;
          target = get_image_target H u;
          thumbnail = get_image_thumbnail H u
      in if target \<noteq> ''seller'' \<and> target \<noteq> ''user'' \<and> target \<noteq> ''common'' \<and> imageName = [] then ([Error404], fs, Finished)
         else if sz \<noteq> [] \<and> sz \<noteq> ''32x32'' \<and> sz \<noteq> ''64x64'' then ([Error404], fs, Finished)
         else if \<not> (thumbnail = [] \<and> sz = []) \<and> \<not> (sz = ''32x32'' \<or> sz = ''64x64'') then ([Error404], fs, Finished)
         else
           let libname = (if thumbnail = [] \<and> sz = [] then ''rcar-images-'' else ''rcar-thumbnails-'') @ target;
               collection = (if thumbnail = [] \<and> sz = [] then ''fs'' else sz)
           in if \<not> fs_connect G fs then ([Error404], fs, Finished)
              else (case fs_find G fs libname collection imageName of
                None \<Rightarrow> ([Error404], fs, Finished)
              | Some (Some f) \<Rightarrow>
                  (case read_chunks G f 0 (length f) of
                     None \<Rightarrow> ([Error404], fs, Finished)
                   | Some data \<Rightarrow> ([Ok_image data], fs, Finished))
              | Some None \<Rightarrow>
                  if thumbnail \<noteq> [] \<and> sz \<noteq> [] then
                    (case fs_find G fs (''rcar-images-'' @ target) ''fs'' imageName of
                       None \<Rightarrow> ([Error404], fs, Finished)
                     | Some (Some f) \<Rightarrow> thumbnail_on_demand G target sz imageName f fs
                     | Some None \<Rightarrow> ([Error404], fs, Finished))
                  else ([Error404], fs, Finished)))"

section \<open>main.cpp\<close>

definition httpImagesCallback :: "'db lib \<Rightarrow> 'fs image_lib \<Rightarrow> image_http \<Rightarrow> command \<Rightarrow> string \<Rightarrow> string \<Rightarrow> 'fs \<Rightarrow> 'fs image_result" where
  "httpImagesCallback L G H meth u input fs =
     (if meth = EVHTTP_REQ_GET then handleImageDownload G H u fs
      else if meth = EVHTTP_REQ_POST then handleImageUpload L G H input fs
      else ([], fs, Finished))"

section \<open>Documented behaviour of GridFS\<close>

text \<open>
  A file that was stored is found with the bytes that were stored, other files are as before, and asking
  for a chunk a file does not have is an exception. Every call may fail.
\<close>

definition gridfs_ok :: "'fs image_lib \<Rightarrow> bool" where
  "gridfs_ok G \<longleftrightarrow>
     (\<forall>fs l c n d fs' r. fs_store G fs l c n d = Some fs' \<longrightarrow> fs_find G fs' l c n = Some r \<longrightarrow> (\<exists>f. r = Some f \<and> concat f = d)) \<and>
     (\<forall>fs l c n d fs' l' c' n' r. fs_store G fs l c n d = Some fs' \<longrightarrow> (l', c', n') \<noteq> (l, c, n) \<longrightarrow>
        fs_find G fs' l' c' n' = Some r \<longrightarrow> fs_find G fs l' c' n' = Some r) \<and>
     (\<forall>f i. length f \<le> i \<longrightarrow> gf_getChunk G f i = None) \<and>
     (\<forall>f i d. gf_getChunk G f i = Some d \<longrightarrow> i < length f \<and> d = f ! i)"

lemmas gridfs_store = gridfs_ok_def [THEN iffD1, THEN conjunct1, rule_format]
  and gridfs_other = gridfs_ok_def [THEN iffD1, THEN conjunct2, THEN conjunct1, rule_format]
  and gridfs_past_end = gridfs_ok_def [THEN iffD1, THEN conjunct2, THEN conjunct2, THEN conjunct1, rule_format]
  and gridfs_chunk = gridfs_ok_def [THEN iffD1, THEN conjunct2, THEN conjunct2, THEN conjunct2, rule_format]

lemma read_chunks_some:
  assumes "gridfs_ok G" "i + n \<le> length f" "\<forall>j < length f. gf_getChunk G f j \<noteq> None"
  shows "read_chunks G f i n = Some (concat (take n (drop i f)))"
  using assms(2)
proof (induction n arbitrary: i)
  case (Suc n)
  then have "i < length f" by simp
  with assms(3) obtain d where "gf_getChunk G f i = Some d" by auto
  moreover from gridfs_chunk [OF assms(1) this] have "d = f ! i" by simp
  moreover have "read_chunks G f (i + 1) n = Some (concat (take n (drop (i + 1) f)))" using Suc by simp
  ultimately show ?case using Suc.prems by (simp add: Cons_nth_drop_Suc [symmetric])
qed simp

lemma read_chunks_past_end:
  assumes "gridfs_ok G" "length f < i + n" "i \<le> length f"
  shows "read_chunks G f i n = None"
  using assms(2,3)
proof (induction n arbitrary: i)
  case (Suc n)
  show ?case
  proof (cases "i = length f")
    case True
    then have "gf_getChunk G f i = None" using gridfs_past_end [OF assms(1)] by simp
    then show ?thesis by simp
  next
    case False
    then have "read_chunks G f (i + 1) n = None" using Suc by simp
    then show ?thesis by (simp split: bind_split)
  qed
qed simp

section \<open>The name of an image\<close>

definition image_request :: "image_http \<Rightarrow> string \<Rightarrow> string \<Rightarrow> bool" where
  "image_request H u name \<longleftrightarrow> (let s = h_decode_uri H u in
     takeWhile (\<lambda>c. c \<noteq> CHR ''?'') s = ''/rcar/images/'' @ name \<and> CHR ''/'' \<notin> set name \<and>
     CHR ''/'' \<notin> set (dropWhile (\<lambda>c. c \<noteq> CHR ''?'') s) \<and> length s < 2 ^ 63 \<and> CHR 0x00 \<notin> set s)"

lemma find_last_append:
  assumes "c \<notin> set t"
  shows "find_last (s @ c # t) c = Some (length s)"
proof -
  have "takeWhile (\<lambda>x. x \<noteq> c) (rev t @ c # rev s) = rev t" using assms by (auto simp: takeWhile_append)
  then show ?thesis by (simp add: find_last_def)
qed

lemma get_image_id_for:
  assumes "image_request H u name"
  shows "get_image_id H u = Some name"
proof -
  define s where "s = h_decode_uri H u"
  define rest where "rest = dropWhile (\<lambda>c. c \<noteq> CHR ''?'') s"
  from assms have path: "takeWhile (\<lambda>c. c \<noteq> CHR ''?'') s = ''/rcar/images/'' @ name" and slash: "CHR ''/'' \<notin> set (name @ rest)"
    and len: "length s < 2 ^ 63" and nul: "CHR 0x00 \<notin> set s"
    by (auto simp: image_request_def s_def rest_def Let_def)
  have s: "s = ''/rcar/images/'' @ name @ rest"
    using takeWhile_dropWhile_id [of "\<lambda>c. c \<noteq> CHR ''?''" s] unfolding path rest_def by simp
  have plen: "13 + length name \<le> length s" by (simp add: s)
  have last: "find_last s (CHR ''/'') = Some 12"
    using find_last_append [OF slash, of "''/rcar/images''"] by (simp add: s)
  have "c_str (h_decode_uri H u) = s" using nul by (simp add: c_str_id s_def)
  then have start: "get_image_id H u = Some (take (unat (pos_of (find_sub s ''?'') - 12 - 1 :: size_t)) (name @ rest))"
    using plen by (simp add: get_image_id_def last pos_of_def substr_def) (simp add: s)
  show ?thesis
  proof (cases "CHR ''?'' \<in> set s")
    case True
    then have "find_sub s ''?'' = Some (13 + length name)" unfolding find_sub_char path by simp
    then have pos: "pos_of (find_sub s ''?'') - 12 - 1 = of_nat (length name)" by (simp add: pos_of_def)
    have small: "length name < 2 ^ 64" using plen len by simp
    have "unat (of_nat (length name) :: size_t) = length name"
      using small by (simp add: unsigned_of_nat take_bit_nat_eq_self)
    then show ?thesis unfolding start pos by simp
  next
    case False
    then have "rest = []" unfolding rest_def by (auto simp: dropWhile_eq_Nil_conv)
    moreover have "unat (- 14 :: size_t) = 2 ^ 64 - 14" by simp
    ultimately show ?thesis using False plen len by (simp add: start find_sub_char pos_of_def)
  qed
qed

section \<open>Uploading and downloading\<close>

lemma store_thumbnail_other:
  assumes "gridfs_ok G" "store_thumbnail G target coll n name data fs = Some fs'"
    and "fs_find G fs' (''rcar-images-'' @ target') c name' = Some r"
  shows "fs_find G fs (''rcar-images-'' @ target') c name' = Some r"
proof -
  show ?thesis
  proof (cases "create_image_thumbnail G data n n")
    case None
    with assms(2,3) show ?thesis by (simp add: store_thumbnail_def)
  next
    case (Some thumb)
    show ?thesis
    proof (cases "thumb = []")
      case True
      with Some assms(2,3) show ?thesis by (simp add: store_thumbnail_def)
    next
      case False
      with Some assms(2) have "fs_store G fs (''rcar-thumbnails-'' @ target) coll name thumb = Some fs'" by (simp add: store_thumbnail_def)
      from gridfs_other [OF assms(1) this _ assms(3)] show ?thesis by simp
    qed
  qed
qed

text \<open>One image: it is stored as decoded, the thumbnails go elsewhere, and one answer is sent.\<close>

lemma upload_one:
  assumes "gridfs_ok G" "js_index L images i = Some img" "str_member L img ''name'' = Some name" "str_member L img ''data'' = Some data"
    and "Base64Decode_inplace (bytes_of data) = Some bytes" "upload_loop L G target images i (Suc 0) sent fs = (sent', fs', e)"
    and "sent' \<noteq> sent" "fs_find G fs' (''rcar-images-'' @ target) ''fs'' name = Some r"
  shows "\<exists>f. r = Some f \<and> concat f = bytes"
proof -
  from assms(2-7) obtain fs1 fs2 where *: "fs_store G fs (''rcar-images-'' @ target) ''fs'' name bytes = Some fs1"
    "store_thumbnail G target ''32x32'' 32 name bytes fs1 = Some fs2" "store_thumbnail G target ''64x64'' 64 name bytes fs2 = Some fs'"
    by (auto split: option.splits)
  from store_thumbnail_other [OF assms(1) *(2) store_thumbnail_other [OF assms(1) *(3) assms(8)]]
  have "fs_find G fs1 (''rcar-images-'' @ target) ''fs'' name = Some r" .
  with gridfs_store [OF assms(1) *(1)] show ?thesis .
qed

lemma json_member_string: "json_ok L \<Longrightarrow> map_of m k = Some (JString s) \<Longrightarrow> str_member L (JObject m) k = Some s"
  by (simp add: json_ok_def str_member_def)

definition plain_download :: "image_http \<Rightarrow> string \<Rightarrow> string \<Rightarrow> string \<Rightarrow> bool" where
  "plain_download H u target name \<longleftrightarrow> image_request H u name \<and> get_image_target H u = target \<and>
     get_image_size H u = [] \<and> get_image_thumbnail H u = []"

lemma download_stored:
  assumes "gridfs_ok G" "plain_download H u target name" "target = ''seller'' \<or> target = ''user''"
    and "fs_connect G fs" "fs_find G fs (''rcar-images-'' @ target) ''fs'' name = Some (Some f)"
    and "\<forall>j < length f. gf_getChunk G f j \<noteq> None"
  shows "handleImageDownload G H u fs = ([Ok_image (concat f)], fs, Finished)"
proof -
  from assms(2) have id: "get_image_id H u = Some name" and q: "get_image_target H u = target" "get_image_size H u = []" "get_image_thumbnail H u = []"
    by (auto simp: plain_download_def get_image_id_for)
  have "read_chunks G f 0 (length f) = Some (concat f)" using read_chunks_some [OF assms(1), of 0 "length f" f] assms(6) by simp
  then show ?thesis using assms(3-5) by (auto simp: handleImageDownload_def id q Let_def)
qed

text \<open>
  C10. An image that was uploaded, as the base64 text of its bytes, and was answered, is what a download
  of its name returns, byte by byte, unless the database fails.
\<close>

theorem image_roundtrip:
  assumes "json_ok L" "gridfs_ok G" "b64_admissible bytes"
    and "h_parse H input = Some (JObject m)" "map_of m ''target'' = Some (JString target)" "target = ''seller'' \<or> target = ''user''"
    and "map_of m ''images'' = Some (JArray [JObject im])" "map_of im ''name'' = Some (JString name)"
    and "map_of im ''data'' = Some (JString data)" "bytes_of data = b64_spec bytes"
    and "handleImageUpload L G H input fs = ([Ok_empty], fs', e)"
    and "plain_download H u target name" "fs_connect G fs'" "fs_find G fs' (''rcar-images-'' @ target) ''fs'' name \<noteq> None"
    and "\<forall>f. \<forall>j < length f. gf_getChunk G f j \<noteq> None"
  shows "handleImageDownload G H u fs' = ([Ok_image bytes], fs', Finished)"
proof -
  have "m \<noteq> []" using assms(5) by auto
  then have empty: "\<not> js_empty L (JObject m)" using assms(1) by (simp add: json_ok_def)
  have images: "js_member L (JObject m) ''images'' = Some (JArray [JObject im])" "js_index L (JArray [JObject im]) 0 = Some (JObject im)"
    "js_size L (JArray [JObject im]) = Suc 0" using assms(1,7) by (simp_all add: json_ok_def)
  have conn: "fs_connect G fs"
    using assms(4,6,11) empty json_member_string [OF assms(1,5)]
    by (auto simp: handleImageUpload_def create_out_json_object_def Let_def split: if_splits)
  have loop: "upload_loop L G target (JArray [JObject im]) 0 (Suc 0) [] fs = ([Ok_empty], fs', e)"
    using assms(11,6) unfolding handleImageUpload_def create_out_json_object_def Let_def assms(4) option.case
      json_member_string [OF assms(1,5)] images(1,3)
    using empty conn by auto
  have dec: "Base64Decode_inplace (bytes_of data) = Some bytes"
    unfolding assms(10) by (rule Base64Decode_inplace_spec [OF assms(3)])
  obtain r where r: "fs_find G fs' (''rcar-images-'' @ target) ''fs'' name = Some r" using assms(14) by auto
  from upload_one [OF assms(2) images(2) json_member_string [OF assms(1,8)] json_member_string [OF assms(1,9)] dec loop _ r]
  obtain f where f: "r = Some f" "concat f = bytes" by auto
  from download_stored [OF assms(2,12,6,13) r [unfolded f(1)]] assms(15) f(2) show ?thesis by simp
qed

text \<open>
  A request for a thumbnail that was not stored is answered 404, also when the image is there: the
  code that would create the thumbnail asks for one chunk too many and ends in an exception. Nothing is
  stored.
\<close>

theorem thumbnail_never_on_demand:
  assumes "gridfs_ok G" "image_request H u name" "get_image_size H u = sz" "sz = ''32x32'' \<or> sz = ''64x64''"
    and "fs_find G fs (''rcar-thumbnails-'' @ get_image_target H u) sz name = Some None"
  shows "handleImageDownload G H u fs = ([Error404], fs, Finished)"
proof -
  have "read_chunks G f 0 (length f + 1) = None" for f
    by (rule read_chunks_past_end [OF assms(1)]) simp_all
  then have "thumbnail_on_demand G target sz name f fs = ([Error404], fs, Finished)" for target f
    by (simp add: thumbnail_on_demand_def)
  note demand = this
  have sz: "sz \<noteq> []" using assms(4) by auto
  note run = handleImageDownload_def get_image_id_for [OF assms(2)] option.case Let_def assms(3)
  show ?thesis
  proof (cases "get_image_target H u \<noteq> ''seller'' \<and> get_image_target H u \<noteq> ''user'' \<and> get_image_target H u \<noteq> ''common'' \<and> name = [] \<or>
      \<not> fs_connect G fs \<or> get_image_thumbnail H u = []")
    case True
    then show ?thesis unfolding run using sz assms(4,5) by (elim disjE) auto
  next
    case False
    then show ?thesis unfolding run using sz assms(4,5) demand
      by (cases "fs_find G fs (''rcar-images-'' @ get_image_target H u) ''fs'' name") (simp_all split: option.split)
  qed
qed

text \<open>The answer to an upload is sent once for every image, so not at all for none and repeatedly for several.\<close>

lemma upload_replies:
  assumes "upload_loop L G target images i n sent fs = (sent', fs', e)"
  shows "\<exists>k \<le> n. sent' = sent @ replicate k Ok_empty"
  using assms
proof (induction n arbitrary: i sent fs)
  case (Suc n)
  show ?case
  proof (cases "sent' = sent")
    case True
    then show ?thesis by (intro exI [of _ 0]) simp
  next
    case False
    with Suc.prems obtain fs2 where "upload_loop L G target images (i + 1) n (sent @ [Ok_empty]) fs2 = (sent', fs', e)"
      unfolding upload_loop.simps by (simp split: option.splits)
    from Suc.IH [OF this] obtain k where "k \<le> n" "sent' = sent @ replicate (Suc k) Ok_empty" by auto
    then show ?thesis by (intro exI [of _ "Suc k"]) simp
  qed
qed simp

section \<open>Witnesses\<close>

text \<open>A file store that keeps a file in one chunk; the JPEG library fails.\<close>

definition mem_images :: "((string \<times> string \<times> string) \<times> byte list) list image_lib" where
  "mem_images = \<lparr>fs_connect = (\<lambda>fs. True), fs_store = (\<lambda>fs l c n d. Some (((l, c, n), d) # fs)),
     fs_find = (\<lambda>fs l c n. Some (map_option (\<lambda>d. [d]) (map_of fs (l, c, n)))),
     gf_getChunk = (\<lambda>f i. if i < length f then Some (f ! i) else None),
     epeg_size = (\<lambda>d. None), epeg_output = (\<lambda>d w h. [])\<rparr>"

lemma mem_images_ok: "gridfs_ok mem_images"
  by (auto simp: gridfs_ok_def mem_images_def split: if_splits)

definition logo_json :: "(string, json) smap" where
  "logo_json = [(''images'', JArray [JObject [(''data'', JString ''cmNhcg==''), (''name'', JString ''logo.jpeg'')]]), (''target'', JString ''user'')]"

definition logo_http :: image_http where
  "logo_http = \<lparr>h_decode_uri = (\<lambda>u. u), h_query = (\<lambda>u k. if k = ''target'' then Some ''user'' else None), h_parse = (\<lambda>b. Some (JObject logo_json))\<rparr>"

definition thumb_http :: image_http where
  "thumb_http = \<lparr>h_decode_uri = (\<lambda>u. u), h_query = (\<lambda>u k. if k = ''size'' then Some ''32x32'' else if k = ''target'' then Some ''user'' else Some ''yes''),
     h_parse = (\<lambda>b. None)\<rparr>"

definition logo_fs :: "((string \<times> string \<times> string) \<times> byte list) list" where
  "logo_fs = [((''rcar-images-user'', ''fs'', ''logo.jpeg''), bytes_of ''rcar'')]"

lemma logo_text: "bytes_of ''cmNhcg=='' = b64_spec (bytes_of ''rcar'')"
  by code_simp

lemma logo_upload: "handleImageUpload mem_lib mem_images logo_http [] [] = ([Ok_empty], logo_fs, Finished)"
proof -
  have dec: "Base64Decode_inplace (bytes_of ''cmNhcg=='') = Some (bytes_of ''rcar'')"
    unfolding logo_text by (rule Base64Decode_inplace_spec) (simp add: b64_admissible_def)
  have img: "str_member mem_lib (JObject [(''data'', JString ''cmNhcg==''), (''name'', JString ''logo.jpeg'')]) ''data'' = Some ''cmNhcg==''"
    "str_member mem_lib (JObject [(''data'', JString ''cmNhcg==''), (''name'', JString ''logo.jpeg'')]) ''name'' = Some ''logo.jpeg''"
    "str_member mem_lib (JObject logo_json) ''target'' = Some ''user''"
    by (simp_all add: json_member_string [OF json_ok_mem] logo_json_def)
  have "create_out_json_object logo_http [] = JObject logo_json" by (simp add: create_out_json_object_def logo_http_def)
  moreover have "\<not> js_empty mem_lib (JObject logo_json)" by (simp add: mem_lib_def logo_json_def)
  moreover have "js_member mem_lib (JObject logo_json) ''images'' = Some (JArray [JObject [(''data'', JString ''cmNhcg==''), (''name'', JString ''logo.jpeg'')]])"
    by (simp add: mem_lib_def logo_json_def)
  moreover have "js_size mem_lib (JArray [x]) = Suc 0" "js_index mem_lib (JArray [x]) 0 = Some x" for x by (simp_all add: mem_lib_def)
  ultimately show ?thesis
    by (simp add: handleImageUpload_def img dec store_thumbnail_def create_image_thumbnail_def mem_images_def logo_fs_def del: list.map)
qed

theorem image_roundtrip_witness:
  "handleImageDownload mem_images logo_http ''/rcar/images/logo.jpeg'' logo_fs = ([Ok_image (bytes_of ''rcar'')], logo_fs, Finished)"
proof (rule image_roundtrip [where im = "[(''data'', JString ''cmNhcg==''), (''name'', JString ''logo.jpeg'')]" and name = "''logo.jpeg''" and m = logo_json
      and target = "''user''", OF json_ok_mem mem_images_ok _ _ _ _ _ _ _ logo_text logo_upload])
  show "h_parse logo_http [] = Some (JObject logo_json)" by (simp add: logo_http_def)
  show "plain_download logo_http ''/rcar/images/logo.jpeg'' ''user'' ''logo.jpeg''"
    by (simp add: plain_download_def image_request_def logo_http_def get_image_target_def get_image_size_def get_image_thumbnail_def get_val_def)
qed (simp_all add: b64_admissible_def logo_json_def mem_images_def)

theorem thumbnail_never_on_demand_witness:
  "handleImageDownload mem_images thumb_http ''/rcar/images/logo.jpeg'' logo_fs = ([Error404], logo_fs, Finished)"
  by (rule thumbnail_never_on_demand [OF mem_images_ok, of _ _ "''logo.jpeg''" "''32x32''"])
    (simp_all add: image_request_def thumb_http_def get_image_target_def get_image_size_def get_val_def mem_images_def logo_fs_def)

end
