(* ===== verification/MD5.thy ===== *)
theory MD5
  imports Rcar_Prelude
begin

text \<open>
  The MD5 class of \<^verbatim>\<open>src/lib/md5.cpp\<close>, which the message server uses to sign its requests.
  The context keeps the 64-byte buffer, the 64 bit counter as two words, the chaining state
  and the digest. Reads of the input and writes of the buffer are checked. The reference is
  RFC 1321: pad, append the length, and fold the block function over the message.
\<close>

section \<open>The class and its low-level operations\<close>

type_synonym md5_state = "uint32 \<times> uint32 \<times> uint32 \<times> uint32"

record md5_ctx =
  finalized :: bool
  buffer :: "byte list"
  count0 :: uint32
  count1 :: uint32
  state :: md5_state
  digest :: "byte list"

abbreviation (input) S11 :: nat where "S11 \<equiv> 7"
abbreviation (input) S12 :: nat where "S12 \<equiv> 12"
abbreviation (input) S13 :: nat where "S13 \<equiv> 17"
abbreviation (input) S14 :: nat where "S14 \<equiv> 22"
abbreviation (input) S21 :: nat where "S21 \<equiv> 5"
abbreviation (input) S22 :: nat where "S22 \<equiv> 9"
abbreviation (input) S23 :: nat where "S23 \<equiv> 14"
abbreviation (input) S24 :: nat where "S24 \<equiv> 20"
abbreviation (input) S31 :: nat where "S31 \<equiv> 4"
abbreviation (input) S32 :: nat where "S32 \<equiv> 11"
abbreviation (input) S33 :: nat where "S33 \<equiv> 16"
abbreviation (input) S34 :: nat where "S34 \<equiv> 23"
abbreviation (input) S41 :: nat where "S41 \<equiv> 6"
abbreviation (input) S42 :: nat where "S42 \<equiv> 10"
abbreviation (input) S43 :: nat where "S43 \<equiv> 15"
abbreviation (input) S44 :: nat where "S44 \<equiv> 21"

definition md5_F :: "uint32 \<Rightarrow> uint32 \<Rightarrow> uint32 \<Rightarrow> uint32" where
  "md5_F x y z = (x AND y) OR (NOT x AND z)"

definition md5_G :: "uint32 \<Rightarrow> uint32 \<Rightarrow> uint32 \<Rightarrow> uint32" where
  "md5_G x y z = (x AND z) OR (y AND NOT z)"

definition md5_H :: "uint32 \<Rightarrow> uint32 \<Rightarrow> uint32 \<Rightarrow> uint32" where
  "md5_H x y z = x XOR y XOR z"

definition md5_I :: "uint32 \<Rightarrow> uint32 \<Rightarrow> uint32 \<Rightarrow> uint32" where
  "md5_I x y z = y XOR (x OR NOT z)"

definition rotate_left :: "uint32 \<Rightarrow> nat \<Rightarrow> uint32" where
  "rotate_left x n = push_bit n x OR drop_bit (32 - n) x"

definition FF :: "uint32 \<Rightarrow> uint32 \<Rightarrow> uint32 \<Rightarrow> uint32 \<Rightarrow> uint32 \<Rightarrow> nat \<Rightarrow> uint32 \<Rightarrow> uint32" where
  "FF a b c d x s ac = rotate_left (a + md5_F b c d + x + ac) s + b"

definition GG :: "uint32 \<Rightarrow> uint32 \<Rightarrow> uint32 \<Rightarrow> uint32 \<Rightarrow> uint32 \<Rightarrow> nat \<Rightarrow> uint32 \<Rightarrow> uint32" where
  "GG a b c d x s ac = rotate_left (a + md5_G b c d + x + ac) s + b"

definition HH :: "uint32 \<Rightarrow> uint32 \<Rightarrow> uint32 \<Rightarrow> uint32 \<Rightarrow> uint32 \<Rightarrow> nat \<Rightarrow> uint32 \<Rightarrow> uint32" where
  "HH a b c d x s ac = rotate_left (a + md5_H b c d + x + ac) s + b"

definition II :: "uint32 \<Rightarrow> uint32 \<Rightarrow> uint32 \<Rightarrow> uint32 \<Rightarrow> uint32 \<Rightarrow> nat \<Rightarrow> uint32 \<Rightarrow> uint32" where
  "II a b c d x s ac = rotate_left (a + md5_I b c d + x + ac) s + b"

definition md5_decode :: "byte list \<Rightarrow> nat \<Rightarrow> uint32 list" where
  "md5_decode input len =
     map (\<lambda>i. le32 (input ! (4 * i)) (input ! (4 * i + 1)) (input ! (4 * i + 2)) (input ! (4 * i + 3)))
       [0..<(len + 3) div 4]"

definition md5_encode :: "uint32 list \<Rightarrow> nat \<Rightarrow> byte list" where
  "md5_encode input len =
     concat (map (\<lambda>i. [byte_at 0 (input ! i), byte_at 1 (input ! i), byte_at 2 (input ! i), byte_at 3 (input ! i)])
       [0..<(len + 3) div 4])"

section \<open>The block function\<close>

definition transform :: "md5_state \<Rightarrow> byte list \<Rightarrow> md5_state" where
  "transform st block =
     (let (s0, s1, s2, s3) = st; a = s0; b = s1; c = s2; d = s3;
       x = md5_decode block 64;
       a = FF a b c d (x ! 0) S11 0xD76AA478;
       d = FF d a b c (x ! 1) S12 0xE8C7B756;
       c = FF c d a b (x ! 2) S13 0x242070DB;
       b = FF b c d a (x ! 3) S14 0xC1BDCEEE;
       a = FF a b c d (x ! 4) S11 0xF57C0FAF;
       d = FF d a b c (x ! 5) S12 0x4787C62A;
       c = FF c d a b (x ! 6) S13 0xA8304613;
       b = FF b c d a (x ! 7) S14 0xFD469501;
       a = FF a b c d (x ! 8) S11 0x698098D8;
       d = FF d a b c (x ! 9) S12 0x8B44F7AF;
       c = FF c d a b (x ! 10) S13 0xFFFF5BB1;
       b = FF b c d a (x ! 11) S14 0x895CD7BE;
       a = FF a b c d (x ! 12) S11 0x6B901122;
       d = FF d a b c (x ! 13) S12 0xFD987193;
       c = FF c d a b (x ! 14) S13 0xA679438E;
       b = FF b c d a (x ! 15) S14 0x49B40821;
       a = GG a b c d (x ! 1) S21 0xF61E2562;
       d = GG d a b c (x ! 6) S22 0xC040B340;
       c = GG c d a b (x ! 11) S23 0x265E5A51;
       b = GG b c d a (x ! 0) S24 0xE9B6C7AA;
       a = GG a b c d (x ! 5) S21 0xD62F105D;
       d = GG d a b c (x ! 10) S22 0x2441453;
       c = GG c d a b (x ! 15) S23 0xD8A1E681;
       b = GG b c d a (x ! 4) S24 0xE7D3FBC8;
       a = GG a b c d (x ! 9) S21 0x21E1CDE6;
       d = GG d a b c (x ! 14) S22 0xC33707D6;
       c = GG c d a b (x ! 3) S23 0xF4D50D87;
       b = GG b c d a (x ! 8) S24 0x455A14ED;
       a = GG a b c d (x ! 13) S21 0xA9E3E905;
       d = GG d a b c (x ! 2) S22 0xFCEFA3F8;
       c = GG c d a b (x ! 7) S23 0x676F02D9;
       b = GG b c d a (x ! 12) S24 0x8D2A4C8A;
       a = HH a b c d (x ! 5) S31 0xFFFA3942;
       d = HH d a b c (x ! 8) S32 0x8771F681;
       c = HH c d a b (x ! 11) S33 0x6D9D6122;
       b = HH b c d a (x ! 14) S34 0xFDE5380C;
       a = HH a b c d (x ! 1) S31 0xA4BEEA44;
       d = HH d a b c (x ! 4) S32 0x4BDECFA9;
       c = HH c d a b (x ! 7) S33 0xF6BB4B60;
       b = HH b c d a (x ! 10) S34 0xBEBFBC70;
       a = HH a b c d (x ! 13) S31 0x289B7EC6;
       d = HH d a b c (x ! 0) S32 0xEAA127FA;
       c = HH c d a b (x ! 3) S33 0xD4EF3085;
       b = HH b c d a (x ! 6) S34 0x4881D05;
       a = HH a b c d (x ! 9) S31 0xD9D4D039;
       d = HH d a b c (x ! 12) S32 0xE6DB99E5;
       c = HH c d a b (x ! 15) S33 0x1FA27CF8;
       b = HH b c d a (x ! 2) S34 0xC4AC5665;
       a = II a b c d (x ! 0) S41 0xF4292244;
       d = II d a b c (x ! 7) S42 0x432AFF97;
       c = II c d a b (x ! 14) S43 0xAB9423A7;
       b = II b c d a (x ! 5) S44 0xFC93A039;
       a = II a b c d (x ! 12) S41 0x655B59C3;
       d = II d a b c (x ! 3) S42 0x8F0CCC92;
       c = II c d a b (x ! 10) S43 0xFFEFF47D;
       b = II b c d a (x ! 1) S44 0x85845DD1;
       a = II a b c d (x ! 8) S41 0x6FA87E4F;
       d = II d a b c (x ! 15) S42 0xFE2CE6E0;
       c = II c d a b (x ! 6) S43 0xA3014314;
       b = II b c d a (x ! 13) S44 0x4E0811A1;
       a = II a b c d (x ! 4) S41 0xF7537E82;
       d = II d a b c (x ! 11) S42 0xBD3AF235;
       c = II c d a b (x ! 2) S43 0x2AD7D2BB;
       b = II b c d a (x ! 9) S44 0xEB86D391
     in (s0 + a, s1 + b, s2 + c, s3 + d))"

section \<open>init, update, finalize, hexdigest\<close>

definition md5_init :: "md5_ctx \<Rightarrow> md5_ctx" where
  "md5_init obj = obj\<lparr>finalized := False, count0 := 0, count1 := 0,
     state := (0x67452301, 0xEFCDAB89, 0x98BADCFE, 0x10325476)\<rparr>"

text \<open>
  The loop \<^verbatim>\<open>for (i = firstpart; i + blocksize <= length; i += blocksize) transform(&input[i])\<close>.
  The sum wraps at 32 bits, so it is not obvious that it ends: it is a partial function.
\<close>

partial_function (option) md5_blocks ::
  "byte list \<Rightarrow> uint32 \<Rightarrow> uint32 \<Rightarrow> md5_state \<Rightarrow> (md5_state \<times> uint32) option" where
  "md5_blocks input len i st =
     (if i + 64 \<le> len then
        (case mem_read input (unat i) 64 of
           None \<Rightarrow> None
         | Some block \<Rightarrow> md5_blocks input len (i + 64) (transform st block))
      else Some (st, i))"

declare md5_blocks.simps [code]

definition md5_update :: "md5_ctx \<Rightarrow> byte list \<Rightarrow> uint32 \<Rightarrow> md5_ctx option" where
  "md5_update ctx input len =
     (let index = count0 ctx div 8 mod 64;
          c0 = count0 ctx + push_bit 3 len;
          c1 = (if c0 < push_bit 3 len then count1 ctx + 1 else count1 ctx) + drop_bit 29 len;
          ctx = ctx\<lparr>count0 := c0, count1 := c1\<rparr>;
          firstpart = 64 - index
      in if len \<ge> firstpart then do {
           part \<leftarrow> mem_read input 0 (unat firstpart);
           buf \<leftarrow> mem_write (buffer ctx) (unat index) part;
           (st, i) \<leftarrow> md5_blocks input len firstpart (transform (state ctx) buf);
           rest \<leftarrow> mem_read input (unat i) (unat (len - i));
           buf \<leftarrow> mem_write buf 0 rest;
           Some (ctx\<lparr>state := st, buffer := buf\<rparr>)
         } else do {
           rest \<leftarrow> mem_read input 0 (unat len);
           buf \<leftarrow> mem_write (buffer ctx) (unat index) rest;
           Some (ctx\<lparr>buffer := buf\<rparr>)
         })"

definition md5_padding :: "byte list" where
  "md5_padding = 0x80 # replicate 63 0"

definition state_words :: "md5_state \<Rightarrow> uint32 list" where
  "state_words st = (case st of (s0, s1, s2, s3) \<Rightarrow> [s0, s1, s2, s3])"

definition md5_finalize :: "md5_ctx \<Rightarrow> md5_ctx option" where
  "md5_finalize ctx =
     (if finalized ctx then Some ctx
      else
        (let bits = md5_encode [count0 ctx, count1 ctx] 8;
             index = count0 ctx div 8 mod 64;
             padLen = (if index < 56 then 56 - index else 120 - index)
         in do {
           ctx \<leftarrow> md5_update ctx md5_padding padLen;
           ctx \<leftarrow> md5_update ctx bits 8;
           Some (ctx\<lparr>digest := md5_encode (state_words (state ctx)) 16,
                     buffer := replicate 64 0, count0 := 0, count1 := 0, finalized := True\<rparr>)
         }))"

definition hex_digit :: "nat \<Rightarrow> char" where
  "hex_digit n = ''0123456789abcdef'' ! n"

definition hexdigest :: "md5_ctx \<Rightarrow> string" where
  "hexdigest ctx =
     (if \<not> finalized ctx then []
      else concat (map (\<lambda>b. [hex_digit (unat b div 16), hex_digit (unat b mod 16)]) (take 16 (digest ctx))))"

text \<open>
  The constructor \<^verbatim>\<open>MD5(const std::string &text)\<close>. The fields \<open>init\<close> leaves alone hold whatever
  the memory of the object held. \<^verbatim>\<open>text.length()\<close> is converted to 32 bits.
\<close>

definition MD5_of :: "md5_ctx \<Rightarrow> byte list \<Rightarrow> md5_ctx option" where
  "MD5_of obj text = do {
     ctx \<leftarrow> md5_update (md5_init obj) text (of_nat (length text));
     md5_finalize ctx
   }"

section \<open>RFC 1321 as the reference\<close>

definition md5_iv :: md5_state where
  "md5_iv = (0x67452301, 0xEFCDAB89, 0x98BADCFE, 0x10325476)"

text \<open>Absorbing a byte string: all full blocks go through the block function, the rest is pending.\<close>

function absorb :: "md5_state \<Rightarrow> byte list \<Rightarrow> md5_state \<times> byte list" where
  "absorb st xs = (if length xs < 64 then (st, xs) else absorb (transform st (take 64 xs)) (drop 64 xs))"
  by pat_completeness auto
termination
  by (relation "measure (\<lambda>(st, xs). length xs)") auto

declare absorb.simps [simp del]

definition md5_pad :: "nat \<Rightarrow> byte list" where
  "md5_pad n = 0x80 # replicate ((119 - n mod 64) mod 64) 0 @
     md5_encode [of_nat (8 * n), of_nat (8 * n div 2 ^ 32)] 8"

definition md5_spec :: "byte list \<Rightarrow> byte list" where
  "md5_spec msg = md5_encode (state_words (fst (absorb md5_iv (msg @ md5_pad (length msg))))) 16"

lemma absorb_short: "length xs < 64 \<Longrightarrow> absorb st xs = (st, xs)"
  by (simp add: absorb.simps)

lemma absorb_block: "length b = 64 \<Longrightarrow> absorb st (b @ xs) = absorb (transform st b) xs"
  by (subst absorb.simps) simp

lemma absorb_append:
  "absorb st (xs @ ys) = (case absorb st xs of (st', rest) \<Rightarrow> absorb st' (rest @ ys))"
proof (induction st xs rule: absorb.induct)
  case (1 st xs)
  show ?case
  proof (cases "length xs < 64")
    case True
    then show ?thesis by (simp add: absorb_short)
  next
    case False
    then have "xs @ ys = take 64 xs @ drop 64 xs @ ys" "length (take 64 xs) = 64" by simp_all
    then have "absorb st (xs @ ys) = absorb (transform st (take 64 xs)) (drop 64 xs @ ys)"
      by (metis absorb_block)
    with 1 False show ?thesis by (simp add: absorb.simps [of st xs])
  qed
qed

lemma length_pending: "length (snd (absorb st xs)) = length xs mod 64"
proof (induction st xs rule: absorb.induct)
  case (1 st xs)
  then show ?case
    by (cases "length xs < 64") (simp_all add: absorb.simps [of st xs] le_mod_geq)
qed

text \<open>The block loop is \<^const>\<open>absorb\<close> on the input from \<open>i\<close> on, as long as \<open>i + 64\<close> cannot wrap.\<close>

lemma md5_blocks_absorb:
  assumes "len = of_nat n" "n < 2 ^ 32 - 64" "n \<le> length input" "i = of_nat k" "k \<le> n"
  shows "\<exists>j st'. md5_blocks input len i st = Some (st', of_nat j) \<and> j \<le> n \<and>
     absorb st (drop k (take n input)) = (st', drop j (take n input))"
  using assms(4,5)
proof (induction "n - k" arbitrary: k i st rule: less_induct)
  case less
  have i: "unat i = k" "unat len = n" "unat (i + 64) = k + 64"
    using less.prems assms(1,2) by (simp_all add: unat_word_ariths unat_of_nat take_bit_nat_eq_self)
  show ?case
  proof (cases "k + 64 \<le> n")
    case True
    let ?b = "take 64 (drop k input)"
    have "take 64 (drop k (take n input)) = ?b" using True by (simp add: drop_take min_def)
    then have b: "length ?b = 64" "drop k (take n input) = ?b @ drop (k + 64) (take n input)"
      using True assms(3) append_take_drop_id [of 64 "drop k (take n input)"]
      by (simp_all add: add.commute)
    have "absorb st (drop k (take n input)) = absorb (transform st ?b) (drop (k + 64) (take n input))"
      unfolding b(2) by (rule absorb_block [OF b(1)])
    moreover have "n - (k + 64) < n - k" using True by linarith
    from less.hyps [OF this refl True, of "transform st ?b"]
    obtain j st' where
      "md5_blocks input len (of_nat (k + 64)) (transform st ?b) = Some (st', of_nat j)"
      "j \<le> n"
      "absorb (transform st ?b) (drop (k + 64) (take n input)) = (st', drop j (take n input))"
      by blast
    moreover have "i + 64 \<le> len" using True i by (simp add: word_le_nat_alt)
    ultimately show ?thesis
      using True i(1) less.prems(1) assms(3)
      by (subst md5_blocks.simps) (auto simp: mem_read_def)
  next
    case False
    then have "\<not> i + 64 \<le> len" using i by (simp add: word_le_nat_alt)
    with False less.prems show ?thesis
      by (subst md5_blocks.simps) (auto simp: absorb_short intro!: exI [of _ k])
  qed
qed

section \<open>What a context stands for\<close>

text \<open>
  A context represents a message when the chaining state and the first bytes of the buffer are
  what absorbing the message leaves, and the two counter words hold its length in bits.
\<close>

definition md5_rep :: "md5_ctx \<Rightarrow> byte list \<Rightarrow> bool" where
  "md5_rep ctx msg \<longleftrightarrow>
     \<not> finalized ctx \<and> length (buffer ctx) = 64 \<and>
     count0 ctx = of_nat (8 * length msg) \<and> count1 ctx = of_nat (8 * length msg div 2 ^ 32) \<and>
     absorb md5_iv msg = (state ctx, take (length msg mod 64) (buffer ctx))"

lemma md5_init_rep: "length (buffer obj) = 64 \<Longrightarrow> md5_rep (md5_init obj) []"
  by (simp add: md5_rep_def md5_init_def md5_iv_def absorb_short)

lemma index_of_count: "(of_nat (8 * n) :: uint32) div 8 mod 64 = of_nat (n mod 64)"
proof -
  have "unat ((of_nat (8 * n) :: uint32) div 8 mod 64) = (8 * n) mod 2 ^ 32 div 8 mod 64"
    by (simp add: unat_div unat_mod unat_of_nat take_bit_eq_mod del: of_nat_mult)
  also have "\<dots> = n mod 64"
  proof -
    have "(8 * n) mod 2 ^ 32 = 8 * (n mod 2 ^ 29)"
      using mult_mod_right [of 8 n "2 ^ 29"] by simp
    then show ?thesis by (simp add: mod_mod_cancel)
  qed
  finally have "unat ((of_nat (8 * n) :: uint32) div 8 mod 64) = unat (of_nat (n mod 64) :: uint32)"
    by (simp add: unat_of_nat take_bit_nat_eq_self less_trans [of _ 64])
  then show ?thesis by (simp add: word_unat_eq_iff)
qed

lemma mod_carry:
  fixes a b M :: nat
  assumes "0 < M"
  shows "(a + b) mod M < b mod M \<longleftrightarrow> (a mod M + b mod M) div M = 1" "(a mod M + b mod M) div M \<le> 1"
proof -
  let ?s = "a mod M + b mod M"
  have s: "a mod M < M" "b mod M < M" using assms by simp_all
  have "(a + b) mod M = ?s mod M" by (simp add: mod_add_eq)
  moreover have "?s - M < M" "\<not> ?s < M \<Longrightarrow> ?s - M < b mod M" using s by linarith+
  ultimately have "((a + b) mod M < b mod M \<longleftrightarrow> ?s div M = 1) \<and> ?s div M \<le> 1"
    using assms by (cases "?s < M") (simp_all add: le_mod_geq le_div_geq)
  then show "(a + b) mod M < b mod M \<longleftrightarrow> ?s div M = 1" "?s div M \<le> 1" by simp_all
qed

text \<open>The two-word counter adds \<open>8 * k\<close> with the carry written out by the code.\<close>

lemma count_carry:
  fixes n k :: nat
  assumes "k < 2 ^ 32"
  defines "len \<equiv> of_nat k :: uint32" and "c0 \<equiv> of_nat (8 * n) :: uint32" and "c1 \<equiv> of_nat (8 * n div 2 ^ 32) :: uint32"
  shows "c0 + push_bit 3 len = of_nat (8 * (n + k))"
    and "(if c0 + push_bit 3 len < push_bit 3 len then c1 + 1 else c1) + drop_bit 29 len =
      of_nat (8 * (n + k) div 2 ^ 32)"
proof -
  have push: "push_bit 3 len = of_nat (8 * k)"
    by (simp add: len_def push_bit_eq_mult)
  show low: "c0 + push_bit 3 len = of_nat (8 * (n + k))"
    by (simp add: push c0_def algebra_simps)
  have drop: "drop_bit 29 len = of_nat (8 * k div 2 ^ 32)"
  proof -
    have "unat (drop_bit 29 len) = k div 2 ^ 29"
      using assms(1) by (simp add: len_def drop_bit_eq_div unat_div unat_of_nat take_bit_nat_eq_self)
    also have "\<dots> = 8 * k div 2 ^ 32" by simp
    finally show ?thesis by (metis of_nat_unat ucast_id)
  qed
  have "c0 + push_bit 3 len < push_bit 3 len \<longleftrightarrow> (8 * n + 8 * k) mod 2 ^ 32 < (8 * k) mod 2 ^ 32"
    unfolding low unfolding push word_less_nat_alt
    by (simp add: unat_of_nat take_bit_eq_mod distrib_left del: of_nat_mult of_nat_add)
  also have "\<dots> \<longleftrightarrow> (8 * n mod 2 ^ 32 + 8 * k mod 2 ^ 32) div 2 ^ 32 = 1"
    by (rule mod_carry) simp
  finally have carry: "c0 + push_bit 3 len < push_bit 3 len \<longleftrightarrow> \<dots>" .
  have le: "(8 * n mod 2 ^ 32 + 8 * k mod 2 ^ 32) div 2 ^ 32 = 0 \<or> (8 * n mod 2 ^ 32 + 8 * k mod 2 ^ 32) div 2 ^ 32 = 1"
    using mod_carry(2) [of "2 ^ 32" "8 * n" "8 * k"] by (simp add: le_Suc_eq)
  have "8 * (n + k) div 2 ^ 32 = 8 * n div 2 ^ 32 + 8 * k div 2 ^ 32 + (8 * n mod 2 ^ 32 + 8 * k mod 2 ^ 32) div 2 ^ 32"
    using div_add1_eq [of "8 * n" "8 * k" "2 ^ 32"] by (simp add: distrib_left)
  then show "(if c0 + push_bit 3 len < push_bit 3 len then c1 + 1 else c1) + drop_bit 29 len =
      of_nat (8 * (n + k) div 2 ^ 32)"
    using le unfolding carry drop c1_def by (auto simp del: of_nat_mult)
qed

section \<open>update and finalize\<close>

lemma md5_update_rep:
  assumes rep: "md5_rep ctx msg" and ok: "k < 2 ^ 32 - 64" and ki: "k \<le> length input"
  shows "\<exists>ctx'. md5_update ctx input (of_nat k) = Some ctx' \<and> md5_rep ctx' (msg @ take k input)"
proof -
  define xs where "xs = take k input"
  let ?n = "length msg" and ?k = "length xs"
  have kx: "?k = k" using ki by (simp add: xs_def)
  let ?len = "of_nat ?k :: uint32"
  define idx where "idx = ?n mod 64"
  define pend where "pend = take idx (buffer ctx)"
  have idx: "idx < 64" by (simp add: idx_def)
  from rep have fin: "\<not> finalized ctx" and lb: "length (buffer ctx) = 64"
    and c0: "count0 ctx = of_nat (8 * ?n)" and c1: "count1 ctx = of_nat (8 * ?n div 2 ^ 32)"
    and ab: "absorb md5_iv msg = (state ctx, pend)"
    by (simp_all add: md5_rep_def pend_def idx_def)
  have lp: "length pend = idx" using lb idx by (simp add: pend_def)
  from ok have k: "?k < 2 ^ 32" by (simp add: kx)
  note cnt1 = count_carry(1) [OF k, of ?n, folded c0 c1]
  note cnt = cnt1 count_carry(2) [OF k, of ?n, folded c0 c1, unfolded cnt1]
  have index: "count0 ctx div 8 mod 64 = of_nat idx"
    unfolding c0 index_of_count by (simp add: idx_def)
  have u: "unat (of_nat idx :: uint32) = idx" "unat ?len = ?k"
     "unat (of_nat (64 - idx) :: uint32) = 64 - idx"
    using idx k by (simp_all add: unat_of_nat take_bit_nat_eq_self del: of_nat_diff)
  have f: "64 - of_nat idx = (of_nat (64 - idx) :: uint32)" 
    by (simp only: of_nat_diff [OF less_imp_le [OF idx]] of_nat_numeral)
  have ab': "absorb md5_iv (msg @ xs) = absorb (state ctx) (pend @ xs)"
    by (subst absorb_append) (simp add: ab)
  have lm: "length (msg @ xs) = ?n + ?k" by simp
  have "\<exists>ctx'. md5_update ctx input ?len = Some ctx' \<and> md5_rep ctx' (msg @ xs)"
  proof (cases "64 - idx \<le> ?k")
    case True
    let ?part = "take (64 - idx) xs"
    let ?st = "transform (state ctx) (pend @ ?part)"
    from md5_blocks_absorb [OF refl ok ki refl, of "64 - idx" ?st] True
    obtain j st' where blk: "md5_blocks input ?len (of_nat (64 - idx)) ?st = Some (st', of_nat j)"
      and j: "j \<le> ?k" and abj: "absorb ?st (drop (64 - idx) xs) = (st', drop j xs)" by (auto simp: kx simp flip: xs_def)
    have "absorb (state ctx) (pend @ xs) = absorb (state ctx) ((pend @ ?part) @ drop (64 - idx) xs)" by simp
    also have "\<dots> = (st', drop j xs)"
      using True idx lp abj by (subst absorb_block) auto
    finally have res: "absorb md5_iv (msg @ xs) = (st', drop j xs)" using ab' by simp
    then have lr: "length (drop j xs) = (?n + ?k) mod 64" using length_pending [of md5_iv "msg @ xs"] by simp
    then have lr': "?k - j < 64" by simp
    have w1: "mem_write (buffer ctx) idx ?part = Some (pend @ ?part)"
      using True idx lb by (simp add: mem_write_def pend_def)
    have uj: "unat (of_nat j :: uint32) = j" "unat (?len - of_nat j) = ?k - j"
      using j k by (simp_all add: unat_of_nat take_bit_nat_eq_self flip: of_nat_diff)
    have r1: "mem_read input 0 (64 - idx) = Some ?part"
      using True ki kx by (simp add: mem_read_def xs_def min_def)
    have r2: "mem_read input j (?k - j) = Some (drop j xs)"
      using j ki kx by (simp add: mem_read_def xs_def drop_take)
    have w3: "mem_write (pend @ ?part) 0 (drop j xs) = Some (drop j xs @ drop (?k - j) (pend @ ?part))"
      using lp True lr' idx by (simp add: mem_write_def)
    have ge: "of_nat (64 - idx) \<le> ?len" using True u by (simp add: word_le_nat_alt)
    have "md5_update ctx input ?len = Some (ctx\<lparr>count0 := of_nat (8 * (?n + ?k)), count1 := of_nat (8 * (?n + ?k) div 2 ^ 32),
        state := st', buffer := drop j xs @ drop (?k - j) (pend @ ?part)\<rparr>)"
      unfolding md5_update_def Let_def index f cnt
      using ge by (simp add: u uj r1 r2 w1 w3 blk del: of_nat_diff of_nat_mult of_nat_add)
    then show ?thesis
      using fin res lr lr' True lp idx unfolding md5_rep_def lm by auto
  next
    case False
    have lt: "\<not> of_nat (64 - idx) \<le> ?len" using False u by (simp add: word_le_nat_alt)
    have sum: "(?n + ?k) mod 64 = idx + ?k"
      using False idx unfolding idx_def by (metis (no_types, lifting) less_diff_conv add.commute mod_add_left_eq mod_less not_le)
    have r1: "mem_read input 0 ?k = Some xs" using ki kx by (simp add: mem_read_def xs_def)
    have w2: "mem_write (buffer ctx) idx xs = Some (pend @ xs @ drop (idx + ?k) (buffer ctx))"
      using False lb by (simp add: mem_write_def pend_def)
    have "md5_update ctx input ?len = Some (ctx\<lparr>count0 := of_nat (8 * (?n + ?k)), count1 := of_nat (8 * (?n + ?k) div 2 ^ 32),
        buffer := pend @ xs @ drop (idx + ?k) (buffer ctx)\<rparr>)"
      unfolding md5_update_def Let_def index f cnt
      using lt by (simp add: u r1 w2 del: of_nat_diff of_nat_mult of_nat_add)
    moreover have "absorb md5_iv (msg @ xs) = (state ctx, pend @ xs)"
      using False lp ab' by (simp add: absorb_short)
    ultimately show ?thesis
      using fin lb lp False idx unfolding md5_rep_def lm sum by auto
  qed
  then show ?thesis by (simp add: kx) (simp add: xs_def)
qed

lemma take_md5_padding:
  assumes "0 < p" "p \<le> 64"
  shows "take p md5_padding = 0x80 # replicate (p - 1) 0"
  using assms by (cases p) (simp_all add: md5_padding_def min_def)

lemma md5_pad_split:
  assumes "p = (if n mod 64 < 56 then 56 - n mod 64 else 120 - n mod 64)"
  shows "md5_pad n = take p md5_padding @ md5_encode [of_nat (8 * n), of_nat (8 * n div 2 ^ 32)] 8"
    and "p \<le> length md5_padding"
proof -
  have b: "n mod 64 < 64" by simp
  have p: "0 < p" "p \<le> 64" using assms b by auto
  have "(119 - n mod 64) mod 64 = p - 1"
  proof (cases "n mod 64 < 56")
    case True
    then have "119 - n mod 64 = (55 - n mod 64) + 64" by linarith
    moreover have "(55 - n mod 64) mod 64 = 55 - n mod 64" by (rule mod_less) linarith
    ultimately show ?thesis using True assms by (simp only: mod_add_self2) simp
  next
    case False
    then show ?thesis using assms b by simp
  qed
  then show "md5_pad n = take p md5_padding @ md5_encode [of_nat (8 * n), of_nat (8 * n div 2 ^ 32)] 8"
    by (simp add: md5_pad_def take_md5_padding p)
  show "p \<le> length md5_padding" using p by (simp add: md5_padding_def)
qed

lemma pad_len_word:
  fixes i :: nat
  assumes "i < 64"
  shows "(if (of_nat i :: uint32) < 56 then 56 - of_nat i else 120 - of_nat i :: uint32) =
     of_nat (if i < 56 then 56 - i else 120 - i)"
proof -
  have u: "unat (of_nat i :: uint32) = i" using assms by (simp add: unat_of_nat take_bit_nat_eq_self)
  have "(of_nat i :: uint32) < 56 \<longleftrightarrow> i < 56" using u by (simp add: word_less_nat_alt)
  then show ?thesis using assms by (simp add: of_nat_diff)
qed

lemma length_md5_encode [simp]: "length (md5_encode ws n) = 4 * ((n + 3) div 4)"
  by (simp add: md5_encode_def length_concat comp_def sum_list_triv)

lemma md5_finalize_rep:
  assumes "md5_rep ctx msg"
  shows "\<exists>ctx'. md5_finalize ctx = Some ctx' \<and> finalized ctx' \<and> digest ctx' = md5_spec msg"
proof -
  let ?n = "length msg"
  let ?p = "if ?n mod 64 < 56 then 56 - ?n mod 64 else 120 - ?n mod 64"
  let ?bits = "md5_encode [count0 ctx, count1 ctx] 8"
  from assms have fin: "\<not> finalized ctx" and c: "count0 ctx = of_nat (8 * ?n)" "count1 ctx = of_nat (8 * ?n div 2 ^ 32)"
    by (simp_all add: md5_rep_def)
  have pad: "md5_pad ?n = take ?p md5_padding @ ?bits" "?p \<le> length md5_padding"
    unfolding c by (rule md5_pad_split [OF refl])+
  have p: "(if count0 ctx div 8 mod 64 < 56 then 56 - count0 ctx div 8 mod 64 else 120 - count0 ctx div 8 mod 64) = of_nat ?p"
    unfolding c index_of_count by (rule pad_len_word) simp
  have "?p < 2 ^ 32 - 64" by (simp add: less_imp_diff_less)
  from md5_update_rep [OF assms this pad(2)] obtain ctx1 where
    1: "md5_update ctx md5_padding (of_nat ?p) = Some ctx1" "md5_rep ctx1 (msg @ take ?p md5_padding)" by blast
  from md5_update_rep [OF 1(2), of 8 ?bits] obtain ctx2 where
    2: "md5_update ctx1 ?bits 8 = Some ctx2" "md5_rep ctx2 (msg @ md5_pad ?n)"
    by (auto simp: pad)
  from 2(2) have "state ctx2 = fst (absorb md5_iv (msg @ md5_pad ?n))" by (simp add: md5_rep_def)
  then show ?thesis
    unfolding md5_finalize_def Let_def p md5_spec_def using fin 1(1) 2(1) by simp
qed

text \<open>A client feeds the message in chunks.\<close>

fun md5_updates :: "md5_ctx \<Rightarrow> byte list list \<Rightarrow> md5_ctx option" where
  "md5_updates ctx [] = Some ctx"
| "md5_updates ctx (c # cs) = do { ctx \<leftarrow> md5_update ctx c (of_nat (length c)); md5_updates ctx cs }"

lemma md5_updates_rep:
  assumes "md5_rep ctx msg" "\<forall>c \<in> set cs. length c < 2 ^ 32 - 64"
  shows "\<exists>ctx'. md5_updates ctx cs = Some ctx' \<and> md5_rep ctx' (msg @ concat cs)"
  using assms
proof (induction cs arbitrary: ctx msg)
  case (Cons c cs)
  from md5_update_rep [OF Cons.prems(1), of "length c" c] Cons.prems(2)
  obtain ctx1 where "md5_update ctx c (of_nat (length c)) = Some ctx1" "md5_rep ctx1 (msg @ c)" by auto
  moreover from Cons.IH [OF this(2)] Cons.prems(2)
  obtain ctx2 where "md5_updates ctx1 cs = Some ctx2" "md5_rep ctx2 ((msg @ c) @ concat cs)" by auto
  ultimately show ?case by simp
qed simp

text \<open>An object before construction, for the witnesses.\<close>

definition md5_obj :: md5_ctx where
  "md5_obj = \<lparr>finalized = False, buffer = replicate 64 0, count0 = 0, count1 = 0, state = (0, 0, 0, 0), digest = []\<rparr>"



lemma hex_digit_set: "n < 16 \<Longrightarrow> hex_digit n \<in> set ''0123456789abcdef''"
  unfolding hex_digit_def by (rule nth_mem) simp

definition hex_value :: "char \<Rightarrow> nat" where
  "hex_value c = length (takeWhile (\<lambda>d. d \<noteq> c) ''0123456789abcdef'')"

lemma hex_value_digit: "n < 16 \<Longrightarrow> hex_value (hex_digit n) = n"
  unfolding hex_digit_def hex_value_def
  by (simp add: less_Suc_eq eval_nat_numeral, elim disjE) simp_all

fun unhex :: "string \<Rightarrow> byte list" where
  "unhex (h # l # cs) = of_nat (16 * hex_value h + hex_value l) # unhex cs"
| "unhex cs = []"

lemma unhex_hex:
  "unhex (concat (map (\<lambda>b :: byte. [hex_digit (unat b div 16), hex_digit (unat b mod 16)]) bs)) = bs"
proof (induction bs)
  case (Cons b bs)
  have "unat b div 16 < 16" using unat_byte_less [of b] by simp
  then have "hex_value (hex_digit (unat b div 16)) = unat b div 16" "hex_value (hex_digit (unat b mod 16)) = unat b mod 16"
    by (simp_all add: hex_value_digit)
  then have "of_nat (16 * hex_value (hex_digit (unat b div 16)) + hex_value (hex_digit (unat b mod 16))) = b"
    by (simp only: mult_div_mod_eq) simp
  with Cons show ?case by simp
qed simp

lemma MD5_hexdigest_lemma:
  assumes "length (buffer obj) = 64" and "length text < 2 ^ 32 - 64"
  shows "\<exists>ctx. MD5_of obj text = Some ctx \<and> length (hexdigest ctx) = 32 \<and>
     set (hexdigest ctx) \<subseteq> set ''0123456789abcdef'' \<and> unhex (hexdigest ctx) = md5_spec text"
proof -
  from md5_update_rep [OF md5_init_rep [OF assms(1)] assms(2) order.refl]
  obtain c1 where "md5_update (md5_init obj) text (of_nat (length text)) = Some c1" "md5_rep c1 text" by auto
  moreover from md5_finalize_rep [OF this(2)] obtain c2 where
    "md5_finalize c1 = Some c2" and fin: "finalized c2" "digest c2 = md5_spec text" by blast
  ultimately have "MD5_of obj text = Some c2" by (simp add: MD5_of_def)
  moreover have len: "length (md5_spec text) = 16" by (simp add: md5_spec_def)
  moreover have "hexdigest c2 = concat (map (\<lambda>b. [hex_digit (unat b div 16), hex_digit (unat b mod 16)]) (md5_spec text))"
    using fin len by (simp add: hexdigest_def)
  moreover have "unat b div 16 < 16" for b :: byte using unat_byte_less [of b] by simp
  moreover define H where "H = set ''0123456789abcdef''"
  ultimately show ?thesis
    using hex_digit_set [folded H_def] unfolding H_def [symmetric]
    by (auto simp: unhex_hex length_concat comp_def sum_list_triv)
qed



text \<open>Near the top of the 32 bit range the sum in the loop condition wraps, and the loop reads past the input.\<close>

lemma md5_blocks_wraps:
  assumes "unat len = length input" "2 ^ 32 - 64 \<le> unat len" "i = of_nat (64 * k)" "0 < k" "k < 2 ^ 26"
  shows "md5_blocks input len i st = None"
  using assms(3-)
proof (induction "2 ^ 26 - k" arbitrary: k i st rule: less_induct)
  case less
  have i: "unat i = 64 * k" using less.prems by (simp add: unat_of_nat take_bit_nat_eq_self del: of_nat_mult)
  show ?case
  proof (cases "k = 2 ^ 26 - 1")
    case True
    then have "\<not> unat i + 64 \<le> length input"
      using i assms(1) unsigned_less [of len, where 'a = nat] by simp
    moreover have "unat (i + 64) = 0" using True i by (simp add: unat_word_ariths)
    then have "i + 64 \<le> len" by (simp add: word_le_nat_alt)
    ultimately show ?thesis by (subst md5_blocks.simps) (simp add: mem_read_def)
  next
    case False
    then have k: "Suc k < 2 ^ 26" using less.prems by simp
    have "i + 64 = of_nat (64 * Suc k)" using less.prems by (simp add: algebra_simps)
    moreover have "2 ^ 26 - Suc k < 2 ^ 26 - k" using k by linarith
    ultimately have "md5_blocks input len (i + 64) st' = None" for st'
      using less.hyps k by blast
    moreover have "unat (i + 64) = 64 * k + 64" using i k by (simp add: unat_word_ariths)
    then have "i + 64 \<le> len" using k assms(2) by (simp add: word_le_nat_alt)
    ultimately show ?thesis by (subst md5_blocks.simps) (simp split: option.split)
  qed
qed

lemma MD5_of_wraps:
  assumes "length (buffer obj) = 64" and "2 ^ 32 - 64 \<le> length text" "length text < 2 ^ 32"
  shows "MD5_of obj text = None"
proof -
  let ?len = "of_nat (length text) :: uint32"
  have u: "unat ?len = length text" using assms(3) by (simp add: unat_of_nat take_bit_nat_eq_self)
  have "md5_blocks text ?len 64 st = None" for st
    using md5_blocks_wraps [of ?len "text" 64 1] assms(2) u by simp
  moreover have "64 \<le> ?len" using u assms(2) by (simp add: word_le_nat_alt)
  ultimately have "md5_update (md5_init obj) text ?len = None"
    by (simp add: md5_update_def md5_init_def Let_def del: of_nat_mult split: bind_splits)
  then show ?thesis by (simp add: MD5_of_def)
qed

text \<open>
  C23. The constructor returns a digest for exactly the texts of less than \<open>2 ^ 32 - 64\<close> bytes, of those
  whose length fits 32 bits. For these the block loop ends after the last whole block. For a longer text the
  sum \<^verbatim>\<open>i + blocksize\<close> wraps to a small number, the loop goes on, and reads past the end of the text.
\<close>

theorem MD5_of_terminates:
  assumes "length (buffer obj) = 64" "length text < 2 ^ 32"
  shows "(\<exists>ctx. MD5_of obj text = Some ctx) \<longleftrightarrow> length text < 2 ^ 32 - 64"
proof (cases "length text < 2 ^ 32 - 64")
  case True
  with MD5_hexdigest_lemma [OF assms(1) True] show ?thesis by blast
qed (use MD5_of_wraps [OF assms(1) _ assms(2)] in simp)

theorem MD5_of_terminates_witness:
  "(\<exists>ctx. MD5_of md5_obj (bytes_of ''abc'') = Some ctx) \<and> MD5_of md5_obj (replicate (2 ^ 32 - 64) 7) = None"
  using MD5_of_terminates [of md5_obj "bytes_of ''abc''"] MD5_of_terminates [of md5_obj "replicate (2 ^ 32 - 64) 7"]
  by (simp add: md5_obj_def)

end
