(* ===== verification/Push_Server.thy ===== *)
theory Push_Server
  imports MD5 Log Config_File Api_Laws
begin

text \<open>
  The push server, \<^verbatim>\<open>src/msg-server\<close>: it takes the messages the application server published from the
  queue, looks up the session of the target and posts a signed request to the push service. The result of
  an operation is the list of posts it made, each a URL and a body, and how it ended: normally, with an
  exception that nothing catches, or undefined. The JSON writer, the clock and the memory of a fresh
  digest object are arguments. jsoncpp keeps the members of an object in the order of their names, as
  \<^verbatim>\<open>std::map\<close> does.
\<close>

section \<open>Results\<close>

datatype push_error = Json_exception | Undefined_behaviour

type_synonym posts = "(string \<times> string) list"
type_synonym outcome = "posts \<times> push_error option"

definition or_err :: "push_error \<Rightarrow> 'a option \<Rightarrow> ('a \<Rightarrow> outcome) \<Rightarrow> outcome" where
  "or_err e x k = (case x of None \<Rightarrow> ([], Some e) | Some v \<Rightarrow> k v)"

definition and_then :: "outcome \<Rightarrow> outcome \<Rightarrow> outcome" where
  "and_then a b = (case snd a of None \<Rightarrow> (fst a @ fst b, snd b) | Some e \<Rightarrow> a)"

section \<open>Keys\<close>

definition getApiKey :: "string \<Rightarrow> string" where
  "getApiKey m_to = (if m_to = ''user'' then ''lRsBpphYIr8elR0Yi4lXlG3H'' else ''7UtGbOMybZt2XvgRDSjMQg8R'')"

definition getSecretKey :: "string \<Rightarrow> string" where
  "getSecretKey m_to =
     (if m_to = ''user'' then ''H06EYUkVXPah53vSgCN0ubeY5fssDPvt'' else ''SIEOiEugGk06w7cwzhLjDd6HId2M2KRg'')"

section \<open>Messages\<close>

definition e_message_type_message :: int where "e_message_type_message = 0"
definition e_message_type_notice :: int where "e_message_type_notice = 1"
definition e_push_type_someone :: int where "e_push_type_someone = 1"
definition e_device_type_android :: int where "e_device_type_android = 3"
definition e_device_type_ios :: int where "e_device_type_ios = 4"

text \<open>The subclasses of \<^verbatim>\<open>Message\<close>.\<close>

datatype message_class = PushToBatchMessage | PushToSingleMessage | PushToAllMessage | PushToGroupMessage
  | CreateGroupMessage | AddToGroupMessage | DeleteGroupMessage | DeleteFromGroupMessage

record message =
  m_class :: message_class
  m_to :: string
  m_message :: string
  m_pushType :: int
  m_deviceType :: int
  m_messageType :: int
  m_userId :: string
  m_channelId :: string

definition httpmethod :: "message_class \<Rightarrow> string" where
  "httpmethod c = ''POST''"

definition cclass :: "message_class \<Rightarrow> string" where
  "cclass c = ''push''"

definition method_name :: "message_class \<Rightarrow> string" where
  "method_name c = (case c of PushToSingleMessage \<Rightarrow> ''single_device'' | _ \<Rightarrow> ''batch_device'')"

definition url :: "message \<Rightarrow> string" where
  "url msg = ''http://api.tuisong.baidu.com/rest/3.0/'' @ cclass (m_class msg) @ ''/'' @ method_name (m_class msg)"

definition serialize :: "message \<Rightarrow> (string, json) smap \<Rightarrow> (string, json) smap" where
  "serialize msg v =
     (case m_class msg of
        PushToSingleMessage \<Rightarrow>
          smap_put ''msg_type'' (JInt (m_messageType msg)) (smap_put ''channel_id'' (JString (m_channelId msg)) v)
      | _ \<Rightarrow> v)"

text \<open>Numbers are printed with \<^verbatim>\<open>asUInt\<close>, which throws when they do not fit.\<close>

definition member_string :: "'db lib \<Rightarrow> json \<Rightarrow> string option" where
  "member_string L v =
     (case v of
        JUInt n \<Rightarrow> if n < 2 ^ 32 then Some (digits n) else None
      | JInt i \<Rightarrow> if 0 \<le> i \<and> i < 2 ^ 32 then Some (digits (nat i)) else None
      | _ \<Rightarrow> js_asString L v)"

fun formatJsonWithUrlEncoded_loop :: "'db lib \<Rightarrow> bool \<Rightarrow> (string, json) smap \<Rightarrow> string option" where
  "formatJsonWithUrlEncoded_loop L first [] = Some []"
| "formatJsonWithUrlEncoded_loop L first ((key, v) # data) = do {
     s \<leftarrow> member_string L v;
     rest \<leftarrow> formatJsonWithUrlEncoded_loop L False data;
     Some ((if first then [] else ''&'') @ key @ ''='' @ s @ rest)
   }"

definition formatJsonWithUrlEncoded :: "'db lib \<Rightarrow> (string, json) smap \<Rightarrow> string option" where
  "formatJsonWithUrlEncoded L data = formatJsonWithUrlEncoded_loop L True data"

definition to_hex :: "byte \<Rightarrow> byte" where
  "to_hex x = (if x > 9 then x + 55 else x + 48)"

definition isalnum :: "char \<Rightarrow> bool" where
  "isalnum c \<longleftrightarrow> (let n = of_char c :: nat in 48 \<le> n \<and> n \<le> 57 \<or> 65 \<le> n \<and> n \<le> 90 \<or> 97 \<le> n \<and> n \<le> 122)"

definition encodeChar :: "char \<Rightarrow> string" where
  "encodeChar c =
     (if isalnum c \<or> c = CHR ''-'' \<or> c = CHR ''_'' \<or> c = CHR ''.'' \<or> c = CHR ''~'' then [c]
      else if c = CHR '' '' then ''+''
      else [CHR ''%'', char_of (unat (to_hex (drop_bit 4 (of_char c)))), char_of (unat (to_hex (of_char c mod 16)))])"

text \<open>The length is an \<^verbatim>\<open>unsigned int\<close>.\<close>

definition encodeUrl :: "string \<Rightarrow> string" where
  "encodeUrl str = concat (map encodeChar (take (unat (of_nat (length str) :: uint32)) str))"

fun sign_members :: "'db lib \<Rightarrow> (string, json) smap \<Rightarrow> string option" where
  "sign_members L [] = Some []"
| "sign_members L ((key, v) # data) = do {
     s \<leftarrow> member_string L v;
     rest \<leftarrow> sign_members L data;
     Some (key @ ''='' @ s @ rest)
   }"

definition sign :: "'db lib \<Rightarrow> md5_ctx \<Rightarrow> message \<Rightarrow> (string, json) smap \<Rightarrow> (string \<Rightarrow> outcome) \<Rightarrow> outcome" where
  "sign L obj msg data k =
     or_err Json_exception (sign_members L data) (\<lambda>val.
     let m = httpmethod (m_class msg) @ url msg @ val @ getSecretKey (m_to msg)
     in or_err Undefined_behaviour (MD5_of obj (bytes_of (encodeUrl m))) (\<lambda>md5. k (hexdigest md5)))"

definition CONTENT_MAX_SIZE :: nat where "CONTENT_MAX_SIZE = 512"

definition content_fmt :: string where
  "content_fmt = ''{\"aps\":{\"alert\":\"hello\"},\"param\":%s}''"

definition message_format :: "'db lib \<Rightarrow> md5_ctx \<Rightarrow> uint32 \<Rightarrow> message \<Rightarrow> (string \<Rightarrow> outcome) \<Rightarrow> outcome" where
  "message_format L obj now msg k =
     (let data = smap_put ''apikey'' (JString (getApiKey (m_to msg))) [];
          data = smap_put ''timestamp'' (JUInt (unat now)) data;
          data = smap_put ''device_type'' (JInt (m_deviceType msg)) data;
          data = smap_put ''deploy_status'' (JInt 1) data;
          data = serialize msg data;
          rest = (\<lambda>data. sign L obj msg data (\<lambda>sg.
            or_err Json_exception (formatJsonWithUrlEncoded L (smap_put ''sign'' (JString sg) data)) k))
      in if m_messageType msg = e_message_type_message then
           (if m_deviceType msg = e_device_type_ios
            then or_err Undefined_behaviour (vsprintf_buf CONTENT_MAX_SIZE content_fmt [FStr (c_str (m_message msg))])
              (\<lambda>content. rest (smap_put ''msg'' (JString content) data))
            else rest data)
         else
           (if m_deviceType msg = e_device_type_ios
            then or_err Undefined_behaviour (vsprintf_buf CONTENT_MAX_SIZE content_fmt [FStr (c_str (m_message msg))])
              (\<lambda>content. rest (smap_put ''msg'' (JString content) data))
            else rest data))"

section \<open>The factory\<close>

definition MessageTypeMax :: int where "MessageTypeMax = 8"

definition checkParameterValidity :: "'db lib \<Rightarrow> json \<Rightarrow> bool option" where
  "checkParameterValidity L msg =
     (if js_empty L msg then Some False
      else do {
        meth \<leftarrow> int_member L msg ''method'';
        if meth \<ge> MessageTypeMax then Some False
        else do {
          to \<leftarrow> str_member L msg ''to'';
          Some (\<not> (to = [] \<or> to \<noteq> ''user'' \<and> to \<noteq> ''seller'' \<and> to \<noteq> ''group''))
        }
      })"

definition class_of :: "int \<Rightarrow> message_class option" where
  "class_of meth =
     (if meth = 0 then Some PushToAllMessage
      else if meth = 1 then Some PushToSingleMessage
      else if meth = 2 then Some PushToBatchMessage
      else if meth = 3 then Some PushToGroupMessage
      else if meth = 4 then Some CreateGroupMessage
      else if meth = 5 then Some DeleteGroupMessage
      else if meth = 6 then Some AddToGroupMessage
      else if meth = 7 then Some DeleteFromGroupMessage
      else None)"

text \<open>The fields the constructor leaves alone are set by the callers before they are read.\<close>

definition createMessage :: "'db lib \<Rightarrow> (json \<Rightarrow> string) \<Rightarrow> json \<Rightarrow> message option option" where
  "createMessage L writer inp = do {
     content \<leftarrow> js_member L inp ''msg'';
     to \<leftarrow> str_member L inp ''to'';
     meth \<leftarrow> int_member L inp ''method'';
     Some (map_option (\<lambda>c. \<lparr>m_class = c, m_to = to, m_message = writer content, m_pushType = 0, m_deviceType = 0,
       m_messageType = 0, m_userId = [], m_channelId = []\<rparr>) (class_of meth))
   }"

text \<open>\<^verbatim>\<open>HttpClient::post\<close> and \<^verbatim>\<open>get\<close> both send a POST request; the answer is only printed.\<close>

definition request :: "'db lib \<Rightarrow> md5_ctx \<Rightarrow> uint32 \<Rightarrow> message \<Rightarrow> outcome" where
  "request L obj now msg =
     (if httpmethod (m_class msg) = ''POST'' then message_format L obj now msg (\<lambda>body. ([(url msg, body)], None))
      else if httpmethod (m_class msg) = ''GET'' then message_format L obj now msg (\<lambda>body. ([(url msg, body)], None))
      else ([], None))"

definition set_device :: "string \<Rightarrow> message \<Rightarrow> message" where
  "set_device device_type msg =
     (if device_type = ''ios'' then msg\<lparr>m_messageType := e_message_type_notice, m_deviceType := e_device_type_ios\<rparr>
      else if device_type = ''android''
      then msg\<lparr>m_messageType := e_message_type_message, m_deviceType := e_device_type_android\<rparr>
      else msg\<lparr>m_messageType := e_message_type_message, m_deviceType := e_device_type_android\<rparr>)"

definition handleMessagePushToSingle :: "'db lib \<Rightarrow> (json \<Rightarrow> string) \<Rightarrow> md5_ctx \<Rightarrow> uint32 \<Rightarrow> 'db \<Rightarrow> json \<Rightarrow> outcome" where
  "handleMessagePushToSingle L writer obj now db inp =
     or_err Json_exception (str_member L inp ''to'') (\<lambda>to.
     or_err Json_exception (str_member L inp ''target'') (\<lambda>userId.
     or_err Json_exception (createMessage L writer inp) (\<lambda>msgptr.
     or_err Undefined_behaviour msgptr (\<lambda>msg.
     let msg = msg\<lparr>m_pushType := e_push_type_someone\<rparr>
     in if \<not> db_connect L db then ([], None)
        else case db_query L db ''rcar-base.session'' (str_fields [(''role'', to), (''identifier'', userId)]) of
          None \<Rightarrow> ([], None)
        | Some [] \<Rightarrow> ([], None)
        | Some (doc # _) \<Rightarrow>
            let push_channel_id = bs_getStringField L doc ''push_channel_id'';
                push_user_id = bs_getStringField L doc ''push_user_id'';
                device_type = bs_getStringField L doc ''device_type''
            in if push_channel_id = [] \<or> push_user_id = [] then ([], None)
               else request L obj now ((set_device device_type msg)\<lparr>m_userId := push_user_id, m_channelId := push_channel_id\<rparr>)))))"

fun batch_loop :: "'db lib \<Rightarrow> md5_ctx \<Rightarrow> uint32 \<Rightarrow> message \<Rightarrow> bson list \<Rightarrow> outcome" where
  "batch_loop L obj now msg [] = ([], None)"
| "batch_loop L obj now msg (doc # docs) =
     (let push_channel_id = bs_getStringField L doc ''push_channel_id'';
          push_user_id = bs_getStringField L doc ''push_user_id'';
          device_type = bs_getStringField L doc ''device_type'';
          msg = (set_device device_type msg)\<lparr>m_userId := push_user_id, m_channelId := push_channel_id\<rparr>
      in and_then (request L obj now msg) (batch_loop L obj now msg docs))"

definition handleMessagePushToBatch :: "'db lib \<Rightarrow> (json \<Rightarrow> string) \<Rightarrow> md5_ctx \<Rightarrow> uint32 \<Rightarrow> 'db \<Rightarrow> json \<Rightarrow> outcome" where
  "handleMessagePushToBatch L writer obj now db inp =
     or_err Json_exception (str_member L inp ''to'') (\<lambda>to.
     or_err Json_exception (js_member L inp ''targets'') (\<lambda>targets.
     or_err Json_exception (getImagesNameFromJson_loop L targets 0 (js_size L targets)) (\<lambda>ids.
     or_err Json_exception (createMessage L writer inp) (\<lambda>msgptr.
     or_err Undefined_behaviour msgptr (\<lambda>msg.
     let msg = msg\<lparr>m_pushType := e_push_type_someone\<rparr>
     in if \<not> db_connect L db then ([], None)
        else case db_query L db ''rcar-base.session''
            (BObj [(''role'', BString to), (''identifier'', BObj [(''$in'', BArray (map BString ids))])]) of
          None \<Rightarrow> ([], None)
        | Some docs \<Rightarrow> batch_loop L obj now msg docs)))))"

text \<open>The handlers of the other types are empty.\<close>

definition handleMessage :: "'db lib \<Rightarrow> (string \<Rightarrow> json option) \<Rightarrow> (json \<Rightarrow> string) \<Rightarrow> md5_ctx \<Rightarrow> uint32 \<Rightarrow> 'db \<Rightarrow> string \<Rightarrow> outcome" where
  "handleMessage L parse writer obj now db body =
     (case parse body of
        None \<Rightarrow> ([], None)
      | Some msg \<Rightarrow>
          or_err Json_exception (checkParameterValidity L msg) (\<lambda>ok.
          if \<not> ok then ([], None)
          else or_err Json_exception (int_member L msg ''method'') (\<lambda>meth.
          if meth = 1 then handleMessagePushToSingle L writer obj now db msg
          else if meth = 2 then handleMessagePushToBatch L writer obj now db msg
          else ([], None))))"

text \<open>
  The loop of \<^verbatim>\<open>run\<close> over what \<^verbatim>\<open>amqp_consume_message\<close> returns: nothing, or the body of a message with
  the time it is handled. An exception ends the process.
\<close>

fun run_server :: "'db lib \<Rightarrow> (string \<Rightarrow> json option) \<Rightarrow> (json \<Rightarrow> string) \<Rightarrow> md5_ctx \<Rightarrow> 'db \<Rightarrow> (uint32 \<times> string) option list \<Rightarrow> outcome" where
  "run_server L parse writer obj db [] = ([], None)"
| "run_server L parse writer obj db (None # inputs) = run_server L parse writer obj db inputs"
| "run_server L parse writer obj db (Some (now, body) # inputs) =
     and_then (handleMessage L parse writer obj now db body) (run_server L parse writer obj db inputs)"

section \<open>URL encoding\<close>

text \<open>The reference decoder of \<^verbatim>\<open>application/x-www-form-urlencoded\<close>.\<close>

definition from_hex :: "char \<Rightarrow> nat" where
  "from_hex c = (let n = of_char c in if n > 57 then n - 55 else n - 48)"

fun decodeUrl :: "string \<Rightarrow> string" where
  "decodeUrl [] = []"
| "decodeUrl (c # cs) =
     (if c = CHR ''+'' then CHR '' '' # decodeUrl cs
      else if c = CHR ''%'' then
        (case cs of h # l # cs \<Rightarrow> char_of (16 * from_hex h + from_hex l) # decodeUrl cs | _ \<Rightarrow> [])
      else c # decodeUrl cs)"

definition url_safe :: "char \<Rightarrow> bool" where
  "url_safe c \<longleftrightarrow> isalnum c \<or> c \<in> set ''-_.~+%''"

lemma unat_to_hex: "unat x < 16 \<Longrightarrow> unat (to_hex x) = (if unat x > 9 then unat x + 55 else unat x + 48)"
  by (auto simp: to_hex_def word_less_nat_alt unat_word_ariths)

lemma of_char_to_hex: "unat x < 16 \<Longrightarrow> of_char (char_of (unat (to_hex x)) :: char) = (unat (to_hex x) :: nat)"
  by (simp add: unat_to_hex)

lemma from_to_hex: "unat x < 16 \<Longrightarrow> from_hex (char_of (unat (to_hex x))) = unat x"
  unfolding from_hex_def of_char_to_hex Let_def by (simp add: unat_to_hex)

lemma unat_of_char: "unat (of_char c :: byte) = (of_char c :: nat)"
proof -
  have "(of_char c :: byte) = of_nat (of_char c)" by (simp add: of_nat_of_char)
  then show ?thesis by (simp add: unsigned_of_nat take_bit_nat_eq_self)
qed

lemma hex_parts:
  "unat (drop_bit 4 (of_char c :: byte)) = of_char c div 16" "unat (of_char c mod 16 :: byte) = of_char c mod 16"
  using unat_of_char [of c] by (simp_all add: unsigned_drop_bit_eq drop_bit_eq_div unat_mod unat_div)

lemma decode_encodeChar: "decodeUrl (encodeChar c @ s) = c # decodeUrl s"
proof -
  have plain: "c \<noteq> CHR ''+'' \<and> c \<noteq> CHR ''%''" if "isalnum c \<or> c = CHR ''-'' \<or> c = CHR ''_'' \<or> c = CHR ''.'' \<or> c = CHR ''~''"
    using that by (auto simp: isalnum_def)
  have "(of_char c :: nat) div 16 < 16" by (simp add: less_mult_imp_div_less)
  then have "from_hex (char_of (unat (to_hex (drop_bit 4 (of_char c))))) = of_char c div 16"
    "from_hex (char_of (unat (to_hex (of_char c mod 16)))) = of_char c mod 16"
    using from_to_hex [of "drop_bit 4 (of_char c)"] from_to_hex [of "of_char c mod 16"] by (simp_all add: hex_parts)
  then show ?thesis using plain by (simp add: encodeChar_def)
qed

lemma encodeChar_safe: "list_all url_safe (encodeChar c)"
proof -
  have hex: "url_safe (char_of (unat (to_hex x)))" if "unat x < 16" for x
    using that of_char_to_hex [OF that] by (auto simp: url_safe_def isalnum_def unat_to_hex)
  have "(of_char c :: nat) div 16 < 16" by (simp add: less_mult_imp_div_less)
  then have "url_safe (char_of (unat (to_hex (drop_bit 4 (of_char c)))))" "url_safe (char_of (unat (to_hex (of_char c mod 16))))"
    using hex by (simp_all add: hex_parts)
  then show ?thesis by (auto simp: encodeChar_def url_safe_def)
qed

lemma encodeUrl_all: "length s < 2 ^ 32 \<Longrightarrow> encodeUrl s = concat (map encodeChar s)"
  by (simp add: encodeUrl_def unsigned_of_nat take_bit_nat_eq_self)

lemma list_all_concat: "(\<And>x. list_all P (f x)) \<Longrightarrow> list_all P (concat (map f xs))"
  by (induction xs) simp_all

lemma length_encodeChar: "length (encodeChar c) \<le> 3"
  by (simp add: encodeChar_def)

lemma length_encodeUrl: "length (encodeUrl s) \<le> 3 * length s"
proof -
  have "length (concat (map encodeChar xs)) \<le> 3 * length xs" for xs
    by (induction xs) (auto intro: add_mono length_encodeChar)
  from this [of "take (unat (of_nat (length s) :: uint32)) s"] show ?thesis
    unfolding encodeUrl_def by (rule order_trans) simp
qed

text \<open>
  What \<open>encodeUrl\<close> writes consists of unreserved characters, \<open>+\<close> and \<open>%\<close> only, and the decoder of
  form data gives the text back.
\<close>

theorem encodeUrl_roundtrip:
  assumes "length s < 2 ^ 32"
  shows "list_all url_safe (encodeUrl s) \<and> decodeUrl (encodeUrl s) = s"
proof -
  have "decodeUrl (concat (map encodeChar s)) = s" by (induction s) (simp_all add: decode_encodeChar)
  then show ?thesis using encodeUrl_all [OF assms] list_all_concat [OF encodeChar_safe] by simp
qed

section \<open>Signed requests\<close>

text \<open>The digest of a text of moderate length, as the lowercase hexadecimal digits of its MD5 sum.\<close>

lemma md5_signature:
  assumes "length (buffer obj) = 64" "length m < 2 ^ 30"
  shows "\<exists>sg. MD5_of obj (bytes_of (encodeUrl m)) = Some sg \<and> length (hexdigest sg) = 32 \<and>
    unhex (hexdigest sg) = md5_spec (bytes_of (encodeUrl m))"
proof -
  have "length (bytes_of (encodeUrl m)) \<le> 3 * length m" using length_encodeUrl [of m] by simp
  also have "\<dots> < 2 ^ 32 - 64" using assms(2) by simp
  finally have "length (bytes_of (encodeUrl m)) < 2 ^ 32 - 64" .
  from MD5_hexdigest_lemma [OF assms(1) this] show ?thesis by blast
qed

definition signature_of :: "string \<Rightarrow> string \<Rightarrow> bool" where
  "signature_of m sg \<longleftrightarrow> length sg = 32 \<and> unhex sg = md5_spec (bytes_of (encodeUrl m))"

text \<open>The request for one device that is not an iOS device.\<close>

definition single_url :: string where
  "single_url = ''http://api.tuisong.baidu.com/rest/3.0/push/single_device''"

definition single_base :: "string \<Rightarrow> string \<Rightarrow> uint32 \<Rightarrow> string" where
  "single_base to channel now = ''POST'' @ single_url @ ''apikey='' @ getApiKey to @ ''channel_id='' @ channel @
     ''deploy_status=1device_type=3msg_type=0timestamp='' @ digits (unat now) @ getSecretKey to"

definition single_body :: "string \<Rightarrow> string \<Rightarrow> uint32 \<Rightarrow> string \<Rightarrow> string" where
  "single_body to channel now sg = ''apikey='' @ getApiKey to @ ''&channel_id='' @ channel @
     ''&deploy_status=1&device_type=3&msg_type=0&sign='' @ sg @ ''&timestamp='' @ digits (unat now)"

lemma unat_now: "unat (now :: uint32) < 4294967296"
  using unsigned_less [of now, where 'a = nat] by simp

lemma digits_small: "digits 0 = ''0''" "digits (Suc 0) = ''1''" "digits 3 = ''3''"
  by code_simp+

lemma length_digits: "n < 10 ^ Suc k \<Longrightarrow> length (digits n) \<le> Suc k"
proof (induction k arbitrary: n)
  case (Suc k)
  then have "n div 10 < 10 ^ Suc k" by (simp add: less_mult_imp_div_less)
  with Suc.IH show ?case by (subst digits.simps) auto
qed (simp add: digits.simps)

lemma length_now: "length (digits (unat (now :: uint32))) \<le> 10"
  using length_digits [of "unat now" 9] unat_now [of now] by simp

definition single_data :: "string \<Rightarrow> string \<Rightarrow> uint32 \<Rightarrow> (string, json) smap" where
  "single_data to channel now = [(''apikey'', JString (getApiKey to)), (''channel_id'', JString channel),
     (''deploy_status'', JInt 1), (''device_type'', JInt 3), (''msg_type'', JInt 0), (''timestamp'', JUInt (unat now))]"

lemma single_data_sign:
  assumes "json_ok L"
  shows "sign_members L (single_data to channel now) = Some (''apikey='' @ getApiKey to @ ''channel_id='' @ channel @
     ''deploy_status=1device_type=3msg_type=0timestamp='' @ digits (unat now))"
  using assms unat_now [of now] by (simp add: single_data_def member_string_def json_ok_def digits_small)

lemma single_data_format:
  assumes "json_ok L"
  shows "formatJsonWithUrlEncoded L (smap_put ''sign'' (JString sg) (single_data to channel now)) = Some (single_body to channel now sg)"
  using assms unat_now [of now]
  by (simp add: formatJsonWithUrlEncoded_def single_data_def member_string_def json_ok_def digits_small single_body_def)

lemma request_single:
  assumes "json_ok L" "length (buffer obj) = 64" "length channel < 2 ^ 29"
    and "m_class msg = PushToSingleMessage" "m_to msg = to" "m_deviceType msg = e_device_type_android"
    and "m_messageType msg = e_message_type_message" "m_channelId msg = channel"
  shows "\<exists>sg. signature_of (single_base to channel now) sg \<and>
    request L obj now msg = ([(single_url, single_body to channel now sg)], None)"
proof -
  have len: "length (single_base to channel now) < 2 ^ 30"
    using length_now [of now] assms(3) by (simp add: single_base_def single_url_def getApiKey_def getSecretKey_def)
  from md5_signature [OF assms(2) len] obtain sg where
    sg: "MD5_of obj (bytes_of (encodeUrl (single_base to channel now))) = Some sg" "signature_of (single_base to channel now) (hexdigest sg)"
    by (auto simp: signature_of_def)
  have url: "url msg = single_url" using assms(4) by (simp add: url_def single_url_def cclass_def method_name_def)
  have data: "serialize msg (smap_put ''deploy_status'' (JInt 1) (smap_put ''device_type'' (JInt (m_deviceType msg))
      (smap_put ''timestamp'' (JUInt (unat now)) (smap_put ''apikey'' (JString (getApiKey (m_to msg))) [])))) = single_data to channel now"
    using assms(4-8) by (simp add: serialize_def single_data_def e_device_type_android_def e_message_type_message_def)
  have sgn: "sign L obj msg (single_data to channel now) k = k (hexdigest sg)" for k
    unfolding sign_def single_data_sign [OF assms(1)] url assms(5) or_err_def option.case httpmethod_def
    using sg(1) by (simp add: single_base_def)
  have "message_format L obj now msg k = k (single_body to channel now (hexdigest sg))" for k
    unfolding message_format_def Let_def data sgn single_data_format [OF assms(1)] or_err_def option.case
    using assms(6,7) by (simp add: e_device_type_android_def e_device_type_ios_def)
  then have "request L obj now msg = ([(single_url, single_body to channel now (hexdigest sg))], None)"
    by (simp add: request_def httpmethod_def url)
  with sg(2) show ?thesis by blast
qed

section \<open>From the application server to the device\<close>

text \<open>What \<^verbatim>\<open>uri/message.cpp\<close> publishes is what the factory reads.\<close>

lemma push_single_json:
  "json_ok L \<Longrightarrow> push_single L to target msg =
     Some (JObject [(''method'', JInt 1), (''msg'', msg), (''target'', JString target), (''to'', JString to)])"
  by (simp add: push_single_def js_build_def json_ok_def MessageTypePushToSingle_def)

lemma js_array_strings: "json_ok L \<Longrightarrow> js_array L (map JString ids) = Some (JArray (map JString ids))"
proof -
  assume ok: "json_ok L"
  have "foldl (\<lambda>acc v. Option.bind acc (\<lambda>j. js_append L j v)) (Some (JArray us)) vs = Some (JArray (us @ vs))" for us vs
    using ok by (induction vs arbitrary: us) (simp_all add: json_ok_def)
  from this [of "[]" "map JString ids"] show ?thesis by (simp add: js_array_def)
qed

lemma push_batch_json:
  "json_ok L \<Longrightarrow> push_batch L to ids msg =
     Some (JObject [(''method'', JInt 2), (''msg'', msg), (''targets'', JArray (map JString ids)), (''to'', JString to)])"
  by (simp add: push_batch_def js_array_strings js_build_def json_ok_def MessageTypePushToBatch_def)

lemma members_of_object:
  assumes "json_ok L" "map_of m k = Some v"
  shows "js_member L (JObject m) k = Some v"
    "v = JString s \<Longrightarrow> str_member L (JObject m) k = Some s" "v = JInt i \<Longrightarrow> int_member L (JObject m) k = Some i"
  using assms by (simp_all add: json_ok_def str_member_def int_member_def)

lemma handleMessage_valid:
  assumes "json_ok L" "parse body = Some (JObject m)" "map_of m ''method'' = Some (JInt meth)" "map_of m ''to'' = Some (JString to)"
    and "to = ''user'' \<or> to = ''seller''" "meth = 1 \<or> meth = 2"
  shows "handleMessage L parse writer obj now db body =
    (if meth = 1 then handleMessagePushToSingle L writer obj now db (JObject m)
     else handleMessagePushToBatch L writer obj now db (JObject m))"
proof -
  have "m \<noteq> []" using assms(3) by auto
  then have "checkParameterValidity L (JObject m) = Some True"
    using assms(1,5,6) members_of_object [OF assms(1,3)] members_of_object [OF assms(1,4)]
    by (auto simp: checkParameterValidity_def MessageTypeMax_def json_ok_def)
  with assms(2,6) members_of_object(3) [OF assms(1,3) refl] show ?thesis
    by (auto simp: handleMessage_def or_err_def)
qed

lemma createMessage_valid:
  assumes "json_ok L" "map_of m ''method'' = Some (JInt meth)" "map_of m ''to'' = Some (JString to)" "map_of m ''msg'' = Some c"
    and "class_of meth = Some k"
  shows "createMessage L writer (JObject m) = Some (Some \<lparr>m_class = k, m_to = to, m_message = writer c, m_pushType = 0,
    m_deviceType = 0, m_messageType = 0, m_userId = [], m_channelId = []\<rparr>)"
  unfolding createMessage_def members_of_object(1) [OF assms(1,4)] members_of_object(2) [OF assms(1,3) refl]
    members_of_object(3) [OF assms(1,2) refl]
  using assms(5) by simp

definition session_of :: "('db \<Rightarrow> string \<Rightarrow> bson list) \<Rightarrow> 'db \<Rightarrow> string \<Rightarrow> string \<Rightarrow> bson list" where
  "session_of docs db to ident = filter (matches [(''role'', to), (''identifier'', ident)]) (docs db ''rcar-base.session'')"

abbreviation bstr :: "bson \<Rightarrow> string \<Rightarrow> string" where
  "bstr d k \<equiv> (case bfield d k of Some (BString s) \<Rightarrow> s | _ \<Rightarrow> [])"

lemma session_fields:
  assumes "bson_ok L"
  shows "bs_getStringField L d ''device_type'' = bstr d ''device_type''" "bs_getStringField L d ''push_user_id'' = bstr d ''push_user_id''"
    "bs_getStringField L d ''push_channel_id'' = bstr d ''push_channel_id''"
  using assms by simp_all

lemma set_device_android:
  "dev \<noteq> ''ios'' \<Longrightarrow> m_deviceType (set_device dev msg) = e_device_type_android \<and>
     m_messageType (set_device dev msg) = e_message_type_message \<and> m_class (set_device dev msg) = m_class msg \<and>
     m_to (set_device dev msg) = m_to msg"
  by (simp add: set_device_def)


text \<open>The request for a batch names no device.\<close>

definition batch_url :: string where
  "batch_url = ''http://api.tuisong.baidu.com/rest/3.0/push/batch_device''"

definition batch_data :: "string \<Rightarrow> uint32 \<Rightarrow> (string, json) smap" where
  "batch_data to now = [(''apikey'', JString (getApiKey to)), (''deploy_status'', JInt 1), (''device_type'', JInt 3),
     (''timestamp'', JUInt (unat now))]"

definition batch_body :: "string \<Rightarrow> uint32 \<Rightarrow> string \<Rightarrow> string" where
  "batch_body to now sg = ''apikey='' @ getApiKey to @ ''&deploy_status=1&device_type=3&sign='' @ sg @
     ''&timestamp='' @ digits (unat now)"

definition batch_base :: "string \<Rightarrow> uint32 \<Rightarrow> string" where
  "batch_base to now = ''POST'' @ batch_url @ ''apikey='' @ getApiKey to @ ''deploy_status=1device_type=3timestamp='' @
     digits (unat now) @ getSecretKey to"

lemma batch_data_members:
  assumes "json_ok L"
  shows "sign_members L (batch_data to now) =
      Some (''apikey='' @ getApiKey to @ ''deploy_status=1device_type=3timestamp='' @ digits (unat now))"
    "formatJsonWithUrlEncoded L (smap_put ''sign'' (JString sg) (batch_data to now)) = Some (batch_body to now sg)"
  using assms unat_now [of now]
  by (simp_all add: formatJsonWithUrlEncoded_def batch_data_def member_string_def json_ok_def digits_small batch_body_def)

lemma request_batch:
  assumes "json_ok L" "length (buffer obj) = 64"
  shows "\<exists>sg. signature_of (batch_base to now) sg \<and>
    (\<forall>msg. m_class msg = PushToBatchMessage \<and> m_to msg = to \<and> m_deviceType msg = e_device_type_android \<and>
       m_messageType msg = e_message_type_message \<longrightarrow> request L obj now msg = ([(batch_url, batch_body to now sg)], None))"
proof -
  have "length (batch_base to now) < 2 ^ 30"
    using length_now [of now] by (simp add: batch_base_def batch_url_def getApiKey_def getSecretKey_def)
  from md5_signature [OF assms(2) this] obtain sg where
    sg: "MD5_of obj (bytes_of (encodeUrl (batch_base to now))) = Some sg" "signature_of (batch_base to now) (hexdigest sg)"
    by (auto simp: signature_of_def)
  have "request L obj now msg = ([(batch_url, batch_body to now (hexdigest sg))], None)"
    if msg: "m_class msg = PushToBatchMessage" "m_to msg = to" "m_deviceType msg = e_device_type_android"
      "m_messageType msg = e_message_type_message" for msg
  proof -
    have url: "url msg = batch_url" using msg(1) by (simp add: url_def batch_url_def cclass_def method_name_def)
    have data: "serialize msg (smap_put ''deploy_status'' (JInt 1) (smap_put ''device_type'' (JInt (m_deviceType msg))
        (smap_put ''timestamp'' (JUInt (unat now)) (smap_put ''apikey'' (JString (getApiKey (m_to msg))) [])))) = batch_data to now"
      using msg by (simp add: serialize_def batch_data_def e_device_type_android_def)
    have sgn: "sign L obj msg (batch_data to now) k = k (hexdigest sg)" for k
      unfolding sign_def batch_data_members(1) [OF assms(1)] url msg(2) or_err_def option.case httpmethod_def
      using sg(1) by (simp add: batch_base_def)
    have "message_format L obj now msg k = k (batch_body to now (hexdigest sg))" for k
      unfolding message_format_def Let_def data sgn batch_data_members(2) [OF assms(1)] or_err_def option.case
      using msg(3,4) by (simp add: e_device_type_android_def e_device_type_ios_def)
    then show ?thesis by (simp add: request_def httpmethod_def url)
  qed
  with sg(2) show ?thesis by blast
qed

lemma batch_loop_posts:
  assumes "\<And>msg. m_class msg = PushToBatchMessage \<Longrightarrow> m_to msg = to \<Longrightarrow> m_deviceType msg = e_device_type_android \<Longrightarrow>
      m_messageType msg = e_message_type_message \<Longrightarrow> request L obj now msg = ([p], None)"
    and "bson_ok L" "\<forall>d \<in> set ds. bstr d ''device_type'' \<noteq> ''ios''" "m_class msg = PushToBatchMessage" "m_to msg = to"
  shows "batch_loop L obj now msg ds = (replicate (length ds) p, None)"
  using assms(3-5)
proof (induction ds arbitrary: msg)
  case (Cons d ds)
  let ?M = "(set_device (bstr d ''device_type'') msg)\<lparr>m_userId := bstr d ''push_user_id'', m_channelId := bstr d ''push_channel_id''\<rparr>"
  have M: "m_class ?M = PushToBatchMessage" "m_to ?M = to" "m_deviceType ?M = e_device_type_android" "m_messageType ?M = e_message_type_message"
    using Cons.prems by (simp_all add: set_device_android)
  have "batch_loop L obj now ?M ds = (replicate (length ds) p, None)" using Cons.prems M(1,2) by (intro Cons.IH) simp_all
  with assms(1) [OF M] show ?case
    unfolding batch_loop.simps Let_def session_fields [OF assms(2)] by (simp add: and_then_def)
qed simp

lemma array_strings:
  assumes "json_ok L" "i + n \<le> length ids"
  shows "getImagesNameFromJson_loop L (JArray (map JString ids)) i n = Some (take n (drop i ids))"
  using assms(2)
proof (induction n arbitrary: i)
  case (Suc n)
  have "js_index L (JArray (map JString ids)) i = Some (JString (ids ! i))" "js_asString L (JString (ids ! i)) = Some (ids ! i)"
    using assms(1) Suc.prems by (simp_all add: json_ok_def)
  moreover have "getImagesNameFromJson_loop L (JArray (map JString ids)) (Suc i) n = Some (take n (drop (Suc i) ids))"
    using Suc by simp
  ultimately show ?case using Suc.prems by (simp add: Cons_nth_drop_Suc [symmetric])
qed simp

text \<open>
  A message published for several targets is posted once for every session found, and all posts are
  the same: none names the channel of a device, so none can reach one.
\<close>

theorem push_batch_no_device:
  assumes "json_ok L" "bson_ok L" "length (buffer obj) = 64"
    and "push_batch L to ids msg = Some j" "parse body = Some j" "to = ''user'' \<or> to = ''seller''" "db_connect L db"
    and "db_query L db ''rcar-base.session''
      (BObj [(''role'', BString to), (''identifier'', BObj [(''$in'', BArray (map BString ids))])]) = Some ds"
    and "\<forall>d \<in> set ds. bstr d ''device_type'' \<noteq> ''ios''"
  shows "\<exists>sg. signature_of (batch_base to now) sg \<and>
    handleMessage L parse writer obj now db body = (replicate (length ds) (batch_url, batch_body to now sg), None)"
proof -
  define m where "m = [(''method'', JInt 2), (''msg'', msg), (''targets'', JArray (map JString ids)), (''to'', JString to)]"
  have j: "j = JObject m" using assms(4) push_batch_json [OF assms(1)] by (simp add: m_def)
  have fields: "map_of m ''method'' = Some (JInt 2)" "map_of m ''to'' = Some (JString to)" "map_of m ''msg'' = Some msg"
    "map_of m ''targets'' = Some (JArray (map JString ids))" by (simp_all add: m_def)
  have cls: "class_of 2 = Some PushToBatchMessage" by (simp add: class_of_def)
  have "js_size L (JArray (map JString ids)) = length ids" using assms(1) by (simp add: json_ok_def)
  then have names: "getImagesNameFromJson_loop L (JArray (map JString ids)) 0 (js_size L (JArray (map JString ids))) = Some ids"
    using array_strings [OF assms(1), of 0 "length ids" ids] by simp
  have run: "handleMessage L parse writer obj now db body = handleMessagePushToBatch L writer obj now db (JObject m)"
    using handleMessage_valid [where parse = parse and body = body, OF assms(1) assms(5) [unfolded j] fields(1,2) assms(6)] by simp
  from request_batch [OF assms(1,3)] obtain sg where sg: "signature_of (batch_base to now) sg"
    "\<And>msg. m_class msg = PushToBatchMessage \<Longrightarrow> m_to msg = to \<Longrightarrow> m_deviceType msg = e_device_type_android \<Longrightarrow>
      m_messageType msg = e_message_type_message \<Longrightarrow> request L obj now msg = ([(batch_url, batch_body to now sg)], None)" by metis
  have loop: "batch_loop L obj now (\<lparr>m_class = PushToBatchMessage, m_to = to, m_message = writer msg, m_pushType = 0,
      m_deviceType = 0, m_messageType = 0, m_userId = [], m_channelId = []\<rparr>\<lparr>m_pushType := e_push_type_someone\<rparr>) ds =
    (replicate (length ds) (batch_url, batch_body to now sg), None)"
    by (rule batch_loop_posts [OF sg(2) assms(2,9)]) simp_all
  have "handleMessagePushToBatch L writer obj now db (JObject m) = (replicate (length ds) (batch_url, batch_body to now sg), None)"
    unfolding handleMessagePushToBatch_def or_err_def members_of_object(2) [OF assms(1) fields(2) refl]
      members_of_object(1) [OF assms(1) fields(4)] names createMessage_valid [OF assms(1) fields(1-3) cls] option.case Let_def assms(8) loop
    using assms(7) by (simp only: if_False not_True_eq_False)
  with run sg(1) show ?thesis by auto
qed

text \<open>
  For an iOS device the text of the message is copied into a buffer of 512 bytes without a bound.
\<close>

lemma push_ios_overflow:
  assumes "m_deviceType msg = e_device_type_ios" "478 \<le> length (c_str (m_message msg))"
  shows "request L obj now msg = ([], Some Undefined_behaviour)"
proof -
  have "vsprintf_buf CONTENT_MAX_SIZE content_fmt [FStr (c_str (m_message msg))] = None"
    using assms(2) by (simp add: vsprintf_buf_def content_fmt_def CONTENT_MAX_SIZE_def)
  then show ?thesis using assms(1) by (simp add: request_def httpmethod_def message_format_def Let_def or_err_def)
qed

section \<open>Witnesses\<close>

theorem encodeUrl_roundtrip_witness: "decodeUrl (encodeUrl ''a b/c'') = ''a b/c''"
  using encodeUrl_roundtrip [of "''a b/c''"] by simp

definition phone :: bson where
  "phone = str_fields [(''role'', ''user''), (''identifier'', ''bob''), (''push_channel_id'', ''c7''), (''push_user_id'', ''u7'')]"

definition phone_db :: "(string \<times> bson list) list" where
  "phone_db = [(''rcar-base.session'', [phone])]"

lemma phone_query: "matches [(''role'', ''user''), (''identifier'', ''bob'')] phone"
  by (simp add: matches_def phone_def)


text \<open>A library whose query finds two sessions.\<close>

definition batch_lib :: "(string \<times> bson list) list lib" where
  "batch_lib = mem_lib\<lparr>db_query := (\<lambda>db c q. Some [phone, phone])\<rparr>"

lemma batch_lib_ok: "json_ok batch_lib" "bson_ok batch_lib"
  by (simp_all add: batch_lib_def json_ok_def bson_ok_def fields_ok_def values_ok_def prints_ok_def mem_lib_def)

theorem push_batch_no_device_witness:
  "\<exists>sg. handleMessage batch_lib (\<lambda>b. push_batch batch_lib ''user'' [''bob''] JNull) (\<lambda>j. []) md5_obj 5 phone_db [] =
     ([(batch_url, batch_body ''user'' 5 sg), (batch_url, batch_body ''user'' 5 sg)], None)"
proof -
  define j where "j = JObject [(''method'', JInt 2), (''msg'', JNull), (''targets'', JArray (map JString [''bob''])), (''to'', JString ''user'')]"
  have j: "push_batch batch_lib ''user'' [''bob''] JNull = Some j" unfolding j_def by (rule push_batch_json [OF batch_lib_ok(1)])
  have obj: "length (buffer md5_obj) = 64" by (simp add: md5_obj_def)
  have q: "db_query batch_lib db c x = Some [phone, phone]" for db c x by (simp add: batch_lib_def)
  have c: "db_connect batch_lib phone_db" by (simp add: batch_lib_def mem_lib_def)
  show ?thesis
    using push_batch_no_device [where parse = "\<lambda>b. Some j" and writer = "\<lambda>j. []" and body = "[]" and now = 5,
        OF batch_lib_ok obj j refl _ c q]
    unfolding j by (auto simp: phone_def numeral_2_eq_2)
qed

end
