(* ===== verification/Store_Api.thy ===== *)
theory Store_Api
  imports Api_Laws
begin

text \<open>
  What a seller offers: commodities, services, activities and advertisements, as the seller edits them
  (\<^verbatim>\<open>uri/seller/commodity.cpp\<close>, \<^verbatim>\<open>service.cpp\<close>, \<^verbatim>\<open>activity.cpp\<close>, \<^verbatim>\<open>advertisement.cpp\<close>,
  \<^verbatim>\<open>commodity-list.cpp\<close>, \<^verbatim>\<open>activity-list.cpp\<close>, \<^verbatim>\<open>ads.cpp\<close>, \<^verbatim>\<open>suggestion.cpp\<close>) and as a user reads them
  (\<^verbatim>\<open>uri/user/seller-commodity.cpp\<close>, \<^verbatim>\<open>seller-commodity-list.cpp\<close>, \<^verbatim>\<open>seller-activity-list.cpp\<close>,
  \<^verbatim>\<open>seller-activity.cpp\<close>, \<^verbatim>\<open>seller-service-list.cpp\<close>, \<^verbatim>\<open>advertisement.cpp\<close>). Commodities and
  advertisements are collections of their own; services and activities are arrays in the seller's
  document. The properties say which requests keep an offer, which lose it and what a reader sees of it.
\<close>

section \<open>seller/commodity\<close>

fun commodity_pics :: "'db lib \<Rightarrow> bson \<Rightarrow> nat \<Rightarrow> nat \<Rightarrow> json list option" where
  "commodity_pics L images_obj index 0 = Some []"
| "commodity_pics L images_obj index (Suc n) = do {
     e \<leftarrow> bs_index L images_obj index;
     img_obj \<leftarrow> bs_Obj L e;
     img \<leftarrow> js_build L [(''name'', JString (bs_getStringField L img_obj ''name'')),
                       (''data'', JString (bs_getStringField L img_obj ''data''))];
     rest \<leftarrow> commodity_pics L images_obj (index + 1) n;
     Some (img # rest)
   }"

definition seller_Commodity_Get :: "'db lib \<Rightarrow> json \<Rightarrow> 'db prog" where
  "seller_Commodity_Get L content =
     str_of L content ''commod_id'' (\<lambda>commod_id.
     if commod_id = [] then ret APIE_INVALID_CLIENT_REQ
     else try_db (
       connect L (
       query L DB_STORE (str_fields [(''commod_id'', commod_id)]) (\<lambda>cursor.
       case cursor of
         [] \<Rightarrow> ret APIE_COMMODITY_NO_EXIST
       | p # _ \<Rightarrow>
           out_puts L
             [(''seller_id'', JString (bs_getStringField L p ''seller_id'')),
              (''commod_id'', JString (bs_getStringField L p ''commod_id'')),
              (''name'', JString (bs_getStringField L p ''name'')),
              (''price'', JString (bs_getStringField L p ''price'')),
              (''brand'', JString (bs_getStringField L p ''brand'')),
              (''amount'', JString (bs_getStringField L p ''amount'')),
              (''status'', JString (bs_getStringField L p ''status''))]
           (let images_obj = bs_getObjectField L p ''commoditypic'' in
            val_or DBException (commodity_pics L images_obj 0 (length (bs_elements L images_obj))) (\<lambda>pics.
            val_or OtherException (js_list L pics) (\<lambda>images.
            out_put L ''commoditypic'' images (ret APIE_OK))))))))"

definition commodity_doc :: "string \<Rightarrow> string \<Rightarrow> string \<Rightarrow> string \<Rightarrow> string \<Rightarrow> string \<Rightarrow> string \<Rightarrow> bson \<Rightarrow> string \<Rightarrow> bson" where
  "commodity_doc seller_id commodity_id name desc price brand amount images cutoff =
     BObj [(''seller_id'', BString seller_id), (''commodity_id'', BString commodity_id), (''name'', BString name),
       (''desc'', BString desc), (''price'', BString price), (''brand'', BString brand),
       (''amount'', BString amount), (''images'', images), (''cutoff'', BString cutoff)]"

definition seller_Commodity_Post :: "'db lib \<Rightarrow> json \<Rightarrow> 'db prog" where
  "seller_Commodity_Post L content =
     str_of L content ''role'' (\<lambda>role.
     str_of L content ''seller_id'' (\<lambda>seller_id.
     gen_oid L (\<lambda>commod_id.
     str_of L content ''name'' (\<lambda>name.
     str_of L content ''desc'' (\<lambda>desc.
     str_of L content ''price'' (\<lambda>price.
     str_of L content ''brand'' (\<lambda>brand.
     str_of L content ''amount'' (\<lambda>amount.
     str_of L content ''cutoff'' (\<lambda>cutoff.
     if role = [] \<or> seller_id = [] \<or> name = [] \<or> price = [] then ret APIE_INVALID_CLIENT_REQ
     else if role \<noteq> ''seller'' then ret APIE_INVALID_CLIENT_REQ
     else try_db (
       connect L (
       query L DB_SELLER (str_fields [(''seller_id'', seller_id)]) (\<lambda>cursor.
       if cursor = [] then ret APIE_SELLER_NO_EXIST
       else new_images L content (\<lambda>imageNames.
         insert_into L DB_STORE (commodity_doc seller_id commod_id name desc price brand amount imageNames cutoff)
           (out_put L ''commodity_id'' (JString commod_id) (ret APIE_OK)))))))))))))))"

definition seller_Commodity_Put :: "'db lib \<Rightarrow> json \<Rightarrow> 'db prog" where
  "seller_Commodity_Put L content =
     str_of L content ''role'' (\<lambda>role.
     str_of L content ''seller_id'' (\<lambda>seller_id.
     str_of L content ''name'' (\<lambda>name.
     str_of L content ''desc'' (\<lambda>desc.
     str_of L content ''price'' (\<lambda>price.
     str_of L content ''brand'' (\<lambda>brand.
     str_of L content ''amount'' (\<lambda>amount.
     str_of L content ''cutoff'' (\<lambda>cutoff.
     str_of L content ''commodity_id'' (\<lambda>commodity_id.
     if role = [] \<or> seller_id = [] \<or> commodity_id = [] then ret APIE_INVALID_CLIENT_REQ
     else if role \<noteq> ''seller'' then ret APIE_INVALID_CLIENT_REQ
     else try_db (
       connect L (
       query L DB_STORE (str_fields [(''seller_id'', seller_id), (''commodity_id'', commodity_id)]) (\<lambda>cursor.
       if cursor = [] then ret APIE_SELLER_NO_EXIST
       else remove_from L DB_STORE (str_fields [(''seller_id'', seller_id), (''commodity_id'', commodity_id)])
         (new_images L content (\<lambda>images.
          insert_into L DB_STORE (commodity_doc seller_id commodity_id name desc price brand amount images cutoff)
            (ret APIE_OK)))))))))))))))"

definition seller_Commodity_Delete :: "'db lib \<Rightarrow> json \<Rightarrow> 'db prog" where
  "seller_Commodity_Delete L content =
     str_of L content ''role'' (\<lambda>role.
     str_of L content ''commodity_id'' (\<lambda>ident.
     if role = [] \<or> ident = [] then ret APIE_INVALID_CLIENT_REQ
     else if role \<noteq> ''seller'' then ret APIE_INVALID_CLIENT_REQ
     else try_db (
       connect L (
       query L DB_STORE (str_fields [(''commodity_id'', ident)]) (\<lambda>cursor.
       if cursor \<noteq> [] then remove_from L DB_STORE (str_fields [(''commodity_id'', ident)]) (ret APIE_OK)
       else ret APIE_COMMODITY_NO_EXIST)))))"

section \<open>seller/service\<close>

text \<open>The comparison is with \<^verbatim>\<open>BSONElement::toString()\<close>, which includes the name of the field.\<close>

fun title_taken :: "'db lib \<Rightarrow> string \<Rightarrow> bson list \<Rightarrow> bool option" where
  "title_taken L title [] = Some False"
| "title_taken L title (e # es) = do {
     offer \<leftarrow> bs_Obj L e;
     if title = bs_fieldToString L offer ''title'' then Some True else title_taken L title es
   }"

text \<open>Adds \<open>p\<close> to the array \<open>key\<close> of the seller, unless an element has the title; used by services and activities.\<close>

definition add_offer :: "'db lib \<Rightarrow> string \<Rightarrow> string \<Rightarrow> string \<Rightarrow> bson \<Rightarrow> bson \<Rightarrow> 'db prog \<Rightarrow> 'db prog" where
  "add_offer L key seller_id title p seller k =
     (if \<not> bs_hasField L seller key then
        update L DB_SELLER (str_fields [(''seller_id'', seller_id)])
          (BObj [(''$set'', BObj [(key, BArray [p])])]) False False k
      else
        val_or DBException (Option.bind (bs_getField L seller key) (bs_Obj L)) (\<lambda>obj.
        val_or DBException (title_taken L title (bs_elements L obj)) (\<lambda>taken.
        if taken then ret APIE_INVALID_CLIENT_REQ
        else update L DB_SELLER (str_fields [(''seller_id'', seller_id)])
               (BObj [(''$push'', BObj [(key, p)])]) False False k)))"

definition seller_Service_Post :: "'db lib \<Rightarrow> json \<Rightarrow> 'db prog" where
  "seller_Service_Post L content =
     str_of L content ''role'' (\<lambda>role.
     str_of L content ''seller_id'' (\<lambda>seller_id.
     gen_oid L (\<lambda>service_id.
     str_of L content ''title'' (\<lambda>title.
     str_of L content ''detail'' (\<lambda>detail.
     str_of L content ''url'' (\<lambda>url.
     str_of L content ''type'' (\<lambda>type.
     str_of L content ''price'' (\<lambda>price.
     if role = [] \<or> seller_id = [] \<or> title = [] \<or> detail = [] \<or> type = [] then ret APIE_INVALID_CLIENT_REQ
     else if role \<noteq> ''seller'' then ret APIE_INVALID_CLIENT_REQ
     else try_db (
       connect L (
       query L DB_SELLER (str_fields [(''seller_id'', seller_id)]) (\<lambda>cursor.
       case cursor of
         [] \<Rightarrow> ret APIE_SELLER_NO_EXIST
       | seller # _ \<Rightarrow>
           new_images L content (\<lambda>images.
           out_put L ''service_id'' (JString service_id)
           (add_offer L ''services'' seller_id title
              (BObj [(''service_id'', BString service_id), (''type'', BString type), (''title'', BString title),
                 (''detail'', BString detail), (''price'', BString price), (''images'', images)])
              seller (ret APIE_OK))))))))))))))"

definition seller_Service_Put :: "'db lib \<Rightarrow> json \<Rightarrow> 'db prog" where
  "seller_Service_Put L content =
     str_of L content ''role'' (\<lambda>role.
     str_of L content ''seller_id'' (\<lambda>seller_id.
     str_of L content ''service_id'' (\<lambda>service_id.
     str_of L content ''title'' (\<lambda>title.
     str_of L content ''desc'' (\<lambda>desc.
     str_of L content ''url'' (\<lambda>url.
     str_of L content ''type'' (\<lambda>type.
     double_of L content ''price'' (\<lambda>price.
     if role = [] \<or> seller_id = [] \<or> title = [] \<or> desc = [] \<or> url = [] \<or> type = [] then ret APIE_INVALID_CLIENT_REQ
     else if role \<noteq> ''seller'' then ret APIE_INVALID_CLIENT_REQ
     else try_db (
       connect L (
       query L DB_SELLER (str_fields [(''seller_id'', seller_id)]) (\<lambda>cursor.
       if cursor = [] then ret APIE_SELLER_NO_EXIST
       else new_images L content (\<lambda>images.
         update L DB_SELLER (str_fields [(''role'', role), (''seller_id'', seller_id)])
           (BObj [(''$pull'', BObj [(''services'', str_fields [(''service_id'', service_id)])])]) True False
         (update L DB_SELLER (str_fields [(''role'', role), (''seller_id'', seller_id)])
           (BObj [(''$push'', BObj [(''services'',
              BObj [(''service_id'', BString service_id), (''type'', BString type), (''title'', BString title),
                (''desc'', BString desc), (''url'', BString url), (''images'', images)])])]) True False
         (ret APIE_OK))))))))))))))"

definition seller_Service_Delete :: "'db lib \<Rightarrow> json \<Rightarrow> 'db prog" where
  "seller_Service_Delete L content =
     str_of L content ''role'' (\<lambda>role.
     str_of L content ''seller_id'' (\<lambda>seller_id.
     str_of L content ''service_id'' (\<lambda>service_id.
     if role = [] \<or> seller_id = [] \<or> service_id = [] then ret APIE_INVALID_CLIENT_REQ
     else if role \<noteq> ''seller'' then ret APIE_INVALID_CLIENT_REQ
     else try_db (
       connect L (
       query L DB_SELLER (str_fields [(''seller_id'', seller_id)]) (\<lambda>cursor.
       if cursor = [] then ret APIE_INVALID_CLIENT_REQ
       else update L DB_SELLER (str_fields [(''seller_id'', seller_id)])
              (BObj [(''$pull'', BObj [(''services'', str_fields [(''service_id'', service_id)])])]) True False
              (ret APIE_OK)))))))"

section \<open>seller/activity\<close>

definition activity_doc :: "string \<Rightarrow> string \<Rightarrow> string \<Rightarrow> string \<Rightarrow> string \<Rightarrow> bson \<Rightarrow> bson" where
  "activity_doc activity_id title detail start_date end_date images =
     BObj [(''activity_id'', BString activity_id), (''title'', BString title), (''detail'', BString detail),
       (''start_date'', BString start_date), (''end_date'', BString end_date), (''images'', images)]"

definition seller_Activity_Post :: "'db lib \<Rightarrow> json \<Rightarrow> 'db prog" where
  "seller_Activity_Post L content =
     str_of L content ''role'' (\<lambda>role.
     str_of L content ''seller_id'' (\<lambda>seller_id.
     str_of L content ''title'' (\<lambda>title.
     str_of L content ''detail'' (\<lambda>detail.
     str_of L content ''start_date'' (\<lambda>start_date.
     str_of L content ''end_date'' (\<lambda>end_date.
     gen_oid L (\<lambda>ident.
     if role = [] \<or> seller_id = [] then ret APIE_INVALID_CLIENT_REQ
     else if role \<noteq> ''seller'' then ret APIE_INVALID_CLIENT_REQ
     else try_db (
       connect L (
       query L DB_SELLER (str_fields [(''seller_id'', seller_id)]) (\<lambda>cursor.
       case cursor of
         [] \<Rightarrow> ret APIE_SELLER_NO_EXIST
       | seller # _ \<Rightarrow>
           insert_into L DB_ACTIVITY (str_fields [(''activity_id'', ident), (''seller_id'', seller_id)])
           (new_images L content (\<lambda>images.
            add_offer L ''activities'' seller_id title (activity_doc ident title detail start_date end_date images) seller
              (out_put L ''activity_id'' (JString ident) (ret APIE_OK))))))))))))))"

text \<open>The search for the old activity, whose images \<^verbatim>\<open>removeImages\<close> would remove; that function is empty.\<close>

fun find_activity :: "'db lib \<Rightarrow> string \<Rightarrow> bson list \<Rightarrow> bson option option" where
  "find_activity L activity_id [] = Some None"
| "find_activity L activity_id (e # es) = do {
     activity \<leftarrow> bs_Obj L e;
     if bs_getStringField L activity ''activity_id'' = activity_id then Some (Some activity)
     else find_activity L activity_id es
   }"

definition removeImages :: "bson \<Rightarrow> string \<Rightarrow> 'db prog \<Rightarrow> 'db prog" where
  "removeImages root key k = k"

definition seller_Activity_Put :: "'db lib \<Rightarrow> json \<Rightarrow> 'db prog" where
  "seller_Activity_Put L content =
     str_of L content ''role'' (\<lambda>role.
     str_of L content ''seller_id'' (\<lambda>seller_id.
     str_of L content ''activity_id'' (\<lambda>activity_id.
     str_of L content ''title'' (\<lambda>title.
     str_of L content ''detail'' (\<lambda>detail.
     str_of L content ''start_date'' (\<lambda>start_date.
     str_of L content ''end_date'' (\<lambda>end_date.
     if role = [] \<or> seller_id = [] \<or> activity_id = [] then ret APIE_INVALID_CLIENT_REQ
     else if role \<noteq> ''seller'' then ret APIE_INVALID_CLIENT_REQ
     else try_db (
       connect L (
       query L DB_SELLER (str_fields [(''seller_id'', seller_id)]) (\<lambda>cursor.
       case cursor of
         [] \<Rightarrow> ret APIE_SELLER_NO_EXIST
       | seller # _ \<Rightarrow>
           val_or DBException
             (if bs_hasField L seller ''activities''
              then find_activity L activity_id (bs_elements L (bs_getObjectField L seller ''activities'')) else Some None) (\<lambda>found.
           (case found of None \<Rightarrow> (\<lambda>k. k) | Some activity \<Rightarrow> removeImages activity ''images'')
           (new_images L content (\<lambda>images.
            update L DB_SELLER (str_fields [(''seller_id'', seller_id)])
              (BObj [(''$pull'', BObj [(''activities'', str_fields [(''activity_id'', activity_id)])])]) False False
            (update L DB_SELLER (str_fields [(''seller_id'', seller_id)])
              (BObj [(''$push'', BObj [(''activites'', activity_doc activity_id title detail start_date end_date images)])]) False False
            (ret APIE_OK)))))))))))))))"

definition seller_Activity_Delete :: "'db lib \<Rightarrow> json \<Rightarrow> 'db prog" where
  "seller_Activity_Delete L content =
     str_of L content ''role'' (\<lambda>role.
     str_of L content ''seller_id'' (\<lambda>seller_id.
     str_of L content ''activity_id'' (\<lambda>activity_id.
     if role = [] \<or> seller_id = [] \<or> activity_id = [] then ret APIE_INVALID_CLIENT_REQ
     else if role \<noteq> ''seller'' then ret APIE_INVALID_CLIENT_REQ
     else try_db (
       connect L (
       query L DB_SELLER (str_fields [(''seller_id'', seller_id)]) (\<lambda>cursor.
       if cursor = [] then ret APIE_SELLER_NO_EXIST
       else update L DB_SELLER (str_fields [(''seller_id'', seller_id)])
              (BObj [(''$pull'', BObj [(''activities'', str_fields [(''activity_id'', activity_id)])])]) True False
              (ret APIE_OK)))))))"

section \<open>seller/advertisement and seller/ads\<close>

definition seller_Advertisement_Get :: "'db lib \<Rightarrow> json \<Rightarrow> 'db prog" where
  "seller_Advertisement_Get L content =
     str_of L content ''role'' (\<lambda>role.
     str_of L content ''seller_id'' (\<lambda>seller_id.
     int_of L content ''num'' (\<lambda>num.
     int_of L content ''offset'' (\<lambda>offset.
     if role = [] \<or> seller_id = [] then ret APIE_INVALID_CLIENT_REQ
     else if role \<noteq> ''seller'' then ret APIE_INVALID_CLIENT_REQ
     else try_db (
       connect L (
       query_n L DB_ADS (str_fields [(''seller_id'', seller_id)]) num offset (\<lambda>cursor.
       val_or OtherException
         (doc_infos L [(''ads_id'', ''ads_id''), (''type'', ''type''), (''title'', ''title''), (''detail'', ''content''),
            (''start_time'', ''start_date''), (''end_time'', ''end_date''), (''url'', ''url''), (''status'', ''status''),
            (''city'', ''city'')] cursor) (\<lambda>adsList.
       out_put L ''data'' adsList (ret APIE_OK)))))))))"

definition seller_Advertisement_Post :: "'db lib \<Rightarrow> json \<Rightarrow> 'db prog" where
  "seller_Advertisement_Post L content =
     str_of L content ''role'' (\<lambda>role.
     str_of L content ''seller_id'' (\<lambda>seller_id.
     str_of L content ''type'' (\<lambda>type.
     str_of L content ''title'' (\<lambda>title.
     str_of L content ''start_date'' (\<lambda>start_date.
     str_of L content ''end_date'' (\<lambda>end_date.
     str_of L content ''url'' (\<lambda>url.
     str_of L content ''city'' (\<lambda>city.
     gen_oid L (\<lambda>ident.
     if role = [] \<or> seller_id = [] \<or> type = [] \<or> title = [] \<or> start_date = [] \<or> end_date = []
     then ret APIE_INVALID_CLIENT_REQ
     else if role \<noteq> ''seller'' then ret APIE_INVALID_CLIENT_REQ
     else try_db (
       connect L (
       query L DB_SELLER (str_fields [(''seller_id'', seller_id)]) (\<lambda>cursor.
       if cursor = [] then ret APIE_SELLER_NO_EXIST
       else query L DB_ADS (str_fields [(''seller_id'', seller_id), (''title'', title)]) (\<lambda>cursor.
         if cursor \<noteq> [] then ret APIE_SELLER_NO_EXIST
         else new_images L content (\<lambda>images.
           insert_into L DB_ADS
             (BObj [(''seller_id'', BString seller_id), (''ads_id'', BString ident), (''type'', BString type),
                (''title'', BString title), (''start_date'', BString start_date), (''end_date'', BString end_date),
                (''url'', BString url), (''status'', BString ''wait''), (''city'', BString city), (''images'', images)])
             (out_put L ''ads_id'' (JString ident) (ret APIE_OK))))))))))))))))"

definition seller_Advertisement_Put :: "'db lib \<Rightarrow> json \<Rightarrow> 'db prog" where
  "seller_Advertisement_Put L content =
     str_of L content ''role'' (\<lambda>role.
     str_of L content ''seller_id'' (\<lambda>seller_id.
     str_of L content ''ads_id'' (\<lambda>ads_id.
     if role = [] \<or> seller_id = [] \<or> ads_id = [] then ret APIE_INVALID_CLIENT_REQ
     else if role \<noteq> ''seller'' then ret APIE_INVALID_CLIENT_REQ
     else try_db (
       connect L (
       query L DB_ADS (str_fields [(''seller_id'', seller_id), (''ads_id'', ads_id)]) (\<lambda>cursor.
       if cursor = [] then ret APIE_SELLER_NO_EXIST
       else update L DB_SELLER (str_fields [(''seller_id'', seller_id), (''ads_id'', ads_id)])
              (BObj [(''$set'', str_fields [(''status'', ''canceled'')])]) False False
              (ret APIE_OK)))))))"

definition seller_Advertisement_Delete :: "'db lib \<Rightarrow> json \<Rightarrow> 'db prog" where
  "seller_Advertisement_Delete L content =
     str_of L content ''role'' (\<lambda>role.
     str_of L content ''seller_id'' (\<lambda>seller_id.
     str_of L content ''ads_id'' (\<lambda>ads_id.
     if role = [] \<or> seller_id = [] then ret APIE_INVALID_CLIENT_REQ
     else if role \<noteq> ''seller'' then ret APIE_INVALID_CLIENT_REQ
     else try_db (
       connect L (
       query L DB_ADS (str_fields [(''seller_id'', seller_id), (''ads_id'', ads_id)]) (\<lambda>cursor.
       case cursor of
         [] \<Rightarrow> ret APIE_INVALID_CLIENT_REQ
       | advertisement # _ \<Rightarrow>
           if bs_getStringField L advertisement ''status'' \<noteq> ''doing'' then
             remove_from L DB_ADS (str_fields [(''seller_id'', seller_id), (''ads_id'', ads_id)]) (ret APIE_OK)
           else ret APIE_INVALID_CLIENT_REQ))))))"

definition seller_SysAdvertisement_Get :: "'db lib \<Rightarrow> json \<Rightarrow> 'db prog" where
  "seller_SysAdvertisement_Get L content =
     str_of L content ''city'' (\<lambda>city.
     try_db (
       connect L (
       query L DB_ADS (str_fields [(''status'', ''publicated'')]) (\<lambda>cursor.
       val_or OtherException
         (doc_infos L [(''ads_id'', ''ads_id''), (''seller_id'', ''seller_id''), (''type'', ''type''), (''link'', ''link''),
            (''start_time'', ''start_date''), (''end_time'', ''end_date''), (''title'', ''content''), (''city'', ''city'')] cursor) (\<lambda>ads_objs.
       out_puts L [(''total'', JInt (int (length cursor))), (''data'', ads_objs)] (ret APIE_OK))))))"

section \<open>seller/commodity-list, seller/activity-list and seller/suggestion\<close>

definition seller_CommodityList_Get :: "'db lib \<Rightarrow> json \<Rightarrow> 'db prog" where
  "seller_CommodityList_Get L content =
     str_of L content ''seller_id'' (\<lambda>seller_id.
     if seller_id = [] then ret APIE_INVALID_CLIENT_REQ
     else try_db (
       connect L (
       query L DB_SELLER (str_fields [(''seller_id'', seller_id)]) (\<lambda>cursor.
       if cursor = [] then ret APIE_INVALID_CLIENT_REQ
       else
         int_of L content ''offset'' (\<lambda>offset.
         int_of L content ''num'' (\<lambda>num.
         query_n L DB_STORE (str_fields [(''seller_id'', seller_id)]) num offset (\<lambda>cursor.
         val_or OtherException
           (doc_infos L [(''commodity_id'', ''commodity_id''), (''name'', ''name''), (''detail'', ''desc''), (''price'', ''price''),
              (''rate'', ''rate''), (''brand'', ''brand''), (''cutoff'', ''amount'')] cursor) (\<lambda>com_list.
         out_puts L [(''data'', com_list), (''status'', JInt APIE_OK)] (ret APIE_OK)))))))))"

definition seller_ActivityList_Get :: "'db lib \<Rightarrow> json \<Rightarrow> 'db prog" where
  "seller_ActivityList_Get L content =
     str_of L content ''seller_id'' (\<lambda>seller_id.
     if seller_id = [] then ret APIE_INVALID_CLIENT_REQ
     else try_db (
       connect L (
       query L DB_SELLER (str_fields [(''seller_id'', seller_id)]) (\<lambda>cursor.
       if cursor = [] then ret APIE_INVALID_CLIENT_REQ
       else
         int_of L content ''offset'' (\<lambda>offset.
         int_of L content ''num'' (\<lambda>num.
         query_n L DB_ACTIVITY (str_fields [(''seller_id'', seller_id)]) num offset (\<lambda>cursor.
         val_or OtherException
           (doc_infos L [(''activity_id'', ''activity_id''), (''title'', ''title''), (''url'', ''url''), (''detail'', ''detail''),
              (''start_date'', ''start_date''), (''end_date'', ''end_date'')] cursor) (\<lambda>ac_list.
         out_puts L [(''total'', JInt (int (length cursor))), (''data'', ac_list)] (ret APIE_OK)))))))))"

text \<open>The text of the suggestion is read from the member \<^verbatim>\<open>id\<close>, like the seller.\<close>

definition seller_Suggestion_Post :: "'db lib \<Rightarrow> json \<Rightarrow> 'db prog" where
  "seller_Suggestion_Post L content =
     str_of L content ''role'' (\<lambda>role.
     str_of L content ''id'' (\<lambda>seller_id.
     str_of L content ''id'' (\<lambda>suggestion.
     if role = [] \<or> seller_id = [] \<or> suggestion = [] then ret APIE_INVALID_CLIENT_REQ
     else if role \<noteq> ''seller'' then ret APIE_INVALID_CLIENT_REQ
     else try_db (
       connect L (
       query L DB_SELLER (str_fields [(''seller_id'', seller_id)]) (\<lambda>cursor.
       if cursor = [] then ret APIE_SELLER_NO_EXIST
       else update L DB_SELLER (str_fields [(''seller_id'', seller_id)])
              (BObj [(''$push'', BObj [(''suggestions'', str_fields [(''title'', suggestion)])])]) True False
              (ret APIE_OK)))))))"

section \<open>The readers of the user\<close>

definition user_SellerCommodity_Get :: "'db lib \<Rightarrow> json \<Rightarrow> 'db prog" where
  "user_SellerCommodity_Get L content =
     str_of L content ''role'' (\<lambda>role.
     str_of L content ''commodity_id'' (\<lambda>commodity_id.
     if commodity_id = [] then ret APIE_INVALID_CLIENT_REQ
     else try_db (
       connect L (
       query L DB_STORE (str_fields [(''commod_id'', commodity_id)]) (\<lambda>cursor.
       case cursor of
         [] \<Rightarrow> ret APIE_INVALID_CLIENT_REQ
       | obj # _ \<Rightarrow>
           out_puts L
             [(''commodity_id'', JString (bs_getStringField L obj ''commod_id'')),
              (''name'', JString (bs_getStringField L obj ''name'')),
              (''desc'', JString (bs_getStringField L obj ''desc'')),
              (''price'', JString (bs_getStringField L obj ''price'')),
              (''rate'', JString (bs_getStringField L obj ''rate'')),
              (''brand'', JString (bs_getStringField L obj ''brand'')),
              (''cutoff'', JString (bs_getStringField L obj ''amount''))]
           (val_or OtherException (getImageNamesFromBson L obj ''images'') (\<lambda>images.
            out_put L ''images'' images (ret APIE_OK))))))))"

definition user_SellerCommodityList_Get :: "'db lib \<Rightarrow> json \<Rightarrow> 'db prog" where
  "user_SellerCommodityList_Get L content =
     str_of L content ''seller_id'' (\<lambda>seller_id.
     str_of L content ''role'' (\<lambda>role.
     if role \<noteq> ''user'' \<or> seller_id = [] then ret APIE_INVALID_CLIENT_REQ
     else try_db (
       connect L (
       int_of L content ''offset'' (\<lambda>offset.
       int_of L content ''num'' (\<lambda>num.
       query_n L DB_STORE (str_fields [(''seller_id'', seller_id)]) num offset (\<lambda>cursor.
       val_or OtherException
         (doc_infos L [(''cid'', ''commod_id''), (''name'', ''name''), (''desc'', ''desc''), (''price'', ''price''),
            (''rate'', ''rate''), (''brand'', ''brand''), (''cutoff'', ''amount'')] cursor) (\<lambda>commodities.
       out_puts L [(''total'', JInt (int (length cursor))), (''data'', commodities)] (ret APIE_OK)))))))))"

text \<open>The arrays \<open>key\<close> of all sellers of a cursor, one after the other.\<close>

fun seller_offers :: "'db lib \<Rightarrow> string \<Rightarrow> bson list \<Rightarrow> bson list option" where
  "seller_offers L key [] = Some []"
| "seller_offers L key (seller # ds) = do {
     xs \<leftarrow> (if bs_hasField L seller key then objs L (bs_elements L (bs_getObjectField L seller key)) else Some []);
     ys \<leftarrow> seller_offers L key ds;
     Some (xs @ ys)
   }"

definition user_SellerActivityList_Get :: "'db lib \<Rightarrow> json \<Rightarrow> 'db prog" where
  "user_SellerActivityList_Get L content =
     str_of L content ''seller_id'' (\<lambda>seller_id.
     try_db (
       connect L (
       int_of L content ''offset'' (\<lambda>offset.
       int_of L content ''num'' (\<lambda>num.
       query_n L DB_SELLER (str_fields [(''seller_id'', seller_id)]) num offset (\<lambda>cursor.
       val_or DBException (seller_offers L ''activities'' cursor) (\<lambda>found.
       val_or OtherException
         (doc_infos L [(''activity_id'', ''activity_id''), (''title'', ''title''), (''url'', ''url''), (''desc'', ''desc''),
            (''start_date'', ''start_date''), (''end_date'', ''end_date'')] found) (\<lambda>activities.
       out_puts L [(''total'', JInt (int (length found))), (''data'', activities)] (ret APIE_OK)))))))))"

text \<open>
  Joining an activity. \<^verbatim>\<open>getIntField\<close> of a document without \<^verbatim>\<open>total\<close> is the least \<^verbatim>\<open>int\<close>. The overflow of
  \<^verbatim>\<open>count + 1\<close>, undefined in C++, counts as an exception.
\<close>

definition user_SellerActivity_Put :: "'db lib \<Rightarrow> json \<Rightarrow> 'db prog" where
  "user_SellerActivity_Put L content =
     str_of L content ''role'' (\<lambda>role.
     str_of L content ''user_id'' (\<lambda>user_id.
     str_of L content ''activity_id'' (\<lambda>activity_id.
     if role = [] \<or> user_id = [] \<or> role \<noteq> ''user'' \<or> activity_id = [] then ret APIE_INVALID_CLIENT_REQ
     else try_db (
       connect L (
       query L DB_USR (str_fields [(''user_id'', user_id)]) (\<lambda>cursor.
       if cursor = [] then ret APIE_USER_NO_EXIST
       else query L DB_ACTIVITY (str_fields [(''activity_id'', activity_id)]) (\<lambda>cursor.
         case cursor of
           [] \<Rightarrow> ret APIE_OK
         | p # _ \<Rightarrow>
             let count = bs_getIntField L p ''total'' in
             if count = 2 ^ 31 - 1 then throw OtherException
             else update L DB_ACTIVITY (str_fields [(''activity_id'', activity_id)])
               (BObj [(''total'', BInt (count + 1)),
                  (if bs_hasField L p ''users'' then ''$push'' else ''$set'', BObj [(''users'', BArray [BString activity_id])])])
               False False (ret APIE_OK))))))))"

definition user_SellerServiceList_Get :: "'db lib \<Rightarrow> json \<Rightarrow> 'db prog" where
  "user_SellerServiceList_Get L content =
     str_of L content ''role'' (\<lambda>role.
     str_of L content ''seller_id'' (\<lambda>seller_id.
     if role = [] \<or> seller_id = [] \<or> role \<noteq> ''user'' then ret APIE_INVALID_CLIENT_REQ
     else try_db (
       connect L (
       query L DB_SELLER (str_fields [(''seller_id'', seller_id)]) (\<lambda>cursor.
       val_or DBException (seller_offers L ''services'' cursor) (\<lambda>found.
       val_or OtherException
         (Option.bind (those (map (doc_info L [(''service_id'', ''service_id''), (''title'', ''title''), (''url'', ''url''),
            (''type'', ''type''), (''desc'', ''desc''), (''price'', ''price'')]) found)) (js_array L)) (\<lambda>services.
       out_puts L [(''total'', JInt (int (length found))), (''data'', services)] (ret APIE_OK))))))))"

definition user_Advertisement_Get :: "'db lib \<Rightarrow> json \<Rightarrow> 'db prog" where
  "user_Advertisement_Get L content =
     str_of L content ''city'' (\<lambda>city.
     try_db (
       connect L (
       query L DB_ADS (str_fields [(''status'', ''publicated'')]) (\<lambda>cursor.
       val_or OtherException
         (doc_infos L [(''ads_id'', ''ads_id''), (''seller_id'', ''seller_id''), (''type'', ''type''), (''link'', ''link''),
            (''start_time'', ''start_time''), (''end_time'', ''end_time''), (''title'', ''content'')] cursor) (\<lambda>ads_objs.
       out_puts L [(''total'', JInt (int (length cursor))), (''data'', ads_objs)] (ret APIE_OK))))))"

section \<open>What every request keeps\<close>

lemmas store_defs = seller_Commodity_Get_def seller_Commodity_Post_def seller_Commodity_Put_def seller_Commodity_Delete_def
  seller_Service_Post_def seller_Service_Put_def seller_Service_Delete_def
  seller_Activity_Post_def seller_Activity_Put_def seller_Activity_Delete_def
  seller_Advertisement_Get_def seller_Advertisement_Post_def seller_Advertisement_Put_def seller_Advertisement_Delete_def
  seller_SysAdvertisement_Get_def seller_CommodityList_Get_def seller_ActivityList_Get_def seller_Suggestion_Post_def
  user_SellerCommodity_Get_def user_SellerCommodityList_Get_def user_SellerActivityList_Get_def
  user_SellerActivity_Put_def user_SellerServiceList_Get_def user_Advertisement_Get_def

definition store_writers :: "('db lib \<Rightarrow> json \<Rightarrow> 'db prog) list" where
  "store_writers = [seller_Commodity_Post, seller_Commodity_Put, seller_Commodity_Delete,
     seller_Service_Post, seller_Service_Put, seller_Service_Delete,
     seller_Activity_Post, seller_Activity_Put, seller_Activity_Delete,
     seller_Advertisement_Post, seller_Advertisement_Put, seller_Advertisement_Delete,
     seller_Suggestion_Post, user_SellerActivity_Put]"

definition store_readers :: "('db lib \<Rightarrow> json \<Rightarrow> 'db prog) list" where
  "store_readers = [seller_Commodity_Get, seller_Advertisement_Get, seller_SysAdvertisement_Get,
     seller_CommodityList_Get, seller_ActivityList_Get, user_SellerCommodity_Get, user_SellerCommodityList_Get,
     user_SellerActivityList_Get, user_SellerServiceList_Get, user_Advertisement_Get]"

definition store_handlers :: "('db lib \<Rightarrow> json \<Rightarrow> 'db prog) list" where
  "store_handlers = store_writers @ store_readers"

lemma keeps_add_offer:
  assumes "\<And>u. keeps P (update L DB_SELLER (str_fields [(''seller_id'', seller_id)]) u False False k)"
  shows "keeps P (add_offer L key seller_id title p seller k)"
  unfolding add_offer_def using assms by (intro keeps_if keeps_val_or keeps_ret)

lemma keeps_removeImages: "keeps P k \<Longrightarrow> keeps P ((case found of None \<Rightarrow> (\<lambda>k. k) | Some activity \<Rightarrow> removeImages activity s) k)"
  by (simp add: removeImages_def split: option.split)

lemmas store_rules = keeps_str_of keeps_int_of keeps_double_of keeps_gen_oid keeps_if keeps_ret keeps_throw keeps_try_db
  keeps_connect keeps_case_list keeps_query keeps_query_n keeps_out_puts keeps_out_put keeps_val_or keeps_Let
  keeps_new_images keeps_add_offer keeps_removeImages

lemma store_readers_keep:
  assumes "h \<in> set store_readers"
  shows "keeps P (h L content)"
proof -
  have "\<forall>h \<in> set store_readers. keeps P (h L content)"
    unfolding store_readers_def list.set ball_simps store_defs by (intro conjI TrueI store_rules)
  with assms show ?thesis by blast
qed

text \<open>A property of the commodities or of the advertisements: it has to hold of the documents the requests insert.\<close>

lemma store_keeps_all:
  assumes "mongo_ok L docs" "c \<in> {DB_STORE, DB_ADS}" "h \<in> set store_handlers"
    and "\<And>i a b n e p r m im cu. c = DB_STORE \<Longrightarrow> P (with_id i (commodity_doc a b n e p r m im cu))"
    and "\<And>i fs. c = DB_ADS \<Longrightarrow> map_of fs ''status'' = Some (BString ''wait'') \<Longrightarrow> P (with_id i (BObj fs))"
  shows "keeps (all_docs docs c P) (h L content)"
proof (cases "h \<in> set store_readers")
  case False
  have ne: "DB_SELLER \<noteq> c" "DB_ACTIVITY \<noteq> c" using assms(2) by (auto simp: db_names)
  have s: "DB_STORE = c \<Longrightarrow> P (with_id i (commodity_doc a b n e p r m im cu))" for i a b n e p r m im cu
    using assms(4) by simp
  have a: "DB_ADS = c \<Longrightarrow> map_of fs ''status'' = Some (BString ''wait'') \<Longrightarrow> P (with_id i (BObj fs))" for i fs
    using assms(5) by simp
  note rules = conjI TrueI store_rules all_insert [OF assms(1)] all_remove [OF assms(1)] all_update_other [OF assms(1)]
  have "\<forall>h \<in> set store_writers. keeps (all_docs docs c P) (h L content)"
    unfolding store_writers_def list.set ball_simps store_defs
    by (intro rules; simp add: ne s a)
  with assms(3) False show ?thesis by (auto simp: store_handlers_def)
qed (rule store_readers_keep)

definition no_commod_id :: "bson \<Rightarrow> bool" where
  "no_commod_id d \<longleftrightarrow> bfield d ''commod_id'' = None"

lemma commod_query_empty:
  assumes "mongo_ok L docs" "all_docs docs DB_STORE no_commod_id db"
    and "db_query L db DB_STORE (str_fields [(''commod_id'', i)]) = Some ds"
  shows "ds = []"
  using mongo_query [OF assms(1,3)] assms(2) by (auto simp: all_docs_def no_commod_id_def matches_def)

text \<open>
  A commodity is stored under \<^verbatim>\<open>commodity_id\<close> and looked up under \<^verbatim>\<open>commod_id\<close>: whatever requests
  come first, asking for a commodity by its identifier never finds one, neither for the seller nor for
  the user.
\<close>

theorem commodity_never_found:
  assumes "json_ok L" "mongo_ok L docs" "all_docs docs DB_STORE no_commod_id (w_db w0)" "reach store_handlers L w0 w"
  shows "fst (seller_Commodity_Get L (req kvs) w) \<in> {Ret APIE_INVALID_CLIENT_REQ, Ret APIE_COMMODITY_NO_EXIST, Ret APIE_SERVER_INTERNAL} \<and>
     fst (user_SellerCommodity_Get L (req kvs) w) \<in> {Ret APIE_INVALID_CLIENT_REQ, Ret APIE_SERVER_INTERNAL}"
proof -
  have "all_docs docs DB_STORE no_commod_id (w_db w)"
    using assms(4,3) by (rule reach_keeps)
      (rule store_keeps_all [OF assms(2)], auto simp: no_commod_id_def commodity_doc_def db_names)
  note empty = commod_query_empty [OF assms(2) this]
  have "wp (seller_Commodity_Get L (req kvs)) (\<lambda>r w'. r \<in> {Ret APIE_INVALID_CLIENT_REQ, Ret APIE_COMMODITY_NO_EXIST, Ret APIE_SERVER_INTERNAL}) w"
    using assms(1) empty by (auto simp: seller_Commodity_Get_def wp_simps split: option.split list.split)
  moreover have "wp (user_SellerCommodity_Get L (req kvs)) (\<lambda>r w'. r \<in> {Ret APIE_INVALID_CLIENT_REQ, Ret APIE_SERVER_INTERNAL}) w"
    using assms(1) empty by (auto simp: user_SellerCommodity_Get_def wp_simps split: option.split list.split)
  ultimately show ?thesis by (simp add: wp_def split: prod.splits)
qed

section \<open>Advertisements\<close>

text \<open>No advertisement of a seller has the title of another one.\<close>

definition ad_keys :: "string list" where
  "ad_keys = [''seller_id'', ''title'']"

lemma ad_query_insert:
  assumes "mongo_ok L docs" "keeps (unique_keys docs DB_ADS ad_keys) p1" "\<And>im. keeps (unique_keys docs DB_ADS ad_keys) (p2 im)"
    and "\<And>im. bfield (d im) ''seller_id'' = Some (BString seller_id) \<and> bfield (d im) ''title'' = Some (BString title)"
  shows "keeps (unique_keys docs DB_ADS ad_keys)
     (query L DB_ADS (str_fields [(''seller_id'', seller_id), (''title'', title)]) (\<lambda>cursor. if cursor \<noteq> [] then p1
       else new_images L content (\<lambda>im. insert_into L DB_ADS (d im) (p2 im))))"
proof -
  let ?P = "unique_keys docs DB_ADS ad_keys"
  have new: "?P db'" if *: "?P db" "db_query L db DB_ADS (str_fields [(''seller_id'', seller_id), (''title'', title)]) = Some []"
    "db_insert L db DB_ADS (d im) = Some db'" for db db' im
    by (rule unique_keys_insert [OF assms(1) *]) (simp_all add: ad_keys_def assms(4))
  show ?thesis
    unfolding keeps_def wp_query
  proof (intro allI impI, split option.split, intro conjI impI allI)
    fix w :: "'a world" and ds assume P: "?P (w_db w)" and q: "db_query L (w_db w) DB_ADS (str_fields [(''seller_id'', seller_id), (''title'', title)]) = Some ds"
    show "wp (if ds \<noteq> [] then p1 else new_images L content (\<lambda>im. insert_into L DB_ADS (d im) (p2 im))) (\<lambda>r w'. ?P (w_db w')) w"
    proof (cases "ds = []")
      case True
      have "wp (new_images L content (\<lambda>im. insert_into L DB_ADS (d im) (p2 im))) (\<lambda>r w'. ?P (w_db w')) w"
      proof (rule wp_new_images)
        fix names and w' :: "'a world" assume "w_db w' = w_db w"
        then show "wp (insert_into L DB_ADS (d (BArray (map BString names))) (p2 (BArray (map BString names)))) (\<lambda>r w'. ?P (w_db w')) w'"
          using P new [OF P q [unfolded True]] assms(3) by (auto simp: wp_insert_into keeps_def split: option.split)
      qed (simp add: P)
      with True show ?thesis by simp
    qed (use P assms(2) in \<open>simp add: keeps_def\<close>)
  qed
qed

lemma store_keeps_titles:
  assumes "mongo_ok L docs" "h \<in> set store_handlers"
  shows "keeps (unique_keys docs DB_ADS ad_keys) (h L content)"
proof (cases "h \<in> set store_readers")
  case False
  note rules = conjI TrueI ad_query_insert [OF assms(1)] store_rules unique_insert [OF assms(1)] unique_remove [OF assms(1)] unique_update_other [OF assms(1)]
  have "\<forall>h \<in> set store_writers. keeps (unique_keys docs DB_ADS ad_keys) (h L content)"
    unfolding store_writers_def list.set ball_simps store_defs
    by (intro rules; simp add: db_names matches_def)
  with assms(2) False show ?thesis by (auto simp: store_handlers_def)
qed (rule store_readers_keep)

definition unpublished :: "bson \<Rightarrow> bool" where
  "unpublished d \<longleftrightarrow> \<not> has_value (BString ''publicated'') (bfield d ''status'')"

lemma js_list_empty [simp]: "js_list L [] = Some JNull"
  by (simp add: js_list_def)

text \<open>
  Only the system publishes advertisements: from a state without published ones, no requests of
  sellers and users make a user see an advertisement.
\<close>

theorem advertisement_not_self_published:
  assumes "json_ok L" "mongo_ok L docs" "all_docs docs DB_ADS unpublished (w_db w0)" "reach store_handlers L w0 w"
    and "user_Advertisement_Get L (req kvs) (w\<lparr>w_out := JNull\<rparr>) = (r, w')"
  shows "r = Ret APIE_SERVER_INTERNAL \<or>
     r = Ret APIE_OK \<and> w_out w' = JObject [(''data'', JNull), (''total'', JInt 0)]"
proof -
  have "all_docs docs DB_ADS unpublished (w_db w)"
    using assms(4,3) by (rule reach_keeps)
      (rule store_keeps_all [OF assms(2)], auto simp: unpublished_def commodity_doc_def db_names)
  then have empty: "ds = []" if "db_query L (w_db w) DB_ADS (str_fields [(''status'', ''publicated'')]) = Some ds" for ds
    using mongo_query [OF assms(2) that] by (auto simp: all_docs_def unpublished_def matches_def filter_empty_conv)
  have "wp (user_Advertisement_Get L (req kvs)) (\<lambda>r w'. r = Ret APIE_SERVER_INTERNAL \<or>
     r = Ret APIE_OK \<and> w_out w' = JObject [(''data'', JNull), (''total'', JInt 0)]) (w\<lparr>w_out := JNull\<rparr>)"
    using assms(1) by (auto simp: user_Advertisement_Get_def wp_simps doc_infos_def json_ok_null split: option.split dest!: empty [simplified])
  then show ?thesis using assms(5) by (rule wpD)
qed

section \<open>Services and activities of a seller\<close>

lemma lookup_update:
  assumes "lookup docs db c [(k, v)] = Some d" "k \<notin> fst ` set kvs"
    and "docs db' = (docs db)(c := update_first (matches [(k, v)]) (apply_ops oper kvs) (docs db c))"
  shows "lookup docs db' c [(k, v)] = Some (apply_ops oper kvs d)"
proof -
  from assms(1) have d: "List.find (matches [(k, v)]) (docs db c) = Some d" by (simp add: lookup_def)
  then have "matches [(k, v)] d" by (auto simp: find_Some_iff)
  then have "matches [(k, v)] (apply_ops oper kvs d)" using assms(2) by (simp add: matches_def bfield_apply_ops_other)
  with find_update_first [OF d, of "apply_ops oper kvs"] show ?thesis by (simp add: lookup_def assms(3))
qed

abbreviation the_seller :: "('db \<Rightarrow> string \<Rightarrow> bson list) \<Rightarrow> 'db \<Rightarrow> string \<Rightarrow> bson option" where
  "the_seller docs db s \<equiv> lookup docs db DB_SELLER [(''seller_id'', s)]"

text \<open>The elements of an array of the seller's document.\<close>

definition offers :: "('db \<Rightarrow> string \<Rightarrow> bson list) \<Rightarrow> 'db \<Rightarrow> string \<Rightarrow> string \<Rightarrow> bson list" where
  "offers docs db s key = (case the_seller docs db s of None \<Rightarrow> [] | Some d \<Rightarrow> elems (bfield d key))"

lemma offers_push:
  assumes "mongo_ok L docs" "the_seller docs db s = Some d" "key \<noteq> ''seller_id'' \<and> plain_keys [(key, ())]"
    and "db_update L db DB_SELLER (str_fields [(''seller_id'', s)]) (BObj [(''$push'', BObj [(key, p)])]) False False = Some db'"
  shows "offers docs db' s k = (if k = key then offers docs db s k @ [p] else offers docs db s k)"
proof -
  obtain x where x: "bfield d ''seller_id'' = Some x" using lookup_isobj [OF assms(2)] ..
  have "lookup docs db' DB_SELLER [(''seller_id'', s)] = Some (apply_ops Push_op [(key, p)] d)"
    by (rule lookup_update [OF assms(2)]) (use assms(3) mongo_push [OF assms(1,4)] in auto)
  with assms(2) bfield_set_same [OF x] show ?thesis
    by (auto simp: offers_def apply_ops_def)
qed

lemma offers_set:
  assumes "mongo_ok L docs" "the_seller docs db s = Some d" "key \<noteq> ''seller_id'' \<and> plain_keys [(key, ())]"
    and "db_update L db DB_SELLER (str_fields [(''seller_id'', s)]) (BObj [(''$set'', BObj [(key, BArray ps)])]) False False = Some db'"
  shows "offers docs db' s k = (if k = key then ps else offers docs db s k)"
proof -
  obtain x where x: "bfield d ''seller_id'' = Some x" using lookup_isobj [OF assms(2)] ..
  have "lookup docs db' DB_SELLER [(''seller_id'', s)] = Some (apply_ops Set_op [(key, BArray ps)] d)"
    by (rule lookup_update [OF assms(2)]) (use assms(3) mongo_set [OF assms(1,4)] in auto)
  with assms(2) bfield_set_same [OF x] show ?thesis
    by (auto simp: offers_def apply_ops_def)
qed

lemma offers_pull:
  assumes "mongo_ok L docs" "the_seller docs db s = Some d" "key \<noteq> ''seller_id'' \<and> plain_keys [(key, ())]"
    and "db_update L db DB_SELLER (str_fields [(''seller_id'', s)]) (BObj [(''$pull'', BObj [(key, p)])]) ups False = Some db'"
  shows "offers docs db' s k = (if k = key then filter (\<lambda>x. \<not> pulls p x) (offers docs db s k) else offers docs db s k)"
    and "the_seller docs db' s = Some (apply_ops Pull_op [(key, p)] d)"
proof -
  obtain x where x: "bfield d ''seller_id'' = Some x" using lookup_isobj [OF assms(2)] ..
  have "\<exists>d \<in> set (docs db DB_SELLER). matches [(''seller_id'', s)] d"
    using assms(2) by (auto simp: lookup_def find_Some_iff intro: nth_mem)
  with mongo_pull [OF assms(1,4)] show *: "the_seller docs db' s = Some (apply_ops Pull_op [(key, p)] d)"
    using assms(3) by (intro lookup_update [OF assms(2)]) auto
  with assms(2) bfield_set_same [OF x]
  show "offers docs db' s k = (if k = key then filter (\<lambda>x. \<not> pulls p x) (offers docs db s k) else offers docs db s k)"
    by (auto simp: offers_def apply_ops_def)
qed

text \<open>
  Editing an activity deletes it: the new version goes to the misspelled field \<^verbatim>\<open>activites\<close>, which
  nothing reads, and the old version is removed from \<^verbatim>\<open>activities\<close>.
\<close>

theorem activity_put_loses:
  assumes "json_ok L" "mongo_ok L docs" "arg kvs ''seller_id'' = s" "arg kvs ''activity_id'' = a"
    and "seller_Activity_Put L (req kvs) w = (Ret APIE_OK, w')"
  shows "offers docs (w_db w') s ''activities'' =
     filter (\<lambda>x. \<not> has_value (BString a) (bfield x ''activity_id'')) (offers docs (w_db w) s ''activities'')"
proof -
  let ?q = "str_fields [(''seller_id'', s)]"
  have upd: "offers docs db2 s ''activities'' =
      filter (\<lambda>x. \<not> has_value (BString a) (bfield x ''activity_id'')) (offers docs (w_db w) s ''activities'')"
    if 0: "db_query L (w_db w) DB_SELLER ?q = Some (d # ds)"
      and 1: "db_update L (w_db w) DB_SELLER ?q (BObj [(''$pull'', BObj [(''activities'', str_fields [(''activity_id'', a)])])]) False False = Some db1"
      and 2: "db_update L db1 DB_SELLER ?q (BObj [(''$push'', BObj [(''activites'', p)])]) False False = Some db2"
    for d ds db1 db2 p
  proof -
    have d: "the_seller docs (w_db w) s = Some d" using lookup_query [OF assms(2) 0] by simp
    show ?thesis
      using offers_pull(1) [OF assms(2) d _ 1, of "''activities''"]
        offers_push [OF assms(2) offers_pull(2) [OF assms(2) d _ 1] _ 2, of "''activities''"]
      by simp
  qed
  have "on_ok (seller_Activity_Put L (req kvs)) (\<lambda>w'. offers docs (w_db w') s ''activities'' =
     filter (\<lambda>x. \<not> has_value (BString a) (bfield x ''activity_id'')) (offers docs (w_db w) s ''activities'')) w"
    unfolding seller_Activity_Put_def using assms(1)
    by (auto simp: assms(3,4) ok_simps apie_ne removeImages_def split: option.split intro!: on_ok_new_images upd [simplified])
  then show ?thesis using assms(5) by (rule on_okD)
qed

lemma title_not_taken:
  assumes "bson_ok L" "\<forall>x \<in> set es. \<exists>fs y. x = BObj fs \<and> map_of fs ''title'' = Some (BString y) \<and> title \<noteq> ''title: \"'' @ y @ ''\"''"
  shows "title_taken L title es = Some False"
  using assms(2)
proof (induction es)
  case (Cons x es)
  then obtain fs y where x: "x = BObj fs" "map_of fs ''title'' = Some (BString y)" "title \<noteq> ''title: \"'' @ y @ ''\"''" by auto
  then have "bs_fieldToString L x ''title'' = ''title: \"'' @ y @ ''\"''"
    using bson_ok_toString [OF assms(1), of x "''title''" y] by simp
  with x Cons assms(1) show ?case by simp
qed simp

lemma new_images_none:
  assumes "json_ok L" "bson_ok L" "map_of kvs ''images'' = None"
  shows "new_images L (req kvs) k = out_put L ''images'' (JArray []) (k (BArray []))"
  using assms by (simp add: new_images_def member_of_def js_member_req val_or_def no_images no_image_names)

definition plain_titles :: "string \<Rightarrow> bson list \<Rightarrow> bool" where
  "plain_titles title es \<longleftrightarrow>
     (\<forall>x \<in> set es. \<exists>fs y. x = BObj fs \<and> map_of fs ''title'' = Some (BString y) \<and> title \<noteq> ''title: \"'' @ y @ ''\"'')"

definition service_doc :: "string \<Rightarrow> (string \<times> string) list \<Rightarrow> bson" where
  "service_doc ident kvs = BObj [(''service_id'', BString ident), (''type'', BString (arg kvs ''type'')),
     (''title'', BString (arg kvs ''title'')), (''detail'', BString (arg kvs ''detail'')),
     (''price'', BString (arg kvs ''price'')), (''images'', BArray [])]"

lemma add_offer_appends:
  assumes "bson_ok L" "mongo_ok L docs" "the_seller docs (w_db w) s = Some d" "key \<noteq> ''seller_id'' \<and> plain_keys [(key, ())]"
    and "bfield d key = None \<or> bfield d key = Some (BArray es)" "plain_titles title es"
    and "\<And>db. offers docs db s key = offers docs (w_db w) s key @ [p] \<Longrightarrow> wp k Q (w\<lparr>w_db := db\<rparr>)" "Q (Throw DBException) w" "name_key key"
  shows "wp (add_offer L key s title p d k) Q w"
proof (cases "bfield d key")
  case None
  have "offers docs (w_db w) s key = []" using assms(3) None by (simp add: offers_def)
  with None show ?thesis
    using assms(1) offers_set [OF assms(2-4), of "[p]" _ key] by (auto simp: add_offer_def wp_simps assms(7-9) split: option.split)
next
  case (Some x)
  with assms(5) have x: "x = BArray es" by simp
  from assms(6) have "title_taken L title es = Some False" unfolding plain_titles_def by (rule title_not_taken [OF assms(1)])
  with Some x show ?thesis
    using assms(1) offers_push [OF assms(2-4), of p _ key] by (auto simp: add_offer_def wp_simps assms(7-9) split: option.split)
qed

text \<open>
  A valid request for a new service adds it at the end of the seller's services, unless the database
  fails. The check for a duplicate title compares with the printed element, \<^verbatim>\<open>title: "..."\<close>, so it
  refuses only titles that look like this: a second service with the title of the first is added.
\<close>

theorem service_post_appends:
  assumes "json_ok L" "bson_ok L" "mongo_ok L docs"
    and "arg kvs ''role'' = ''seller''" "arg kvs ''seller_id'' = s" "s \<noteq> []" "arg kvs ''title'' \<noteq> []"
    and "arg kvs ''detail'' \<noteq> []" "arg kvs ''type'' \<noteq> []" "map_of kvs ''images'' = None" "w_out w = JNull"
    and "the_seller docs (w_db w) s = Some d" "bfield d ''services'' = None \<or> bfield d ''services'' = Some (BArray es)"
    and "plain_titles (arg kvs ''title'') es" "seller_Service_Post L (req kvs) w = (r, w')"
  shows "r = Ret APIE_SERVER_INTERNAL \<or> r = Ret APIE_OK \<and>
     offers docs (w_db w') s ''services'' = offers docs (w_db w) s ''services'' @ [service_doc (oid_string L (w_oids w)) kvs]"
proof -
  let ?Q = "\<lambda>r w'. r = Ret APIE_SERVER_INTERNAL \<or> r = Ret APIE_OK \<and>
     offers docs (w_db w') s ''services'' = offers docs (w_db w) s ''services'' @ [service_doc (oid_string L (w_oids w)) kvs]"
  let ?Q' = "\<lambda>r. ?Q (if r = Throw DBException then Ret APIE_SERVER_INTERNAL else r)"
  have add: "wp (add_offer L ''services'' s (arg kvs ''title'') (service_doc (oid_string L (w_oids w)) kvs) d (ret APIE_OK)) ?Q' w1"
    if "w_db w1 = w_db w" for w1
    by (rule add_offer_appends [OF assms(2,3) _ _ assms(13,14)]) (auto simp: that assms(12) wp_simps)
  have found: "ds \<noteq> [] \<and> hd ds = d" if "db_query L (w_db w) DB_SELLER (str_fields [(''seller_id'', s)]) = Some ds" for ds
    using lookup_query [OF assms(3) that] assms(12) by (auto split: list.splits)
  have "wp (seller_Service_Post L (req kvs)) ?Q w"
    unfolding seller_Service_Post_def str_of_req [OF assms(1)] assms(4,5) new_images_none [OF assms(1,2,10)]
    using assms(1,6-9) add [unfolded service_doc_def]
    by (auto simp: wp_simps assms(11) json_ok_null service_doc_def split: option.split list.split dest!: found [simplified])
  then show ?thesis using assms(15) by (rule wpD)
qed

section \<open>Commodities\<close>

definition commodity_info :: "'db lib \<Rightarrow> bson \<Rightarrow> json" where
  "commodity_info L d = JObject
     [(''brand'', JString (string_field d ''brand'')), (''commodity_id'', JString (string_field d ''commodity_id'')),
      (''cutoff'', JString (string_field d ''amount'')), (''detail'', JString (string_field d ''desc'')),
      (''images'', JArray (if bfield d ''images'' = None then []
         else map (\<lambda>e. JString (bs_str L e)) (bs_elements L (bs_getObjectField L d ''images'')))),
      (''name'', JString (string_field d ''name'')), (''price'', JString (string_field d ''price'')),
      (''rate'', JString (string_field d ''rate''))]"

lemma those_Some: "(\<And>x. x \<in> set xs \<Longrightarrow> f x = Some (g x)) \<Longrightarrow> those (map f xs) = Some (map g xs)"
  by (induction xs) auto

lemma doc_infos_all:
  assumes "json_ok L" "\<And>d. doc_info L fs d = Some (g d)"
  shows "doc_infos L fs ds = Some (if ds = [] then JNull else JArray (map g ds))"
  using those_Some [of ds "doc_info L fs" g] assms by (simp add: doc_infos_def js_list_all)

lemma commodity_doc_info:
  assumes "json_ok L" "bson_ok L"
  shows "doc_info L [(''commodity_id'', ''commodity_id''), (''name'', ''name''), (''detail'', ''desc''), (''price'', ''price''),
     (''rate'', ''rate''), (''brand'', ''brand''), (''cutoff'', ''amount'')] d = Some (commodity_info L d)"
  using assms(2)
  by (simp add: doc_info_def str_members_def getImageNamesFromBson_def js_array_all [OF assms(1)] js_build_obj [OF assms(1)]
      commodity_info_def string_field_def)

lemma string_field_with_id [simp]: "k \<noteq> ''_id'' \<Longrightarrow> string_field (with_id i d) k = string_field d k"
  by (simp add: string_field_def)

lemma commodity_info_with_id [simp]: "bson_ok L \<Longrightarrow> commodity_info L (with_id i d) = commodity_info L d"
  by (simp add: commodity_info_def)

lemma commodity_stored:
  assumes "json_ok L" "mongo_ok L docs" "arg kvs ''seller_id'' = s"
    and "seller_Commodity_Post L (req kvs) w = (Ret APIE_OK, w1)"
  shows "\<exists>i names. docs (w_db w1) = (docs (w_db w))(DB_STORE := docs (w_db w) DB_STORE @ [with_id i
     (commodity_doc s (oid_string L (w_oids w)) (arg kvs ''name'') (arg kvs ''desc'') (arg kvs ''price'') (arg kvs ''brand'')
       (arg kvs ''amount'') (BArray (map BString names)) (arg kvs ''cutoff''))])"
proof -
  have "on_ok (seller_Commodity_Post L (req kvs)) (\<lambda>w1. \<exists>i names. docs (w_db w1) = (docs (w_db w))(DB_STORE := docs (w_db w) DB_STORE @ [with_id i
     (commodity_doc s (oid_string L (w_oids w)) (arg kvs ''name'') (arg kvs ''desc'') (arg kvs ''price'') (arg kvs ''brand'')
       (arg kvs ''amount'') (BArray (map BString names)) (arg kvs ''cutoff''))])) w"
    unfolding seller_Commodity_Post_def using assms(1)
    by (auto simp: assms(3) ok_simps apie_ne intro!: on_ok_new_images dest!: mongo_insert [OF assms(2)]) blast
  then show ?thesis using assms(4) by (rule on_okD)
qed


section \<open>Witnesses\<close>

text \<open>A shop with a service and an activity.\<close>

definition shop :: bson where
  "shop = BObj [(''seller_id'', BString ''s1''),
     (''services'', BArray [BObj [(''service_id'', BString ''v1''), (''title'', BString ''wash'')]]),
     (''activities'', BArray [BObj [(''activity_id'', BString ''a1'')], BObj [(''activity_id'', BString ''a2'')]])]"

definition shop_world :: "(string \<times> bson list) list world" where
  "shop_world = mem_world [(DB_SELLER, [shop])]"

definition shop_req :: "(string \<times> string) list" where
  "shop_req = [(''role'', ''seller''), (''seller_id'', ''s1''), (''title'', ''wash''), (''detail'', ''d''), (''type'', ''car_clean''),
     (''name'', ''wax''), (''price'', ''5''), (''activity_id'', ''a1''), (''start_date'', ''1''), (''end_date'', ''2''), (''commod_id'', ''1''),
     (''commodity_id'', ''1'')]"

lemma shop_args: "arg shop_req ''role'' = ''seller''" "arg shop_req ''seller_id'' = ''s1''" "arg shop_req ''title'' \<noteq> []"
  "arg shop_req ''detail'' \<noteq> []" "arg shop_req ''type'' \<noteq> []" "arg shop_req ''activity_id'' = ''a1''" "map_of shop_req ''images'' = None"
  "map_of shop_req ''offset'' = None" "map_of shop_req ''num'' = None"
  by (simp_all add: arg_def shop_req_def)

lemma shop_posts: "fst (seller_Commodity_Post mem_lib (req shop_req) shop_world) = Ret APIE_OK"
  "fst (seller_Advertisement_Post mem_lib (req shop_req) shop_world) = Ret APIE_OK"
  "fst (seller_Activity_Put mem_lib (req shop_req) shop_world) = Ret APIE_OK"
  "fst (seller_CommodityList_Get mem_lib (req shop_req) ((snd (seller_Commodity_Post mem_lib (req shop_req) shop_world))\<lparr>w_out := JNull\<rparr>)) = Ret APIE_OK"
  by code_simp+

lemma shop_reach:
  "h \<in> set store_handlers \<Longrightarrow> reach store_handlers mem_lib shop_world (snd (h mem_lib (req shop_req) shop_world))"
  by (rule request [OF start]) (assumption, rule surjective_pairing)

lemma run_ok: "fst x = Ret APIE_OK \<Longrightarrow> x = (Ret APIE_OK, snd x)"
  by (cases x) simp

theorem commodity_never_found_witness:
  "fst (seller_Commodity_Get mem_lib (req shop_req) (snd (seller_Commodity_Post mem_lib (req shop_req) shop_world)))
     \<in> {Ret APIE_INVALID_CLIENT_REQ, Ret APIE_COMMODITY_NO_EXIST, Ret APIE_SERVER_INTERNAL}"
  using commodity_never_found [OF json_ok_mem mongo_ok_mem _ shop_reach, of seller_Commodity_Post shop_req]
  by (simp add: all_docs_def shop_world_def mem_world_def db_names store_handlers_def store_writers_def)

theorem advertisement_not_self_published_witness:
  "fst (user_Advertisement_Get mem_lib (req []) ((snd (seller_Advertisement_Post mem_lib (req shop_req) shop_world))\<lparr>w_out := JNull\<rparr>))
     \<in> {Ret APIE_SERVER_INTERNAL, Ret APIE_OK}"
  using advertisement_not_self_published [OF json_ok_mem mongo_ok_mem _ shop_reach surjective_pairing, of seller_Advertisement_Post "[]"]
  by (auto simp: all_docs_def shop_world_def mem_world_def db_names store_handlers_def store_writers_def)

lemma shop_offers: "the_seller mem_get (w_db shop_world) ''s1'' = Some shop"
  by (simp add: lookup_def matches_def shop_def shop_world_def mem_world_def)

theorem activity_put_loses_witness:
  "offers mem_get (w_db (snd (seller_Activity_Put mem_lib (req shop_req) shop_world))) ''s1'' ''activities'' =
     [BObj [(''activity_id'', BString ''a2'')]]"
  using activity_put_loses [OF json_ok_mem mongo_ok_mem shop_args(2,6) run_ok [OF shop_posts(3)]]
  by (simp add: offers_def shop_offers) (simp add: shop_def)

theorem service_post_appends_witness:
  "fst (seller_Service_Post mem_lib (req shop_req) shop_world) \<in> {Ret APIE_SERVER_INTERNAL, Ret APIE_OK}"
proof -
  have "plain_titles (arg shop_req ''title'') [BObj [(''service_id'', BString ''v1''), (''title'', BString ''wash'')]]"
    by (simp add: plain_titles_def arg_def shop_req_def)
  from service_post_appends [OF json_ok_mem bson_ok_mem mongo_ok_mem shop_args(1,2) _ shop_args(3,4,5,7) _ shop_offers _ this surjective_pairing]
  show ?thesis by (auto simp: shop_def shop_world_def mem_world_def)
qed


section \<open>Frame\<close>

text \<open>The requests of this theory write no collections but commodities, advertisements, sellers and activities.\<close>

lemma store_untouched:
  assumes "mongo_ok L docs" "h \<in> set store_handlers" "c \<notin> {DB_STORE, DB_ADS, DB_SELLER, DB_ACTIVITY}"
  shows "keeps (content_is docs c X) (h L content)"
proof (cases "h \<in> set store_readers")
  case False
  have ne: "DB_SELLER \<noteq> c" "DB_STORE \<noteq> c" "DB_ADS \<noteq> c" "DB_ACTIVITY \<noteq> c" using assms(3) by auto
  have "\<forall>h \<in> set store_writers. keeps (content_is docs c X) (h L content)"
    unfolding store_writers_def list.set ball_simps store_defs
    by (intro conjI TrueI store_rules same_insert [OF assms(1)] same_update [OF assms(1)] same_remove [OF assms(1)]; simp add: ne)
  with assms(2) False show ?thesis by (auto simp: store_handlers_def)
qed (rule store_readers_keep)

end
