(* ===== verification/Seller_Api.thy ===== *)
theory Seller_Api
  imports Account_Api Store_Api
begin

text \<open>
  The account of a seller (\<^verbatim>\<open>uri/seller/seller.cpp\<close>) and what others read of it: \<^verbatim>\<open>uri/user/seller.cpp\<close>,
  \<^verbatim>\<open>uri/user/seller-list.cpp\<close> with the queries of \<^verbatim>\<open>uri/user/query-helper.h\<close>, \<^verbatim>\<open>uri/user/profile.cpp\<close> and
  the recommendations of users and sellers. The properties connect the account with the login of
  theory \<open>Account_Api\<close> and with the services of theory \<open>Store_Api\<close>.
\<close>

section \<open>seller/\<close>

text \<open>\<^verbatim>\<open>loc[i].Double()\<close> throws when the element is missing or no double.\<close>

definition coordinate :: "'db lib \<Rightarrow> bson \<Rightarrow> nat \<Rightarrow> (double \<Rightarrow> 'db prog) \<Rightarrow> 'db prog" where
  "coordinate L loc i k = val_or DBException (Option.bind (bs_index L loc i) (bs_Double L)) k"

text \<open>The users of a group with their state, and a group.\<close>

definition group_user :: "'db lib \<Rightarrow> string \<Rightarrow> (json \<Rightarrow> 'db prog) \<Rightarrow> 'db prog" where
  "group_user L ident k =
     query L DB_USR (str_fields [(''user_id'', ident)]) (\<lambda>cursor.
     val_or OtherException
       (js_build L ((''user_id'', JString ident) #
          (case cursor of
             pp # _ \<Rightarrow> [(''online'', JInt (bs_getIntField L pp ''online'')), (''name'', JString (bs_getStringField L pp ''name''))]
           | [] \<Rightarrow> [(''online'', JInt 0), (''name'', JString ''unknown'')]))) k)"

definition group_info :: "'db lib \<Rightarrow> bson \<Rightarrow> (json \<Rightarrow> 'db prog) \<Rightarrow> 'db prog" where
  "group_info L e k =
     val_or DBException (bs_Obj L e) (\<lambda>obj.
     for_each (\<lambda>n. group_user L (bs_str L n)) (bs_elements L (bs_getObjectField L obj ''users'')) [] (\<lambda>us.
     val_or OtherException (js_list L us) (\<lambda>users.
     val_or OtherException
       (js_build L (str_members L [(''group_id'', ''group_id''), (''name'', ''group_name'')] obj @ [(''users'', users)])) k)))"

text \<open>The information about one commodity; the rate is a constant.\<close>

definition rated_info :: "'db lib \<Rightarrow> (string \<times> string) list \<Rightarrow> bson \<Rightarrow> json option" where
  "rated_info L fs d = do {
     images \<leftarrow> getImageNamesFromBson L d ''images'';
     js_build L (str_members L fs d @ [(''rate'', JString ''100%''), (''images'', images)])
   }"

text \<open>A list of a seller's document, written to the reply only if the document has the field.\<close>

definition out_offers :: "'db lib \<Rightarrow> string \<Rightarrow> (string \<times> string) list \<Rightarrow> bson \<Rightarrow> 'db prog \<Rightarrow> 'db prog" where
  "out_offers L key fs p k =
     (if bs_hasField L p key then
        val_or DBException (objs L (bs_elements L (bs_getObjectField L p key))) (\<lambda>offers.
        val_or OtherException (doc_infos L fs offers) (\<lambda>infos.
        out_put L key infos k))
      else k)"

definition seller_Seller_Get :: "'db lib \<Rightarrow> json \<Rightarrow> 'db prog" where
  "seller_Seller_Get L content =
     str_of L content ''seller_id'' (\<lambda>seller_id.
     if seller_id = [] then ret APIE_INVALID_CLIENT_REQ
     else try_db (
       connect L (
       query L DB_SELLER (str_fields [(''seller_id'', seller_id)]) (\<lambda>cursor.
       case cursor of
         [] \<Rightarrow> ret APIE_SELLER_NO_EXIST
       | p # _ \<Rightarrow>
           out_puts L (str_members L
             [(''seller_id'', ''seller_id''), (''name'', ''name''), (''telephone'', ''telephone''), (''address'', ''addr''),
              (''intro'', ''intro''), (''city'', ''city''), (''address'', ''address''),
              (''service_start_time'', ''service_start_time''), (''service_end_time'', ''service_end_time'')] p)
           (val_or OtherException (getImageNamesFromBson L p ''face_images'') (\<lambda>face.
            val_or OtherException (getImageNamesFromBson L p ''eco_images'') (\<lambda>eco.
            val_or OtherException (getImageNamesFromBson L p ''internal_images'') (\<lambda>internal.
            out_puts L [(''face_images'', face), (''eco_images'', eco), (''internal_images'', internal)]
            (let loc = bs_getObjectField L p ''location'' in
             coordinate L loc 0 (\<lambda>lat.
             coordinate L loc 1 (\<lambda>lng.
             val_or OtherException (js_build L [(''lat'', JReal lat), (''lng'', JReal lng)]) (\<lambda>location.
             out_put L ''location'' location
             (val_or OtherException
                (js_list L (map (\<lambda>e. JString (bs_str L e)) (bs_elements L (bs_getObjectField L p ''cars'')))) (\<lambda>car_list.
              out_put L ''cars'' car_list
              (query L DB_STORE (str_fields [(''seller_id'', seller_id)]) (\<lambda>com_cursor.
               val_or OtherException
                 (Option.bind (those (map (rated_info L
                    [(''seller_id'', ''seller_id''), (''commodity_id'', ''commodity_id''), (''name'', ''name''), (''detail'', ''desc''),
                     (''price'', ''price''), (''brand'', ''brand''), (''cutoff'', ''cutoff''), (''total'', ''amount'')]) com_cursor))
                    (js_list L)) (\<lambda>commodities.
               out_put L ''commodities'' commodities
               (out_offers L ''activities''
                  [(''seller_id'', ''seller_id''), (''activity_id'', ''activity_id''), (''url'', ''url''), (''title'', ''title''),
                   (''detail'', ''detail''), (''start_date'', ''start_date''), (''end_date'', ''end_date'')] p
               (out_offers L ''services''
                  [(''seller_id'', ''seller_id''), (''service_id'', ''service_id''), (''type'', ''type''), (''title'', ''title''),
                   (''detail'', ''detail''), (''price'', ''price''), (''start_time'', ''start_time''), (''end_time'', ''end_time'')] p
               (query L DB_USRMNG (str_fields [(''seller_id'', seller_id)]) (\<lambda>cursor.
                for_each (group_info L)
                  (case cursor of [] \<Rightarrow> [] | p # _ \<Rightarrow> bs_elements L (bs_getObjectField L p ''groups'')) [] (\<lambda>groups.
                val_or OtherException (js_array L groups) (\<lambda>groupArray.
                out_puts L [(''groups'', groupArray), (''deals'', JInt 0)] (ret APIE_OK))))))))))))))))))))))))"

definition new_service :: "'db lib \<Rightarrow> json \<Rightarrow> (bson \<Rightarrow> 'db prog) \<Rightarrow> 'db prog" where
  "new_service L service k =
     gen_oid L (\<lambda>service_id.
     str_of L service ''type'' (\<lambda>type.
     str_of L service ''title'' (\<lambda>title.
     str_of L service ''price'' (\<lambda>price.
     str_of L service ''title'' (\<lambda>title2.
     str_of L service ''detail'' (\<lambda>detail.
     str_of L service ''start_time'' (\<lambda>start_time.
     str_of L service ''end_time'' (\<lambda>end_time.
     k (str_fields [(''service_id'', service_id), (''type'', type), (''title'', title), (''price'', price), (''title'', title2),
          (''detail'', detail), (''start_time'', start_time), (''end_time'', end_time)])))))))))"

text \<open>The names of the images of a kind, for the document and for the reply\<close>

definition images_of :: "'db lib \<Rightarrow> json \<Rightarrow> string \<Rightarrow> (bson \<Rightarrow> 'db prog) \<Rightarrow> 'db prog" where
  "images_of L content key k =
     member_of L content key (\<lambda>number. getImageNames L number (\<lambda>names. k (BArray (map BString names))))"

definition out_images :: "'db lib \<Rightarrow> string \<Rightarrow> bson \<Rightarrow> 'db prog \<Rightarrow> 'db prog" where
  "out_images L key names k =
     val_or OtherException (getImageNamesFromBson_root L names) (\<lambda>images. out_put L key images k)"

definition seller_Seller_Post :: "'db lib \<Rightarrow> json \<Rightarrow> 'db prog" where
  "seller_Seller_Post L content =
     str_of L content ''role'' (\<lambda>role.
     str_of L content ''mobile'' (\<lambda>seller_id.
     str_of L content ''check'' (\<lambda>check.
     if role = [] \<or> seller_id = [] then ret APIE_INVALID_CLIENT_REQ
     else if role \<noteq> ''seller'' then ret APIE_INVALID_CLIENT_REQ
     else try_db (
       connect L (
       query L DB_SELLER (str_fields [(''seller_id'', seller_id)]) (\<lambda>cursor.
       if cursor \<noteq> [] then ret APIE_SELLER_ALREADY_EXIST
       else if check \<noteq> [] then ret APIE_OK
       else
         str_of L content ''pwd'' (\<lambda>pwd.
         str_of L content ''shop_name'' (\<lambda>name.
         str_of L content ''shop_city'' (\<lambda>city.
         str_of L content ''shop_telephone'' (\<lambda>telephone.
         str_of L content ''shop_address'' (\<lambda>address.
         str_of L content ''service_start_time'' (\<lambda>service_start_time.
         str_of L content ''service_end_time'' (\<lambda>service_end_time.
         member_of L content ''cars'' (\<lambda>cars.
         member_of L content ''location'' (\<lambda>location.
         member_of L content ''services'' (\<lambda>services.
         for_each (new_service L) (if services \<noteq> JNull then js_iterate L services else []) [] (\<lambda>service_list.
         for_each (\<lambda>car. val_or OtherException (js_asString L car)) (if cars \<noteq> JNull then js_iterate L cars else []) [] (\<lambda>car_list.
         double_of L location ''lat'' (\<lambda>lat.
         double_of L location ''lng'' (\<lambda>lng.
         images_of L content ''face_images'' (\<lambda>face.
         images_of L content ''eco_images'' (\<lambda>eco.
         images_of L content ''internal_images'' (\<lambda>internal.
         out_images L ''face_images'' face (
         out_images L ''internal_images'' internal (
         out_images L ''eco_images'' eco (
         insert_into L DB_SELLER
           (BObj [(''seller_id'', BString seller_id), (''pwd'', BString pwd), (''name'', BString name), (''city'', BString city),
              (''address'', BString address), (''telephone'', BString telephone),
              (''service_start_time'', BString service_start_time), (''service_end_time'', BString service_end_time),
              (''status'', BString ''authenticating''), (''services'', BArray service_list),
              (''cars'', BArray (map BString car_list)), (''location'', BArray [BDouble lat, BDouble lng]),
              (''face_images'', face), (''internal_images'', internal), (''eco_images'', eco)]) (
         insert_into L DB_MSG (str_fields [(''seller_id'', seller_id)]) (
         insert_into L DB_USRMNG (str_fields [(''seller_id'', seller_id)]) (
         ret APIE_OK)))))))))))))))))))))))))))))"

text \<open>Unlike the other methods this one checks neither the role nor the identifier.\<close>

definition seller_Seller_Put :: "'db lib \<Rightarrow> json \<Rightarrow> 'db prog" where
  "seller_Seller_Put L content =
     str_of L content ''role'' (\<lambda>role.
     str_of L content ''seller_id'' (\<lambda>seller_id.
     str_of L content ''name'' (\<lambda>name.
     str_of L content ''address'' (\<lambda>address.
     member_of L content ''location'' (\<lambda>location.
     str_of L content ''intro'' (\<lambda>intro.
     str_of L content ''telephone'' (\<lambda>telephone.
     try_db (
       connect L (
       query L DB_SELLER (str_fields [(''seller_id'', seller_id)]) (\<lambda>cursor.
       case cursor of
         [] \<Rightarrow> ret APIE_INVALID_CLIENT_REQ
       | seller # _ \<Rightarrow>
           str_of L location ''lng'' (\<lambda>lng.
           str_of L location ''lat'' (\<lambda>lat.
           removeImages seller ''face_images'' (
           removeImages seller ''eco_images'' (
           removeImages seller ''internal_images'' (
           images_of L content ''face_images'' (\<lambda>face.
           images_of L content ''eco_images'' (\<lambda>eco.
           images_of L content ''internal_images'' (\<lambda>internal.
           out_images L ''face_images'' face (
           out_images L ''eco_images'' eco (
           out_images L ''internal_images'' internal (
           update L DB_SELLER (str_fields [(''seller_id'', seller_id)])
             (BObj [(''$set'', BObj [(''name'', BString name), (''address'', BString address),
                (''location'', str_fields [(''lng'', lng), (''lat'', lat)]), (''intro'', BString intro),
                (''telephone'', BString telephone), (''face_images'', face), (''eco_images'', eco),
                (''internal_images'', internal)])]) False False
             (ret APIE_OK))))))))))))))))))))))"

definition seller_Seller_Delete :: "'db lib \<Rightarrow> json \<Rightarrow> 'db prog" where
  "seller_Seller_Delete L content =
     str_of L content ''role'' (\<lambda>role.
     str_of L content ''seller_id'' (\<lambda>seller_id.
     if role = [] \<or> seller_id = [] then ret APIE_INVALID_CLIENT_REQ
     else if role \<noteq> ''seller'' then ret APIE_INVALID_CLIENT_REQ
     else try_db (
       connect L (
       query L DB_SELLER (str_fields [(''seller_id'', seller_id)]) (\<lambda>cursor.
       if cursor \<noteq> [] then remove_from L DB_SELLER (str_fields [(''seller_id'', seller_id)]) (ret APIE_OK)
       else ret APIE_SELLER_NO_EXIST)))))"

section \<open>user/seller\<close>

text \<open>\<^verbatim>\<open>Json::Value::append\<close> returns the value it has appended: only the internal images are shown.\<close>

definition getSellerDetailInfo :: "'db lib \<Rightarrow> json \<Rightarrow> 'db prog" where
  "getSellerDetailInfo L content =
     str_of L content ''seller_id'' (\<lambda>seller_id.
     str_of L content ''role'' (\<lambda>role.
     if role \<noteq> ''user'' \<or> seller_id = [] then ret APIE_INVALID_CLIENT_REQ
     else try_db (
       connect L (
       query L DB_SELLER (str_fields [(''seller_id'', seller_id)]) (\<lambda>cursor.
       case cursor of
         [] \<Rightarrow> ret APIE_SELLER_NO_EXIST
       | p # _ \<Rightarrow>
           out_puts L (str_members L
             [(''seller_id'', ''seller_id''), (''name'', ''name''), (''uuid'', ''uuid''), (''telephone'', ''telephone''),
              (''address'', ''addr''), (''intro'', ''intro'')] p)
           (val_or OtherException (getImageNamesFromBson L p ''face_images'') (\<lambda>images.
            val_or OtherException (getImageNamesFromBson L p ''internal_images'') (\<lambda>internal.
            val_or OtherException (js_append L images internal) (\<lambda>_.
            out_put L ''images'' internal
            (query L DB_STORE (str_fields [(''seller_id'', seller_id)]) (\<lambda>com_cursor.
             val_or OtherException
               (Option.bind (those (map (rated_info L
                  [(''seller_id'', ''seller_id''), (''commod_id'', ''commod_id''), (''name'', ''name''), (''desc'', ''desc''),
                   (''price'', ''price''), (''brand'', ''brand'')]) com_cursor)) (js_list L)) (\<lambda>commodities.
             out_put L ''commodities'' commodities
             (val_or DBException (seller_offers L ''activities'' [p]) (\<lambda>found.
              val_or OtherException
                (doc_infos L [(''seller_id'', ''seller_id''), (''activity_id'', ''activity_id''), (''url'', ''url''), (''title'', ''title''),
                   (''desc'', ''desc''), (''start_date'', ''start_date''), (''end_date'', ''end_date'')] found) (\<lambda>activities.
              out_put L ''activities'' activities
              (val_or DBException (seller_offers L ''services'' [p]) (\<lambda>found.
               val_or OtherException
                 (Option.bind (those (map (\<lambda>d. js_build L (str_members L
                    [(''seller_id'', ''seller_id''), (''service_id'', ''service_id''), (''url'', ''url''), (''title'', ''title''),
                     (''desc'', ''desc''), (''type'', ''type''), (''price'', ''price'')] d)) found)) (js_list L)) (\<lambda>services.
               out_puts L [(''services'', services), (''deals'', JInt 0)] (ret APIE_OK)))))))))))))))))))"

definition getSellerInfo :: "'db lib \<Rightarrow> json \<Rightarrow> 'db prog" where
  "getSellerInfo L content =
     str_of L content ''seller_id'' (\<lambda>seller_id.
     if seller_id = [] then ret APIE_INVALID_CLIENT_REQ
     else try_db (
       connect L (
       query L DB_SELLER (str_fields [(''seller_id'', seller_id)]) (\<lambda>cursor.
       case cursor of
         [] \<Rightarrow> ret APIE_SELLER_NO_EXIST
       | p # _ \<Rightarrow>
           out_puts L (str_members L
             [(''seller_id'', ''seller_id''), (''name'', ''name''), (''telephone'', ''telephone''), (''address'', ''addr''),
              (''intro'', ''intro''), (''rate'', ''rate'')] p)
           (val_or OtherException (getImageNamesFromBson L p ''images'') (\<lambda>images.
            out_put L ''images'' images
            (let loc = bs_getObjectField L p ''location'' in
             coordinate L loc 0 (\<lambda>loc_lat. out_put L ''lat'' (JReal loc_lat)
             (coordinate L loc 1 (\<lambda>loc_lng. out_put L ''lng'' (JReal loc_lng)
             (member_of L content ''location'' (\<lambda>location.
              if \<not> js_empty L location then
                double_of L location ''lat'' (\<lambda>lat.
                double_of L location ''lng'' (\<lambda>lng.
                out_put L ''distance'' (JReal (get_distance L lat lng loc_lat loc_lng)) (ret APIE_OK)))
              else ret APIE_OK))))))))))))"

definition user_Seller_Get :: "'db lib \<Rightarrow> json \<Rightarrow> 'db prog" where
  "user_Seller_Get L content =
     str_of L content ''detail'' (\<lambda>detail.
     if detail = [] then getSellerInfo L content else getSellerDetailInfo L content)"

section \<open>user/seller-list\<close>

text \<open>The condition on the place; \<^verbatim>\<open>int distance\<close> is read as an unsigned number.\<close>

definition near :: "double \<Rightarrow> double \<Rightarrow> int \<Rightarrow> bson" where
  "near lng lat distance =
     BObj [(''$near'', BObj [(''$geometry'', BObj [(''type'', BString ''Point''), (''coordinates'', BArray [BDouble lng, BDouble lat])]),
       (''$maxDistance'', BInt distance)])]"

text \<open>\<^verbatim>\<open>Query::sort\<close> wraps the condition.\<close>

definition sorted_query :: "string \<Rightarrow> bson \<Rightarrow> bson" where
  "sorted_query sort_type q =
     BObj [(''query'', q), (''orderby'', BObj [(''price'', BInt (if sort_type = ''priceL2H'' then 1 else - 1))])]"

definition createQueryConditionForService :: "'db lib \<Rightarrow> json \<Rightarrow> string \<Rightarrow> (bson \<Rightarrow> 'db prog) \<Rightarrow> 'db prog" where
  "createQueryConditionForService L content service k =
     str_of L content ''city'' (\<lambda>city.
     double_of L content ''lng'' (\<lambda>lng.
     double_of L content ''lat'' (\<lambda>lat.
     member_of L content ''condition'' (\<lambda>condition.
     member_of L condition ''distance'' (\<lambda>v. val_or OtherException (js_asUInt L v) (\<lambda>n.
     str_of L condition ''seller_type'' (\<lambda>seller_type.
     str_of L condition ''sort_type'' (\<lambda>sort_type.
     let q = [(''city'', BString city), (''location'', near lng lat (to_int32 n)), (''services.type'', BString service)] in
     k (sorted_query sort_type
       (if sort_type = ''distance'' then
          (if seller_type = ''all'' then BObj q else BObj (q @ [(''seller_type'', BString seller_type)]))
        else
          (if seller_type = ''all'' then BObj q else BObj (q @ [(''seller_type'', BString seller_type)]))))))))))))"

definition createQueryConditionForAllActivity :: "'db lib \<Rightarrow> json \<Rightarrow> (bson \<Rightarrow> 'db prog) \<Rightarrow> 'db prog" where
  "createQueryConditionForAllActivity L content k =
     str_of L content ''city'' (\<lambda>city.
     double_of L content ''lng'' (\<lambda>lng.
     double_of L content ''lat'' (\<lambda>lat.
     member_of L content ''condition'' (\<lambda>condition.
     member_of L condition ''distance'' (\<lambda>v. val_or OtherException (js_asUInt L v) (\<lambda>n.
     str_of L condition ''seller_type'' (\<lambda>seller_type.
     str_of L condition ''sort_type'' (\<lambda>sort_type.
     let loc = (''location'', near lng lat (to_int32 n)) in
     k (sorted_query sort_type
       (if sort_type = ''distance'' then
          (if seller_type = ''all'' then BObj [(''city'', BString city), loc]
           else BObj [(''city'', BString city), (''seller_type'', BString seller_type), loc])
        else
          (if seller_type = ''all'' then BObj [(''city'', BString city), loc]
           else BObj [(''city'', BString city), (''seller_type'', BString seller_type), loc])))))))))))"

text \<open>An entry of the list; \<open>extra\<close> are the services or activities.\<close>

definition seller_entry :: "'db lib \<Rightarrow> double \<Rightarrow> double \<Rightarrow> bson \<Rightarrow> (string \<times> json) list \<Rightarrow> (json \<Rightarrow> 'db prog) \<Rightarrow> 'db prog" where
  "seller_entry L lat lng obj extra k =
     val_or OtherException (getImageNamesFromBson L obj ''images'') (\<lambda>images.
     let location = bs_getObjectField L obj ''location'' in
     coordinate L location 0 (\<lambda>lat2.
     coordinate L location 1 (\<lambda>lng2.
     val_or OtherException (js_build L [(''lat'', JReal lat2), (''lng'', JReal lng2)]) (\<lambda>loc.
     val_or OtherException
       (js_build L (str_members L [(''seller_id'', ''seller_id''), (''type'', ''seller_type''), (''name'', ''name''),
            (''telephone'', ''telephone''), (''address'', ''addr''), (''intro'', ''intro'')] obj @
          [(''images'', images), (''rate'', JString ''100%''), (''location'', loc),
           (''distance'', JReal (get_distance L lat lng lat2 lng2))] @ extra)) k))))"

definition getSellerListForService :: "'db lib \<Rightarrow> json \<Rightarrow> 'db prog" where
  "getSellerListForService L content =
     str_of L content ''role'' (\<lambda>role.
     str_of L content ''city'' (\<lambda>city.
     str_of L content ''type'' (\<lambda>serviceType.
     int_of L content ''offset'' (\<lambda>offset.
     int_of L content ''number'' (\<lambda>number.
     double_of L content ''lng'' (\<lambda>lng.
     double_of L content ''lat'' (\<lambda>lat.
     if role = [] \<or> city = [] then ret APIE_INVALID_CLIENT_REQ
     else if role \<noteq> ''user'' then ret APIE_INVALID_CLIENT_REQ
     else try_db (
       connect L (
       createQueryConditionForService L content serviceType (\<lambda>q.
       query_n L DB_SELLER q number offset (\<lambda>cursor.
       for_each (\<lambda>obj k.
           val_or DBException (objs L (bs_elements L (bs_getObjectField L obj ''services''))) (\<lambda>services.
           val_or OtherException
             (doc_infos L [(''service_id'', ''service_id''), (''title'', ''title''), (''url'', ''url''), (''desc'', ''desc''),
                (''price'', ''price''), (''type'', ''type'')]
                (filter (\<lambda>s. serviceType = bs_getStringField L s ''type'') services)) (\<lambda>serviceList.
           seller_entry L lat lng obj [(''services'', serviceList)] k))) cursor [] (\<lambda>sellers.
       val_or OtherException (js_list L sellers) (\<lambda>sellerList.
       out_puts L [(''total'', JInt (int (length cursor))), (''data'', sellerList)] (ret APIE_OK))))))))))))))"

definition activity_info :: "'db lib \<Rightarrow> bson \<Rightarrow> (json \<Rightarrow> 'db prog) \<Rightarrow> 'db prog" where
  "activity_info L e k =
     val_or DBException (bs_Obj L e) (\<lambda>s.
     query L DB_ACTIVITY (str_fields [(''activity_id'', bs_getStringField L s ''activity_id'')]) (\<lambda>pcursor.
     val_or OtherException
       (js_build L (str_members L [(''activity_id'', ''activity_id''), (''title'', ''title''), (''detail'', ''detail''),
            (''start_date'', ''start_date''), (''end_date'', ''end_date'')] s @
          [(''total_user'', JInt (case pcursor of [] \<Rightarrow> 0 | activity # _ \<Rightarrow> bs_getIntField L activity ''total''))])) k))"

text \<open>A seller counts when the document has activities, and is listed when there is one.\<close>

definition getSellerListForActivity :: "'db lib \<Rightarrow> json \<Rightarrow> 'db prog" where
  "getSellerListForActivity L content =
     str_of L content ''role'' (\<lambda>role.
     str_of L content ''city'' (\<lambda>city.
     int_of L content ''offset'' (\<lambda>offset.
     int_of L content ''number'' (\<lambda>number.
     double_of L content ''lng'' (\<lambda>lng.
     double_of L content ''lat'' (\<lambda>lat.
     if role = [] \<or> city = [] then ret APIE_INVALID_CLIENT_REQ
     else if role \<noteq> ''user'' then ret APIE_INVALID_CLIENT_REQ
     else try_db (
       connect L (
       createQueryConditionForAllActivity L content (\<lambda>q.
       query_n L DB_SELLER q number offset (\<lambda>cursor.
       for_each (\<lambda>obj k.
           if bs_hasField L obj ''activities'' then
             for_each (activity_info L) (bs_elements L (bs_getObjectField L obj ''activities'')) [] (\<lambda>infos.
             val_or OtherException (js_list L infos) (\<lambda>activityList.
             if \<not> js_empty L activityList then
               seller_entry L lat lng obj [(''activities'', activityList)] (\<lambda>seller. k (True, [seller]))
             else k (True, [])))
           else k (False, [])) cursor [] (\<lambda>entries.
       val_or OtherException (js_list L (concat (map snd entries))) (\<lambda>sellerList.
       out_puts L [(''total'', JInt (int (length (filter fst entries)))), (''data'', sellerList)] (ret APIE_OK)))))))))))))"

definition user_SellerList_Get :: "'db lib \<Rightarrow> json \<Rightarrow> 'db prog" where
  "user_SellerList_Get L content =
     str_of L content ''scope'' (\<lambda>scope.
     if scope = ''service'' then getSellerListForService L content else getSellerListForActivity L content)"

section \<open>user/profile and the recommendations\<close>

definition user_Profile_Get :: "'db lib \<Rightarrow> json \<Rightarrow> 'db prog" where
  "user_Profile_Get L content =
     str_of L content ''user_id'' (\<lambda>user_id.
     str_of L content ''role'' (\<lambda>role.
     if user_id = [] then ret APIE_INVALID_CLIENT_REQ
     else if role \<noteq> ''user'' then ret APIE_INVALID_CLIENT_REQ
     else try_db (
       connect L (
       query L DB_SESSION (str_fields [(''role'', role), (''user_id'', user_id)]) (\<lambda>cursor.
       if cursor = [] then ret APIE_INVALID_CLIENT_REQ
       else query L DB_USR (str_fields [(''user_id'', user_id)]) (\<lambda>cursor.
         case cursor of
           [] \<Rightarrow> ret APIE_OK
         | p # _ \<Rightarrow>
             out_put L ''user_name'' (JString (bs_getStringField L (bs_getObjectField L p ''userinfo'') ''user_name''))
             (val_or OtherException (getImageNamesFromBson L p ''images'') (\<lambda>images.
              out_puts L [(''images'', images), (''credits'', JString ''0''), (''coupons'', JString ''0'')]
              (let cars = bs_getObjectField L p ''cars'' in
               if bs_elements L cars = [] then ret APIE_OK
               else val_or DBException (Option.bind (bs_index L cars 0) (bs_Obj L)) (\<lambda>car_obj.
                 out_puts L [(''insurance'', JString (bs_getStringField L car_obj ''insurance'')),
                    (''insurance_url'', JString ''www.rcar.com'')] (ret APIE_OK)))))))))))"

definition user_Recommendations_Get :: "'db lib \<Rightarrow> json \<Rightarrow> 'db prog" where
  "user_Recommendations_Get L content =
     str_of L content ''role'' (\<lambda>role.
     str_of L content ''city'' (\<lambda>city.
     int_of L content ''offset'' (\<lambda>offset.
     int_of L content ''num'' (\<lambda>num.
     try_db (
       connect L (
       query_n L DB_SELLER (BObj []) num offset (\<lambda>cursor.
       for_each (\<lambda>obj k.
           val_or OtherException (getImageNamesFromBson L obj ''face_images'') (\<lambda>images.
           val_or OtherException
             (js_build L ([(''type'', JString ''seller'')] @
                str_members L [(''seller_id'', ''seller_id''), (''name'', ''name''), (''intro'', ''intro''), (''addr'', ''address'')] obj @
                [(''images'', images)])) k)) (take (nat num) cursor) [] (\<lambda>recs.
       val_or OtherException (js_list L recs) (\<lambda>objs.
       out_puts L [(''total'', JInt (int (length recs))), (''data'', objs)] (ret APIE_OK))))))))))"

definition seller_Recommendations_Get :: "'db lib \<Rightarrow> json \<Rightarrow> 'db prog" where
  "seller_Recommendations_Get L content =
     str_of L content ''role'' (\<lambda>role.
     str_of L content ''seller_id'' (\<lambda>seller_id.
     int_of L content ''page'' (\<lambda>page.
     int_of L content ''page_size'' (\<lambda>page_size.
     try_db (
       connect L (
       query L DB_SELLER (BObj []) (\<lambda>seller_cursor.
       for_each (\<lambda>obj.
           val_or OtherException
             (js_build L ([(''type'', JString ''seller'')] @
                str_members L [(''seller_id'', ''seller_id''), (''title'', ''name''), (''summary'', ''introduction''),
                  (''image'', ''image''), (''date'', ''addr'')] obj))) (take (nat page_size) seller_cursor) [] (\<lambda>recs.
       val_or OtherException (js_list L recs) (\<lambda>objs.
       out_puts L [(''total'', JInt (int (length recs))), (''data'', objs)] (ret APIE_OK))))))))))"

section \<open>Registering\<close>

lemma on_ok_images_of:
  assumes "\<And>names w'. w_db w' = db \<Longrightarrow> on_ok (k (BArray (map BString names))) X w'" "w_db w = db"
  shows "on_ok (images_of L content key k) X w"
  unfolding images_of_def getImageNames_def on_ok_def wp_member_of wp_val_or
  by (auto simp: assms [unfolded on_ok_def] intro!: wp_getImageNames_loop split: option.split)

lemma on_ok_out_images: "(\<And>w'. w_db w' = w_db w \<Longrightarrow> on_ok k X w') \<Longrightarrow> on_ok (out_images L key names k) X w"
  by (simp add: out_images_def ok_simps)

lemma on_ok_new_service: "(\<And>y w'. w_db w' = w_db w \<Longrightarrow> on_ok (k y) X w') \<Longrightarrow> on_ok (new_service L service k) X w"
  by (simp add: new_service_def ok_simps)

definition registered :: "('db \<Rightarrow> string \<Rightarrow> bson list) \<Rightarrow> string \<Rightarrow> string \<Rightarrow> 'db \<Rightarrow> bool" where
  "registered docs s pwd db \<longleftrightarrow> (\<exists>acc. the_seller docs db s = Some acc \<and> string_field acc ''pwd'' = pwd)"

text \<open>The three documents a registration inserts.\<close>

lemma registered_inserts:
  assumes "mongo_ok L docs" "db_query L db DB_SELLER (str_fields [(''seller_id'', s)]) = Some []"
    and "db_insert L db DB_SELLER d = Some db1" "db_insert L db1 DB_MSG d1 = Some db2" "db_insert L db2 DB_USRMNG d2 = Some db3"
    and "bfield d ''seller_id'' = Some (BString s)" "bfield d ''pwd'' = Some (BString pwd)"
  shows "registered docs s pwd db3"
proof -
  obtain i1 i2 i3 where "docs db1 = (docs db)(DB_SELLER := docs db DB_SELLER @ [with_id i1 d])"
    "docs db2 = (docs db1)(DB_MSG := docs db1 DB_MSG @ [with_id i2 d1])" "docs db3 = (docs db2)(DB_USRMNG := docs db2 DB_USRMNG @ [with_id i3 d2])"
    using mongo_insert [OF assms(1)] assms(3-5) by metis
  then have *: "docs db3 DB_SELLER = docs db DB_SELLER @ [with_id i1 d]" by (simp add: db_names)
  have "filter (matches [(''seller_id'', s)]) (docs db DB_SELLER) = []"
    using mongo_query [OF assms(1), of db DB_SELLER "[(''seller_id'', s)]" "[]"] assms(2) by simp
  then have "the_seller docs db3 s = Some (with_id i1 d)"
    using assms(6) unfolding lookup_def * by (auto simp: find_filter matches_def filter_empty_conv split: list.splits)
  with assms(7) show ?thesis by (simp add: registered_def string_field_def)
qed

lemma register_tail:
  assumes "mongo_ok L docs" "db_query L db DB_SELLER (BObj [(''seller_id'', BString s)]) = Some []" "w_db w = db"
    and "\<And>face eco internal. bfield (d face eco internal) ''seller_id'' = Some (BString s) \<and>
      bfield (d face eco internal) ''pwd'' = Some (BString pwd)"
  shows "on_ok (images_of L content ''face_images'' (\<lambda>face. images_of L content ''eco_images'' (\<lambda>eco.
      images_of L content ''internal_images'' (\<lambda>internal.
      out_images L ''face_images'' face (out_images L ''internal_images'' internal (out_images L ''eco_images'' eco
      (insert_into L DB_SELLER (d face eco internal) (insert_into L DB_MSG d1 (insert_into L DB_USRMNG d2 (ret APIE_OK))))))))))
    (\<lambda>w'. registered docs s pwd (w_db w')) w"
  using assms(2,3) registered_inserts [OF assms(1), of db s] assms(4)
  by (auto simp: ok_simps intro!: on_ok_images_of [where db = db] on_ok_out_images)

lemma seller_registered:
  assumes "json_ok L" "mongo_ok L docs" "arg kvs ''mobile'' = s" "arg kvs ''check'' = []" "arg kvs ''pwd'' = pwd"
    and "seller_Seller_Post L (req kvs) w = (Ret APIE_OK, w')"
  shows "registered docs s pwd (w_db w')"
proof -
  have "on_ok (seller_Seller_Post L (req kvs)) (\<lambda>w'. registered docs s pwd (w_db w')) w"
    unfolding seller_Seller_Post_def str_of_req [OF assms(1)] assms(3-5)
    by (auto simp: ok_simps apie_ne intro!: on_ok_for_each [where db = "w_db w"] on_ok_new_service register_tail [OF assms(2), where db = "w_db w"])
  then show ?thesis using assms(6) by (rule on_okD)
qed


section \<open>Services of a registered seller\<close>

definition no_role :: "bson \<Rightarrow> bool" where
  "no_role d \<longleftrightarrow> bfield d ''role'' = None"

lemma update_first_append:
  assumes "\<forall>x \<in> set xs. \<not> P x" "P y"
  shows "update_first P f (xs @ [y]) = xs @ [f y]"
  using assms by (induction xs) auto

lemma push_missing: "bfield x k = None \<Longrightarrow> apply_ops Push_op [(k, d)] x = set_field k (BArray [d]) x"
  by (simp add: apply_ops_def)

lemma matches_set_other: "k \<notin> fst ` set q \<Longrightarrow> matches q (set_field k v x) = matches q x"
  unfolding matches_def by (intro ball_cong refl) (force simp: image_iff)

lemma upsert_then_push:
  assumes "mongo_ok L docs" "all_docs docs DB_SELLER no_role db"
    and "db_update L db DB_SELLER (str_fields [(''role'', r), (''seller_id'', s)]) (BObj [(''$pull'', BObj [(''services'', p)])]) True False = Some db1"
    and "db_update L db1 DB_SELLER (str_fields [(''role'', r), (''seller_id'', s)]) (BObj [(''$push'', BObj [(''services'', d)])]) True False = Some db2"
  shows "\<exists>fork. docs db2 DB_SELLER = docs db DB_SELLER @ [fork] \<and> matches [(''role'', r), (''seller_id'', s)] fork \<and>
     bfield fork ''services'' = Some (BArray [d])"
proof -
  let ?q = "[(''role'', r), (''seller_id'', s)]"
  have none: "\<forall>x \<in> set (docs db DB_SELLER). \<not> matches ?q x"
    using assms(2) by (auto simp: all_docs_def no_role_def matches_def)
  then have "\<not> (\<exists>x \<in> set (docs db DB_SELLER). matches ?q x)" by blast
  from mongo_upsert [OF assms(1) assms(3) [folded op_doc.simps] this]
  obtain i where "docs db1 = (docs db)(DB_SELLER := docs db DB_SELLER @ [with_id i (apply_ops Pull_op [(''services'', p)] (str_fields ?q))])" by auto
  then have db1: "docs db1 DB_SELLER = docs db DB_SELLER @ [with_id i (apply_ops Pull_op [(''services'', p)] (str_fields ?q))]"
    by (simp only: fun_upd_same)
  let ?d = "with_id i (str_fields ?q)"
  have d: "matches ?q ?d" "bfield ?d ''services'' = None" by (simp_all add: matches_def)
  from db1 have new1: "docs db1 DB_SELLER = docs db DB_SELLER @ [?d]" by (simp add: apply_ops_def)
  then have "\<exists>x \<in> set (docs db1 DB_SELLER). matches ?q x" using d(1) by simp
  from mongo_push [OF assms(1,4) disjI1 [OF this]]
  have "docs db2 DB_SELLER = update_first (matches ?q) (apply_ops Push_op [(''services'', d)]) (docs db1 DB_SELLER)"
    by simp
  also have "\<dots> = docs db DB_SELLER @ [apply_ops Push_op [(''services'', d)] ?d]"
    using none d(1) unfolding new1 by (rule update_first_append [where P = "matches ?q"])
  also have "apply_ops Push_op [(''services'', d)] ?d = set_field ''services'' (BArray [d]) ?d"
    using d(2) by (rule push_missing)
  finally have "docs db2 DB_SELLER = docs db DB_SELLER @ [set_field ''services'' (BArray [d]) ?d]" .
  moreover have "matches ?q (set_field ''services'' (BArray [d]) ?d)" using d(1) by (subst matches_set_other) simp_all
  moreover have "bfield (set_field ''services'' (BArray [d]) ?d) ''services'' = Some (BArray [d])"
    by (rule bfield_set_same [of _ "''role''" "BString r"]) (use d(1) in \<open>simp add: matches_def\<close>)
  ultimately show ?thesis by blast
qed

text \<open>
  Editing a service does not edit it. The update looks for a seller with a field \<^verbatim>\<open>role\<close>, which no
  registration writes, and is an upsert: it creates a second document of the same seller that only
  holds the service, and what the seller offers stays as it was.
\<close>

theorem service_put_forks:
  assumes "json_ok L" "mongo_ok L docs" "all_docs docs DB_SELLER no_role (w_db w)" "arg kvs ''seller_id'' = s"
    and "seller_Service_Put L (req kvs) w = (Ret APIE_OK, w')"
  shows "\<exists>fork. docs (w_db w') DB_SELLER = docs (w_db w) DB_SELLER @ [fork] \<and> matches [(''seller_id'', s)] fork \<and>
     offers docs (w_db w') s ''services'' = offers docs (w_db w) s ''services''"
proof -
  let ?X = "\<lambda>db'. \<exists>fork. docs db' DB_SELLER = docs (w_db w) DB_SELLER @ [fork] \<and> matches [(''seller_id'', s)] fork \<and>
     offers docs db' s ''services'' = offers docs (w_db w) s ''services''"
  have fork: "?X db2" if 0: "db_query L (w_db w) DB_SELLER (str_fields [(''seller_id'', s)]) = Some ds" "ds \<noteq> []"
      and 1: "db_update L (w_db w) DB_SELLER (str_fields [(''role'', ''seller''), (''seller_id'', s)])
        (BObj [(''$pull'', BObj [(''services'', p)])]) True False = Some db1"
      and 2: "db_update L db1 DB_SELLER (str_fields [(''role'', ''seller''), (''seller_id'', s)])
        (BObj [(''$push'', BObj [(''services'', d)])]) True False = Some db2" for ds p d db1 db2
  proof -
    obtain x where x: "the_seller docs (w_db w) s = Some x" using lookup_query [OF assms(2) 0(1)] 0(2) by (cases ds) auto
    from upsert_then_push [OF assms(2,3) 1 2] obtain fork where f: "docs db2 DB_SELLER = docs (w_db w) DB_SELLER @ [fork]"
      "matches [(''seller_id'', s)] fork" by (auto simp: matches_def)
    have "List.find P (xs @ [y]) = Some z" if "List.find P xs = Some z" for P and xs :: "bson list" and y z
      using that by (induction xs) (auto split: if_splits)
    with x f(1) have "the_seller docs db2 s = Some x" by (simp add: lookup_def)
    with x f show ?thesis by (auto simp: offers_def)
  qed
  have "on_ok (seller_Service_Put L (req kvs)) (\<lambda>w'. ?X (w_db w')) w"
    unfolding seller_Service_Put_def using assms(1)
    by (auto simp: assms(4) ok_simps apie_ne intro!: on_ok_new_images fork [simplified])
  then show ?thesis using assms(5) by (rule on_okD)
qed

section \<open>The location of a seller\<close>

text \<open>The location is an object of strings; the readers want an array of doubles.\<close>

definition text_location :: "('db \<Rightarrow> string \<Rightarrow> bson list) \<Rightarrow> string \<Rightarrow> 'db \<Rightarrow> bool" where
  "text_location docs s db \<longleftrightarrow> (\<exists>d lng lat. the_seller docs db s = Some d \<and>
     bfield d ''location'' = Some (str_fields [(''lng'', lng), (''lat'', lat)]))"

lemma text_location_set:
  assumes "mongo_ok L docs" "db_query L db DB_SELLER (str_fields [(''seller_id'', s)]) = Some (d # ds)"
    and "db_update L db DB_SELLER (str_fields [(''seller_id'', s)]) (BObj [(''$set'', BObj kvs)]) False False = Some db'"
    and "distinct (map fst kvs)" "(''location'', str_fields [(''lng'', lng), (''lat'', lat)]) \<in> set kvs" "''seller_id'' \<notin> fst ` set kvs" "plain_keys kvs"
  shows "text_location docs s db'"
proof -
  have d: "the_seller docs db s = Some d" using lookup_query [OF assms(1,2)] by simp
  have "the_seller docs db' s = Some (apply_ops Set_op kvs d)"
    by (rule lookup_update [OF d assms(6)]) (use mongo_set [OF assms(1,3)] assms(7) in simp)
  moreover obtain x where x: "bfield d ''seller_id'' = Some x" using lookup_isobj [OF d] ..
  have "bfield (apply_ops Set_op kvs d) ''location'' = Some (str_fields [(''lng'', lng), (''lat'', lat)])"
    by (rule bfield_apply_set [OF x assms(4,5)])
  ultimately show ?thesis unfolding text_location_def by blast
qed

lemma seller_put_location:
  assumes "json_ok L" "mongo_ok L docs" "arg kvs ''seller_id'' = s" "seller_Seller_Put L (req kvs) w = (Ret APIE_OK, w')"
  shows "text_location docs s (w_db w')"
proof -
  have "on_ok (seller_Seller_Put L (req kvs)) (\<lambda>w'. text_location docs s (w_db w')) w"
    unfolding seller_Seller_Put_def using assms(1)
    by (auto simp: assms(3) ok_simps apie_ne removeImages_def intro!: on_ok_images_of [where db = "w_db w"] on_ok_out_images
        elim!: text_location_set [OF assms(2), simplified])
  then show ?thesis using assms(4) by (rule on_okD)
qed

lemma images_total: "json_ok L \<Longrightarrow> getImageNamesFromBson L d k = None \<Longrightarrow> False"
  by (simp add: getImageNamesFromBson_def js_array_all)

text \<open>
  Editing the account breaks it for readers: the location is stored as an object of strings, while
  the profile of the seller reads two doubles of an array, so from then on every request for the
  profile is answered with an internal error.
\<close>

theorem seller_put_breaks_profile:
  assumes "json_ok L" "bson_ok L" "mongo_ok L docs" "arg kvs ''seller_id'' = s" "s \<noteq> []"
    and "seller_Seller_Put L (req kvs) w = (Ret APIE_OK, w')" "arg ask ''seller_id'' = s"
  shows "fst (seller_Seller_Get L (req ask) (w'\<lparr>w_out := JNull\<rparr>)) = Ret APIE_SERVER_INTERNAL"
proof -
  obtain d lng lat where d: "the_seller docs (w_db w') s = Some d" "bfield d ''location'' = Some (str_fields [(''lng'', lng), (''lat'', lat)])"
    using seller_put_location [OF assms(1,3,4,6)] unfolding text_location_def by blast
  have found: "\<exists>ds'. ds = d # ds'" if "db_query L (w_db w') DB_SELLER (str_fields [(''seller_id'', s)]) = Some ds" for ds
    using lookup_query [OF assms(3) that] d(1) by (auto split: list.splits)
  have loc: "bs_index L (bs_getObjectField L d ''location'') 0 = None" using assms(2) d(2) by simp
  have "wp (seller_Seller_Get L (req ask)) (\<lambda>r w''. r = Ret APIE_SERVER_INTERNAL) (w'\<lparr>w_out := JNull\<rparr>)"
    unfolding seller_Seller_Get_def str_of_req [OF assms(1)] assms(7)
    using assms(5)
    by (auto simp: wp_simps coordinate_def Let_def loc str_members_def json_ok_null [OF assms(1)] split: option.split list.split dest!: found [simplified] dest: images_total [OF assms(1)])
  then show ?thesis by (simp add: wp_def split: prod.splits)
qed

section \<open>Witnesses of this theory\<close>

definition shop_account :: "(string \<times> string) list" where
  "shop_account = [(''role'', ''seller''), (''mobile'', ''s2''), (''id'', ''s2''), (''pwd'', ''pw''), (''shop_name'', ''repair'')]"

definition shop_edit :: "(string \<times> string) list" where
  "shop_edit = [(''role'', ''seller''), (''seller_id'', ''s1''), (''service_id'', ''v1''), (''title'', ''polish''), (''desc'', ''d''),
     (''url'', ''u''), (''type'', ''car_clean''), (''name'', ''n'')]"

lemma shop_runs:
  "fst (seller_Seller_Post mem_lib (req shop_account) shop_world) = Ret APIE_OK"
  "fst (seller_Service_Put mem_lib (req shop_edit) shop_world) = Ret APIE_OK"
  "fst (seller_Seller_Put mem_lib (req shop_edit) shop_world) = Ret APIE_OK"
  by code_simp+


theorem service_put_forks_witness:
  "offers mem_get (w_db (snd (seller_Service_Put mem_lib (req shop_edit) shop_world))) ''s1'' ''services'' =
     offers mem_get (w_db shop_world) ''s1'' ''services''"
proof -
  have "all_docs mem_get DB_SELLER no_role (w_db shop_world)"
    by (simp add: all_docs_def no_role_def shop_world_def mem_world_def shop_def)
  moreover have "arg shop_edit ''seller_id'' = ''s1''" by (simp add: arg_def shop_edit_def)
  ultimately show ?thesis
    using service_put_forks [OF json_ok_mem mongo_ok_mem _ _ run_ok [OF shop_runs(2)]] by blast
qed

theorem seller_put_breaks_profile_witness:
  "fst (seller_Seller_Get mem_lib (req shop_edit) ((snd (seller_Seller_Put mem_lib (req shop_edit) shop_world))\<lparr>w_out := JNull\<rparr>))
     = Ret APIE_SERVER_INTERNAL"
  by (rule seller_put_breaks_profile [OF json_ok_mem bson_ok_mem mongo_ok_mem _ _ run_ok [OF shop_runs(3)], of "''s1''"])
    (simp_all add: arg_def shop_edit_def)

section \<open>Frame\<close>

text \<open>The requests of this theory write no collections but the account of a seller, the messages and the customers.\<close>

lemma keeps_coordinate [keeps_rules]: "(\<And>x. keeps P (k x)) \<Longrightarrow> keeps P (coordinate L loc i k)"
  unfolding coordinate_def by (intro keeps_rules)

lemma keeps_group_user: "(\<And>x. keeps P (k x)) \<Longrightarrow> keeps P (group_user L i k)"
  unfolding group_user_def by (intro keeps_rules)

lemma keeps_group_info [keeps_rules]: "(\<And>x. keeps P (k x)) \<Longrightarrow> keeps P (group_info L e k)"
  unfolding group_info_def by (intro keeps_rules keeps_group_user)

lemma keeps_parts [keeps_rules]:
  fixes kb :: "bson \<Rightarrow> 'db prog" and kj :: "json \<Rightarrow> 'db prog"
  shows "(\<And>x. keeps P (kb x)) \<Longrightarrow> keeps P (new_service L service kb)"
  "(\<And>x. keeps P (kb x)) \<Longrightarrow> keeps P (images_of L content key kb)"
  "(\<And>x. keeps P (kj x)) \<Longrightarrow> keeps P (seller_entry L lat lng obj extra kj)"
  "(\<And>x. keeps P (kj x)) \<Longrightarrow> keeps P (activity_info L e kj)"
  "(\<And>x. keeps P (kb x)) \<Longrightarrow> keeps P (createQueryConditionForService L content s kb)"
  "(\<And>x. keeps P (kb x)) \<Longrightarrow> keeps P (createQueryConditionForAllActivity L content kb)"
  unfolding new_service_def images_of_def seller_entry_def activity_info_def createQueryConditionForService_def
    createQueryConditionForAllActivity_def
  by (intro keeps_rules; assumption)+

lemma keeps_out [keeps_rules]:
  "keeps P p \<Longrightarrow> keeps P (out_offers L key fs d p)" "keeps P p \<Longrightarrow> keeps P (out_images L key names p)"
  "keeps P p \<Longrightarrow> keeps P (removeImages d key p)"
  unfolding out_offers_def out_images_def removeImages_def by (intro keeps_rules; assumption)+

definition seller_handlers :: "('db lib \<Rightarrow> json \<Rightarrow> 'db prog) list" where
  "seller_handlers = [seller_Seller_Get, seller_Seller_Post, seller_Seller_Put, seller_Seller_Delete, user_Seller_Get,
     user_SellerList_Get, user_Profile_Get, user_Recommendations_Get, seller_Recommendations_Get]"

lemmas seller_defs = seller_Seller_Get_def seller_Seller_Post_def seller_Seller_Put_def seller_Seller_Delete_def
  user_Seller_Get_def user_SellerList_Get_def user_Profile_Get_def user_Recommendations_Get_def seller_Recommendations_Get_def
  getSellerDetailInfo_def getSellerInfo_def getSellerListForService_def getSellerListForActivity_def

lemma seller_untouched:
  assumes "mongo_ok L docs" "h \<in> set seller_handlers" "c \<notin> {DB_SELLER, DB_MSG, DB_USRMNG}"
  shows "keeps (content_is docs c X) (h L content)"
proof -
  have ne: "DB_SELLER \<noteq> c" "DB_MSG \<noteq> c" "DB_USRMNG \<noteq> c" using assms(3) by auto
  have "\<forall>h \<in> set seller_handlers. keeps (content_is docs c X) (h L content)"
    unfolding seller_handlers_def list.set ball_simps seller_defs
    by (intro conjI TrueI keeps_rules same_insert [OF assms(1)] same_update [OF assms(1)] same_remove [OF assms(1)]; simp add: ne)
  with assms(2) show ?thesis by blast
qed

end
