(* ===== verification/Customer_Api.thy ===== *)
theory Customer_Api
  imports Seller_Api
begin

text \<open>
  The customers of a seller: \<^verbatim>\<open>uri/seller/user.cpp\<close>, \<^verbatim>\<open>uri/seller/user-group.cpp\<close> and
  \<^verbatim>\<open>uri/seller/user-list.cpp\<close>. A seller has one document in the collection \<^verbatim>\<open>rcar-user.usermng\<close>: the
  array \<^verbatim>\<open>users\<close> describes the customers and their cars, the array \<^verbatim>\<open>groups\<close> has the groups, each with
  the identifiers of its users. The properties say what adding a customer does to the groups, which
  requests never succeed, and what becomes of a new group.
\<close>

section \<open>seller/user\<close>

text \<open>The first object of an array with a string in a field.\<close>

fun find_by :: "'db lib \<Rightarrow> string \<Rightarrow> string \<Rightarrow> bson list \<Rightarrow> bson option option" where
  "find_by L key v [] = Some None"
| "find_by L key v (e # es) = do {
     obj \<leftarrow> bs_Obj L e;
     if bs_getStringField L obj key = v then Some (Some obj) else find_by L key v es
   }"

definition seller_User_Get :: "'db lib \<Rightarrow> json \<Rightarrow> 'db prog" where
  "seller_User_Get L val =
     str_of L val ''role'' (\<lambda>role.
     str_of L val ''seller_id'' (\<lambda>seller_id.
     str_of L val ''user_id'' (\<lambda>user_id.
     if role \<noteq> ''seller'' then ret APIE_INVALID_CLIENT_REQ
     else if role = [] \<or> seller_id = [] \<or> user_id = [] then ret APIE_INVALID_CLIENT_REQ
     else try_db (
       connect L (
       query L DB_SELLER (str_fields [(''seller_id'', seller_id)]) (\<lambda>cursor.
       if cursor = [] then ret APIE_SELLER_NO_EXIST
       else query L DB_USRMNG (str_fields [(''seller_id'', seller_id)]) (\<lambda>cursor.
         case cursor of
           [] \<Rightarrow> ret APIE_USER_NO_EXIST
         | seller # _ \<Rightarrow>
             if bs_hasField L seller ''users'' then
               val_or DBException (find_by L ''user_id'' user_id (bs_elements L (bs_getObjectField L seller ''users''))) (\<lambda>found.
               case found of
                 None \<Rightarrow> ret APIE_OK
               | Some user \<Rightarrow>
                   out_puts L ((''user_id'', JString user_id) # str_members L
                     [(''name'', ''user_name''), (''car_kind'', ''car_kind''), (''car_type'', ''car_type''), (''car_no'', ''car_no''),
                      (''car_miles'', ''car_miles''), (''memo'', ''memo'')] user)
                   (val_or OtherException (getImageNamesFromBson L user ''images'') (\<lambda>images.
                    out_put L ''images'' images (ret APIE_OK))))
             else ret APIE_OK)))))))"

definition customer_doc :: "string \<Rightarrow> string \<Rightarrow> string \<Rightarrow> string \<Rightarrow> string \<Rightarrow> string \<Rightarrow> bson" where
  "customer_doc user_id car_kind car_type car_no user_name car_miles =
     str_fields [(''user_id'', user_id), (''car_kind'', car_kind), (''car_type'', car_type), (''car_no'', car_no),
       (''user_name'', user_name), (''car_miles'', car_miles)]"

definition group_doc :: "string \<Rightarrow> string \<Rightarrow> string list \<Rightarrow> bson" where
  "group_doc group_name group_id users =
     BObj [(''group_name'', BString group_name), (''group_id'', BString group_id), (''users'', BArray (map BString users))]"

definition seller_User_Post :: "'db lib \<Rightarrow> json \<Rightarrow> 'db prog" where
  "seller_User_Post L val =
     str_of L val ''role'' (\<lambda>role.
     str_of L val ''seller_id'' (\<lambda>seller_id.
     str_of L val ''group_name'' (\<lambda>group_name.
     str_of L val ''user_id'' (\<lambda>user_id.
     str_of L val ''user_name'' (\<lambda>user_name.
     str_of L val ''car_kind'' (\<lambda>car_kind.
     str_of L val ''car_type'' (\<lambda>car_type.
     str_of L val ''car_no'' (\<lambda>car_no.
     str_of L val ''car_miles'' (\<lambda>car_miles.
     if role \<noteq> ''seller'' then ret APIE_INVALID_CLIENT_REQ
     else if role = [] \<or> seller_id = [] \<or> group_name = [] \<or> user_id = [] then ret APIE_INVALID_CLIENT_REQ
     else try_db (
       connect L (
       query L DB_USR (str_fields [(''user_id'', user_id)]) (\<lambda>cursor.
       if cursor = [] then ret APIE_USER_NO_EXIST
       else
         let user = customer_doc user_id car_kind car_type car_no user_name car_miles in
         query L DB_USRMNG (str_fields [(''seller_id'', seller_id)]) (\<lambda>cursor.
         if cursor = [] then
           gen_oid L (\<lambda>group_id.
           insert_into L DB_USRMNG
             (BObj [(''seller_id'', BString seller_id), (''groups'', BArray [group_doc group_name group_id [user_id]]),
                (''users'', BArray [user])])
             (ret APIE_OK))
         else query L DB_USRMNG (str_fields [(''seller_id'', seller_id), (''groups.group_name'', group_name)]) (\<lambda>cursor.
           if cursor = [] then
             gen_oid L (\<lambda>group_id.
             update L DB_USRMNG (str_fields [(''seller_id'', seller_id)])
               (BObj [(''$push'', BObj [(''users'', user)]),
                  (''$set'', BObj [(''groups'', BArray [group_doc group_name group_id [user_id]])])]) False False
               (ret APIE_OK))
           else update L DB_USRMNG (str_fields [(''seller_id'', seller_id), (''groups.group_name'', group_name)])
                  (BObj [(''$addToSet'', BObj [(''users'', user), (''groups.$.users'', BString user_id)])]) True False
                  (ret APIE_OK)))))))))))))))"

text \<open>
  The search for the old group goes through the fields of every group and takes each as an object; what
  it finds is the new group.
\<close>

fun old_group_items :: "'db lib \<Rightarrow> string \<Rightarrow> string \<Rightarrow> string \<Rightarrow> bson list \<Rightarrow> string option" where
  "old_group_items L user_id group_id old [] = Some old"
| "old_group_items L user_id group_id old (e # es) = do {
     item \<leftarrow> bs_Obj L e;
     if bs_getStringField L item ''user_id'' = user_id then Some group_id else old_group_items L user_id group_id old es
   }"

fun old_group :: "'db lib \<Rightarrow> string \<Rightarrow> string \<Rightarrow> string \<Rightarrow> bson list \<Rightarrow> string option" where
  "old_group L user_id group_id old [] = Some old"
| "old_group L user_id group_id old (e # es) = do {
     pp \<leftarrow> bs_Obj L e;
     old' \<leftarrow> old_group_items L user_id group_id old (bs_elements L pp);
     old_group L user_id group_id old' es
   }"

definition seller_User_Put :: "'db lib \<Rightarrow> json \<Rightarrow> 'db prog" where
  "seller_User_Put L val =
     str_of L val ''role'' (\<lambda>role.
     str_of L val ''seller_id'' (\<lambda>seller_id.
     str_of L val ''group_id'' (\<lambda>group_id.
     str_of L val ''user_id'' (\<lambda>user_id.
     str_of L val ''user_name'' (\<lambda>user_name.
     str_of L val ''car_kind'' (\<lambda>car_kind.
     str_of L val ''car_type'' (\<lambda>car_type.
     str_of L val ''car_no'' (\<lambda>car_no.
     str_of L val ''car_miles'' (\<lambda>car_miles.
     if role \<noteq> ''seller'' then ret APIE_INVALID_CLIENT_REQ
     else if role = [] \<or> seller_id = [] \<or> user_id = [] then ret APIE_INVALID_CLIENT_REQ
     else try_db (
       connect L (
       query L DB_USRMNG (str_fields [(''seller_id'', seller_id), (''users.user_id'', user_id)]) (\<lambda>cursor.
       case cursor of
         [] \<Rightarrow> ret APIE_USER_NO_EXIST
       | seller # _ \<Rightarrow>
           val_or DBException (old_group L user_id group_id [] (bs_elements L (bs_getObjectField L seller ''groups''))) (\<lambda>old.
           update L DB_USRMNG (str_fields [(''seller_id'', seller_id), (''users.user_id'', user_id)])
             (BObj [(''$set'', str_fields [(''users.$.car_kind'', car_kind), (''users.$.car_type'', car_type),
                (''users.$.car_no'', car_no), (''users.$.user_name'', user_name), (''users.$.car_miles'', car_miles)])]) True False
           (if group_id \<noteq> [] \<and> old \<noteq> group_id then
              update L DB_USRMNG (str_fields [(''seller_id'', seller_id), (''groups.group_id'', old)])
                (BObj [(''$pull'', str_fields [(''groups.$.users'', user_id)])]) False False
              (update L DB_USRMNG (str_fields [(''seller_id'', seller_id), (''groups.group_id'', group_id)])
                (BObj [(''$push'', str_fields [(''groups.$.users'', user_id)])]) False False
              (ret APIE_OK))
            else ret APIE_OK))))))))))))))"

definition seller_User_Delete :: "'db lib \<Rightarrow> json \<Rightarrow> 'db prog" where
  "seller_User_Delete L content =
     str_of L content ''role'' (\<lambda>role.
     str_of L content ''seller_id'' (\<lambda>seller_id.
     str_of L content ''user_id'' (\<lambda>user_id.
     if role = [] \<or> seller_id = [] then ret APIE_INVALID_CLIENT_REQ
     else if role \<noteq> ''seller'' then ret APIE_INVALID_CLIENT_REQ
     else try_db (
       connect L (
       query L DB_SELLER (str_fields [(''seller_id'', seller_id)]) (\<lambda>cursor.
       if cursor = [] then ret APIE_SELLER_NO_EXIST
       else update L DB_USRMNG (str_fields [(''seller_id'', seller_id)])
              (BObj [(''$pull'', str_fields [(''users.user_id'', user_id)])]) False False
            (update L DB_USRMNG (str_fields [(''seller_id'', seller_id)])
              (BObj [(''$pull'', str_fields [(''groups.$.users'', user_id)])]) False False
            (ret APIE_OK))))))))"

section \<open>seller/user-group\<close>

text \<open>A new group gets an identifier only if the request has none; the reply has the one of the request.\<close>

definition seller_UserGroup_Post :: "'db lib \<Rightarrow> json \<Rightarrow> 'db prog" where
  "seller_UserGroup_Post L content =
     str_of L content ''role'' (\<lambda>role.
     str_of L content ''seller_id'' (\<lambda>seller_id.
     str_of L content ''group_name'' (\<lambda>group_name.
     str_of L content ''group_id'' (\<lambda>group_id.
     member_of L content ''users'' (\<lambda>users.
     if role = [] \<or> seller_id = [] \<or> group_name = [] then ret APIE_INVALID_CLIENT_REQ
     else if role \<noteq> ''seller'' then ret APIE_INVALID_CLIENT_REQ
     else try_db (
       connect L (
       query L DB_SELLER (str_fields [(''seller_id'', seller_id)]) (\<lambda>cursor.
       if cursor = [] then ret APIE_SELLER_NO_EXIST
       else (if group_id = [] then gen_oid L else (\<lambda>k. k [])) (\<lambda>oid.
         for_each (\<lambda>user. val_or OtherException (js_asString L user)) (js_iterate L users) [] (\<lambda>items.
         let group = BObj ([(''group_name'', BString group_name)] @ (if group_id = [] then [(''group_id'', BString oid)] else []) @
               [(''users'', BArray (map BString items))]) in
         query L DB_USRMNG (str_fields [(''seller_id'', seller_id)]) (\<lambda>cursor.
         if cursor = [] then
           insert_into L DB_USRMNG (BObj [(''seller_id'', BString seller_id), (''groups'', BArray [group])]) (ret APIE_OK)
         else update L DB_USRMNG (str_fields [(''seller_id'', seller_id)]) (BObj [(''$push'', BObj [(''groups'', group)])]) False False
                (out_put L ''group_id'' (JString group_id) (ret APIE_OK)))))))))))))"

definition seller_UserGroup_Put :: "'db lib \<Rightarrow> json \<Rightarrow> 'db prog" where
  "seller_UserGroup_Put L val =
     str_of L val ''role'' (\<lambda>role.
     str_of L val ''seller_id'' (\<lambda>seller_id.
     str_of L val ''group_name'' (\<lambda>group_name.
     str_of L val ''user_id'' (\<lambda>user_id.
     if role \<noteq> ''seller'' then ret APIE_INVALID_CLIENT_REQ
     else if role = [] \<or> seller_id = [] \<or> group_name = [] \<or> user_id = [] then ret APIE_INVALID_CLIENT_REQ
     else try_db (
       connect L (
       query L DB_USRMNG (str_fields [(''seller_id'', seller_id)]) (\<lambda>cursor.
       if cursor = [] then ret APIE_OK
       else update L DB_USRMNG (str_fields [(''seller_id'', seller_id), (''groups.group_name'', group_name)])
              (BObj [(''$pull'', str_fields [(''groups.$.users'', user_id)])]) True False
              (ret APIE_OK))))))))"

definition seller_UserGroup_Delete :: "'db lib \<Rightarrow> json \<Rightarrow> 'db prog" where
  "seller_UserGroup_Delete L content =
     str_of L content ''role'' (\<lambda>role.
     str_of L content ''seller_id'' (\<lambda>seller_id.
     str_of L content ''group_id'' (\<lambda>group_id.
     if role = [] \<or> seller_id = [] \<or> group_id = [] then ret APIE_INVALID_CLIENT_REQ
     else if role \<noteq> ''seller'' then ret APIE_INVALID_CLIENT_REQ
     else try_db (
       connect L (
       query L DB_SELLER (str_fields [(''seller_id'', seller_id)]) (\<lambda>cursor.
       if cursor = [] then ret APIE_SELLER_NO_EXIST
       else update L DB_USRMNG (str_fields [(''seller_id'', seller_id)])
              (BObj [(''$pull'', BObj [(''groups'', str_fields [(''group_id'', group_id)])])]) False False
              (ret APIE_OK)))))))"

section \<open>seller/user-list\<close>

definition seller_UserList_Get :: "'db lib \<Rightarrow> json \<Rightarrow> 'db prog" where
  "seller_UserList_Get L val =
     str_of L val ''role'' (\<lambda>role.
     str_of L val ''seller_id'' (\<lambda>seller_id.
     if role \<noteq> ''seller'' then ret APIE_INVALID_CLIENT_REQ
     else if role = [] \<or> seller_id = [] then ret APIE_INVALID_CLIENT_REQ
     else try_db (
       connect L (
       query L DB_SELLER (str_fields [(''seller_id'', seller_id)]) (\<lambda>cursor.
       if cursor = [] then ret APIE_SELLER_NO_EXIST
       else query L DB_USRMNG (str_fields [(''seller_id'', seller_id)]) (\<lambda>cursor.
         case cursor of
           [] \<Rightarrow> ret APIE_OK
         | seller # _ \<Rightarrow>
             for_each (group_info L) (bs_elements L (bs_getObjectField L seller ''groups'')) [] (\<lambda>groups.
             val_or OtherException (js_list L groups) (\<lambda>groupList.
             out_put L ''data'' groupList (ret APIE_OK)))))))))"

section \<open>Frame\<close>

text \<open>The requests of this theory write no collections but the groups and customers.\<close>

definition customer_handlers :: "('db lib \<Rightarrow> json \<Rightarrow> 'db prog) list" where
  "customer_handlers = [seller_User_Get, seller_User_Post, seller_User_Put, seller_User_Delete, seller_UserGroup_Post,
     seller_UserGroup_Put, seller_UserGroup_Delete, seller_UserList_Get]"

lemmas customer_defs = seller_User_Get_def seller_User_Post_def seller_User_Put_def seller_User_Delete_def
  seller_UserGroup_Post_def seller_UserGroup_Put_def seller_UserGroup_Delete_def seller_UserList_Get_def

lemma keeps_maybe_oid [keeps_rules]: "(\<And>x. keeps P (k x)) \<Longrightarrow> keeps P ((if b then gen_oid L else (\<lambda>k. k [])) k)"
  by (auto intro: keeps_rules)

lemma customer_untouched:
  assumes "mongo_ok L docs" "h \<in> set customer_handlers" "c \<noteq> DB_USRMNG"
  shows "keeps (content_is docs c X) (h L content)"
proof -
  have ne: "DB_USRMNG \<noteq> c" using assms(3) by auto
  have "\<forall>h \<in> set customer_handlers. keeps (content_is docs c X) (h L content)"
    unfolding customer_handlers_def list.set ball_simps customer_defs
    by (intro conjI TrueI keeps_rules same_insert [OF assms(1)] same_update [OF assms(1)]; simp add: ne)
  with assms(2) show ?thesis by blast
qed

section \<open>The arrays of a seller's customers\<close>

definition managed :: "('db \<Rightarrow> string \<Rightarrow> bson list) \<Rightarrow> 'db \<Rightarrow> string \<Rightarrow> string \<Rightarrow> bson list" where
  "managed docs db s key = array_at docs db DB_USRMNG ''seller_id'' s key"

lemma managed_push_groups:
  assumes "mongo_ok L docs" "lookup docs db DB_USRMNG [(''seller_id'', s)] = Some d"
    and "db_update L db DB_USRMNG (str_fields [(''seller_id'', s)]) (BObj [(''$push'', BObj [(''groups'', g)])]) False False = Some db'"
  shows "managed docs db' s ''groups'' = managed docs db s ''groups'' @ [g]"
  using array_at_push [OF assms(1,2,3), of "''groups''"] by (simp add: managed_def)

lemma managed_pull_groups:
  assumes "mongo_ok L docs" "lookup docs db DB_USRMNG [(''seller_id'', s)] = Some d"
    and "db_update L db DB_USRMNG (str_fields [(''seller_id'', s)]) (BObj [(''$pull'', BObj [(''groups'', v)])]) False False = Some db'"
  shows "managed docs db' s ''groups'' = filter (\<lambda>g. \<not> pulls v g) (managed docs db s ''groups'')"
  using array_at_pull [OF assms(1,2,3), of "''groups''"] by (simp add: managed_def)

lemma managed_insert:
  assumes "mongo_ok L docs" "db_query L db DB_USRMNG (str_fields [(''seller_id'', s)]) = Some []"
    and "db_insert L db DB_USRMNG (BObj ((''seller_id'', BString s) # fs)) = Some db'"
  shows "managed docs db s key = [] \<and> (key \<noteq> ''_id'' \<longrightarrow> key \<noteq> ''seller_id'' \<longrightarrow> managed docs db' s key = elems (map_of fs key))"
  using array_at_insert [OF assms(1) _ _ assms(3), of key] lookup_query [OF assms(1,2)] by (simp add: managed_def)

section \<open>A new group\<close>

lemma group_created:
  assumes "json_ok L" "mongo_ok L docs" "arg kvs ''seller_id'' = s" "seller_UserGroup_Post L (req kvs) w = (Ret APIE_OK, w')"
  shows "\<exists>g. bfield g ''group_name'' = Some (BString (arg kvs ''group_name'')) \<and>
     (arg kvs ''group_id'' \<noteq> [] \<longrightarrow> bfield g ''group_id'' = None) \<and>
     managed docs (w_db w') s ''groups'' = managed docs (w_db w) s ''groups'' @ [g]"
    (is "?X (w_db w')")
proof -
  define X where "X db' = ?X db'" for db'
  have ins: "X db'" if "db_query L (w_db w) DB_USRMNG (BObj [(''seller_id'', BString s)]) = Some []"
    "db_insert L (w_db w) DB_USRMNG (BObj [(''seller_id'', BString s), (''groups'', BArray [g])]) = Some db'"
    "bfield g ''group_name'' = Some (BString (arg kvs ''group_name''))" "arg kvs ''group_id'' \<noteq> [] \<longrightarrow> bfield g ''group_id'' = None" for g db'
    using managed_insert [OF assms(2), of "w_db w" s "[(''groups'', BArray [g])]" db' "''groups''"] that by (auto simp: X_def)
  have push: "X db'" if "db_query L (w_db w) DB_USRMNG (BObj [(''seller_id'', BString s)]) = Some ds" "ds \<noteq> []"
    "db_update L (w_db w) DB_USRMNG (BObj [(''seller_id'', BString s)]) (BObj [(''$push'', BObj [(''groups'', g)])]) False False = Some db'"
    "bfield g ''group_name'' = Some (BString (arg kvs ''group_name''))" "arg kvs ''group_id'' \<noteq> [] \<longrightarrow> bfield g ''group_id'' = None" for g ds db'
    using lookup_query [OF assms(2), of "w_db w" DB_USRMNG "[(''seller_id'', s)]" ds] managed_push_groups [OF assms(2), of "w_db w" s _ g db'] that
    by (auto simp: X_def split: list.splits)
  have "on_ok (seller_UserGroup_Post L (req kvs)) (\<lambda>w'. X (w_db w')) w"
    unfolding seller_UserGroup_Post_def using assms(1)
    by (auto simp: assms(3) ok_simps apie_ne Let_def intro!: on_ok_for_each [where db = "w_db w"] elim!: ins push)
  then have "X (w_db w')" using assms(4) by (rule on_okD)
  then show ?thesis by (simp only: X_def)
qed

lemma group_delete_unmatched:
  assumes "json_ok L" "mongo_ok L docs" "arg del ''seller_id'' = s" "seller_UserGroup_Delete L (req del) w = (r, w')"
    and "g \<in> set (managed docs (w_db w) s ''groups'')" "arg del ''group_id'' \<noteq> [] \<longrightarrow> bfield g ''group_id'' = None"
  shows "g \<in> set (managed docs (w_db w') s ''groups'')"
proof -
  obtain d where d: "lookup docs (w_db w) DB_USRMNG [(''seller_id'', s)] = Some d"
    using assms(5) by (cases "lookup docs (w_db w) DB_USRMNG [(''seller_id'', s)]") (auto simp: managed_def array_at_def)
  have pull: "g \<in> set (managed docs db' s ''groups'')" if "arg del ''group_id'' \<noteq> []"
    "db_update L (w_db w) DB_USRMNG (BObj [(''seller_id'', BString s)])
      (BObj [(''$pull'', BObj [(''groups'', BObj [(''group_id'', BString (arg del ''group_id''))])])]) False False = Some db'" for db'
    using managed_pull_groups [OF assms(2) d, of "BObj [(''group_id'', BString (arg del ''group_id''))]" db'] that assms(5,6) by simp
  have "wp (seller_UserGroup_Delete L (req del)) (\<lambda>r w'. g \<in> set (managed docs (w_db w') s ''groups'')) w"
    using assms(1,3,5) pull by (auto simp: seller_UserGroup_Delete_def wp_simps split: option.split)
  then show ?thesis using assms(4) by (rule wpD)
qed

text \<open>
  C37. A group that a seller has created cannot be deleted with the identifier the client knows. When the
  client chose one it is not stored, and when the server generates one the reply has the empty
  identifier, which the request to delete a group refuses: in both cases the group stays.
\<close>

theorem new_group_stays:
  assumes "json_ok L" "mongo_ok L docs" "arg kvs ''seller_id'' = s" "seller_UserGroup_Post L (req kvs) w = (Ret APIE_OK, w1)"
    and "arg del ''seller_id'' = s" "arg del ''group_id'' = arg kvs ''group_id''"
    and "seller_UserGroup_Delete L (req del) w1 = (r, w2)"
  shows "\<exists>g. bfield g ''group_name'' = Some (BString (arg kvs ''group_name'')) \<and>
     managed docs (w_db w1) s ''groups'' = managed docs (w_db w) s ''groups'' @ [g] \<and>
     g \<in> set (managed docs (w_db w2) s ''groups'')"
proof -
  obtain g where g: "bfield g ''group_name'' = Some (BString (arg kvs ''group_name''))"
    "arg kvs ''group_id'' \<noteq> [] \<longrightarrow> bfield g ''group_id'' = None"
    "managed docs (w_db w1) s ''groups'' = managed docs (w_db w) s ''groups'' @ [g]"
    using group_created [OF assms(1-4)] by blast
  have "g \<in> set (managed docs (w_db w2) s ''groups'')"
    by (rule group_delete_unmatched [OF assms(1,2,5,7)]) (use g assms(6) in auto)
  with g show ?thesis by blast
qed

section \<open>A new customer\<close>

definition customer_of :: "(string \<times> string) list \<Rightarrow> bson" where
  "customer_of kvs = customer_doc (arg kvs ''user_id'') (arg kvs ''car_kind'') (arg kvs ''car_type'') (arg kvs ''car_no'')
     (arg kvs ''user_name'') (arg kvs ''car_miles'')"

lemma managed_new_customer:
  assumes "mongo_ok L docs" "lookup docs db DB_USRMNG [(''seller_id'', s)] = Some d"
    and "db_update L db DB_USRMNG (str_fields [(''seller_id'', s)])
      (BObj [(''$push'', BObj [(''users'', u)]), (''$set'', BObj [(''groups'', BArray gs)])]) False False = Some db'"
  shows "managed docs db' s ''groups'' = gs \<and> managed docs db' s ''users'' = managed docs db s ''users'' @ [u]"
proof -
  let ?us = "[(Push_op, [(''users'', u)]), (Set_op, [(''groups'', BArray gs)])]"
  obtain x where x: "bfield d ''seller_id'' = Some x" using lookup_isobj [OF assms(2)] ..
  then have "bfield (set_field ''users'' v d) ''seller_id'' = Some x" for v by simp
  note set = bfield_set_same [OF x] bfield_set_same [OF this]
  have "db_update L db DB_USRMNG (str_fields [(''seller_id'', s)]) (op_docs ?us) False False = Some db'"
    using assms(3) by (simp add: op_docs_def)
  from array_at_update [OF assms(1,2) this] set array_at_found [OF assms(2)] show ?thesis
    by (simp add: managed_def apply_all_def apply_ops_def)
qed

text \<open>
  Adding a customer with the name of a new group loses all groups of the seller: the array of the
  groups is overwritten with one that has only the new group. The customer itself is appended to the
  customers.
\<close>

theorem customer_post_drops_groups:
  assumes "json_ok L" "mongo_ok L docs" "arg kvs ''seller_id'' = s" "arg kvs ''group_name'' = n"
    and "lookup docs (w_db w) DB_USRMNG [(''seller_id'', s)] = Some d"
    and "\<And>ds. db_query L (w_db w) DB_USRMNG (str_fields [(''seller_id'', s), (''groups.group_name'', n)]) = Some ds \<Longrightarrow> ds = []"
    and "seller_User_Post L (req kvs) w = (Ret APIE_OK, w')"
  shows "managed docs (w_db w') s ''groups'' = [group_doc n (oid_string L (w_oids w)) [arg kvs ''user_id'']] \<and>
     managed docs (w_db w') s ''users'' = managed docs (w_db w) s ''users'' @ [customer_of kvs]"
    (is "?X (w_db w')")
proof -
  have found: "ds \<noteq> []" if "db_query L (w_db w) DB_USRMNG (BObj [(''seller_id'', BString s)]) = Some ds" for ds
    using lookup_query [OF assms(2), of "w_db w" DB_USRMNG "[(''seller_id'', s)]" ds] that assms(5) by auto
  have upd: "?X db'" if "db_update L (w_db w) DB_USRMNG (BObj [(''seller_id'', BString s)])
      (BObj [(''$push'', BObj [(''users'', customer_of kvs)]),
        (''$set'', BObj [(''groups'', BArray [group_doc n (oid_string L (w_oids w)) [arg kvs ''user_id'']])])]) False False = Some db'" for db'
    using managed_new_customer [OF assms(2,5), of "customer_of kvs"] that by simp
  have "on_ok (seller_User_Post L (req kvs)) (\<lambda>w'. ?X (w_db w')) w"
    unfolding seller_User_Post_def using assms(1) assms(6) [simplified]
    by (auto simp: assms(3,4) ok_simps apie_ne Let_def customer_of_def [symmetric] dest: found upd)
  then show ?thesis using assms(7) by (rule on_okD)
qed

section \<open>Editing a customer\<close>

text \<open>The first group starts with a string, as all groups do that are written by these requests.\<close>

definition text_group :: "bson \<Rightarrow> bool" where
  "text_group d \<longleftrightarrow> (\<exists>k t fs rest. bfield d ''groups'' = Some (BArray (BObj ((k, BString t) # fs) # rest)))"

text \<open>
  Editing a customer of a seller with groups never succeeds and changes nothing: the search for the
  old group takes the name of the group for an object, which throws.
\<close>

theorem customer_put_fails:
  assumes "json_ok L" "bson_ok L" "mongo_ok L docs" "all_docs docs DB_USRMNG text_group (w_db w)"
    and "seller_User_Put L (req kvs) w = (r, w')"
  shows "r \<in> {Ret APIE_INVALID_CLIENT_REQ, Ret APIE_USER_NO_EXIST, Ret APIE_SERVER_INTERNAL} \<and> w_db w' = w_db w"
proof -
  have old: "old_group L u g [] (bs_elements L (bs_getObjectField L d ''groups'')) = None"
    if "db_query L (w_db w) DB_USRMNG (BObj [(''seller_id'', BString s), (''users.user_id'', BString v)]) = Some (d # ds)" for d ds s u v g
  proof -
    have "d \<in> set (docs (w_db w) DB_USRMNG)" using mongo_narrow [OF assms(3) that] by simp
    then have "text_group d" using assms(4) by (simp add: all_docs_def)
    then show ?thesis using assms(2) by (auto simp: text_group_def)
  qed
  have "wp (seller_User_Put L (req kvs)) (\<lambda>r w'. r \<in> {Ret APIE_INVALID_CLIENT_REQ, Ret APIE_USER_NO_EXIST, Ret APIE_SERVER_INTERNAL} \<and>
     w_db w' = w_db w) w"
    using assms(1) old by (auto simp: seller_User_Put_def wp_simps split: option.split list.split)
  then show ?thesis using assms(5) by (rule wpD)
qed

section \<open>Witnesses of this theory\<close>

definition club :: bson where
  "club = BObj [(''seller_id'', BString ''s1''), (''groups'', BArray [group_doc ''vip'' ''g1'' [''bob''], group_doc ''new'' ''g2'' []]),
     (''users'', BArray [])]"

definition club_world :: "(string \<times> bson list) list world" where
  "club_world = mem_world [(DB_USRMNG, [club]), (DB_SELLER, [shop]), (DB_USR, [str_fields [(''user_id'', ''eve'')]])]"

definition club_req :: "(string \<times> string) list" where
  "club_req = [(''role'', ''seller''), (''seller_id'', ''s1''), (''group_name'', ''family''), (''group_id'', ''g9''), (''user_id'', ''eve'')]"

lemma club_runs:
  "fst (seller_UserGroup_Post mem_lib (req club_req) club_world) = Ret APIE_OK"
  "fst (seller_User_Post mem_lib (req club_req) club_world) = Ret APIE_OK"
  by code_simp+

lemma club_args: "arg club_req ''seller_id'' = ''s1''" "arg club_req ''group_name'' = ''family''"
  by (simp_all add: club_req_def arg_def)

theorem new_group_stays_witness:
  "\<exists>g \<in> set (managed mem_get (w_db (snd (seller_UserGroup_Delete mem_lib (req club_req)
     (snd (seller_UserGroup_Post mem_lib (req club_req) club_world))))) ''s1'' ''groups''). bfield g ''group_name'' = Some (BString ''family'')"
  using new_group_stays [OF json_ok_mem mongo_ok_mem club_args(1) run_ok [OF club_runs(1)] club_args(1) refl surjective_pairing]
  by (auto simp: club_args)

theorem customer_post_drops_groups_witness:
  "managed mem_get (w_db (snd (seller_User_Post mem_lib (req club_req) club_world))) ''s1'' ''groups'' =
     [group_doc ''family'' (oid_string mem_lib (w_oids club_world)) [arg club_req ''user_id'']]"
proof -
  have "lookup mem_get (w_db club_world) DB_USRMNG [(''seller_id'', ''s1'')] = Some club"
    by (simp add: lookup_def matches_def club_def club_world_def mem_world_def)
  moreover have "db_query mem_lib (w_db club_world) DB_USRMNG (str_fields [(''seller_id'', ''s1''), (''groups.group_name'', ''family'')]) = Some []"
    by code_simp
  ultimately show ?thesis
    using customer_post_drops_groups [OF json_ok_mem mongo_ok_mem club_args _ _ run_ok [OF club_runs(2)]] by simp
qed

theorem customer_put_fails_witness:
  "w_db (snd (seller_User_Put mem_lib (req club_req) club_world)) = w_db club_world"
  using customer_put_fails [OF json_ok_mem bson_ok_mem mongo_ok_mem _ surjective_pairing, of club_world club_req]
  by (simp add: all_docs_def text_group_def club_world_def mem_world_def club_def group_doc_def)

end
