(* ===== verification/Message_Api.thy ===== *)
theory Message_Api
  imports Customer_Api
begin

text \<open>
  Messages between sellers and users: \<^verbatim>\<open>uri/user/message.cpp\<close>, \<^verbatim>\<open>uri/user/message-list.cpp\<close>,
  \<^verbatim>\<open>uri/seller/user-message.cpp\<close>, \<^verbatim>\<open>uri/seller/user-message-list.cpp\<close>,
  \<^verbatim>\<open>uri/seller/group-message.cpp\<close> and \<^verbatim>\<open>uri/seller/group-message-list.cpp\<close>. A message is a document of
  \<^verbatim>\<open>rcar-msg.msg\<close>; the addressee is told by a published message. The properties say what a message of
  a seller stores and publishes, who gets a message to a group, and which readers never find anything.
\<close>

section \<open>user/message\<close>

text \<open>The values of a list of messages, some of them constants.\<close>

definition msg_info :: "'db lib \<Rightarrow> (string \<times> string) list \<Rightarrow> (string \<times> json) list \<Rightarrow> bson \<Rightarrow> json option" where
  "msg_info L fs consts d = js_build L (str_members L fs d @ consts)"

definition getUnloginUserMsg :: "'db lib \<Rightarrow> json \<Rightarrow> 'db prog" where
  "getUnloginUserMsg L val =
     int_of L val ''num'' (\<lambda>num.
     int_of L val ''offset'' (\<lambda>offset.
     query_n L DB_MSG (str_fields [(''kind'', ''sys'')]) num offset (\<lambda>cursor.
     val_or OtherException
       (those (map (msg_info L
          [(''msg_id'', ''msg_id''), (''kind'', ''kind''), (''type'', ''type''), (''title'', ''title''), (''time'', ''time''),
           (''url'', ''url''), (''seller_id'', ''seller_id'')]
          [(''source'', JString ''sys''), (''replylable'', JString ''no'')]) cursor)) (\<lambda>infos.
     val_or OtherException (js_array L infos) (\<lambda>msgs.
     out_put L ''data'' msgs (ret APIE_OK))))))"

text \<open>The query compares the kind with an array.\<close>

definition getLoginUserMsg :: "'db lib \<Rightarrow> json \<Rightarrow> 'db prog" where
  "getLoginUserMsg L val =
     int_of L val ''num'' (\<lambda>num.
     int_of L val ''offset'' (\<lambda>offset.
     query_n L DB_MSG (BObj [(''kind'', BArray [BString ''sys'', BString ''seller''])]) num offset (\<lambda>cursor.
     val_or OtherException
       (those (map (msg_info L
          [(''msg_id'', ''msg_id''), (''source'', ''source''), (''kind'', ''kind''), (''type'', ''type''), (''title'', ''title''),
           (''time'', ''time''), (''url'', ''url''), (''seller_id'', ''seller_id''), (''user_id'', ''user_id''),
           (''replylable'', ''replyable'')] []) cursor)) (\<lambda>infos.
     val_or OtherException (js_array L infos) (\<lambda>msgs.
     out_put L ''data'' msgs (ret APIE_OK))))))"

text \<open>
  The replies are read from an object that is initialised with itself, which is undefined: what the
  object holds then is the argument \<open>p\<close>.
\<close>

definition getMessageDetail :: "bson \<Rightarrow> 'db lib \<Rightarrow> json \<Rightarrow> 'db prog" where
  "getMessageDetail p L val =
     str_of L val ''msgid'' (\<lambda>msgid.
     query L DB_MSG (str_fields [(''msg_id'', msgid)]) (\<lambda>cursor.
     case cursor of
       [] \<Rightarrow> ret APIE_INVALID_CLIENT_REQ
     | msg # _ \<Rightarrow>
         val_or DBException
           (if bs_hasField L msg ''replies'' then objs L (bs_elements L (bs_getObjectField L p ''replies'')) else Some []) (\<lambda>rs.
         val_or OtherException
           (those (map (doc_info L
              [(''source'', ''source''), (''time'', ''time''), (''content'', ''content''), (''seller_id'', ''seller_id''),
               (''user_id'', ''user_id''), (''seller_name'', ''seller_name''), (''user_name'', ''user_name''), (''pname'', ''pname'')]) rs)) (\<lambda>infos.
         val_or OtherException (js_array L infos) (\<lambda>replies.
         val_or OtherException
           (msg_info L
              [(''msg_id'', ''msg_id''), (''source'', ''source''), (''kind'', ''kind''), (''type'', ''type''), (''title'', ''title''),
               (''time'', ''time''), (''url'', ''url''), (''seller_id'', ''seller_id''), (''user_id'', ''user_id'')]
              [(''replylable'', JString ''no''), (''replies'', replies)] msg) (\<lambda>info.
         out_put L ''data'' info (ret APIE_OK)))))))"

definition user_Message_Get :: "bson \<Rightarrow> 'db lib \<Rightarrow> json \<Rightarrow> 'db prog" where
  "user_Message_Get p L val =
     str_of L val ''role'' (\<lambda>role.
     str_of L val ''detail'' (\<lambda>detail.
     str_of L val ''user_id'' (\<lambda>userid.
     if role \<noteq> ''user'' then ret APIE_INVALID_CLIENT_REQ
     else try_db (
       connect L (
       if detail = ''yes'' then getMessageDetail p L val
       else if userid \<noteq> [] then getLoginUserMsg L val
       else getUnloginUserMsg L val)))))"

text \<open>This method, which tells the seller, wants the role of a seller.\<close>

definition user_Message_Post :: "'db lib \<Rightarrow> json \<Rightarrow> 'db prog" where
  "user_Message_Post L val =
     str_of L val ''role'' (\<lambda>role.
     str_of L val ''msg_id'' (\<lambda>msg_id.
     str_of L val ''seller_id'' (\<lambda>seller_id.
     str_of L val ''user_id'' (\<lambda>user_id.
     str_of L val ''content'' (\<lambda>content.
     get_customstring_time (\<lambda>time.
     if role \<noteq> ''seller'' then ret APIE_INVALID_CLIENT_REQ
     else if role = [] \<or> seller_id = [] \<or> content = [] \<or> user_id = [] then ret APIE_INVALID_CLIENT_REQ
     else try_db (
       connect L (
       query L DB_SELLER (str_fields [(''seller_id'', seller_id)]) (\<lambda>cursor.
       case cursor of
         [] \<Rightarrow> ret APIE_SELLER_NO_EXIST
       | seller # _ \<Rightarrow>
           query L DB_USR (str_fields [(''user_id'', user_id)]) (\<lambda>cursor.
           case cursor of
             [] \<Rightarrow> ret APIE_USER_NO_EXIST
           | user # _ \<Rightarrow>
               let seller_name = bs_getStringField L seller ''name''; user_name = bs_getStringField L user ''name'';
                 notify = (\<lambda>msg_id. val_or OtherException
                   (js_build L [(''source'', JString ''user''), (''kind'', JString ''msg''), (''msg_id'', JString msg_id)])
                   (\<lambda>msg. pushMessageToSeller L seller_id msg (ret APIE_OK))) in
               if msg_id = [] then
                 gen_oid L (\<lambda>msg_id.
                 insert_into L DB_MSG
                   (str_fields [(''msg_id'', msg_id), (''type'', ''user''), (''user_id'', user_id), (''seller_id'', seller_id),
                      (''user_name'', user_name), (''seller_name'', seller_name), (''content'', content), (''time'', time)])
                   (notify msg_id))
               else query L DB_MSG (str_fields [(''msg_id'', msg_id)]) (\<lambda>cursor.
                 if cursor = [] then ret APIE_USER_NO_EXIST
                 else update L DB_MSG (str_fields [(''msg_id'', msg_id)])
                   (BObj [(''$push'', BObj [(''replies'',
                      str_fields [(''type'', ''user''), (''user_id'', user_id), (''user_name'', user_name),
                        (''seller_name'', seller_name), (''seller_id'', seller_id), (''content'', content), (''time'', time)])])])
                   False False (notify msg_id))))))))))))"

section \<open>user/message-list\<close>

text \<open>The fields of a message in the three lists, and the end they share.\<close>

definition msg_fields :: "(string \<times> string) list" where
  "msg_fields = [(''msg_id'', ''msg_id''), (''type'', ''type''), (''source'', ''source''), (''from'', ''from''),
     (''content'', ''content''), (''time'', ''time'')]"

definition out_messages :: "'db lib \<Rightarrow> bson list \<Rightarrow> 'db prog" where
  "out_messages L cursor =
     val_or OtherException (Option.bind (those (map (msg_info L msg_fields []) cursor)) (js_list L)) (\<lambda>msg_list.
     out_puts L [(''data'', msg_list), (''count'', JInt (int (length cursor)))] (ret APIE_OK))"

definition user_MessageList_Get :: "'db lib \<Rightarrow> json \<Rightarrow> 'db prog" where
  "user_MessageList_Get L val =
     str_of L val ''role'' (\<lambda>role.
     str_of L val ''user_id'' (\<lambda>user_id.
     if role \<noteq> ''user'' then ret APIE_INVALID_CLIENT_REQ
     else if role = [] \<or> user_id = [] then ret APIE_INVALID_CLIENT_REQ
     else try_db (
       connect L (
       int_of L val ''offset'' (\<lambda>offset.
       int_of L val ''num'' (\<lambda>number.
       query_n L DB_USR (str_fields [(''to'', user_id)]) number offset (out_messages L)))))))"

section \<open>seller/user-message and seller/user-message-list\<close>

definition seller_UserMessage_Get :: "'db lib \<Rightarrow> json \<Rightarrow> 'db prog" where
  "seller_UserMessage_Get L val =
     str_of L val ''role'' (\<lambda>role.
     str_of L val ''seller_id'' (\<lambda>seller_id.
     str_of L val ''msg_id'' (\<lambda>msg_id.
     if role \<noteq> ''user'' then ret APIE_INVALID_CLIENT_REQ
     else if role = [] \<or> seller_id = [] \<or> msg_id = [] then ret APIE_INVALID_CLIENT_REQ
     else try_db (
       connect L (
       query L DB_SELLER (str_fields [(''seller_id'', seller_id)]) (\<lambda>cursor.
       if cursor = [] then ret APIE_SELLER_NO_EXIST
       else query L DB_MSG (str_fields [(''msg_id'', msg_id), (''to'', seller_id)]) (\<lambda>cursor.
         case cursor of
           [] \<Rightarrow> ret APIE_USER_NO_EXIST
         | msg # _ \<Rightarrow> out_puts L (str_members L msg_fields msg) (ret APIE_OK))))))))"

definition seller_UserMessage_Post :: "'db lib \<Rightarrow> json \<Rightarrow> 'db prog" where
  "seller_UserMessage_Post L val =
     str_of L val ''role'' (\<lambda>role.
     str_of L val ''seller_id'' (\<lambda>seller_id.
     str_of L val ''user_id'' (\<lambda>user_id.
     str_of L val ''msg'' (\<lambda>content.
     get_customstring_time (\<lambda>time.
     if role \<noteq> ''seller'' then ret APIE_INVALID_CLIENT_REQ
     else if role = [] \<or> seller_id = [] \<or> content = [] \<or> user_id = [] then ret APIE_INVALID_CLIENT_REQ
     else try_db (
       connect L (
       query L DB_SELLER (str_fields [(''seller_id'', seller_id)]) (\<lambda>cursor.
       if cursor = [] then ret APIE_SELLER_NO_EXIST
       else query L DB_USR (str_fields [(''user_id'', user_id)]) (\<lambda>cursor.
         if cursor = [] then ret APIE_USER_NO_EXIST
         else gen_oid L (\<lambda>ident.
           insert_into L DB_MSG
             (BObj [(''msg_id'', BString ident), (''group_id'', BString []), (''source'', BString ''seller''),
                (''kind'', BString ''seller''), (''seller_id'', BString seller_id), (''targets'', BArray [BString user_id]),
                (''content'', BString content), (''time'', BString time)])
           (val_or OtherException
              (js_build L [(''source'', JString ''seller''), (''kind'', JString ''msg''), (''msg_id'', JString ident),
                 (''title'', JString content)]) (\<lambda>msg.
            pushMessageToUser L user_id msg (ret APIE_OK)))))))))))))"

definition seller_UserMessageList_Get :: "'db lib \<Rightarrow> json \<Rightarrow> 'db prog" where
  "seller_UserMessageList_Get L val =
     str_of L val ''role'' (\<lambda>role.
     str_of L val ''seller_id'' (\<lambda>seller_id.
     str_of L val ''user_id'' (\<lambda>user_id.
     if role \<noteq> ''seller'' then ret APIE_INVALID_CLIENT_REQ
     else if role = [] \<or> user_id = [] then ret APIE_INVALID_CLIENT_REQ
     else try_db (
       connect L (
       int_of L val ''offset'' (\<lambda>offset.
       int_of L val ''num'' (\<lambda>number.
       query_n L DB_MSG
         (BObj [(''$or'', BArray [str_fields [(''from'', seller_id), (''to'', user_id)],
            str_fields [(''from'', user_id), (''to'', seller_id)]])]) number offset (out_messages L))))))))"

section \<open>seller/group-message and seller/group-message-list\<close>

text \<open>
  The loop takes two elements in every round, the first for the message to be published and the second
  for the document. After the last element the iterator gives the end marker, whose text is empty.
\<close>

fun split_targets :: "'db lib \<Rightarrow> bson list \<Rightarrow> string list \<times> string list" where
  "split_targets L [] = ([], [])"
| "split_targets L [e] = ([bs_str L e], [[]])"
| "split_targets L (e # e' # es) =
     (let (uuids, stored) = split_targets L es in (bs_str L e # uuids, bs_str L e' # stored))"

fun group_targets :: "'db lib \<Rightarrow> string \<Rightarrow> bson list \<Rightarrow> (string list \<times> string list) option" where
  "group_targets L group_id [] = Some ([], [])"
| "group_targets L group_id (e # es) = do {
     group \<leftarrow> bs_Obj L e;
     let (uuids, stored) =
       (if bs_getStringField L group ''group_id'' = group_id
        then split_targets L (bs_elements L (bs_getObjectField L group ''users'')) else ([], []));
     (uuids', stored') \<leftarrow> group_targets L group_id es;
     Some (uuids @ uuids', stored @ stored')
   }"

text \<open>The cursor is read without a check; reading an empty one throws.\<close>

definition seller_GroupMessage_Post :: "'db lib \<Rightarrow> json \<Rightarrow> 'db prog" where
  "seller_GroupMessage_Post L val =
     str_of L val ''role'' (\<lambda>role.
     str_of L val ''seller_id'' (\<lambda>seller_id.
     str_of L val ''group_id'' (\<lambda>group_id.
     str_of L val ''user_id'' (\<lambda>user_id.
     str_of L val ''msg'' (\<lambda>content.
     get_customstring_time (\<lambda>time.
     if role \<noteq> ''seller'' then ret APIE_INVALID_CLIENT_REQ
     else if role = [] \<or> seller_id = [] \<or> content = [] \<or> user_id = [] then ret APIE_INVALID_CLIENT_REQ
     else try_db (
       connect L (
       query L DB_SELLER (str_fields [(''seller_id'', seller_id)]) (\<lambda>cursor.
       if cursor = [] then ret APIE_SELLER_NO_EXIST
       else query L DB_USRMNG (str_fields [(''seller_id'', seller_id)]) (\<lambda>cursor.
         case cursor of
           [] \<Rightarrow> throw DBException
         | seller # _ \<Rightarrow>
             val_or DBException (group_targets L group_id (bs_elements L (bs_getObjectField L seller ''groups''))) (\<lambda>(uuids, stored).
             gen_oid L (\<lambda>ident.
             insert_into L DB_MSG
               (BObj [(''msg_id'', BString ident), (''type'', BString ''group''), (''group_id'', BString group_id),
                  (''source'', BString ''seller''), (''from'', BString seller_id), (''to'', BArray (map BString stored)),
                  (''content'', BString content), (''time'', BString time)])
             (val_or OtherException (js_build L [(''source'', JString ''seller''), (''kind'', JString ''msg'')]) (\<lambda>msg.
              pushMessageToUsers L uuids msg (ret APIE_OK)))))))))))))))"

definition seller_GroupMessageList_Get :: "'db lib \<Rightarrow> json \<Rightarrow> 'db prog" where
  "seller_GroupMessageList_Get L val =
     str_of L val ''role'' (\<lambda>role.
     str_of L val ''seller_id'' (\<lambda>seller_id.
     str_of L val ''group_id'' (\<lambda>group_id.
     if role \<noteq> ''seller'' then ret APIE_INVALID_CLIENT_REQ
     else if role = [] \<or> seller_id = [] then ret APIE_INVALID_CLIENT_REQ
     else try_db (
       connect L (
       int_of L val ''offset'' (\<lambda>offset.
       int_of L val ''num'' (\<lambda>number.
       query_n L DB_USR
         (BObj [(''type'', BString ''group''), (''group'', BString group_id),
            (''$or'', BArray [str_fields [(''from'', seller_id)], str_fields [(''to'', seller_id)]])]) number offset
         (out_messages L))))))))"

section \<open>Frame\<close>

text \<open>The requests of this theory write no collections but the messages.\<close>

definition message_handlers :: "bson \<Rightarrow> ('db lib \<Rightarrow> json \<Rightarrow> 'db prog) list" where
  "message_handlers p = [user_Message_Get p, user_Message_Post, user_MessageList_Get, seller_UserMessage_Get, seller_UserMessage_Post,
     seller_UserMessageList_Get, seller_GroupMessage_Post, seller_GroupMessageList_Get]"

lemmas message_defs = user_Message_Get_def user_Message_Post_def user_MessageList_Get_def seller_UserMessage_Get_def
  seller_UserMessage_Post_def seller_UserMessageList_Get_def seller_GroupMessage_Post_def seller_GroupMessageList_Get_def
  getMessageDetail_def getLoginUserMsg_def getUnloginUserMsg_def out_messages_def

lemma keeps_case_prod [keeps_rules]: "(\<And>a b. x = (a, b) \<Longrightarrow> keeps P (k a b)) \<Longrightarrow> keeps P (case x of (a, b) \<Rightarrow> k a b)"
  by (cases x) simp

lemma message_untouched:
  assumes "mongo_ok L docs" "h \<in> set (message_handlers p)" "c \<noteq> DB_MSG"
  shows "keeps (content_is docs c X) (h L content)"
proof -
  have ne: "DB_MSG \<noteq> c" using assms(3) by auto
  have "\<forall>h \<in> set (message_handlers p). keeps (content_is docs c X) (h L content)"
    unfolding message_handlers_def list.set ball_simps message_defs Let_def
    by (intro conjI TrueI keeps_rules same_insert [OF assms(1)] same_update [OF assms(1)]; simp add: ne)
  with assms(2) show ?thesis by blast
qed

section \<open>Messages of a seller\<close>

definition seller_message :: "string \<Rightarrow> string \<Rightarrow> string \<Rightarrow> string \<Rightarrow> string \<Rightarrow> bson" where
  "seller_message ident s u text time =
     BObj [(''msg_id'', BString ident), (''group_id'', BString []), (''source'', BString ''seller''), (''kind'', BString ''seller''),
       (''seller_id'', BString s), (''targets'', BArray [BString u]), (''content'', BString text), (''time'', BString time)]"

definition seller_note :: "string \<Rightarrow> string \<Rightarrow> string \<Rightarrow> json" where
  "seller_note u ident text =
     JObject [(''method'', JInt MessageTypePushToSingle),
       (''msg'', JObject [(''kind'', JString ''msg''), (''msg_id'', JString ident), (''source'', JString ''seller''), (''title'', JString text)]),
       (''target'', JString u), (''to'', JString ''user'')]"

lemma note_built:
  "json_ok L \<Longrightarrow> js_build L [(''source'', JString ''seller''), (''kind'', JString ''msg''), (''msg_id'', JString ident), (''title'', JString text)] =
     Some (JObject [(''kind'', JString ''msg''), (''msg_id'', JString ident), (''source'', JString ''seller''), (''title'', JString text)])"
  "json_ok L \<Longrightarrow> push_single L ''user'' u
     (JObject [(''kind'', JString ''msg''), (''msg_id'', JString ident), (''source'', JString ''seller''), (''title'', JString text)]) =
     Some (seller_note u ident text)"
  by (simp_all add: js_build_obj push_single_def seller_note_def)

text \<open>
  C32. A message that a seller sends to a user is stored with the user as its only target, and the user
  is told by exactly one published message that carries the identifier of the stored one.
\<close>

theorem user_message_delivered:
  assumes "json_ok L" "mongo_ok L docs" "mq_connect L" "arg kvs ''seller_id'' = s" "arg kvs ''user_id'' = u"
    and "ident = oid_string L (w_oids w)" "seller_UserMessage_Post L (req kvs) w = (Ret APIE_OK, w')"
  shows "(\<exists>usr. lookup docs (w_db w) DB_USR [(''user_id'', u)] = Some usr) \<and>
     (\<exists>i. docs (w_db w') = (docs (w_db w))(DB_MSG := docs (w_db w) DB_MSG @ [with_id i (seller_message ident s u (arg kvs ''msg'') (w_time w))])) \<and>
     w_published w' = w_published w @ [seller_note u ident (arg kvs ''msg'')]"
proof -
  have usr: "\<exists>usr. lookup docs (w_db w) DB_USR [(''user_id'', u)] = Some usr"
    if "db_query L (w_db w) DB_USR (BObj [(''user_id'', BString u)]) = Some ds" "ds \<noteq> []" for ds
    using lookup_query [OF assms(2), of "w_db w" DB_USR "[(''user_id'', u)]" ds] that by (simp split: list.splits)
  note ins = mongo_insert [OF assms(2), of "w_db w" DB_MSG "seller_message _ _ _ _ _"]
  have "on_ok (seller_UserMessage_Post L (req kvs)) (\<lambda>w'. (\<exists>usr. lookup docs (w_db w) DB_USR [(''user_id'', u)] = Some usr) \<and>
     (\<exists>i. docs (w_db w') = (docs (w_db w))(DB_MSG := docs (w_db w) DB_MSG @ [with_id i (seller_message ident s u (arg kvs ''msg'') (w_time w))])) \<and>
     w_published w' = w_published w @ [seller_note u ident (arg kvs ''msg'')]) w"
    unfolding seller_UserMessage_Post_def
    by (auto simp: assms(1,3-6) ok_simps apie_ne pushMessageToUser_def note_built seller_message_def [symmetric] js_empty_obj [OF assms(1)] dest: usr ins)
  then show ?thesis using assms(7) by (rule on_okD)
qed

section \<open>Messages to a group\<close>

lemma nths_pairs:
  "nths (x # y # us) {i. even i} = x # nths us {i. even i}" "nths (x # y # us) {i. odd i} = y # nths us {i. odd i}"
  by (simp_all add: nths_Cons)

lemma split_targets_nths:
  assumes "bson_ok L"
  shows "split_targets L (map BString us) =
     (nths us {i. even i}, nths us {i. odd i} @ (if even (length us) then [] else [[]]))"
proof (induction us rule: induct_list012)
  case (3 x y us)
  then show ?case using assms by (simp add: nths_pairs)
qed (use assms in \<open>simp_all add: nths_singleton\<close>)

text \<open>The groups of a seller as the requests of theory \<open>Customer_Api\<close> write them, and the members that a message to one group is for.\<close>

definition group_docs :: "(string \<times> string \<times> string list) list \<Rightarrow> bson list" where
  "group_docs gs = map (\<lambda>(name, ident, us). group_doc name ident us) gs"

definition told :: "string \<Rightarrow> (string \<times> string \<times> string list) list \<Rightarrow> string list" where
  "told g gs = concat (map (\<lambda>(name, ident, us). if ident = g then nths us {i. even i} else []) gs)"

definition noted :: "string \<Rightarrow> (string \<times> string \<times> string list) list \<Rightarrow> string list" where
  "noted g gs = concat (map (\<lambda>(name, ident, us). if ident = g then nths us {i. odd i} @ (if even (length us) then [] else [[]]) else []) gs)"

lemma group_targets_split:
  assumes "bson_ok L"
  shows "group_targets L g (group_docs gs) = Some (told g gs, noted g gs)"
proof (induction gs)
  case (Cons x gs)
  then show ?case
    using assms by (cases x) (simp add: group_docs_def group_doc_def told_def noted_def split_targets_nths)
qed (simp add: group_docs_def told_def noted_def)

definition group_note :: "string list \<Rightarrow> json" where
  "group_note us = JObject [(''method'', JInt MessageTypePushToBatch),
     (''msg'', JObject [(''kind'', JString ''msg''), (''source'', JString ''seller'')]),
     (''targets'', JArray (map JString us)), (''to'', JString ''user'')]"

definition group_message :: "string \<Rightarrow> string \<Rightarrow> string \<Rightarrow> string list \<Rightarrow> string \<Rightarrow> string \<Rightarrow> bson" where
  "group_message ident g s us text time =
     BObj [(''msg_id'', BString ident), (''type'', BString ''group''), (''group_id'', BString g), (''source'', BString ''seller''),
       (''from'', BString s), (''to'', BArray (map BString us)), (''content'', BString text), (''time'', BString time)]"

lemma group_note_built:
  assumes "json_ok L"
  shows "js_build L [(''source'', JString ''seller''), (''kind'', JString ''msg'')] = Some (JObject [(''kind'', JString ''msg''), (''source'', JString ''seller'')])"
    and "push_batch L ''user'' us (JObject [(''kind'', JString ''msg''), (''source'', JString ''seller'')]) = Some (group_note us)"
  using assms by (simp_all add: js_build_obj js_array_all push_batch_def group_note_def)

text \<open>
  C33. A message to a group reaches every other member: the first, the third and so on are told by one
  published message, and the document names the ones in between as its receivers, with an empty name
  at the end for a group with an odd number of members.
\<close>

theorem group_message_every_other:
  assumes "json_ok L" "bson_ok L" "mongo_ok L docs" "mq_connect L" "arg kvs ''seller_id'' = s" "arg kvs ''group_id'' = g"
    and "lookup docs (w_db w) DB_USRMNG [(''seller_id'', s)] = Some d" "bfield d ''groups'' = Some (BArray (group_docs gs))"
    and "ident = oid_string L (w_oids w)" "seller_GroupMessage_Post L (req kvs) w = (Ret APIE_OK, w')"
  shows "(\<exists>i. docs (w_db w') = (docs (w_db w))
       (DB_MSG := docs (w_db w) DB_MSG @ [with_id i (group_message ident g s (noted g gs) (arg kvs ''msg'') (w_time w))])) \<and>
     w_published w' = w_published w @ (if told g gs = [] then [] else [group_note (told g gs)])"
    (is "?stored w' \<and> ?told w'")
proof -
  have found: "x = d" if "db_query L (w_db w) DB_USRMNG (BObj [(''seller_id'', BString s)]) = Some (x # ds)" for x ds
    using lookup_query [OF assms(3), of "w_db w" DB_USRMNG "[(''seller_id'', s)]" "x # ds"] that assms(7) by simp
  define S where "S db \<longleftrightarrow> (\<exists>i. docs db = (docs (w_db w))
     (DB_MSG := docs (w_db w) DB_MSG @ [with_id i (group_message ident g s (noted g gs) (arg kvs ''msg'') (w_time w))]))" for db
  have ins: "S db" if "db_insert L (w_db w) DB_MSG (group_message (oid_string L (w_oids w)) g s (noted g gs) (arg kvs ''msg'') (w_time w)) = Some db" for db
    using mongo_insert [OF assms(3) that] by (simp add: S_def assms(9))
  have "on_ok (seller_GroupMessage_Post L (req kvs)) (\<lambda>w'. S (w_db w') \<and> ?told w') w"
    unfolding seller_GroupMessage_Post_def
    using assms(2) by (auto simp: assms(1,4-6,8) ok_simps apie_ne pushMessageToUsers_def group_note_built group_targets_split
      group_message_def [symmetric] js_empty_obj [OF assms(1)] dest!: found dest: ins)
  then have "S (w_db w') \<and> ?told w'" using assms(10) by (rule on_okD)
  then show ?thesis by (simp only: S_def)
qed

section \<open>Witnesses of this theory\<close>

definition news_world :: "(string \<times> bson list) list world" where
  "news_world = mem_world [(DB_SELLER, [str_fields [(''seller_id'', ''s1'')]]), (DB_USR, [str_fields [(''user_id'', ''bob'')]]), (DB_MSG, []),
     (DB_USRMNG, [BObj [(''seller_id'', BString ''s1''), (''groups'', BArray (group_docs [(''vip'', ''g1'', [''ann'', ''bob'', ''eve''])]))]])]"

definition news_req :: "(string \<times> string) list" where
  "news_req = [(''role'', ''seller''), (''seller_id'', ''s1''), (''user_id'', ''bob''), (''group_id'', ''g1''), (''msg'', ''hello'')]"

lemma news_args:
  "arg news_req ''seller_id'' = ''s1''" "arg news_req ''user_id'' = ''bob''" "arg news_req ''group_id'' = ''g1''"
  by (simp_all add: news_req_def arg_def)

lemma news_runs:
  "fst (seller_UserMessage_Post mem_lib (req news_req) news_world) = Ret APIE_OK"
  "fst (seller_GroupMessage_Post mem_lib (req news_req) news_world) = Ret APIE_OK"
  by code_simp+

theorem user_message_delivered_witness:
  "w_published (snd (seller_UserMessage_Post mem_lib (req news_req) news_world)) =
     w_published news_world @ [seller_note ''bob'' (oid_string mem_lib (w_oids news_world)) (arg news_req ''msg'')]"
  using user_message_delivered [OF json_ok_mem mongo_ok_mem mq_mem news_args(1,2) refl run_ok [OF news_runs(1)]] by blast

theorem group_message_every_other_witness:
  "w_published (snd (seller_GroupMessage_Post mem_lib (req news_req) news_world)) = w_published news_world @ [group_note [''ann'', ''eve'']]"
proof -
  have "told ''g1'' [(''vip'', ''g1'', [''ann'', ''bob'', ''eve''])] = [''ann'', ''eve'']" by (simp add: told_def nths_Cons)
  moreover have "lookup mem_get (w_db news_world) DB_USRMNG [(''seller_id'', ''s1'')] =
      Some (BObj [(''seller_id'', BString ''s1''), (''groups'', BArray (group_docs [(''vip'', ''g1'', [''ann'', ''bob'', ''eve''])]))])"
    by (simp add: lookup_def matches_def news_world_def mem_world_def db_names)
  ultimately show ?thesis
    using group_message_every_other [OF json_ok_mem bson_ok_mem mongo_ok_mem mq_mem news_args(1,3) _ _ refl run_ok [OF news_runs(2)]]
    by simp
qed

end
