(* ===== verification/Order_Lists.thy ===== *)
theory Order_Lists
  imports Order_Api Seller_Api
begin

text \<open>
  The views of orders: the lists of a user (\<^verbatim>\<open>uri/user/order-list.cpp\<close>) and of a seller
  (\<^verbatim>\<open>uri/seller/order-list.cpp\<close>), and the replies to an order (\<^verbatim>\<open>uri/user/order-replies.cpp\<close>).
  The properties connect them with the life of an order in theory \<open>Order_Api\<close>.
\<close>

section \<open>user/order-list\<close>

definition order_row :: "'db lib \<Rightarrow> bson \<Rightarrow> json option" where
  "order_row L p = do {
     images \<leftarrow> getImageNamesFromBson L p ''images'';
     js_build L (str_members L
       [(''order_id'', ''order_id''), (''order_type'', ''order_type''), (''order_service_type'', ''order_service_type''),
        (''user'', ''user_id''), (''date_time'', ''date_time''), (''status'', ''status''), (''platenumber'', ''platenumber'')] p @
       [(''images'', images), (''detail'', tojson_key L p ''detail'')])
   }"

definition user_OrderList_Get :: "'db lib \<Rightarrow> json \<Rightarrow> 'db prog" where
  "user_OrderList_Get L content =
     str_of L content ''role'' (\<lambda>role.
     str_of L content ''user_id'' (\<lambda>user_id.
     if role = [] \<or> role \<noteq> ''user'' \<or> user_id = [] then ret APIE_INVALID_CLIENT_REQ
     else try_db (
       connect L (
       int_of L content ''offset'' (\<lambda>offset.
       int_of L content ''num'' (\<lambda>number.
       query_n L DB_ORDER (str_fields [(''user_id'', user_id)]) number offset (\<lambda>cursor.
       val_or OtherException (Option.bind (those (map (order_row L) cursor)) (js_list L)) (\<lambda>order_list.
       out_puts L [(''total'', JInt (int (length cursor))), (''data'', order_list)] (ret APIE_OK)))))))))"

section \<open>seller/order-list\<close>

text \<open>The query for the scope of the request: orders of a user that chose the seller, orders the seller has
  replied to, and new orders for the seller that it has not replied to.\<close>

definition order_query :: "string \<Rightarrow> string \<Rightarrow> string \<Rightarrow> bson" where
  "order_query scope seller_id user_id =
     (if scope = ''user'' then str_fields [(''selected_seller'', seller_id), (''user_id'', user_id)]
      else if scope = ''seller'' then
        BObj [(''replies'', BObj [(''$elemMatch'', str_fields [(''seller_id'', seller_id)])])]
      else BObj [(''target_seller'', BString seller_id), (''status'', BString ''new''),
        (''replies.seller_id'', str_fields [(''$ne'', seller_id)])])"

text \<open>The detail depends on the type of the order; an order of another type has none in the list.\<close>

definition order_detail :: "'db lib \<Rightarrow> bson \<Rightarrow> (json option \<Rightarrow> 'db prog) \<Rightarrow> 'db prog" where
  "order_detail L obj k =
     (let order_type = bs_getStringField L obj ''order_type''; detail = bs_getObjectField L obj ''detail'' in
      if order_type = OrderTypeBook then
        val_or DBException (objs L (bs_elements L (bs_getObjectField L detail ''services''))) (\<lambda>mservices.
        val_or OtherException (js_array L (map (bson_to_json L) mservices)) (\<lambda>services.
        val_or OtherException (js_build L [(''services'', services)]) (\<lambda>detailInfo. k (Some detailInfo))))
      else if order_type = OrderTypeBidding then k (Some (bson_to_json L detail))
      else k None)"

definition seller_row :: "'db lib \<Rightarrow> string \<Rightarrow> string \<Rightarrow> bson \<Rightarrow> (json \<Rightarrow> 'db prog) \<Rightarrow> 'db prog" where
  "seller_row L scope seller_id obj k =
     order_detail L obj (\<lambda>detail.
     val_or DBException
       (if scope = ''seller'' \<and> bs_hasField L obj ''replies''
        then find_reply L seller_id (bs_elements L (bs_getObjectField L obj ''replies'')) else Some None) (\<lambda>reply.
     val_or OtherException
       (js_build L (str_members L
          [(''order_id'', ''order_id''), (''user_id'', ''user_id''), (''user_name'', ''user_name''), (''order_type'', ''order_type''),
           (''order_service_type'', ''order_service_type''), (''user'', ''user_id''), (''title'', ''title''),
           (''date_time'', ''date_time''), (''status'', ''status''), (''platenumber'', ''platenumber''),
           (''car_brand'', ''car_brand'')] obj @
          (case detail of None \<Rightarrow> [] | Some v \<Rightarrow> [(''detail'', v)]) @
          (case reply of None \<Rightarrow> [] | Some r \<Rightarrow> [(''reply'', bson_to_json L r)]))) k))"

definition seller_OrderList_Get :: "'db lib \<Rightarrow> json \<Rightarrow> 'db prog" where
  "seller_OrderList_Get L content =
     str_of L content ''role'' (\<lambda>role.
     str_of L content ''seller_id'' (\<lambda>seller_id.
     str_of L content ''scope'' (\<lambda>scope.
     str_of L content ''user_id'' (\<lambda>user_id.
     if role = [] \<or> seller_id = [] then ret APIE_INVALID_CLIENT_REQ
     else try_db (
       connect L (
       int_of L content ''offset'' (\<lambda>offset.
       int_of L content ''num'' (\<lambda>number.
       query_n L DB_ORDER (order_query scope seller_id user_id) number offset (\<lambda>cursor.
       for_each (seller_row L scope seller_id) cursor [] (\<lambda>rows.
       val_or OtherException (js_list L rows) (\<lambda>orders.
       out_put L ''data'' orders (ret APIE_OK))))))))))))"

section \<open>user/order-replies\<close>

text \<open>One reply, by its index: nothing unless the seller agreed and exists.\<close>

definition reply_item :: "'db lib \<Rightarrow> bson \<Rightarrow> bson \<Rightarrow> int \<Rightarrow> (json list \<Rightarrow> 'db prog) \<Rightarrow> 'db prog" where
  "reply_item L location p i k =
     val_or DBException (obj_at L p i) (\<lambda>reply.
     if bs_getStringField L reply ''status'' \<noteq> ''agree'' then k []
     else
       let seller_id = bs_getStringField L reply ''seller_id'' in
       query L DB_SELLER (str_fields [(''seller_id'', seller_id)]) (\<lambda>cursor.
       case cursor of
         [] \<Rightarrow> k []
       | seller # _ \<Rightarrow>
           val_or OtherException (getImageNamesFromBson L reply ''images'') (\<lambda>images.
           let loc = bs_getObjectField L seller ''location'' in
           coordinate L loc 0 (\<lambda>lat.
           coordinate L loc 1 (\<lambda>lng.
           coordinate L location 0 (\<lambda>lat0.
           coordinate L location 1 (\<lambda>lng0.
           val_or OtherException (js_build L [(''lat'', JReal lat), (''lng'', JReal lng)]) (\<lambda>lloc.
           val_or OtherException
             (js_build L (str_members L [(''name'', ''name''), (''address'', ''address''), (''telephone'', ''telephone''), (''rate'', ''rate'')] seller @
                str_members L [(''cost'', ''cost''), (''time'', ''time'')] reply @
                [(''seller_id'', JString seller_id), (''images'', images), (''distance'', JReal (get_distance L lat lng lat0 lng0)),
                 (''location'', lloc)])) (\<lambda>item. k [item])))))))))"

definition user_OrderReplies_Get :: "'db lib \<Rightarrow> json \<Rightarrow> 'db prog" where
  "user_OrderReplies_Get L content =
     str_of L content ''role'' (\<lambda>role.
     str_of L content ''order_id'' (\<lambda>order_id.
     str_of L content ''user_id'' (\<lambda>user_id.
     int_of L content ''offset'' (\<lambda>offset.
     int_of L content ''num'' (\<lambda>num.
     if user_id = [] \<or> order_id = [] then ret APIE_INVALID_CLIENT_REQ
     else if role \<noteq> ''user'' then ret APIE_INVALID_CLIENT_REQ
     else try_db (
       connect L (
       query L DB_ORDER (str_fields [(''user_id'', user_id), (''order_id'', order_id), (''status'', ''new'')]) (\<lambda>cursor.
       case cursor of
         [] \<Rightarrow> ret APIE_OK
       | order # _ \<Rightarrow>
           if \<not> bs_hasField L order ''replies'' then ret APIE_OK
           else
             let location = bs_getObjectField L order ''location''; p = bs_getObjectField L order ''replies'' in
             for_each (reply_item L location p) [offset..min num (nFields L p) - 1] [] (\<lambda>items.
             val_or OtherException (js_array L (concat items)) (\<lambda>replies.
             out_puts L [(''total'', JInt (int (length (concat items)))), (''data'', replies)] (ret APIE_OK)))))))))))"

section \<open>Frame\<close>

text \<open>The requests of this theory write nothing.\<close>

definition order_readers :: "('db lib \<Rightarrow> json \<Rightarrow> 'db prog) list" where
  "order_readers = [user_OrderList_Get, seller_OrderList_Get, user_OrderReplies_Get]"

lemma keeps_order_parts [keeps_rules]:
  fixes kj :: "json \<Rightarrow> 'db prog" and kl :: "json list \<Rightarrow> 'db prog" and ko :: "json option \<Rightarrow> 'db prog"
  shows "(\<And>x. keeps P (ko x)) \<Longrightarrow> keeps P (order_detail L obj ko)"
  "(\<And>x. keeps P (kl x)) \<Longrightarrow> keeps P (reply_item L location p i kl)"
  unfolding order_detail_def reply_item_def by (intro keeps_rules; assumption)+

lemma keeps_seller_row [keeps_rules]: "(\<And>x. keeps P (k x)) \<Longrightarrow> keeps P (seller_row L scope sid obj k)"
  unfolding seller_row_def by (intro keeps_rules)

lemma order_readers_keep:
  assumes "h \<in> set order_readers"
  shows "keeps P (h L content)"
proof -
  have "\<forall>h \<in> set order_readers. keeps P (h L content)"
    unfolding order_readers_def list.set ball_simps user_OrderList_Get_def seller_OrderList_Get_def user_OrderReplies_Get_def
    by (intro conjI TrueI keeps_rules)
  with assms show ?thesis by blast
qed

section \<open>Pages of orders and replies\<close>

definition order_entry :: "'db lib \<Rightarrow> bson \<Rightarrow> json" where
  "order_entry L d = JObject
     [(''date_time'', JString (string_field d ''date_time'')), (''detail'', tojson_key L d ''detail''),
      (''images'', JArray (if bfield d ''images'' = None then []
         else map (\<lambda>e. JString (bs_str L e)) (bs_elements L (bs_getObjectField L d ''images'')))),
      (''order_id'', JString (string_field d ''order_id'')), (''order_service_type'', JString (string_field d ''order_service_type'')),
      (''order_type'', JString (string_field d ''order_type'')), (''platenumber'', JString (string_field d ''platenumber'')),
      (''status'', JString (string_field d ''status'')), (''user'', JString (string_field d ''user_id''))]"

lemma order_row_entry:
  assumes "json_ok L" "bson_ok L"
  shows "order_row L d = Some (order_entry L d)"
  using assms(2)
  by (simp add: order_row_def str_members_def getImageNamesFromBson_def js_array_all [OF assms(1)] js_build_obj [OF assms(1)]
      order_entry_def string_field_def)

definition page :: "int \<Rightarrow> int \<Rightarrow> 'a list \<Rightarrow> 'a list" where
  "page num offset xs = (if num = 0 then id else take (nat num)) (drop (nat offset) xs)"


text \<open>
  The number of replies a user asks for is taken for the index where the page ends. So a page that
  starts at the number or after it is empty, however many sellers have agreed.
\<close>

theorem order_replies_later_pages:
  assumes "json_ok L" "w_out w = JNull"
    and "int_member L val ''offset'' = Some offset" "int_member L val ''num'' = Some num" "num \<le> offset"
    and "user_OrderReplies_Get L val w = (Ret APIE_OK, w')"
  shows "w_out w' \<in> {JNull, JObject [(''data'', JArray []), (''total'', JInt 0)]}"
proof -
  have none: "[offset..min num n - 1] = []" for n using assms(5) by simp
  have "on_ok (user_OrderReplies_Get L val) (\<lambda>w'. w_out w' \<in> {JNull, JObject [(''data'', JArray []), (''total'', JInt 0)]}) w"
    unfolding user_OrderReplies_Get_def Let_def
    by (simp add: none assms(2-4) ok_simps apie_ne js_array_all [OF assms(1)] json_ok_null [OF assms(1)])
  then show ?thesis using assms(6) by (rule on_okD)
qed

section \<open>Witnesses of this theory\<close>

definition list_val :: "int \<Rightarrow> int \<Rightarrow> json" where
  "list_val offset num = JObject [(''role'', JString ''user''), (''user_id'', JString ''bob''), (''order_id'', JString ''o1''),
     (''offset'', JInt offset), (''num'', JInt num)]"

definition replied_order :: bson where
  "replied_order = BObj [(''order_id'', BString ''o1''), (''user_id'', BString ''bob''), (''status'', BString ''new''),
     (''replies'', BArray [BObj [(''seller_id'', BString ''s1''), (''status'', BString ''agree'')]])]"

definition replies_world :: "(string \<times> bson list) list world" where
  "replies_world = mem_world [(DB_ORDER, [str_fields [(''user_id'', ''eve'')], replied_order])]"

lemma list_val_members:
  "str_member mem_lib (list_val offset num) ''user_id'' = Some ''bob''" "int_member mem_lib (list_val offset num) ''offset'' = Some offset"
  "int_member mem_lib (list_val offset num) ''num'' = Some num"
  by (simp_all add: list_val_def str_member_def int_member_def mem_lib_def)

lemma list_runs:
  "fst (user_OrderList_Get mem_lib (list_val 0 0) replies_world) = Ret APIE_OK"
  "fst (user_OrderReplies_Get mem_lib (list_val 1 1) replies_world) = Ret APIE_OK"
  by code_simp+


theorem order_replies_later_pages_witness:
  "w_out (snd (user_OrderReplies_Get mem_lib (list_val 1 1) replies_world)) \<in> {JNull, JObject [(''data'', JArray []), (''total'', JInt 0)]}"
  by (rule order_replies_later_pages [OF json_ok_mem _ list_val_members(2,3) _ run_ok [OF list_runs(2)]])
    (simp_all add: replies_world_def mem_world_def)

end
