(* ===== verification/Garage_Api.thy ===== *)
theory Garage_Api
  imports Account_Api Store_Api
begin

text \<open>
  What a user keeps in the own account: cars (\<^verbatim>\<open>uri/user/car-list.cpp\<close>, \<^verbatim>\<open>uri/user/car.cpp\<close> and the
  maintenance plans of \<^verbatim>\<open>uri/user/car-maintenance-info.cpp\<close>), favorites (\<^verbatim>\<open>uri/user/favorite.cpp\<close>)
  and coupons (\<^verbatim>\<open>uri/user/coupon-list.cpp\<close>). Cars and favorites are arrays of the user's document. The
  properties say what registering and removing a car does, and which of the readers answer for the
  requested user and car.
\<close>

section \<open>user/car-list\<close>

text \<open>The values shown of the cars.\<close>

definition car_infos :: "'db lib \<Rightarrow> (string \<times> string) list \<Rightarrow> bson \<Rightarrow> (json list \<Rightarrow> 'db prog) \<Rightarrow> 'db prog" where
  "car_infos L fs cars k =
     val_or DBException (objs_at L cars [0..nFields L cars - 1]) (\<lambda>cs.
     val_or OtherException (those (map (\<lambda>c. js_build L (str_members L fs c)) cs)) k)"

text \<open>The role and the user of the request are overwritten by constants.\<close>

definition fixed_user :: string where
  "fixed_user = ''13889536307''"

definition user_CarList_Get :: "'db lib \<Rightarrow> json \<Rightarrow> 'db prog" where
  "user_CarList_Get L content =
     str_of L content ''role'' (\<lambda>_.
     str_of L content ''user_id'' (\<lambda>_.
     try_db (
       connect L (
       query L DB_USR (str_fields [(''user_id'', fixed_user)]) (\<lambda>cursor.
       case cursor of
         [] \<Rightarrow> ret APIE_USER_NO_EXIST
       | p # _ \<Rightarrow>
           car_infos L [(''platenumber'', ''platenumber''), (''kind'', ''kind''), (''brand'', ''brand''), (''buy_date'', ''buy_date''),
              (''miles'', ''miles''), (''insurance'', ''insurance'')] (bs_getObjectField L p ''cars'') (\<lambda>infos.
           val_or OtherException (js_list L infos) (\<lambda>objs.
           out_puts L [(''total'', JInt (int (length infos))), (''data'', objs)] (ret APIE_OK))))))))"

text \<open>Fields that are only written when they are given.\<close>

definition given :: "(string \<times> string) list \<Rightarrow> (string \<times> bson) list" where
  "given kvs = map (\<lambda>(k, v). (k, BString v)) (filter (\<lambda>(k, v). v \<noteq> []) kvs)"

definition user_CarList_Post :: "'db lib \<Rightarrow> json \<Rightarrow> 'db prog" where
  "user_CarList_Post L content =
     str_of L content ''role'' (\<lambda>role.
     str_of L content ''user_id'' (\<lambda>user_id.
     str_of L content ''platenumber'' (\<lambda>platenumber.
     str_of L content ''kind'' (\<lambda>kind.
     str_of L content ''brand'' (\<lambda>brand.
     str_of L content ''buy_date'' (\<lambda>buy_date.
     str_of L content ''miles'' (\<lambda>miles.
     str_of L content ''insurance'' (\<lambda>insurance.
     if role = [] \<or> user_id = [] \<or> platenumber = [] then ret APIE_INVALID_CLIENT_REQ
     else if role \<noteq> ''user'' then ret APIE_INVALID_CLIENT_REQ
     else try_db (
       connect L (
       query L DB_USR (str_fields [(''user_id'', user_id)]) (\<lambda>cursor.
       if cursor = [] then ret APIE_USER_NO_EXIST
       else update L DB_USR (str_fields [(''user_id'', user_id)])
              (BObj [(''$push'', BObj [(''cars'', BObj ([(''platenumber'', BString platenumber), (''kind'', BString kind)] @
                 given [(''brand'', brand), (''buy_date'', buy_date), (''miles'', miles), (''insurance'', insurance)]))])]) False False
              (ret APIE_OK))))))))))))"

definition user_CarList_Delete :: "'db lib \<Rightarrow> json \<Rightarrow> 'db prog" where
  "user_CarList_Delete L content =
     str_of L content ''role'' (\<lambda>role.
     str_of L content ''user_id'' (\<lambda>user_id.
     str_of L content ''platenumber'' (\<lambda>platenumber.
     if role = [] \<or> user_id = [] \<or> platenumber = [] then ret APIE_INVALID_CLIENT_REQ
     else if role \<noteq> ''user'' then ret APIE_INVALID_CLIENT_REQ
     else try_db (
       connect L (
       query L DB_USR (str_fields [(''user_id'', user_id)]) (\<lambda>cursor.
       if cursor = [] then ret APIE_USER_NO_EXIST
       else update L DB_USR (str_fields [(''user_id'', user_id)])
              (BObj [(''$pull'', BObj [(''cars'', str_fields [(''platenumber'', platenumber)])])]) False False
              (ret APIE_OK)))))))"

definition user_CarList_Patch :: "'db lib \<Rightarrow> json \<Rightarrow> 'db prog" where
  "user_CarList_Patch L content =
     str_of L content ''role'' (\<lambda>role.
     str_of L content ''user_id'' (\<lambda>user_id.
     str_of L content ''platenumber'' (\<lambda>platenumber.
     str_of L content ''brand'' (\<lambda>brand.
     str_of L content ''buy_date'' (\<lambda>buy_date.
     str_of L content ''miles'' (\<lambda>miles.
     str_of L content ''insurance'' (\<lambda>insurance.
     if role = [] \<or> user_id = [] \<or> platenumber = [] then ret APIE_INVALID_CLIENT_REQ
     else if role \<noteq> ''user'' then ret APIE_INVALID_CLIENT_REQ
     else try_db (
       connect L (
       query L DB_USR (str_fields [(''user_id'', user_id)]) (\<lambda>cursor.
       if cursor = [] then ret APIE_USER_NO_EXIST
       else update L DB_USR (str_fields [(''user_id'', user_id), (''cars.platenumber'', platenumber)])
              (BObj [(''$set'', BObj ((''cars.$.platenumber'', BString platenumber) #
                 given [(''cars.$.brand'', brand), (''cars.$.buy_date'', buy_date), (''cars.$.miles'', miles),
                   (''cars.$.insurance'', insurance)]))]) False False
              (ret APIE_OK)))))))))))"

section \<open>user/car\<close>

text \<open>
  The number of the request is hidden by a variable of the loop, which compares a car with itself: the
  first car is the answer.
\<close>

fun first_car :: "'db lib \<Rightarrow> bson \<Rightarrow> int list \<Rightarrow> bson option option" where
  "first_car L cars [] = Some None"
| "first_car L cars (i # is) = do {
     car \<leftarrow> obj_at L cars i;
     let platenumber = bs_getStringField L car ''platenumber'';
     if platenumber = bs_getStringField L car ''platenumber'' then Some (Some car) else first_car L cars is
   }"

definition user_Car_Get :: "'db lib \<Rightarrow> json \<Rightarrow> 'db prog" where
  "user_Car_Get L content =
     str_of L content ''role'' (\<lambda>role.
     str_of L content ''user_id'' (\<lambda>user_id.
     str_of L content ''platenumber'' (\<lambda>platenumber.
     if role = [] \<or> user_id = [] \<or> platenumber = [] then ret APIE_INVALID_CLIENT_REQ
     else if role \<noteq> ''user'' then ret APIE_INVALID_CLIENT_REQ
     else try_db (
       connect L (
       query L DB_USR (str_fields [(''user_id'', user_id)]) (\<lambda>cursor.
       case cursor of
         [] \<Rightarrow> ret APIE_USER_NO_EXIST
       | p # _ \<Rightarrow>
           let cars = bs_getObjectField L p ''cars'' in
           val_or DBException (first_car L cars [0..nFields L cars - 1]) (\<lambda>found.
           case found of
             None \<Rightarrow> ret APIE_CAR_NO_EXIST
           | Some car \<Rightarrow>
               out_puts L (str_members L
                 [(''platenumber'', ''platenumber''), (''brand'', ''brand''), (''buy_date'', ''buy_date''), (''miles'', ''miles''),
                  (''insurance'', ''insurance'')] car)
               (ret APIE_OK))))))))"

section \<open>user/car-maintenance-info\<close>

text \<open>The first plan for at least the mileage, and what is written to the reply for one kind of car.\<close>

fun find_plan :: "'db lib \<Rightarrow> int \<Rightarrow> bson list \<Rightarrow> bson option option" where
  "find_plan L mileage [] = Some None"
| "find_plan L mileage (e # es) = do {
     item \<leftarrow> bs_Obj L e;
     if bs_getIntField L item ''mileage'' \<ge> mileage then Some (Some item) else find_plan L mileage es
   }"

definition out_plan :: "'db lib \<Rightarrow> int \<Rightarrow> bson \<Rightarrow> 'db prog \<Rightarrow> 'db prog" where
  "out_plan L mileage kind k =
     val_or OtherException
       (js_array L (map (\<lambda>e. JString (bs_str L e)) (bs_elements L (bs_getObjectField L kind ''items'')))) (\<lambda>v.
     out_put L ''user'' v
     (val_or DBException (find_plan L mileage (bs_elements L (bs_getObjectField L kind ''mileages''))) (\<lambda>found.
      case found of
        None \<Rightarrow> k
      | Some item \<Rightarrow>
          val_or DBException (objs L (bs_elements L (bs_getObjectField L item ''items''))) (\<lambda>ts.
          val_or OtherException (js_array L (map (bson_to_json L) ts)) (\<lambda>v. out_put L ''mileage'' v k)))))"

fun out_kinds :: "'db lib \<Rightarrow> string \<Rightarrow> int \<Rightarrow> bson list \<Rightarrow> 'db prog \<Rightarrow> 'db prog" where
  "out_kinds L brand mileage [] k = k"
| "out_kinds L brand mileage (e # es) k =
     val_or DBException (bs_Obj L e) (\<lambda>kind.
     if bs_getStringField L kind ''name'' = brand then out_plan L mileage kind (out_kinds L brand mileage es k)
     else out_kinds L brand mileage es k)"

definition user_CarMaintenanceInfo_Get :: "'db lib \<Rightarrow> json \<Rightarrow> 'db prog" where
  "user_CarMaintenanceInfo_Get L content =
     str_of L content ''role'' (\<lambda>role.
     str_of L content ''kind'' (\<lambda>kind.
     str_of L content ''brand'' (\<lambda>brand.
     int_of L content ''mileage'' (\<lambda>mileage.
     if role = [] \<or> brand = [] \<or> kind = [] then ret APIE_INVALID_CLIENT_REQ
     else if role \<noteq> ''user'' then ret APIE_INVALID_CLIENT_REQ
     else try_db (
       connect L (
       query L DB_CAR (str_fields [(''kind'', kind), (''kinds.name'', brand)]) (\<lambda>cursor.
       case cursor of
         [] \<Rightarrow> ret APIE_USER_NO_EXIST
       | p # _ \<Rightarrow> out_kinds L brand mileage (bs_elements L (bs_getObjectField L p ''kinds'')) (ret APIE_OK))))))))"

section \<open>user/favorite\<close>

text \<open>The list of a kind of favorites, if the object has the field \<open>has\<close>.\<close>

definition favorites :: "'db lib \<Rightarrow> bson \<Rightarrow> string \<Rightarrow> string \<Rightarrow> (string \<times> string) list \<Rightarrow> (json \<Rightarrow> 'db prog) \<Rightarrow> 'db prog" where
  "favorites L favorite has key fs k =
     (if bs_hasField L favorite has then
        val_or DBException (objs L (bs_elements L (bs_getObjectField L favorite key))) (\<lambda>ds.
        val_or OtherException (doc_infos L fs ds) k)
      else k JNull)"

definition user_Favorite_Get :: "'db lib \<Rightarrow> json \<Rightarrow> 'db prog" where
  "user_Favorite_Get L content =
     str_of L content ''role'' (\<lambda>role.
     str_of L content ''user_id'' (\<lambda>user_id.
     if role = [] \<or> user_id = [] then ret APIE_INVALID_CLIENT_REQ
     else if role \<noteq> ''user'' then ret APIE_INVALID_CLIENT_REQ
     else try_db (
       connect L (
       query L DB_USR (str_fields [(''name'', user_id)]) (\<lambda>cursor.
       case cursor of
         [] \<Rightarrow> ret APIE_USER_NO_EXIST
       | user # _ \<Rightarrow>
           if bs_hasField L user ''favorite'' then
             let favorite = bs_getObjectField L user ''favorite'' in
             favorites L favorite ''seller'' ''seller''
               [(''seller_id'', ''seller_id''), (''name'', ''name''), (''telephone'', ''telephone''), (''address'', ''address''),
                (''type'', ''type''), (''intro'', ''intro'')] (\<lambda>sellerList.
             favorites L favorite ''commodity'' ''commodities''
               [(''seller_id'', ''seller_id''), (''cid'', ''cid''), (''name'', ''name''), (''desc'', ''desc''), (''band'', ''band''),
                (''cutoff'', ''cutoff''), (''rate'', ''rate'')] (\<lambda>commodityList.
             out_puts L [(''sellers'', sellerList), (''commodities'', commodityList)] (ret APIE_OK)))
           else ret APIE_OK)))))"

text \<open>The type of the request is the name of the field that the identifier is added to.\<close>

definition user_Favorite_Post :: "'db lib \<Rightarrow> json \<Rightarrow> 'db prog" where
  "user_Favorite_Post L content =
     str_of L content ''role'' (\<lambda>role.
     str_of L content ''user_id'' (\<lambda>user_id.
     str_of L content ''type'' (\<lambda>type.
     str_of L content ''id'' (\<lambda>ident.
     if role = [] \<or> user_id = [] \<or> type = [] \<or> ident = [] then ret APIE_INVALID_CLIENT_REQ
     else if role \<noteq> ''user'' then ret APIE_INVALID_CLIENT_REQ
     else try_db (
       connect L (
       query L DB_USR (str_fields [(''user_id'', user_id)]) (\<lambda>cursor.
       if cursor = [] then ret APIE_USER_NO_EXIST
       else update L DB_USR (str_fields [(''user_id'', user_id)])
              (BObj [(''$addToSet'', str_fields [(type, ident)])]) True False
              (ret APIE_OK))))))))"

text \<open>One element of an array of the request, by its index, with the given members and new image names.\<close>

fun str_values :: "'db lib \<Rightarrow> json \<Rightarrow> string list \<Rightarrow> (string \<times> bson) list \<Rightarrow> ((string \<times> bson) list \<Rightarrow> 'db prog) \<Rightarrow> 'db prog" where
  "str_values L v [] acc k = k acc"
| "str_values L v (key # keys) acc k = str_of L v key (\<lambda>s. str_values L v keys (acc @ [(key, BString s)]) k)"

definition favorite_doc :: "'db lib \<Rightarrow> string list \<Rightarrow> json \<Rightarrow> nat \<Rightarrow> (bson \<Rightarrow> 'db prog) \<Rightarrow> 'db prog" where
  "favorite_doc L keys vs i k =
     val_or OtherException (js_index L vs i) (\<lambda>v.
     str_values L v keys [] (\<lambda>fs.
     member_of L v ''images'' (\<lambda>number.
     getImageNames L number (\<lambda>names.
     k (BObj (fs @ [(''images'', BArray (map BString names))]))))))"

definition user_Favorite_Patch :: "'db lib \<Rightarrow> json \<Rightarrow> 'db prog" where
  "user_Favorite_Patch L content =
     str_of L content ''role'' (\<lambda>role.
     str_of L content ''user_id'' (\<lambda>user_id.
     member_of L content ''sellers'' (\<lambda>sellers.
     member_of L content ''commodities'' (\<lambda>commodities.
     if role = [] \<or> user_id = [] then ret APIE_INVALID_CLIENT_REQ
     else if role \<noteq> ''user'' then ret APIE_INVALID_CLIENT_REQ
     else try_db (
       connect L (
       query L DB_USR (str_fields [(''name'', user_id)]) (\<lambda>cursor.
       case cursor of
         [] \<Rightarrow> ret APIE_USER_NO_EXIST
       | user # _ \<Rightarrow>
           for_each (favorite_doc L [''seller_id'', ''name'', ''telephone'', ''address'', ''type'', ''intro''] sellers)
             [0..<js_size L sellers] [] (\<lambda>sellerList.
           for_each (favorite_doc L [''cid'', ''seller_id'', ''name'', ''desc'', ''band'', ''cutoff'', ''rate''] commodities)
             [0..<js_size L commodities] [] (\<lambda>comList.
           let push = update L DB_USR (str_fields [(''user_id'', user_id)])
                 (BObj [(''$push'', BObj [(''favorite'', BObj [(''seller'', BArray sellerList), (''commodity'', BArray comList)])])]) False False
                 (ret APIE_OK) in
           if \<not> bs_hasField L user ''favorite'' then push
           else update L DB_USR (str_fields [(''user_id'', user_id)]) (str_fields [(''$pull'', ''favorite'')]) False False push)))))))))"

section \<open>user/coupon-list\<close>

definition user_CouponList_Get :: "'db lib \<Rightarrow> json \<Rightarrow> 'db prog" where
  "user_CouponList_Get L content =
     str_of L content ''name'' (\<lambda>name.
     if name = [] then ret APIE_INVALID_CLIENT_REQ
     else try_db (
       connect L (
       query L DB_SESSION (str_fields [(''uid'', name)]) (\<lambda>cursor.
       if cursor = [] then ret APIE_INVALID_CLIENT_REQ
       else query L DB_COUPON (str_fields [(''user_id'', name)]) (\<lambda>cursor.
         val_or OtherException
           (doc_infos L [(''title'', ''title''), (''content'', ''content''), (''seller_id'', ''seller_id''),
              (''start_date'', ''start_date''), (''end_date'', ''end_date''), (''status'', ''status'')] cursor) (\<lambda>coupon_list.
         out_puts L [(''status'', JInt APIE_OK), (''total'', JInt (int (length cursor))), (''data'', coupon_list)] (ret APIE_OK)))))))"

section \<open>Frame\<close>

text \<open>The requests of this theory write no collections but the users.\<close>

definition garage_handlers :: "('db lib \<Rightarrow> json \<Rightarrow> 'db prog) list" where
  "garage_handlers = [user_CarList_Get, user_CarList_Post, user_CarList_Delete, user_CarList_Patch, user_Car_Get,
     user_CarMaintenanceInfo_Get, user_Favorite_Get, user_Favorite_Post, user_Favorite_Patch, user_CouponList_Get]"

lemmas garage_defs = user_CarList_Get_def user_CarList_Post_def user_CarList_Delete_def user_CarList_Patch_def user_Car_Get_def
  user_CarMaintenanceInfo_Get_def user_Favorite_Get_def user_Favorite_Post_def user_Favorite_Patch_def user_CouponList_Get_def

lemma keeps_str_values [keeps_rules]: "(\<And>x. keeps P (k x)) \<Longrightarrow> keeps P (str_values L v keys acc k)"
  by (induction L v keys acc k rule: str_values.induct) (auto intro: keeps_rules)

lemma keeps_out_plan [keeps_rules]: "keeps P k \<Longrightarrow> keeps P (out_plan L mileage kind k)"
  unfolding out_plan_def by (intro keeps_rules; assumption)

lemma keeps_out_kinds [keeps_rules]: "keeps P k \<Longrightarrow> keeps P (out_kinds L brand mileage es k)"
  by (induction L brand mileage es k rule: out_kinds.induct) (auto intro!: keeps_rules)

lemma keeps_garage_parts [keeps_rules]:
  fixes kj :: "json \<Rightarrow> 'db prog" and kl :: "json list \<Rightarrow> 'db prog" and kb :: "bson \<Rightarrow> 'db prog"
  shows "(\<And>x. keeps P (kl x)) \<Longrightarrow> keeps P (car_infos L fs cars kl)"
  "(\<And>x. keeps P (kj x)) \<Longrightarrow> keeps P (favorites L favorite has key fs kj)"
  "(\<And>x. keeps P (kb x)) \<Longrightarrow> keeps P (favorite_doc L keys vs i kb)"
  unfolding car_infos_def favorites_def favorite_doc_def by (intro keeps_rules; assumption)+

lemma garage_untouched:
  assumes "mongo_ok L docs" "h \<in> set garage_handlers" "c \<noteq> DB_USR"
  shows "keeps (content_is docs c X) (h L content)"
proof -
  have ne: "DB_USR \<noteq> c" using assms(3) by auto
  have "\<forall>h \<in> set garage_handlers. keeps (content_is docs c X) (h L content)"
    unfolding garage_handlers_def list.set ball_simps garage_defs Let_def
    by (intro conjI TrueI keeps_rules same_update [OF assms(1)]; simp add: ne)
  with assms(2) show ?thesis by blast
qed

section \<open>The cars of a user\<close>

definition cars :: "('db \<Rightarrow> string \<Rightarrow> bson list) \<Rightarrow> 'db \<Rightarrow> string \<Rightarrow> bson list" where
  "cars docs db u = array_at docs db DB_USR ''user_id'' u ''cars''"

definition car_doc :: "(string \<times> string) list \<Rightarrow> bson" where
  "car_doc kvs = BObj ([(''platenumber'', BString (arg kvs ''platenumber'')), (''kind'', BString (arg kvs ''kind''))] @
     given [(''brand'', arg kvs ''brand''), (''buy_date'', arg kvs ''buy_date''), (''miles'', arg kvs ''miles''),
       (''insurance'', arg kvs ''insurance'')])"

definition has_plate :: "string \<Rightarrow> bson \<Rightarrow> bool" where
  "has_plate n c \<longleftrightarrow> has_value (BString n) (bfield c ''platenumber'')"

lemma found_user:
  assumes "mongo_ok L docs" "db_query L db DB_USR (BObj [(''user_id'', BString u)]) = Some ds" "ds \<noteq> []"
  shows "\<exists>d. lookup docs db DB_USR [(''user_id'', u)] = Some d"
  using lookup_query [OF assms(1), of db DB_USR "[(''user_id'', u)]" ds] assms(2,3) by (simp split: list.splits)

lemma car_registered:
  assumes "json_ok L" "mongo_ok L docs" "arg kvs ''user_id'' = u" "user_CarList_Post L (req kvs) w = (Ret APIE_OK, w')"
  shows "cars docs (w_db w') u = cars docs (w_db w) u @ [car_doc kvs]"
proof -
  have push: "cars docs db' u = cars docs (w_db w) u @ [c]"
    if "db_query L (w_db w) DB_USR (BObj [(''user_id'', BString u)]) = Some ds" "ds \<noteq> []"
      "db_update L (w_db w) DB_USR (BObj [(''user_id'', BString u)]) (BObj [(''$push'', BObj [(''cars'', c)])]) False False = Some db'" for ds db' c
    using found_user [OF assms(2) that(1,2)] array_at_push [OF assms(2), of "w_db w" DB_USR "''user_id''" u _ "''cars''" c False db' "''cars''"] that(3)
    by (auto simp: cars_def)
  have "on_ok (user_CarList_Post L (req kvs)) (\<lambda>w'. cars docs (w_db w') u = cars docs (w_db w) u @ [car_doc kvs]) w"
    unfolding user_CarList_Post_def
    by (auto simp: assms(1,3) ok_simps apie_ne car_doc_def dest: push)
  then show ?thesis using assms(4) by (rule on_okD)
qed

lemma car_removed:
  assumes "json_ok L" "mongo_ok L docs" "arg kvs ''user_id'' = u" "user_CarList_Delete L (req kvs) w = (Ret APIE_OK, w')"
  shows "cars docs (w_db w') u = filter (\<lambda>c. \<not> has_plate (arg kvs ''platenumber'') c) (cars docs (w_db w) u)"
proof -
  have pull: "cars docs db' u = filter (\<lambda>c. \<not> has_plate n c) (cars docs (w_db w) u)"
    if "db_query L (w_db w) DB_USR (BObj [(''user_id'', BString u)]) = Some ds" "ds \<noteq> []"
      "db_update L (w_db w) DB_USR (BObj [(''user_id'', BString u)])
         (BObj [(''$pull'', BObj [(''cars'', BObj [(''platenumber'', BString n)])])]) False False = Some db'" for ds db' n
    using found_user [OF assms(2) that(1,2)] that(3)
      array_at_pull [OF assms(2), of "w_db w" DB_USR "''user_id''" u _ "''cars''" "BObj [(''platenumber'', BString n)]" False db' "''cars''"]
    by (auto simp: cars_def has_plate_def)
  have "on_ok (user_CarList_Delete L (req kvs)) (\<lambda>w'. cars docs (w_db w') u =
     filter (\<lambda>c. \<not> has_plate (arg kvs ''platenumber'') c) (cars docs (w_db w) u)) w"
    unfolding user_CarList_Delete_def by (auto simp: assms(1,3) ok_simps apie_ne dest: pull)
  then show ?thesis using assms(4) by (rule on_okD)
qed

text \<open>
  C35. Registering a car adds it at the end of the user's cars, and removing its number afterwards gives
  the cars from before, less the ones that had the same number already.
\<close>

theorem car_round_trip:
  assumes "json_ok L" "mongo_ok L docs" "arg kvs ''user_id'' = u" "arg kvs ''platenumber'' = n"
    and "user_CarList_Post L (req kvs) w = (Ret APIE_OK, w1)"
    and "arg del ''user_id'' = u" "arg del ''platenumber'' = n" "user_CarList_Delete L (req del) w1 = (Ret APIE_OK, w2)"
  shows "cars docs (w_db w1) u = cars docs (w_db w) u @ [car_doc kvs] \<and>
     cars docs (w_db w2) u = filter (\<lambda>c. \<not> has_plate n c) (cars docs (w_db w) u)"
proof -
  have "has_plate n (car_doc kvs)" by (simp add: has_plate_def car_doc_def assms(4))
  with car_registered [OF assms(1-3,5)] car_removed [OF assms(1,2,6,8)] assms(7) show ?thesis by simp
qed

text \<open>
  A user who asks for a car by its number gets the first of the own cars, whatever the number is.
\<close>

theorem car_get_first:
  assumes "json_ok L" "bson_ok L" "mongo_ok L docs" "arg kvs ''user_id'' = u" "w_out w = JNull"
    and "cars docs (w_db w) u = BObj car # rest" "user_Car_Get L (req kvs) w = (Ret APIE_OK, w')"
  shows "w_out w' = JObject [(''brand'', JString (string_field (BObj car) ''brand'')), (''buy_date'', JString (string_field (BObj car) ''buy_date'')),
     (''insurance'', JString (string_field (BObj car) ''insurance'')), (''miles'', JString (string_field (BObj car) ''miles'')),
     (''platenumber'', JString (string_field (BObj car) ''platenumber''))]"
    (is "w_out w' = ?answer")
proof -
  have first: "first_car L (BArray (BObj car # rest)) [0..nFields L (BArray (BObj car # rest)) - 1] = Some (Some (BObj car))"
    using assms(2) by (simp add: nFields_def upto_rec1 obj_at_def)
  have found: "bfield d ''cars'' = Some (BArray (BObj car # rest))"
    if "db_query L (w_db w) DB_USR (BObj [(''user_id'', BString u)]) = Some (d # ds)" for d ds
  proof -
    have "lookup docs (w_db w) DB_USR [(''user_id'', u)] = Some d"
      using lookup_query [OF assms(3), of "w_db w" DB_USR "[(''user_id'', u)]" "d # ds"] that by simp
    then have "elems (bfield d ''cars'') = BObj car # rest" using assms(6) by (simp add: cars_def array_at_found)
    then show ?thesis by (cases "bfield d ''cars''" rule: elems.cases) simp_all
  qed
  have "on_ok (user_Car_Get L (req kvs)) (\<lambda>w'. w_out w' = ?answer) w"
    unfolding user_Car_Get_def using assms(2)
    by (auto simp: assms(1,4,5) ok_simps apie_ne first str_members_def string_field_def json_ok_null [OF assms(1)] dest!: found)
  then show ?thesis using assms(7) by (rule on_okD)
qed

section \<open>The favorites of a user\<close>

lemma find_update_first_both:
  assumes "List.find P xs = Some d" "List.find Q xs = Some d" "Q (f d)"
  shows "List.find Q (update_first P f xs) = Some (f d)"
proof -
  have "P d" "Q d" using assms(1,2) by (auto simp: find_Some_iff)
  with assms show ?thesis by (induction xs) (auto split: if_splits)
qed

lemma on_ok_getImageNames:
  assumes "\<And>ids w'. w_db w' = w_db w \<Longrightarrow> on_ok (k ids) X w'"
  shows "on_ok (getImageNames L j k) X w"
  unfolding getImageNames_def on_ok_val_or using assms
  by (auto simp: on_ok_def intro!: wp_getImageNames_loop)

text \<open>
  The favorites of a user that are written first are never shown: they are stored as a list that
  has an object with the sellers and the commodities, and read as if they were this object. The
  answer to a user who has just written them has neither.
\<close>

theorem favorites_never_shown:
  assumes "json_ok L" "bson_ok L" "mongo_ok L docs" "str_member L val ''user_id'' = Some u"
    and "lookup docs (w_db w) DB_USR [(''user_id'', u)] = Some d" "lookup docs (w_db w) DB_USR [(''name'', u)] = Some d"
    and "bfield d ''favorite'' = None" "user_Favorite_Patch L val w = (Ret APIE_OK, w1)"
    and "arg kvs ''user_id'' = u" "user_Favorite_Get L (req kvs) (w1\<lparr>w_out := JNull\<rparr>) = (Ret APIE_OK, w2)"
  shows "w_out w2 = JObject [(''commodities'', JNull), (''sellers'', JNull)]"
proof -
  define shown where "shown db \<longleftrightarrow> (\<exists>d vs. lookup docs db DB_USR [(''name'', u)] = Some d \<and> bfield d ''favorite'' = Some (BArray vs))" for db
  have found: "x = d" if "db_query L (w_db w) DB_USR (BObj [(''name'', BString u)]) = Some (x # ds)" for x ds
    using lookup_query [OF assms(3), of "w_db w" DB_USR "[(''name'', u)]" "x # ds"] that assms(6) by simp
  have push: "shown db'"
    if "db_update L (w_db w) DB_USR (BObj [(''user_id'', BString u)]) (BObj [(''$push'', BObj [(''favorite'', v)])]) False False = Some db'" for v db'
  proof -
    let ?f = "apply_ops Push_op [(''favorite'', v)]"
    have "matches [(''name'', u)] d" using assms(6) by (auto simp: lookup_def find_Some_iff)
    then have "matches [(''name'', u)] (?f d)" by (simp add: matches_def bfield_apply_ops_other)
    with assms(5,6) have "List.find (matches [(''name'', u)]) (update_first (matches [(''user_id'', u)]) ?f (docs (w_db w) DB_USR)) = Some (?f d)"
      unfolding lookup_def by (intro find_update_first_both)
    moreover obtain x where "bfield d ''user_id'' = Some x" using lookup_isobj [OF assms(5)] ..
    then have "bfield (?f d) ''favorite'' = Some (BArray [v])"
      using bfield_set_same assms(7) by (fastforce simp: apply_ops_def)
    ultimately show ?thesis
      using mongo_push [OF assms(3), of "w_db w" DB_USR "[(''user_id'', u)]" "[(''favorite'', v)]" False db'] that
      by (auto simp: shown_def lookup_def)
  qed
  have "on_ok (user_Favorite_Patch L val) (\<lambda>w'. shown (w_db w')) w"
    unfolding user_Favorite_Patch_def using assms(2,7)
    by (auto simp: assms(4) ok_simps apie_ne Let_def favorite_doc_def intro!: on_ok_for_each [where db = "w_db w"] on_ok_getImageNames dest!: found dest: push)
  then have "shown (w_db w1)" using assms(8) by (rule on_okD)
  then have list: "\<exists>vs. bfield x ''favorite'' = Some (BArray vs)" if "db_query L (w_db w1) DB_USR (BObj [(''name'', BString u)]) = Some (x # ds)" for x ds
    using lookup_query [OF assms(3), of "w_db w1" DB_USR "[(''name'', u)]" "x # ds"] that by (auto simp: shown_def)
  have "on_ok (user_Favorite_Get L (req kvs)) (\<lambda>w'. w_out w' = JObject [(''commodities'', JNull), (''sellers'', JNull)]) (w1\<lparr>w_out := JNull\<rparr>)"
    unfolding user_Favorite_Get_def favorites_def Let_def using assms(2)
    by (auto simp: assms(1,9) ok_simps apie_ne json_ok_null [OF assms(1)] dest!: list)
  then show ?thesis using assms(10) by (rule on_okD)
qed

section \<open>Witnesses of this theory\<close>

definition garage_world :: "(string \<times> bson list) list world" where
  "garage_world = mem_world [(DB_USR, [BObj [(''user_id'', BString ''bob''), (''name'', BString ''bob''),
     (''cars'', BArray [str_fields [(''platenumber'', ''A1''), (''brand'', ''x'')], str_fields [(''platenumber'', ''B2'')]])]])]"

definition garage_req :: "(string \<times> string) list" where
  "garage_req = [(''role'', ''user''), (''user_id'', ''bob''), (''platenumber'', ''B2'')]"

lemma garage_args: "arg garage_req ''user_id'' = ''bob''" "arg garage_req ''platenumber'' = ''B2''"
  by (simp_all add: garage_req_def arg_def)

lemma garage_runs:
  "fst (user_CarList_Post mem_lib (req garage_req) garage_world) = Ret APIE_OK"
  "fst (user_CarList_Delete mem_lib (req garage_req) (snd (user_CarList_Post mem_lib (req garage_req) garage_world))) = Ret APIE_OK"
  "fst (user_Car_Get mem_lib (req garage_req) garage_world) = Ret APIE_OK"
  "fst (user_Favorite_Patch mem_lib (req garage_req) garage_world) = Ret APIE_OK"
  "fst (user_Favorite_Get mem_lib (req garage_req) (snd (user_Favorite_Patch mem_lib (req garage_req) garage_world)\<lparr>w_out := JNull\<rparr>)) = Ret APIE_OK"
  by code_simp+

lemma garage_cars:
  "cars mem_get (w_db garage_world) ''bob'' = [str_fields [(''platenumber'', ''A1''), (''brand'', ''x'')], str_fields [(''platenumber'', ''B2'')]]"
  by (simp add: cars_def array_at_def lookup_def matches_def garage_world_def mem_world_def)

theorem car_round_trip_witness:
  "cars mem_get (w_db (snd (user_CarList_Delete mem_lib (req garage_req) (snd (user_CarList_Post mem_lib (req garage_req) garage_world))))) ''bob'' =
     [str_fields [(''platenumber'', ''A1''), (''brand'', ''x'')]]"
  using car_round_trip [OF json_ok_mem mongo_ok_mem garage_args run_ok [OF garage_runs(1)] garage_args run_ok [OF garage_runs(2)]]
  by (simp add: garage_cars has_plate_def)

theorem car_get_first_witness:
  "\<exists>m. w_out (snd (user_Car_Get mem_lib (req garage_req) garage_world)) = JObject m \<and> map_of m ''platenumber'' = Some (JString ''A1'')"
  using car_get_first [OF json_ok_mem bson_ok_mem mongo_ok_mem garage_args(1) _ _ run_ok [OF garage_runs(3)]] garage_cars
  by (simp add: string_field_def garage_world_def mem_world_def)

theorem favorites_never_shown_witness:
  "w_out (snd (user_Favorite_Get mem_lib (req garage_req) (snd (user_Favorite_Patch mem_lib (req garage_req) garage_world)\<lparr>w_out := JNull\<rparr>))) =
     JObject [(''commodities'', JNull), (''sellers'', JNull)]"
  by (rule favorites_never_shown [OF json_ok_mem bson_ok_mem mongo_ok_mem _ _ _ _ run_ok [OF garage_runs(4)] garage_args(1) run_ok [OF garage_runs(5)]])
    (simp_all add: json_ok_mem garage_args lookup_def matches_def garage_world_def mem_world_def, simp)

end
