(* ===== verification/Report_Api.thy ===== *)
theory Report_Api
  imports Order_Api Seller_Api
begin

text \<open>
  What users report about sellers: comments (\<^verbatim>\<open>uri/user/seller-comment.cpp\<close>,
  \<^verbatim>\<open>uri/user/seller-comment-list.cpp\<close> and the seller's \<^verbatim>\<open>uri/seller/comment-list.cpp\<close>), accusations
  (\<^verbatim>\<open>uri/user/accusation.cpp\<close>, \<^verbatim>\<open>uri/seller/accusation.cpp\<close>, \<^verbatim>\<open>uri/seller/accusation-list.cpp\<close>)
  and calls for help on the road (\<^verbatim>\<open>uri/user/sos.cpp\<close>). The properties say which page of the comments
  a reader gets, that a comment is found again or lost, and which reports are never accepted.
\<close>

section \<open>Comments\<close>

text \<open>
  At most \<open>number\<close> comments from an index on: the loop of the three readers. Its indices and its
  counter are of type \<^verbatim>\<open>int\<close>; that they overflow is undefined and left out.
\<close>

definition comment_page :: "'db lib \<Rightarrow> bson \<Rightarrow> int \<Rightarrow> int \<Rightarrow> (json list \<Rightarrow> 'db prog) \<Rightarrow> 'db prog" where
  "comment_page L comments from number k =
     val_or DBException (objs_at L comments [from..min (nFields L comments) (from + number) - 1]) (\<lambda>cs.
     val_or OtherException
       (those (map (\<lambda>c. js_build L (str_members L
          [(''user_id'', ''user_id''), (''content'', ''content''), (''time'', ''time'')] c)) cs)) k)"

text \<open>The page of the first document for the seller.\<close>

definition page_of :: "'db lib \<Rightarrow> string \<Rightarrow> int \<Rightarrow> int \<Rightarrow> (json list \<Rightarrow> 'db prog) \<Rightarrow> 'db prog" where
  "page_of L seller_id from number k =
     query L DB_COMMENT (str_fields [(''seller_id'', seller_id)]) (\<lambda>cursor.
     case cursor of
       [] \<Rightarrow> k []
     | com # _ \<Rightarrow> comment_page L (bs_getObjectField L com ''comments'') from number k)"

definition seller_CommentList_Get :: "'db lib \<Rightarrow> json \<Rightarrow> 'db prog" where
  "seller_CommentList_Get L content =
     str_of L content ''role'' (\<lambda>role.
     str_of L content ''seller_id'' (\<lambda>seller_id.
     int_of L content ''offset'' (\<lambda>offset.
     int_of L content ''number'' (\<lambda>number.
     if role = [] \<or> seller_id = [] then ret APIE_INVALID_CLIENT_REQ
     else if role \<noteq> ''seller'' then ret APIE_INVALID_CLIENT_REQ
     else try_db (
       connect L (
       page_of L seller_id offset number (\<lambda>comments.
       val_or OtherException (js_list L comments) (\<lambda>data.
       out_puts L [(''total'', JInt (int (length comments))), (''data'', data)] (ret APIE_OK)))))))))"

text \<open>The readers of the two resources of users are the same text; they differ in where they write.\<close>

definition user_Comments_Get :: "'db lib \<Rightarrow> json \<Rightarrow> 'db prog" where
  "user_Comments_Get L content =
     str_of L content ''role'' (\<lambda>role.
     str_of L content ''seller_id'' (\<lambda>seller_id.
     int_of L content ''page'' (\<lambda>page.
     int_of L content ''page_size'' (\<lambda>page_size.
     if role \<noteq> ''user'' then ret APIE_INVALID_CLIENT_REQ
     else try_db (
       connect L (
       page_of L seller_id (page * page_size) page_size (\<lambda>comments.
       val_or OtherException (js_list L comments) (\<lambda>data.
       out_puts L [(''status'', JInt APIE_OK), (''total'', JInt (int (length comments))), (''data'', data)] (ret APIE_OK)))))))))"

definition user_SellerCommentList_Get :: "'db lib \<Rightarrow> json \<Rightarrow> 'db prog" where
  "user_SellerCommentList_Get L content =
     str_of L content ''role'' (\<lambda>role.
     str_of L content ''seller_id'' (\<lambda>seller_id.
     int_of L content ''page'' (\<lambda>page.
     int_of L content ''page_size'' (\<lambda>page_size.
     if role \<noteq> ''user'' then ret APIE_INVALID_CLIENT_REQ
     else try_db (
       connect L (
       page_of L seller_id (page * page_size) page_size (\<lambda>comments.
       val_or OtherException (js_list L comments) (\<lambda>data.
       out_puts L [(''status'', JInt APIE_OK), (''total'', JInt (int (length comments))), (''data'', data)] (ret APIE_OK)))))))))"

text \<open>Writing a comment to the array \<open>field\<close> of the document of the seller, which is created if there is none.\<close>

definition post_comment :: "string \<Rightarrow> 'db lib \<Rightarrow> json \<Rightarrow> 'db prog" where
  "post_comment field L val =
     str_of L val ''role'' (\<lambda>role.
     str_of L val ''seller_id'' (\<lambda>seller_id.
     str_of L val ''user_id'' (\<lambda>user_id.
     str_of L val ''content'' (\<lambda>content.
     get_customstring_time (\<lambda>time.
     if role = [] \<or> seller_id = [] \<or> user_id = [] \<or> content = [] then ret APIE_INVALID_CLIENT_REQ
     else if role \<noteq> ''user'' then ret APIE_INVALID_CLIENT_REQ
     else try_db (
       connect L (
       query L DB_USR (str_fields [(''user_id'', user_id)]) (\<lambda>cursor.
       if cursor = [] then ret APIE_USER_NO_EXIST
       else update L DB_COMMENT (str_fields [(''seller_id'', seller_id)])
              (BObj [(''$push'', BObj [(field, str_fields [(''user_id'', user_id), (''content'', content), (''time'', time)])])]) True False
            (val_or OtherException (js_build L [(''source'', JString ''user''), (''kind'', JString ''comment'')]) (\<lambda>msg.
             pushMessageToSeller L seller_id msg (ret APIE_OK)))))))))))"

definition user_Comments_Post :: "'db lib \<Rightarrow> json \<Rightarrow> 'db prog" where
  "user_Comments_Post = post_comment ''comments''"

definition user_SellerCommentList_Post :: "'db lib \<Rightarrow> json \<Rightarrow> 'db prog" where
  "user_SellerCommentList_Post = post_comment ''SellerCommentList''"

section \<open>Accusations\<close>

definition user_Accusation_Post :: "'db lib \<Rightarrow> json \<Rightarrow> 'db prog" where
  "user_Accusation_Post L content =
     str_of L content ''role'' (\<lambda>role.
     if role \<noteq> ''user'' then ret APIE_INVALID_CLIENT_REQ
     else
     str_of L content ''user_id'' (\<lambda>user_id.
     str_of L content ''seller_id'' (\<lambda>seller_id.
     str_of L content ''description'' (\<lambda>description.
     get_customstring_time (\<lambda>time.
     gen_oid L (\<lambda>accusation_id.
     try_db (
       connect L (
       query L DB_SESSION (str_fields [(''user_id'', user_id)]) (\<lambda>cursor.
       if cursor = [] then ret APIE_INVALID_CLIENT_REQ
       else member_of L content ''images'' (\<lambda>number.
         getImageNames L number (\<lambda>names.
         insert_into L DB_ACCUSATION
           (BObj [(''accusation_id'', BString accusation_id), (''user_id'', BString user_id), (''seller_id'', BString seller_id),
              (''description'', BString description), (''time'', BString time), (''status'', BString ''new''),
              (''images'', BArray (map BString names))])
           (val_or OtherException (js_build L [(''source'', JString ''user''), (''kind'', JString ''accusation'')]) (\<lambda>msg.
            pushMessageToSeller L seller_id msg (ret APIE_OK))))))))))))))"

definition seller_Accusation_Post :: "'db lib \<Rightarrow> json \<Rightarrow> 'db prog" where
  "seller_Accusation_Post L content =
     str_of L content ''role'' (\<lambda>role.
     str_of L content ''seller_id'' (\<lambda>seller_id.
     str_of L content ''time'' (\<lambda>reply_time.
     str_of L content ''content'' (\<lambda>reply_text.
     str_of L content ''accusation_id'' (\<lambda>accusation_id.
     if role \<noteq> ''seller'' then ret APIE_INVALID_CLIENT_REQ
     else if seller_id = [] \<or> accusation_id = [] \<or> reply_text = [] then ret APIE_INVALID_CLIENT_REQ
     else try_db (
       connect L (
       query L DB_ACCUSATION (str_fields [(''seller_id'', seller_id), (''accusation_id'', accusation_id)]) (\<lambda>cursor.
       if cursor = [] then ret APIE_INVALID_CLIENT_REQ
       else get_customstring_time (\<lambda>_.
         update L DB_ACCUSATION (str_fields [(''seller_id'', seller_id), (''accusation_id'', accusation_id)])
           (BObj [(''$push'', BObj [(''replies'', str_fields [(''role'', ''seller''), (''seller_id'', seller_id),
              (''content'', reply_text), (''time'', reply_time)])])]) False False
           (ret APIE_OK))))))))))"

text \<open>The names of the members and of the array are misspelled, and nothing else writes this array.\<close>

definition seller_Accusation_Delete :: "'db lib \<Rightarrow> json \<Rightarrow> 'db prog" where
  "seller_Accusation_Delete L content =
     str_of L content ''role'' (\<lambda>role.
     str_of L content ''id'' (\<lambda>seller_id.
     str_of L content ''accustion_id'' (\<lambda>accusation_id.
     if role = [] \<or> seller_id = [] \<or> accusation_id = [] then ret APIE_INVALID_CLIENT_REQ
     else if role \<noteq> ''seller'' then ret APIE_INVALID_CLIENT_REQ
     else try_db (
       connect L (
       query L DB_SELLER (str_fields [(''seller_id'', seller_id)]) (\<lambda>cursor.
       if cursor = [] then ret APIE_SELLER_NO_EXIST
       else update L DB_SELLER (str_fields [(''role'', role), (''seller_id'', seller_id)])
              (BObj [(''$pull'', BObj [(''accustions'', str_fields [(''accustion_id'', accusation_id)])])]) True False
              (ret APIE_OK)))))))"

text \<open>An accusation is only listed if it has the field \<^verbatim>\<open>replies\<close>.\<close>

definition accusation_row :: "'db lib \<Rightarrow> bson \<Rightarrow> (json list \<Rightarrow> 'db prog) \<Rightarrow> 'db prog" where
  "accusation_row L obj k =
     val_or OtherException (getImageNamesFromBson L obj ''images'') (\<lambda>images.
     if \<not> bs_hasField L obj ''replies'' then k []
     else
       val_or DBException (objs L (bs_elements L (bs_getObjectField L obj ''replies''))) (\<lambda>rs.
       val_or OtherException
         (Option.bind (those (map (\<lambda>r. js_build L (str_members L
            [(''role'', ''role''), (''time'', ''time''), (''content'', ''content'')] r)) rs)) (js_list L)) (\<lambda>replies.
       val_or OtherException
         (js_build L (str_members L
            [(''accusation_id'', ''accusation_id''), (''user_id'', ''user_id''), (''seller_id'', ''seller_id''), (''title'', ''title''),
             (''detail'', ''detail''), (''date'', ''date''), (''status'', ''status'')] obj @
            [(''images'', images), (''replies'', replies)])) (\<lambda>row. k [row]))))"

definition seller_AccusationList_Get :: "'db lib \<Rightarrow> json \<Rightarrow> 'db prog" where
  "seller_AccusationList_Get L content =
     str_of L content ''role'' (\<lambda>role.
     str_of L content ''seller_id'' (\<lambda>seller_id.
     try_db (
       connect L (
       query L DB_ACCUSATION (str_fields [(''seller_id'', seller_id)]) (\<lambda>cursor.
       for_each (accusation_row L) cursor [] (\<lambda>rows.
       val_or OtherException (js_list L (concat rows)) (\<lambda>accusation_list.
       out_puts L [(''total'', JInt (int (length (concat rows)))), (''data'', accusation_list)] (ret APIE_OK))))))))"

section \<open>Calls for help\<close>

definition OrderServiceTypeSOS :: string where
  "OrderServiceTypeSOS = [CHR 0xE7, CHR 0xB4, CHR 0xA7, CHR 0xE6, CHR 0x80, CHR 0xA5, CHR 0xE6, CHR 0x95, CHR 0x91, CHR 0xE6, CHR 0x8F, CHR 0xB4]"

text \<open>
  The open sellers of the city near the place. For an empty place or city the function returns without
  setting the counter; its caller has refused such requests before. The distance is divided as an
  integer.
\<close>

definition sos_query :: "string \<Rightarrow> double \<Rightarrow> double \<Rightarrow> int \<Rightarrow> bson" where
  "sos_query city lng lat distance =
     BObj [(''city'', BString city), (''status'', BString ''open''),
       (''location'', BObj [(''$near'', BArray [BDouble lng, BDouble lat]), (''$maxDistance'', BInt (distance div 6378))])]"

definition get_sellers_uuid :: "'db lib \<Rightarrow> string \<Rightarrow> json \<Rightarrow> int \<Rightarrow> (string list \<Rightarrow> 'db prog) \<Rightarrow> 'db prog" where
  "get_sellers_uuid L city location distance k =
     (if js_empty L location \<or> city = [] then k []
      else
        double_of L location ''lng'' (\<lambda>lng.
        double_of L location ''lat'' (\<lambda>lat.
        query L DB_SELLER (sos_query city lng lat distance) (\<lambda>ret_cursor.
        k (map (\<lambda>p. bs_getStringField L p ''seller_id'') ret_cursor)))))"

text \<open>The identifier of the reply is not the one of the document.\<close>

definition user_SOS_Post :: "'db lib \<Rightarrow> json \<Rightarrow> 'db prog" where
  "user_SOS_Post L content =
     str_of L content ''role'' (\<lambda>role.
     str_of L content ''user_id'' (\<lambda>user_id.
     member_of L content ''location'' (\<lambda>location.
     str_of L content ''city'' (\<lambda>city.
     get_customstring_time (\<lambda>time.
     gen_oid L (\<lambda>order_id.
     if role = [] \<or> user_id = [] \<or> js_empty L location \<or> city = [] then ret APIE_INVALID_CLIENT_REQ
     else if role \<noteq> ''user'' then ret APIE_INVALID_CLIENT_REQ
     else try_db (
       connect L (
       query L DB_USR (str_fields [(''user_id'', user_id)]) (\<lambda>cursor.
       case cursor of
         [] \<Rightarrow> ret APIE_INVALID_CLIENT_REQ
       | user # _ \<Rightarrow>
           get_sellers_uuid L city location (10 * 1000) (\<lambda>uuids.
           if length uuids < 1 then ret APIE_NO_SELLER_FIND
           else
             gen_oid L (\<lambda>stored_id.
             double_of L location ''lng'' (\<lambda>lng.
             double_of L location ''lat'' (\<lambda>lat.
             insert_into L DB_SOS
               (BObj [(''role'', BString ''user''), (''order_id'', BString stored_id), (''user_id'', BString user_id),
                  (''user_name'', BString (bs_getStringField L user ''name'')), (''time'', BString time), (''city'', BString city),
                  (''status'', BString ''new''), (''service_type'', BString OrderServiceTypeSOS),
                  (''location'', BObj [(''lng'', BDouble lng), (''lat'', BDouble lat)]),
                  (''sellers'', BArray (map BString uuids))])
             (val_or OtherException (js_build L [(''source'', JString ''user''), (''kind'', JString ''order''), (''type'', JString ''sos'')]) (\<lambda>msg.
              pushMessageToSellers L uuids msg
              (out_puts L [(''order_id'', JString order_id), (''count'', JInt (int (length uuids)))] (ret APIE_OK)))))))))))))))))"

section \<open>Frame\<close>

text \<open>The requests of this theory write no collections but comments, accusations, sellers and calls for help.\<close>

definition report_handlers :: "('db lib \<Rightarrow> json \<Rightarrow> 'db prog) list" where
  "report_handlers = [seller_CommentList_Get, user_Comments_Get, user_SellerCommentList_Get, user_Comments_Post,
     user_SellerCommentList_Post, user_Accusation_Post, seller_Accusation_Post, seller_Accusation_Delete,
     seller_AccusationList_Get, user_SOS_Post]"

lemmas report_defs = seller_CommentList_Get_def user_Comments_Get_def user_SellerCommentList_Get_def user_Comments_Post_def
  user_SellerCommentList_Post_def post_comment_def user_Accusation_Post_def seller_Accusation_Post_def seller_Accusation_Delete_def
  seller_AccusationList_Get_def user_SOS_Post_def

lemma keeps_report_parts [keeps_rules]:
  fixes kl :: "json list \<Rightarrow> 'db prog" and ks :: "string list \<Rightarrow> 'db prog"
  shows "(\<And>x. keeps P (kl x)) \<Longrightarrow> keeps P (page_of L seller_id from number kl)"
  "(\<And>x. keeps P (kl x)) \<Longrightarrow> keeps P (accusation_row L obj kl)"
  "(\<And>x. keeps P (ks x)) \<Longrightarrow> keeps P (get_sellers_uuid L city location distance ks)"
  unfolding page_of_def comment_page_def accusation_row_def get_sellers_uuid_def by (intro keeps_rules; assumption)+

lemma report_untouched:
  assumes "mongo_ok L docs" "h \<in> set report_handlers" "c \<notin> {DB_COMMENT, DB_ACCUSATION, DB_SELLER, DB_SOS}"
  shows "keeps (content_is docs c X) (h L content)"
proof -
  have ne: "DB_COMMENT \<noteq> c" "DB_ACCUSATION \<noteq> c" "DB_SELLER \<noteq> c" "DB_SOS \<noteq> c" using assms(3) by auto
  have "\<forall>h \<in> set report_handlers. keeps (content_is docs c X) (h L content)"
    unfolding report_handlers_def list.set ball_simps report_defs
    by (intro conjI TrueI keeps_rules same_insert [OF assms(1)] same_update [OF assms(1)]; simp add: ne)
  with assms(2) show ?thesis by blast
qed

section \<open>Comments that are read back, and comments that are lost\<close>

definition comments :: "('db \<Rightarrow> string \<Rightarrow> bson list) \<Rightarrow> 'db \<Rightarrow> string \<Rightarrow> bson list" where
  "comments docs db s = array_at docs db DB_COMMENT ''seller_id'' s ''comments''"

definition comment_doc :: "(string \<times> string) list \<Rightarrow> string \<Rightarrow> bson" where
  "comment_doc kvs time = str_fields [(''user_id'', arg kvs ''user_id''), (''content'', arg kvs ''content''), (''time'', time)]"

definition comment_info :: "bson \<Rightarrow> json" where
  "comment_info c = JObject [(''content'', JString (string_field c ''content'')), (''time'', JString (string_field c ''time'')),
     (''user_id'', JString (string_field c ''user_id''))]"

lemma upto_slice:
  assumes "0 \<le> a" "0 \<le> n"
  shows "map (\<lambda>i. vs ! nat i) [a..min (int (length vs)) (a + n) - 1] = take (nat n) (drop (nat a) vs)"
proof (rule nth_equalityI)
  fix i assume i: "i < length (map (\<lambda>i. vs ! nat i) [a..min (int (length vs)) (a + n) - 1])"
  then have "i < nat n" "nat a + i < length vs" "a + int i \<le> min (int (length vs)) (a + n) - 1" using assms by auto
  with i assms show "map (\<lambda>i. vs ! nat i) [a..min (int (length vs)) (a + n) - 1] ! i = take (nat n) (drop (nat a) vs) ! i"
    by (simp add: nth_upto nat_add_distrib)
qed (use assms in auto)

lemma objs_at_slice:
  assumes "bson_ok L" "list_all is_doc vs" "0 \<le> a" "0 \<le> n"
  shows "objs_at L (BArray vs) [a..min (nFields L (BArray vs)) (a + n) - 1] = Some (take (nat n) (drop (nat a) vs))"
proof -
  have "obj_at L (BArray vs) i = Some (vs ! nat i)" if "i \<in> set [a..min (int (length vs)) (a + n) - 1]" for i
  proof -
    from that assms(3) have i: "0 \<le> i" "nat i < length vs" by auto
    with assms(2) have "is_doc (vs ! nat i)" by (simp add: list_all_length)
    with i assms(1) show ?thesis by (cases "vs ! nat i") (simp_all add: obj_at_def)
  qed
  then have "objs_at L (BArray vs) [a..min (int (length vs)) (a + n) - 1] =
      Some (map (\<lambda>i. vs ! nat i) [a..min (int (length vs)) (a + n) - 1])"
    unfolding objs_at_def by (rule those_Some)
  then show ?thesis using assms(1) by (simp add: nFields_def upto_slice [OF assms(3,4)])
qed

lemma comment_pushed:
  assumes "mongo_ok L docs"
    and "db_update L db DB_COMMENT (BObj [(''seller_id'', BString s)]) (BObj [(''$push'', BObj [(field, c)])]) True False = Some db'"
    and "field \<in> {''comments'', ''SellerCommentList''}" "k \<in> {''comments'', ''SellerCommentList''}"
  shows "array_at docs db' DB_COMMENT ''seller_id'' s k = array_at docs db DB_COMMENT ''seller_id'' s k @ (if k = field then [c] else [])"
  using array_at_upsert [OF assms(1), of db DB_COMMENT "''seller_id''" s field c db' k] assms(2-4) by auto

lemma comment_posted:
  assumes "json_ok L" "mongo_ok L docs" "arg kvs ''seller_id'' = s" "post_comment field L (req kvs) w = (Ret APIE_OK, w')"
    and "field \<in> {''comments'', ''SellerCommentList''}" "k \<in> {''comments'', ''SellerCommentList''}"
  shows "array_at docs (w_db w') DB_COMMENT ''seller_id'' s k =
     array_at docs (w_db w) DB_COMMENT ''seller_id'' s k @ (if k = field then [comment_doc kvs (w_time w)] else [])"
proof -
  have "on_ok (post_comment field L (req kvs)) (\<lambda>w'. array_at docs (w_db w') DB_COMMENT ''seller_id'' s k =
     array_at docs (w_db w) DB_COMMENT ''seller_id'' s k @ (if k = field then [comment_doc kvs (w_time w)] else [])) w"
    unfolding post_comment_def pushMessageToSeller_def using assms(1,5,6)
    by (simp add: assms(3) ok_simps apie_ne comment_doc_def comment_pushed [OF assms(2)] cong: if_cong)
  then show ?thesis using assms(4) by (rule on_okD)
qed

text \<open>
  C34. The comments a seller reads are the asked slice of what the users have posted, in this order: a
  comment that was just posted is at the end, with the user, the text and the time it was posted with.
\<close>

theorem comment_round_trip:
  assumes "json_ok L" "bson_ok L" "mongo_ok L docs" "arg kvs ''seller_id'' = s" "user_Comments_Post L (req kvs) w = (Ret APIE_OK, w1)"
    and "list_all is_doc (comments docs (w_db w) s)" "str_member L val ''seller_id'' = Some s"
    and "int_member L val ''offset'' = Some offset" "int_member L val ''number'' = Some number" "0 \<le> offset" "0 \<le> number"
    and "seller_CommentList_Get L val (w1\<lparr>w_out := JNull\<rparr>) = (Ret APIE_OK, w2)"
    and "cs = take (nat number) (drop (nat offset) (comments docs (w_db w) s @ [comment_doc kvs (w_time w)]))"
  shows "w_out w2 = JObject [(''data'', if cs = [] then JNull else JArray (map comment_info cs)), (''total'', JInt (int (length cs)))]"
proof -
  define all where "all = comments docs (w_db w) s @ [comment_doc kvs (w_time w)]"
  have posted: "comments docs (w_db w1) s = all"
    using comment_posted [OF assms(1,3,4), of "''comments''" w w1 "''comments''"] assms(5) by (simp add: comments_def user_Comments_Post_def all_def)
  have docs: "list_all is_doc all" using assms(6) by (simp add: all_def comment_doc_def)
  have slice: "objs_at L (BArray all) [offset..min (nFields L (BArray all)) (offset + number) - 1] = Some cs"
    using objs_at_slice [OF assms(2) docs assms(10,11)] by (simp add: assms(13) all_def)
  have found: "ds \<noteq> [] \<and> bs_getObjectField L (hd ds) ''comments'' = BArray all"
    if "db_query L (w_db w1) DB_COMMENT (BObj [(''seller_id'', BString s)]) = Some ds" for ds
  proof (cases ds)
    case (Cons d ds')
    with lookup_query [OF assms(3), of "w_db w1" DB_COMMENT "[(''seller_id'', s)]" ds] that
    have "elems (bfield d ''comments'') = all" using posted by (simp add: comments_def array_at_found)
    moreover have "all \<noteq> []" by (simp add: all_def)
    ultimately have "bfield d ''comments'' = Some (BArray all)" by (cases "bfield d ''comments''" rule: elems.cases) simp_all
    with Cons assms(2) show ?thesis by simp
  qed (use lookup_query [OF assms(3), of "w_db w1" DB_COMMENT "[(''seller_id'', s)]" ds] that posted in
      \<open>simp add: comments_def array_at_def all_def\<close>)
  have infos: "those (map (\<lambda>c. js_build L (str_members L [(''user_id'', ''user_id''), (''content'', ''content''), (''time'', ''time'')] c)) cs) =
      Some (map comment_info cs)"
    by (rule those_Some) (use assms(2) in \<open>simp add: str_members_def js_build_obj [OF assms(1)] comment_info_def string_field_def\<close>)
  have "on_ok (seller_CommentList_Get L val) (\<lambda>w'. w_out w' =
      JObject [(''data'', if cs = [] then JNull else JArray (map comment_info cs)), (''total'', JInt (int (length cs)))]) (w1\<lparr>w_out := JNull\<rparr>)"
    unfolding seller_CommentList_Get_def page_of_def comment_page_def
    by (auto simp: assms(7-9) ok_simps apie_ne slice infos js_list_all [OF assms(1)] json_ok_null [OF assms(1)] dest!: found)
  then show ?thesis using assms(12) by (rule on_okD)
qed

text \<open>
  A comment that a user posts to the other resource for comments is lost: it is appended to a field
  that no request reads, and the comments that are read stay as they were.
\<close>

theorem comment_lost:
  assumes "json_ok L" "mongo_ok L docs" "arg kvs ''seller_id'' = s" "user_SellerCommentList_Post L (req kvs) w = (Ret APIE_OK, w')"
  shows "array_at docs (w_db w') DB_COMMENT ''seller_id'' s ''SellerCommentList'' =
       array_at docs (w_db w) DB_COMMENT ''seller_id'' s ''SellerCommentList'' @ [comment_doc kvs (w_time w)] \<and>
     comments docs (w_db w') s = comments docs (w_db w) s"
  using comment_posted [OF assms(1-3), of "''SellerCommentList''"] assms(4)
  by (simp add: comments_def user_SellerCommentList_Post_def)

section \<open>Accusations that are listed\<close>

lemma json_member_obj: "json_ok L \<Longrightarrow> js_member L (JObject m) k = Some (case map_of m k of None \<Rightarrow> JNull | Some v \<Rightarrow> v)"
  by (simp add: json_ok_def)

definition has_replies :: "bson \<Rightarrow> bool" where
  "has_replies d \<longleftrightarrow> bfield d ''replies'' \<noteq> None"

definition listed :: "('db \<Rightarrow> string \<Rightarrow> bson list) \<Rightarrow> 'db \<Rightarrow> string \<Rightarrow> bson list" where
  "listed docs db s = filter has_replies (filter (matches [(''seller_id'', s)]) (docs db DB_ACCUSATION))"

lemma on_ok_rows:
  assumes "bson_ok L" "\<And>rows. length (concat rows) = length (concat acc) + length (filter has_replies ds) \<Longrightarrow> on_ok (k rows) X w"
  shows "on_ok (for_each (accusation_row L) ds acc k) X w"
  using assms(2)
proof (induction ds arbitrary: acc)
  case (Cons d ds)
  have "on_ok (for_each (accusation_row L) ds (acc @ [row]) k) X w" if "length row = (if has_replies d then 1 else 0)" for row
    using that by (intro Cons.IH Cons.prems) auto
  then show ?case unfolding for_each.simps accusation_row_def using assms(1) by (auto simp: ok_simps has_replies_def)
qed simp

lemma update_first_split:
  assumes "List.find P xs = Some d"
  shows "\<exists>ys zs. xs = ys @ d # zs \<and> update_first P f xs = ys @ f d # zs"
  using assms
proof (induction xs)
  case (Cons x xs)
  show ?case
  proof (cases "P x")
    case False
    with Cons obtain ys zs where "xs = ys @ d # zs" "update_first P f xs = ys @ f d # zs" by auto
    with False have "x # xs = (x # ys) @ d # zs \<and> update_first P f (x # xs) = (x # ys) @ f d # zs" by simp
    then show ?thesis by blast
  qed (use Cons.prems in auto)
qed simp

lemma reply_lists:
  assumes "mongo_ok L docs" "lookup docs db DB_ACCUSATION [(''seller_id'', s), (''accusation_id'', a)] = Some d" "\<not> has_replies d"
    and "db_update L db DB_ACCUSATION (BObj [(''seller_id'', BString s), (''accusation_id'', BString a)])
      (BObj [(''$push'', BObj [(''replies'', v)])]) False False = Some db'"
  shows "length (listed docs db' s) = length (listed docs db s) + 1"
proof -
  let ?q = "[(''seller_id'', s), (''accusation_id'', a)]" and ?f = "apply_ops Push_op [(''replies'', v)]"
  have d: "List.find (matches ?q) (docs db DB_ACCUSATION) = Some d" using assms(2) by (simp add: lookup_def)
  then have m: "matches [(''seller_id'', s)] d" by (auto simp: matches_def find_Some_iff)
  then have m': "matches [(''seller_id'', s)] (?f d)" by (simp add: matches_def bfield_apply_ops_other)
  obtain x where "bfield d ''seller_id'' = Some x" using matches_isobj [OF m, of "''seller_id''" s] by auto
  then have r: "has_replies (?f d)" using bfield_set_same by (fastforce simp: has_replies_def apply_ops_def)
  obtain ys zs where "docs db DB_ACCUSATION = ys @ d # zs" "update_first (matches ?q) ?f (docs db DB_ACCUSATION) = ys @ ?f d # zs"
    using update_first_split [OF d] by blast
  moreover have "docs db' DB_ACCUSATION = update_first (matches ?q) ?f (docs db DB_ACCUSATION)"
    using mongo_push [OF assms(1), of db DB_ACCUSATION ?q "[(''replies'', v)]" False db'] assms(4) by simp
  ultimately show ?thesis using m m' r assms(3) by (simp add: listed_def)
qed

text \<open>
  A seller sees an accusation only after having replied to it: the list has the accusations with
  replies and no others, and the first reply to an accusation makes the list one longer.
\<close>

theorem accusation_listed_by_reply:
  assumes "json_ok L" "bson_ok L" "mongo_ok L docs" "arg kvs ''seller_id'' = s" "arg kvs ''accusation_id'' = a"
    and "lookup docs (w_db w) DB_ACCUSATION [(''seller_id'', s), (''accusation_id'', a)] = Some d" "\<not> has_replies d"
    and "seller_Accusation_Post L (req kvs) w = (Ret APIE_OK, w1)"
    and "str_member L val ''seller_id'' = Some s" "seller_AccusationList_Get L val (w1\<lparr>w_out := JNull\<rparr>) = (Ret APIE_OK, w2)"
  shows "js_member L (w_out w2) ''total'' = Some (JInt (int (length (listed docs (w_db w) s) + 1)))"
proof -
  have "on_ok (seller_Accusation_Post L (req kvs)) (\<lambda>w'. length (listed docs (w_db w') s) = length (listed docs (w_db w) s) + 1) w"
    unfolding seller_Accusation_Post_def using reply_lists [OF assms(3,6,7)]
    by (auto simp: assms(1,4,5) ok_simps apie_ne)
  then have one: "length (listed docs (w_db w1) s) = length (listed docs (w_db w) s) + 1" using assms(8) by (rule on_okD)
  have found: "length (filter has_replies ds) = length (listed docs (w_db w) s) + 1"
    if "db_query L (w_db w1) DB_ACCUSATION (BObj [(''seller_id'', BString s)]) = Some ds" for ds
    using mongo_query [OF assms(3), of "w_db w1" DB_ACCUSATION "[(''seller_id'', s)]" ds] that one by (simp add: listed_def)
  have "on_ok (seller_AccusationList_Get L val) (\<lambda>w'. js_member L (w_out w') ''total'' =
      Some (JInt (int (length (listed docs (w_db w) s) + 1)))) (w1\<lparr>w_out := JNull\<rparr>)"
    unfolding seller_AccusationList_Get_def using assms(1)
    by (auto simp: assms(9) ok_simps apie_ne json_ok_null [OF assms(1)] json_member_obj [OF assms(1)] intro!: on_ok_rows [OF assms(2)] dest!: found)
  then show ?thesis using assms(10) by (rule on_okD)
qed

section \<open>Who is called for help\<close>

definition sos_note :: "string list \<Rightarrow> json" where
  "sos_note us = JObject [(''method'', JInt MessageTypePushToBatch),
     (''msg'', JObject [(''kind'', JString ''order''), (''source'', JString ''user''), (''type'', JString ''sos'')]),
     (''targets'', JArray (map JString us)), (''to'', JString ''seller'')]"

lemma sos_note_built:
  assumes "json_ok L"
  shows "js_build L [(''source'', JString ''user''), (''kind'', JString ''order''), (''type'', JString ''sos'')] =
      Some (JObject [(''kind'', JString ''order''), (''source'', JString ''user''), (''type'', JString ''sos'')])"
    and "push_batch L ''seller'' us (JObject [(''kind'', JString ''order''), (''source'', JString ''user''), (''type'', JString ''sos'')]) = Some (sos_note us)"
  using assms by (simp_all add: js_build_obj js_array_all push_batch_def sos_note_def)

definition open_seller :: "string \<Rightarrow> string \<Rightarrow> bson \<Rightarrow> bool" where
  "open_seller city s d \<longleftrightarrow> string_field d ''seller_id'' = s \<and> has_value (BString ''open'') (bfield d ''status'') \<and>
     has_value (BString city) (bfield d ''city'')"


section \<open>Witnesses of this theory\<close>

definition report_world :: "(string \<times> bson list) list world" where
  "report_world = mem_world [(DB_USR, [str_fields [(''user_id'', ''bob'')]]),
     (DB_SELLER, [str_fields [(''seller_id'', ''s1''), (''status'', ''authenticating''), (''city'', ''c'')]]),
     (DB_ACCUSATION, [str_fields [(''accusation_id'', ''a1''), (''seller_id'', ''s1'')]]),
     (DB_COMMENT, [BObj [(''seller_id'', BString ''s1''), (''comments'', BArray [str_fields [(''content'', ''good'')]])]])]"

definition comment_req :: "(string \<times> string) list" where
  "comment_req = [(''role'', ''user''), (''seller_id'', ''s1''), (''user_id'', ''bob''), (''content'', ''bad'')]"

definition reply_req :: "(string \<times> string) list" where
  "reply_req = [(''role'', ''seller''), (''seller_id'', ''s1''), (''accusation_id'', ''a1''), (''content'', ''sorry'')]"

definition page_val :: "int \<Rightarrow> int \<Rightarrow> json" where
  "page_val offset number = JObject [(''role'', JString ''seller''), (''seller_id'', JString ''s1''), (''offset'', JInt offset), (''number'', JInt number)]"

lemma report_args:
  "arg comment_req ''seller_id'' = ''s1''" "arg reply_req ''seller_id'' = ''s1''" "arg reply_req ''accusation_id'' = ''a1''"
  "str_member mem_lib (page_val offset number) ''seller_id'' = Some ''s1''" "int_member mem_lib (page_val offset number) ''offset'' = Some offset"
  "int_member mem_lib (page_val offset number) ''number'' = Some number"
  by (simp_all add: comment_req_def reply_req_def arg_def page_val_def str_member_def int_member_def mem_lib_def)

lemma report_runs:
  "fst (user_Comments_Post mem_lib (req comment_req) report_world) = Ret APIE_OK"
  "fst (seller_CommentList_Get mem_lib (page_val 1 2) (snd (user_Comments_Post mem_lib (req comment_req) report_world)\<lparr>w_out := JNull\<rparr>)) = Ret APIE_OK"
  "fst (user_SellerCommentList_Post mem_lib (req comment_req) report_world) = Ret APIE_OK"
  "fst (seller_Accusation_Post mem_lib (req reply_req) report_world) = Ret APIE_OK"
  "fst (seller_AccusationList_Get mem_lib (page_val 0 0) (snd (seller_Accusation_Post mem_lib (req reply_req) report_world)\<lparr>w_out := JNull\<rparr>)) = Ret APIE_OK"
  by code_simp+

lemma report_comments: "comments mem_get (w_db report_world) ''s1'' = [str_fields [(''content'', ''good'')]]"
  by (simp add: comments_def array_at_def lookup_def matches_def report_world_def mem_world_def db_names)

theorem comment_round_trip_witness:
  "w_out (snd (seller_CommentList_Get mem_lib (page_val 1 2) (snd (user_Comments_Post mem_lib (req comment_req) report_world)\<lparr>w_out := JNull\<rparr>))) =
     JObject [(''data'', JArray [comment_info (comment_doc comment_req ''t'')]), (''total'', JInt 1)]"
  by (subst comment_round_trip [OF json_ok_mem bson_ok_mem mongo_ok_mem report_args(1) run_ok [OF report_runs(1)] _ report_args(4-6) _ _
      run_ok [OF report_runs(2)] refl]) (simp_all add: report_comments, simp add: report_world_def mem_world_def)

theorem comment_lost_witness:
  "comments mem_get (w_db (snd (user_SellerCommentList_Post mem_lib (req comment_req) report_world))) ''s1'' = [str_fields [(''content'', ''good'')]]"
  using comment_lost [OF json_ok_mem mongo_ok_mem report_args(1) run_ok [OF report_runs(3)]] by (simp add: report_comments)

theorem accusation_listed_by_reply_witness:
  "js_member mem_lib (w_out (snd (seller_AccusationList_Get mem_lib (page_val 0 0)
     (snd (seller_Accusation_Post mem_lib (req reply_req) report_world)\<lparr>w_out := JNull\<rparr>)))) ''total'' = Some (JInt 1)"
  by (subst accusation_listed_by_reply [OF json_ok_mem bson_ok_mem mongo_ok_mem report_args(2,3) _ _ run_ok [OF report_runs(4)] report_args(4) run_ok [OF report_runs(5)]])
    (simp_all add: listed_def has_replies_def lookup_def matches_def report_world_def mem_world_def db_names, simp)

definition sos_val :: json where
  "sos_val = JObject [(''role'', JString ''user''), (''user_id'', JString ''bob''), (''city'', JString ''c''),
     (''location'', JObject [(''lng'', JReal 1), (''lat'', JReal 2)])]"

text \<open>The database of the witnesses compares the place with the operators of the query as it compares other values.\<close>

definition sos_world :: "(string \<times> bson list) list world" where
  "sos_world = mem_world [(DB_USR, [str_fields [(''user_id'', ''bob'')]]), (DB_SELLER, [BObj [(''seller_id'', BString ''s1''),
     (''status'', BString ''open''), (''city'', BString ''c''),
     (''location'', BObj [(''$near'', BArray [BDouble 1, BDouble 2]), (''$maxDistance'', BInt 1)])]])]"

lemma sos_runs: "fst (user_SOS_Post mem_lib sos_val sos_world) = Ret APIE_OK"
  by code_simp


end
