(* ===== verification/Api_Server.thy ===== *)
theory Api_Server
  imports Resource_Mgr Message_Api Order_Lists Garage_Api Report_Api
begin

text \<open>
  The application server as a whole: the table of all resources that the files of
  \<^verbatim>\<open>src/apl-server/uri/user\<close> and \<^verbatim>\<open>src/apl-server/uri/seller\<close> declare with
  \<^verbatim>\<open>DECL_RESOURCE_CLASS\<close>, behind the HTTP front end of theory \<open>Resource_Mgr\<close>. The invariants of
  the components are lifted to every sequence of HTTP requests: a handler either belongs to the
  component that keeps the invariant, or leaves its collection alone.
\<close>

section \<open>The resources\<close>

text \<open>
  One record per class: the methods it implements, and the defaults of \<^verbatim>\<open>Resource\<close> for the methods that only
  call them.
\<close>

definition user_Accusation_resource :: "'db resource" where
  "user_Accusation_resource = Resource\<lparr>r_Post := user_Accusation_Post\<rparr>"

definition user_Advertisement_resource :: "'db resource" where
  "user_Advertisement_resource = Resource\<lparr>r_Get := user_Advertisement_Get\<rparr>"

definition user_CarList_resource :: "'db resource" where
  "user_CarList_resource = Resource\<lparr>r_Get := user_CarList_Get, r_Post := user_CarList_Post,
     r_Delete := user_CarList_Delete, r_Patch := user_CarList_Patch\<rparr>"

definition user_CarMaintenanceInfo_resource :: "'db resource" where
  "user_CarMaintenanceInfo_resource = Resource\<lparr>r_Get := user_CarMaintenanceInfo_Get\<rparr>"

definition user_Car_resource :: "'db resource" where
  "user_Car_resource = Resource\<lparr>r_Get := user_Car_Get\<rparr>"

definition user_CouponList_resource :: "'db resource" where
  "user_CouponList_resource = Resource\<lparr>r_Get := user_CouponList_Get\<rparr>"

definition user_Favorite_resource :: "'db resource" where
  "user_Favorite_resource = Resource\<lparr>r_Get := user_Favorite_Get, r_Post := user_Favorite_Post, r_Patch := user_Favorite_Patch\<rparr>"

definition user_MessageList_resource :: "'db resource" where
  "user_MessageList_resource = Resource\<lparr>r_Get := user_MessageList_Get\<rparr>"

definition user_Message_resource :: "bson \<Rightarrow> 'db resource" where
  "user_Message_resource p = Resource\<lparr>r_Get := user_Message_Get p, r_Post := user_Message_Post\<rparr>"

definition user_OrderList_resource :: "'db resource" where
  "user_OrderList_resource = Resource\<lparr>r_Get := user_OrderList_Get\<rparr>"

definition user_OrderReplies_resource :: "'db resource" where
  "user_OrderReplies_resource = Resource\<lparr>r_Get := user_OrderReplies_Get\<rparr>"

definition user_Order_resource :: "'db resource" where
  "user_Order_resource = Resource\<lparr>r_Get := user_Order_Get, r_Post := user_Order_Post, r_Put := user_Order_Put,
     r_Delete := user_Order_Delete\<rparr>"

definition user_Password_resource :: "'db resource" where
  "user_Password_resource = Resource\<lparr>r_Post := user_Password_Post\<rparr>"

definition user_Profile_resource :: "'db resource" where
  "user_Profile_resource = Resource\<lparr>r_Get := user_Profile_Get\<rparr>"

definition user_Recommendations_resource :: "'db resource" where
  "user_Recommendations_resource = Resource\<lparr>r_Get := user_Recommendations_Get\<rparr>"

definition user_SellerActivityList_resource :: "'db resource" where
  "user_SellerActivityList_resource = Resource\<lparr>r_Get := user_SellerActivityList_Get\<rparr>"

definition user_SellerActivity_resource :: "'db resource" where
  "user_SellerActivity_resource = Resource\<lparr>r_Put := user_SellerActivity_Put\<rparr>"

definition user_SellerCommentList_resource :: "'db resource" where
  "user_SellerCommentList_resource = Resource\<lparr>r_Get := user_SellerCommentList_Get, r_Post := user_SellerCommentList_Post\<rparr>"

definition user_Comments_resource :: "'db resource" where
  "user_Comments_resource = Resource\<lparr>r_Get := user_Comments_Get, r_Post := user_Comments_Post\<rparr>"

definition user_SellerCommodityList_resource :: "'db resource" where
  "user_SellerCommodityList_resource = Resource\<lparr>r_Get := user_SellerCommodityList_Get\<rparr>"

definition user_SellerCommodity_resource :: "'db resource" where
  "user_SellerCommodity_resource = Resource\<lparr>r_Get := user_SellerCommodity_Get\<rparr>"

definition user_SellerList_resource :: "'db resource" where
  "user_SellerList_resource = Resource\<lparr>r_Get := user_SellerList_Get\<rparr>"

definition user_SellerServiceList_resource :: "'db resource" where
  "user_SellerServiceList_resource = Resource\<lparr>r_Get := user_SellerServiceList_Get\<rparr>"

definition user_SellerService_resource :: "'db resource" where
  "user_SellerService_resource = Resource"

definition user_Seller_resource :: "'db resource" where
  "user_Seller_resource = Resource\<lparr>r_Get := user_Seller_Get\<rparr>"

definition user_Session_resource :: "'db resource" where
  "user_Session_resource = Resource\<lparr>r_Post := user_Session_Post, r_Delete := user_Session_Delete\<rparr>"

definition user_SOS_resource :: "'db resource" where
  "user_SOS_resource = Resource\<lparr>r_Post := user_SOS_Post\<rparr>"

definition user_Template_resource :: "'db resource" where
  "user_Template_resource = Resource"

definition user_User_resource :: "'db resource" where
  "user_User_resource = Resource\<lparr>r_Get := user_User_Get, r_Post := user_User_Post,
     r_Delete := user_User_Delete, r_Patch := user_User_Patch\<rparr>"

definition seller_AccusationList_resource :: "'db resource" where
  "seller_AccusationList_resource = Resource\<lparr>r_Get := seller_AccusationList_Get\<rparr>"

definition seller_Accusation_resource :: "'db resource" where
  "seller_Accusation_resource = Resource\<lparr>r_Post := seller_Accusation_Post,
     r_Delete := seller_Accusation_Delete\<rparr>"

definition seller_ActivityList_resource :: "'db resource" where
  "seller_ActivityList_resource = Resource\<lparr>r_Get := seller_ActivityList_Get\<rparr>"

definition seller_Activity_resource :: "'db resource" where
  "seller_Activity_resource = Resource\<lparr>r_Post := seller_Activity_Post, r_Put := seller_Activity_Put,
     r_Delete := seller_Activity_Delete\<rparr>"

definition seller_SysAdvertisement_resource :: "'db resource" where
  "seller_SysAdvertisement_resource = Resource\<lparr>r_Get := seller_SysAdvertisement_Get\<rparr>"

definition seller_AdvertisementList_resource :: "'db resource" where
  "seller_AdvertisementList_resource = Resource"

definition seller_Advertisement_resource :: "'db resource" where
  "seller_Advertisement_resource = Resource\<lparr>r_Get := seller_Advertisement_Get, r_Post := seller_Advertisement_Post, r_Put := seller_Advertisement_Put,
     r_Delete := seller_Advertisement_Delete\<rparr>"

definition seller_CommentList_resource :: "'db resource" where
  "seller_CommentList_resource = Resource\<lparr>r_Get := seller_CommentList_Get\<rparr>"

definition seller_Comment_resource :: "'db resource" where
  "seller_Comment_resource = Resource"

definition seller_CommodityList_resource :: "'db resource" where
  "seller_CommodityList_resource = Resource\<lparr>r_Get := seller_CommodityList_Get\<rparr>"

definition seller_Commodity_resource :: "'db resource" where
  "seller_Commodity_resource = Resource\<lparr>r_Get := seller_Commodity_Get, r_Post := seller_Commodity_Post, r_Put := seller_Commodity_Put,
     r_Delete := seller_Commodity_Delete\<rparr>"

definition seller_GroupMessageList_resource :: "'db resource" where
  "seller_GroupMessageList_resource = Resource\<lparr>r_Get := seller_GroupMessageList_Get\<rparr>"

definition seller_GroupMessage_resource :: "'db resource" where
  "seller_GroupMessage_resource = Resource\<lparr>r_Post := seller_GroupMessage_Post\<rparr>"

definition seller_OrderList_resource :: "'db resource" where
  "seller_OrderList_resource = Resource\<lparr>r_Get := seller_OrderList_Get\<rparr>"

definition seller_Order_resource :: "'db resource" where
  "seller_Order_resource = Resource\<lparr>r_Get := seller_Order_Get, r_Put := seller_Order_Put\<rparr>"

definition seller_Password_resource :: "'db resource" where
  "seller_Password_resource = Resource\<lparr>r_Post := seller_Password_Post\<rparr>"

definition seller_Recommendations_resource :: "'db resource" where
  "seller_Recommendations_resource = Resource\<lparr>r_Get := seller_Recommendations_Get\<rparr>"

definition seller_Seller_resource :: "'db resource" where
  "seller_Seller_resource = Resource\<lparr>r_Get := seller_Seller_Get, r_Post := seller_Seller_Post, r_Put := seller_Seller_Put,
     r_Delete := seller_Seller_Delete\<rparr>"

definition seller_ServiceList_resource :: "'db resource" where
  "seller_ServiceList_resource = Resource"

definition seller_Service_resource :: "'db resource" where
  "seller_Service_resource = Resource\<lparr>r_Post := seller_Service_Post, r_Put := seller_Service_Put,
     r_Delete := seller_Service_Delete\<rparr>"

definition seller_Session_resource :: "'db resource" where
  "seller_Session_resource = Resource\<lparr>r_Post := seller_Session_Post, r_Delete := seller_Session_Delete\<rparr>"

definition seller_Suggestion_resource :: "'db resource" where
  "seller_Suggestion_resource = Resource\<lparr>r_Post := seller_Suggestion_Post\<rparr>"

definition seller_UserGroupList_resource :: "'db resource" where
  "seller_UserGroupList_resource = Resource"

definition seller_UserGroup_resource :: "'db resource" where
  "seller_UserGroup_resource = Resource\<lparr>r_Post := seller_UserGroup_Post, r_Put := seller_UserGroup_Put,
     r_Delete := seller_UserGroup_Delete\<rparr>"

definition seller_UserList_resource :: "'db resource" where
  "seller_UserList_resource = Resource\<lparr>r_Get := seller_UserList_Get\<rparr>"

definition seller_UserMessageList_resource :: "'db resource" where
  "seller_UserMessageList_resource = Resource\<lparr>r_Get := seller_UserMessageList_Get\<rparr>"

definition seller_UserMessage_resource :: "'db resource" where
  "seller_UserMessage_resource = Resource\<lparr>r_Get := seller_UserMessage_Get, r_Post := seller_UserMessage_Post\<rparr>"

definition seller_User_resource :: "'db resource" where
  "seller_User_resource = Resource\<lparr>r_Get := seller_User_Get, r_Post := seller_User_Post, r_Put := seller_User_Put,
     r_Delete := seller_User_Delete\<rparr>"

lemmas resource_defs = user_Accusation_resource_def user_Advertisement_resource_def user_CarList_resource_def
  user_CarMaintenanceInfo_resource_def user_Car_resource_def user_CouponList_resource_def
  user_Favorite_resource_def user_MessageList_resource_def user_Message_resource_def
  user_OrderList_resource_def user_OrderReplies_resource_def user_Order_resource_def
  user_Password_resource_def user_Profile_resource_def user_Recommendations_resource_def
  user_SellerActivityList_resource_def user_SellerActivity_resource_def user_SellerCommentList_resource_def
  user_Comments_resource_def user_SellerCommodityList_resource_def user_SellerCommodity_resource_def
  user_SellerList_resource_def user_SellerServiceList_resource_def user_SellerService_resource_def
  user_Seller_resource_def user_Session_resource_def user_SOS_resource_def
  user_Template_resource_def user_User_resource_def seller_AccusationList_resource_def
  seller_Accusation_resource_def seller_ActivityList_resource_def seller_Activity_resource_def
  seller_SysAdvertisement_resource_def seller_AdvertisementList_resource_def seller_Advertisement_resource_def
  seller_CommentList_resource_def seller_Comment_resource_def seller_CommodityList_resource_def
  seller_Commodity_resource_def seller_GroupMessageList_resource_def seller_GroupMessage_resource_def
  seller_OrderList_resource_def seller_Order_resource_def seller_Password_resource_def
  seller_Recommendations_resource_def seller_Seller_resource_def seller_ServiceList_resource_def
  seller_Service_resource_def seller_Session_resource_def seller_Suggestion_resource_def
  seller_UserGroupList_resource_def seller_UserGroup_resource_def seller_UserList_resource_def
  seller_UserMessageList_resource_def seller_UserMessage_resource_def seller_User_resource_def

definition user_table :: "bson \<Rightarrow> (string \<times> 'db resource) list" where
  "user_table p =
     [(''user/accusation'', user_Accusation_resource),
      (''user/advertisement'', user_Advertisement_resource),
      (''user/car-list'', user_CarList_resource),
      (''user/car-maintenance-info'', user_CarMaintenanceInfo_resource),
      (''user/car'', user_Car_resource),
      (''user/coupon-list'', user_CouponList_resource),
      (''user/favorite'', user_Favorite_resource),
      (''user/message-list'', user_MessageList_resource),
      (''user/message'', user_Message_resource p),
      (''user/order-list'', user_OrderList_resource),
      (''user/order-replies'', user_OrderReplies_resource),
      (''user/order'', user_Order_resource),
      (''user/pwd'', user_Password_resource),
      (''user/profile'', user_Profile_resource),
      (''user/recommendations'', user_Recommendations_resource),
      (''user/seller-activity-list'', user_SellerActivityList_resource),
      (''user/seller-activity'', user_SellerActivity_resource),
      (''user/seller-comment-list'', user_SellerCommentList_resource),
      (''user/comments'', user_Comments_resource),
      (''user/seller-commodity-list'', user_SellerCommodityList_resource),
      (''user/seller-commodity'', user_SellerCommodity_resource),
      (''user/seller-list'', user_SellerList_resource),
      (''user/seller-service-list'', user_SellerServiceList_resource),
      (''user/seller-service'', user_SellerService_resource),
      (''user/seller'', user_Seller_resource),
      (''user/session'', user_Session_resource),
      (''user/sos'', user_SOS_resource),
      (''user/template'', user_Template_resource),
      (''user/'', user_User_resource)]"

definition seller_table :: "(string \<times> 'db resource) list" where
  "seller_table =
     [(''seller/accusation-list'', seller_AccusationList_resource),
      (''seller/accusation'', seller_Accusation_resource),
      (''seller/activity-list'', seller_ActivityList_resource),
      (''seller/activity'', seller_Activity_resource),
      (''seller/ads'', seller_SysAdvertisement_resource),
      (''seller/advertisement-list'', seller_AdvertisementList_resource),
      (''seller/advertisement'', seller_Advertisement_resource),
      (''seller/comment-list'', seller_CommentList_resource),
      (''seller/comment'', seller_Comment_resource),
      (''seller/commodity-list'', seller_CommodityList_resource),
      (''seller/commodity'', seller_Commodity_resource),
      (''seller/group-message-list'', seller_GroupMessageList_resource),
      (''seller/group-message'', seller_GroupMessage_resource),
      (''seller/order-list'', seller_OrderList_resource),
      (''seller/order'', seller_Order_resource),
      (''seller/pwd'', seller_Password_resource),
      (''seller/recommendations'', seller_Recommendations_resource),
      (''seller/'', seller_Seller_resource),
      (''seller/service-list'', seller_ServiceList_resource),
      (''seller/service'', seller_Service_resource),
      (''seller/session'', seller_Session_resource),
      (''seller/suggestion'', seller_Suggestion_resource),
      (''seller/user-group-list'', seller_UserGroupList_resource),
      (''seller/user-group'', seller_UserGroup_resource),
      (''seller/user-list'', seller_UserList_resource),
      (''seller/user-message-list'', seller_UserMessageList_resource),
      (''seller/user-message'', seller_UserMessage_resource),
      (''seller/user'', seller_User_resource)]"

definition server_table :: "bson \<Rightarrow> (string \<times> 'db resource) list" where
  "server_table p = user_table p @ seller_table"

definition server_manager :: "bson \<Rightarrow> 'db manager" where
  "server_manager p = register_all 0 (server_table p) new_manager"

section \<open>All handlers\<close>

definition all_handlers :: "bson \<Rightarrow> ('db lib \<Rightarrow> json \<Rightarrow> 'db prog) list" where
  "all_handlers p = account_handlers @ order_handlers @ store_handlers @ seller_handlers @ customer_handlers @
     message_handlers p @ order_readers @ garage_handlers @ report_handlers"

definition methods_of :: "'db resource \<Rightarrow> ('db lib \<Rightarrow> json \<Rightarrow> 'db prog) list" where
  "methods_of res = [r_Get res, r_Post res, r_Put res, r_Delete res, r_Patch res]"

lemmas handler_lists = account_handlers_def order_handlers_def store_handlers_def store_writers_def store_readers_def
  seller_handlers_def customer_handlers_def message_handlers_def order_readers_def garage_handlers_def report_handlers_def

lemma table_handlers:
  assumes "(name, res) \<in> set (server_table p)" "h \<in> set (methods_of res)"
  shows "h \<in> set (all_handlers p) \<or> h = Resource_default"
proof -
  have "\<forall>(name, res) \<in> set (server_table p). \<forall>h \<in> set (methods_of res). h \<in> set (all_handlers p) \<or> h = Resource_default"
    unfolding server_table_def user_table_def seller_table_def set_append ball_Un list.set ball_simps split methods_of_def
      all_handlers_def handler_lists resource_defs Resource_def
    by (simp del: Un_iff)
  with assms show ?thesis by blast
qed

lemma smap_insert_subset: "set (smap_insert k v m) \<subseteq> insert (k, v) (set m)"
  by (induction k v m rule: smap_insert.induct) auto

lemma register_all_allocators:
  "snd ` set (m_allocators (register_all n tbl m)) \<subseteq> set tbl \<union> snd ` set (m_allocators m)"
proof (induction n tbl m rule: register_all.induct)
  case (2 addr name res rs m)
  have "snd ` set (m_allocators (registerResource addr name res m)) \<subseteq> insert (name, res) (snd ` set (m_allocators m))"
    using smap_insert_subset [of addr "(name, res)" "m_allocators m"] by (force simp: registerResource_def)
  with 2 show ?case by auto
qed simp


section \<open>Sequences of requests\<close>

text \<open>Any number of requests, however they are decoded, while the time passes.\<close>

inductive server_run :: "'db lib \<Rightarrow> 'db manager \<Rightarrow> 'db world \<Rightarrow> 'db world \<Rightarrow> bool" for L m w0 where
  boot: "server_run L m w0 w0"
| tick: "server_run L m w0 w \<Longrightarrow> server_run L m w0 (w\<lparr>w_time := t\<rparr>)"
| serve: "server_run L m w0 w \<Longrightarrow> httpCallback L H m r w = (answer, w') \<Longrightarrow> server_run L m w0 w'"

lemma createResource_in: "createResource m name = Some res \<Longrightarrow> (name, res) \<in> snd ` set (m_allocators m)"
proof -
  assume "createResource m name = Some res"
  then obtain e where "List.find (\<lambda>e. name = fst (snd e)) (m_allocators m) = Some e" "res = snd (snd e)"
    by (auto simp: createResource_def split: if_splits)
  then have "e \<in> set (m_allocators m)" "(name, res) = snd e" by (auto simp: find_Some_iff)
  then show "(name, res) \<in> snd ` set (m_allocators m)" by blast
qed

lemma run_keeps:
  assumes "keeps P p" "P (w_db w)"
  shows "P (w_db (snd (case p w of (Ret code, w') \<Rightarrow> finish L code w' | (Throw e, w') \<Rightarrow> (No_reply, w'))))"
  using assms by (auto simp: keeps_def wp_def finish_keeps(1) split: prod.split result.split)

lemma httpCallback_keeps:
  assumes "\<And>name res h content. (name, res) \<in> snd ` set (m_allocators m) \<Longrightarrow> h \<in> set (methods_of res) \<Longrightarrow> keeps P (h L content)"
    and "httpCallback L H m r w = (answer, w')" "P (w_db w)"
  shows "P (w_db w')"
proof -
  have "P (w_db (snd (httpCallback L H m r w)))"
  proof (cases "Request H r")
    case (Some content)
    let ?w = "w\<lparr>w_out := JNull\<rparr>"
    have p: "P (w_db ?w)" using assms(3) by simp
    show ?thesis
    proof (cases "getResourceName H r")
      case name: (Some name)
      show ?thesis
      proof (cases "createResource m name")
        case res: (Some res)
        have k: "keeps P (h L content)" if "h \<in> set (methods_of res)" for h
          using assms(1) [OF createResource_in [OF res] that] .
        have "P (w_db (snd (finish L 400 ?w)))" using p finish_keeps(1) [of L 400 ?w] by simp
        with Some name res run_keeps [OF k p] show ?thesis
          by (cases "get_method r") (simp_all add: httpCallback_def handleRequest_def methods_of_def)
      qed (use Some name p finish_keeps(1) [of L 400 ?w] in \<open>simp add: httpCallback_def handleRequest_def\<close>)
    qed (use Some p in \<open>simp add: httpCallback_def handleRequest_def\<close>)
  qed (use assms(3) in \<open>simp add: httpCallback_def\<close>)
  with assms(2) show ?thesis by simp
qed

lemma server_run_keeps:
  assumes "server_run L (server_manager p) w0 w" "P (w_db w0)"
    and "\<And>h content. h \<in> set (all_handlers p) \<Longrightarrow> keeps P (h L content)"
  shows "P (w_db w)"
  using assms(1)
proof induction
  case (serve w H r answer w')
  show ?case
  proof (rule httpCallback_keeps [where P = P, OF _ serve.hyps(2) serve.IH])
    fix name and res :: "'a resource" and h content
    assume "(name, res) \<in> snd ` set (m_allocators (server_manager p))" "h \<in> set (methods_of res)"
    then have "h \<in> set (all_handlers p) \<or> h = Resource_default"
      using register_all_allocators [of 0 "server_table p" new_manager] table_handlers
      by (force simp: server_manager_def new_manager_def)
    then show "keeps P (h L content)" using assms(3) by (auto simp: Resource_default_def)
  qed
qed (use assms(2) in simp_all)

text \<open>Who may write sessions, orders and advertisements.\<close>

lemma others_untouched:
  assumes "mongo_ok L docs" "h \<in> set (all_handlers p)"
  shows "h \<notin> set account_handlers \<Longrightarrow> keeps (content_is docs DB_SESSION X) (h L content)"
    and "h \<notin> set order_handlers \<Longrightarrow> keeps (content_is docs DB_ORDER X) (h L content)"
    and "h \<notin> set store_handlers \<Longrightarrow> keeps (content_is docs DB_ADS X) (h L content)"
  using assms(2) unfolding all_handlers_def set_append
  by (auto simp: db_names intro: account_untouched [OF assms(1)] order_untouched [OF assms(1)] store_untouched [OF assms(1)]
      seller_untouched [OF assms(1)] customer_untouched [OF assms(1)] message_untouched [OF assms(1), of _ p] order_readers_keep
      garage_untouched [OF assms(1)] report_untouched [OF assms(1)])

section \<open>The table of the server\<close>

lemma register_all_table:
  assumes "\<forall>k \<in> fst ` set (m_allocators m). k < n"
  shows "map snd (m_allocators (register_all n tbl m)) = map snd (m_allocators m) @ tbl"
  using assms
proof (induction n tbl m rule: register_all.induct)
  case (2 addr name res rs m)
  have r: "m_allocators (registerResource addr name res m) = m_allocators m @ [(addr, name, res)]"
    using 2(2) by (simp add: registerResource_def smap_insert_last)
  then have "\<forall>k \<in> fst ` set (m_allocators (registerResource addr name res m)). k < addr + 1" using 2(2) by auto
  from 2(1) [OF this] r show ?case by simp
qed simp

lemma server_allocators: "map snd (m_allocators (server_manager p)) = server_table p"
  using register_all_table [of new_manager 0] unfolding server_manager_def by (simp add: new_manager_def)

lemma server_names: "distinct (map fst (server_table p))"
  by (simp add: server_table_def user_table_def seller_table_def)

lemma names_distinct_table: "map snd (m_allocators m) = tbl \<Longrightarrow> distinct (map fst tbl) \<Longrightarrow> names_distinct m"
  by (auto simp: names_distinct_def comp_def)

lemma server_names_distinct: "names_distinct (server_manager p)"
  by (rule names_distinct_table [OF server_allocators server_names])

lemma server_allocator:
  assumes "(name, res) \<in> set (server_table p)"
  shows "\<exists>addr. (addr, name, res) \<in> set (m_allocators (server_manager p))"
  using assms unfolding server_allocators [symmetric] by force

text \<open>What a request for a resource of the server does.\<close>

lemma server_dispatch:
  assumes "(name, res) \<in> set (server_table p)" "name \<noteq> []" "request_for H name r" "method_of (command r) res = Some h"
  shows "httpCallback L H (server_manager p) r w =
     (case Request H r of None \<Rightarrow> (No_reply, w)
      | Some content \<Rightarrow> (case h L content (w\<lparr>w_out := JNull\<rparr>) of
          (Ret code, w') \<Rightarrow> finish L code w' | (Throw e, w') \<Rightarrow> (No_reply, w')))"
proof -
  obtain addr where "(addr, name, res) \<in> set (m_allocators (server_manager p))" using server_allocator [OF assms(1)] ..
  from handleRequest_for [OF server_names_distinct this assms(2,3)] assms(4)
  show ?thesis by (simp add: httpCallback_def split: option.split)
qed

section \<open>Invariants of the server\<close>

lemma server_keeps_sessions:
  assumes "mongo_ok L docs" "h \<in> set (all_handlers p)"
  shows "keeps (session_keys_ok docs) (h L content)"
proof (cases "h \<in> set account_handlers")
  case False
  from others_untouched(1) [OF assms False] show ?thesis
    by (rule keeps_content) (simp add: session_keys_ok_def all_docs_def)
qed (rule account_keeps [OF assms(1)])

text \<open>
  C5. Starting from orders whose status is one of new, canceled, confirmed and completed, every
  sequence of HTTP requests to the server keeps it so. In particular no order is ever \<open>selected\<close>,
  the status the handler of the user has a branch for.
\<close>

theorem server_order_statuses:
  assumes "mongo_ok L docs" "all_docs docs DB_ORDER status_ok (w_db w0)" "server_run L (server_manager p) w0 w"
  shows "all_docs docs DB_ORDER status_ok (w_db w)"
proof -
  have "keeps (all_docs docs DB_ORDER status_ok) (h L content)" if "h \<in> set (all_handlers p)" for h content
  proof (cases "h \<in> set order_handlers")
    case False
    from others_untouched(2) [OF assms(1) that False] show ?thesis by (rule keeps_content) (simp add: all_docs_def)
  qed (rule order_keeps_status [OF assms(1)])
  with assms(3,2) show ?thesis by (rule server_run_keeps)
qed

text \<open>
  C30. A seller never has two advertisements with the same title, whatever HTTP requests the server
  gets.
\<close>

theorem server_titles_unique:
  assumes "mongo_ok L docs" "unique_keys docs DB_ADS ad_keys (w_db w0)" "server_run L (server_manager p) w0 w"
  shows "unique_keys docs DB_ADS ad_keys (w_db w)"
proof -
  have "keeps (unique_keys docs DB_ADS ad_keys) (h L content)" if "h \<in> set (all_handlers p)" for h content
  proof (cases "h \<in> set store_handlers")
    case False
    from others_untouched(3) [OF assms(1) that False] show ?thesis by (rule keeps_content) (rule unique_keys_cong)
  qed (rule store_keeps_titles [OF assms(1)])
  with assms(3,2) show ?thesis by (rule server_run_keeps)
qed

text \<open>The requests that look an account up in the sessions under the wrong key.\<close>

definition session_requests :: "(string \<times> command) list" where
  "session_requests = [(''user/'', EVHTTP_REQ_GET), (''user/session'', EVHTTP_REQ_DELETE), (''seller/session'', EVHTTP_REQ_DELETE),
     (''user/profile'', EVHTTP_REQ_GET), (''user/coupon-list'', EVHTTP_REQ_GET), (''user/accusation'', EVHTTP_REQ_POST)]"

definition session_readers :: "('db lib \<Rightarrow> json \<Rightarrow> 'db prog) list" where
  "session_readers = [user_User_Get, user_Session_Delete, seller_Session_Delete, user_Profile_Get, user_CouponList_Get, user_Accusation_Post]"

lemma session_request_handler:
  assumes "(name, c) \<in> set session_requests"
  shows "\<exists>(res :: 'db resource) h. (name, res) \<in> set (server_table p) \<and> method_of c res = Some h \<and> h \<in> set session_readers \<and> name \<noteq> []"
proof -
  have find: "map_of (server_table p) ''user/'' = Some (Resource\<lparr>r_Get := user_User_Get, r_Post := user_User_Post,
        r_Delete := user_User_Delete, r_Patch := user_User_Patch\<rparr>)"
    "map_of (server_table p) ''user/session'' = Some (Resource\<lparr>r_Post := user_Session_Post, r_Delete := user_Session_Delete\<rparr>)"
    "map_of (server_table p) ''seller/session'' = Some (Resource\<lparr>r_Post := seller_Session_Post, r_Delete := seller_Session_Delete\<rparr>)"
    "map_of (server_table p) ''user/profile'' = Some (Resource\<lparr>r_Get := user_Profile_Get\<rparr>)"
    "map_of (server_table p) ''user/coupon-list'' = Some (Resource\<lparr>r_Get := user_CouponList_Get\<rparr>)"
    "map_of (server_table p) ''user/accusation'' = Some (Resource\<lparr>r_Post := user_Accusation_Post\<rparr>)"
    by (simp_all add: server_table_def user_table_def seller_table_def resource_defs)
  note handler = map_of_SomeD [OF find(1)] map_of_SomeD [OF find(2)] map_of_SomeD [OF find(3)] map_of_SomeD [OF find(4)]
    map_of_SomeD [OF find(5)] map_of_SomeD [OF find(6)]
  show ?thesis
    using assms unfolding session_requests_def list.set insert_iff prod.inject empty_iff simp_thms
    by (elim disjE conjE) (use handler in \<open>force simp: method_of_def session_readers_def\<close>)+
qed

lemma session_readers_refuse:
  assumes "mongo_ok L docs" "session_keys_ok docs (w_db w)" "h \<in> set session_readers" "h L content w = (r, w')"
  shows "r \<in> {Ret APIE_INVALID_CLIENT_REQ, Ret APIE_SERVER_INTERNAL, Throw OtherException} \<and>
     w_db w' = w_db w \<and> w_published w' = w_published w \<and> w_out w' = w_out w"
proof -
  note empty = session_query(1) [OF assms(1,2), where k = "''user_id''", simplified]
    session_query(1) [OF assms(1,2), where k = "''seller_id''", simplified]
    session_query(2) [OF assms(1,2), where k = "''user_id''", simplified]
    session_query(2) [OF assms(1,2), where k = "''uid''", simplified]
  have "wp (h L content) (\<lambda>r w'. r \<in> {Ret APIE_INVALID_CLIENT_REQ, Ret APIE_SERVER_INTERNAL, Throw OtherException} \<and>
     w_db w' = w_db w \<and> w_published w' = w_published w \<and> w_out w' = w_out w) w"
    using assms(3) empty
    by (auto simp: session_readers_def account_defs user_Profile_Get_def user_CouponList_Get_def user_Accusation_Post_def wp_simps
        split: option.split bind_splits)
  then show ?thesis using assms(4) by (rule wpD)
qed

text \<open>
  C16. Logins write the account under \<^verbatim>\<open>identifier\<close>, while these requests look for \<^verbatim>\<open>user_id\<close>,
  \<^verbatim>\<open>seller_id\<close> or \<^verbatim>\<open>uid\<close> in the sessions. Starting without such fields, whatever HTTP requests the
  server has served: no user ever reads the profile or the coupons, logs out or accuses a seller. Each
  of these requests is answered with an error code or not at all, and changes nothing.
\<close>

theorem server_session_never_found:
  assumes "json_ok L" "mongo_ok L docs" "session_keys_ok docs (w_db w0)" "server_run L (server_manager p) w0 w"
    and "(name, command r) \<in> set session_requests" "request_for H name r"
    and "httpCallback L H (server_manager p) r w = (answer, w')"
  shows "answer \<in> {No_reply, api_reply [] APIE_INVALID_CLIENT_REQ, api_reply [] APIE_SERVER_INTERNAL} \<and>
     w_db w' = w_db w \<and> w_published w' = w_published w"
proof -
  have ok: "session_keys_ok docs (w_db w)"
    using assms(4,3) server_keeps_sessions [OF assms(2)] by (rule server_run_keeps)
  obtain res :: "'a resource" and h where h: "(name, res) \<in> set (server_table p)" "method_of (command r) res = Some h" "h \<in> set session_readers" "name \<noteq> []"
    using session_request_handler [OF assms(5)] by blast
  note run = assms(7) [unfolded server_dispatch [OF h(1,4) assms(6) h(2)]]
  show ?thesis
  proof (cases "Request H r")
    case (Some content)
    obtain x w2 where x: "h L content (w\<lparr>w_out := JNull\<rparr>) = (x, w2)" by fastforce
    from session_readers_refuse [OF assms(2) _ h(3) x] ok
    have "x \<in> {Ret APIE_INVALID_CLIENT_REQ, Ret APIE_SERVER_INTERNAL, Throw OtherException}" "w_db w2 = w_db w"
      "w_published w2 = w_published w" "w_out w2 = JNull" by simp_all
    with run Some x show ?thesis
      using finish_null [OF assms(1), of w2] finish_keeps [of L _ w2] by (auto simp: prod_eq_iff split: prod.splits)
  qed (use run in auto)
qed

section \<open>Witnesses of this theory\<close>

definition served :: "command \<Rightarrow> string \<Rightarrow> (string \<times> string) list \<Rightarrow> (string \<times> bson list) list world \<Rightarrow> (string \<times> bson list) list world" where
  "served c name kvs w = snd (httpCallback mem_lib (demo_http (req kvs)) (server_manager (BObj [])) (demo_request c name ''body'') w)"

lemma served_run: "server_run mem_lib (server_manager (BObj [])) w (served c name kvs w)"
  unfolding served_def by (rule serve [OF boot surjective_pairing])

theorem server_order_statuses_witness:
  "all_docs mem_get DB_ORDER status_ok (w_db (served EVHTTP_REQ_PUT ''user/order'' cancel_req (mem_world order_db)))"
  by (rule server_order_statuses [OF mongo_ok_mem _ served_run])
    (simp add: all_docs_def mem_world_def order_db_def status_ok_def o1_def order_statuses_def)

theorem server_titles_unique_witness:
  "unique_keys mem_get DB_ADS ad_keys (w_db (served EVHTTP_REQ_POST ''seller/advertisement'' shop_req shop_world))"
  by (rule server_titles_unique [OF mongo_ok_mem _ served_run])
    (simp add: unique_keys_def shop_world_def mem_world_def db_names)

theorem server_session_never_found_witness:
  "w_db (snd (httpCallback mem_lib (demo_http (req bob_login)) (server_manager (BObj [])) (demo_request EVHTTP_REQ_GET ''user/'' ''body'')
     (served EVHTTP_REQ_POST ''user/session'' bob_login (mem_world bob_db)))) =
   w_db (served EVHTTP_REQ_POST ''user/session'' bob_login (mem_world bob_db))"
proof -
  have "session_keys_ok mem_get (w_db (mem_world bob_db))"
    by (simp add: session_keys_ok_def all_docs_def mem_world_def bob_db_def db_names)
  moreover have "(''user/'', command (demo_request EVHTTP_REQ_GET ''user/'' ''body'')) \<in> set session_requests"
    by (simp add: session_requests_def demo_request_def)
  moreover have "request_for (demo_http (req bob_login)) ''user/'' (demo_request EVHTTP_REQ_GET ''user/'' ''body'')"
    by (simp add: request_for_def demo_http_def demo_request_def)
  ultimately show ?thesis
    using server_session_never_found [OF json_ok_mem mongo_ok_mem _ served_run _ _ surjective_pairing] by blast
qed

section \<open>The messages of the server\<close>

definition texts :: "string list" where
  "texts = [''msg_id'', ''source'', ''kind'', ''type'', ''from'', ''content'', ''time'', ''seller_id'', ''user_id'', ''group_id'',
     ''user_name'', ''seller_name'']"

fun is_text :: "bson option \<Rightarrow> bool" where
  "is_text None = True"
| "is_text (Some (BString s)) = True"
| "is_text _ = False"

fun is_list_of :: "(bson \<Rightarrow> bool) \<Rightarrow> bson option \<Rightarrow> bool" where
  "is_list_of P None = True"
| "is_list_of P (Some (BArray vs)) = list_all P vs"
| "is_list_of P _ = False"

fun is_record :: "bson \<Rightarrow> bool" where
  "is_record (BObj fs) = list_all (\<lambda>(k, v). is_text (Some v)) fs"
| "is_record _ = False"

definition message_typed :: "bson \<Rightarrow> bool" where
  "message_typed d \<longleftrightarrow> list_all (\<lambda>k. is_text (bfield d k)) texts \<and>
     list_all (\<lambda>k. is_list_of (\<lambda>v. is_text (Some v)) (bfield d k)) [''to'', ''targets''] \<and> is_list_of is_record (bfield d ''replies'')"

lemma message_typed_push:
  assumes "message_typed d" "is_record v"
  shows "message_typed (apply_ops Push_op [(''replies'', v)] d)"
proof (cases d)
  case (BObj fs)
  from assms(1) have "is_list_of is_record (bfield d ''replies'')" by (simp add: message_typed_def)
  then have "list_all is_record (elems (bfield d ''replies''))" by (cases "bfield d ''replies''" rule: elems.cases) simp_all
  with assms show ?thesis
    by (auto simp: message_typed_def apply_ops_def texts_def map_of_put_field BObj)
qed (use assms(1) in \<open>simp_all add: message_typed_def apply_ops_def texts_def\<close>)

lemma server_keeps_messages:
  assumes "mongo_ok L docs" "h \<in> set (all_handlers p)"
  shows "keeps (all_docs docs DB_MSG message_typed) (h L content)"
proof -
  note rules = keeps_rules all_insert [OF assms(1)] all_push [OF assms(1)] all_update_other [OF assms(1)] all_remove [OF assms(1)]
  have m: "\<forall>h \<in> set (message_handlers p). keeps (all_docs docs DB_MSG message_typed) (h L content)"
    unfolding message_handlers_def list.set ball_simps message_defs Let_def
    by (intro conjI TrueI rules message_typed_push; simp add: message_typed_def texts_def list_all_iff)
  have s: "\<forall>h \<in> set seller_handlers. keeps (all_docs docs DB_MSG message_typed) (h L content)"
    unfolding seller_handlers_def list.set ball_simps seller_defs
    by (intro conjI TrueI rules; simp add: message_typed_def texts_def db_names)
  show ?thesis
  proof (cases "h \<in> set (message_handlers p) \<union> set seller_handlers")
    case False
    then have "keeps (content_is docs DB_MSG X) (h L content)" for X
      using assms(2) unfolding all_handlers_def set_append
      by (auto simp: db_names intro: account_untouched [OF assms(1)] order_untouched [OF assms(1)] store_untouched [OF assms(1)]
          customer_untouched [OF assms(1)] order_readers_keep garage_untouched [OF assms(1)] report_untouched [OF assms(1)])
    then show ?thesis by (rule keeps_content) (simp add: all_docs_def)
  qed (use m s in blast)
qed

text \<open>
  C17. The messages of the server are well typed: starting from messages whose values are strings, whose
  receivers are lists of strings and whose replies are lists of records of strings, every sequence
  of HTTP requests keeps them so.
\<close>

theorem server_messages_typed:
  assumes "mongo_ok L docs" "all_docs docs DB_MSG message_typed (w_db w0)" "server_run L (server_manager p) w0 w"
  shows "all_docs docs DB_MSG message_typed (w_db w)"
  using assms(3,2) server_keeps_messages [OF assms(1)] by (rule server_run_keeps)

text \<open>
  A user who is logged in gets no messages, whatever HTTP requests the server has served: the
  query compares the kind with a list, and the kind of a message is a string or missing.
\<close>

theorem login_user_sees_no_message:
  assumes "json_ok L" "mongo_ok L docs" "all_docs docs DB_MSG message_typed (w_db w0)" "server_run L (server_manager p) w0 w"
    and "str_member L val ''detail'' = Some detail" "detail \<noteq> ''yes''" "str_member L val ''user_id'' = Some u" "u \<noteq> []"
    and "user_Message_Get p L val w = (Ret APIE_OK, w')"
  shows "js_put L (w_out w) ''data'' (JArray []) = Some (w_out w')"
proof -
  have typed: "all_docs docs DB_MSG message_typed (w_db w)"
    using assms(4,3) server_keeps_messages [OF assms(2)] by (rule server_run_keeps)
  have none: "ds = []"
    if "db_query_n L (w_db w) DB_MSG (BObj [(''kind'', BArray [BString ''sys'', BString ''seller''])]) num offset = Some ds" for num offset ds
  proof (rule ccontr)
    assume "ds \<noteq> []"
    with mongo_narrow_n [OF assms(2) that, of "hd ds"] have d: "message_typed (hd ds)"
      "selects [(''kind'', BArray [BString ''sys'', BString ''seller''])] (hd ds)"
      using typed by (auto simp: all_docs_def)
    then have "has_value (BArray [BString ''sys'', BString ''seller'']) (bfield (hd ds) ''kind'')" "is_text (bfield (hd ds) ''kind'')"
      by (simp_all add: selects_def message_typed_def texts_def)
    then show False by (cases "bfield (hd ds) ''kind''" rule: is_text.cases) simp_all
  qed
  have "on_ok (user_Message_Get p L val) (\<lambda>w'. js_put L (w_out w) ''data'' (JArray []) = Some (w_out w')) w"
    unfolding user_Message_Get_def getLoginUserMsg_def
    by (auto simp: assms(5-8) ok_simps apie_ne js_array_all [OF assms(1)] dest!: none)
  then show ?thesis using assms(9) by (rule on_okD)
qed

definition hello_req :: "(string \<times> string) list" where
  "hello_req = [(''role'', ''seller''), (''seller_id'', ''s1''), (''user_id'', ''bob''), (''msg'', ''hello'')]"

definition hello_world :: "(string \<times> bson list) list world" where
  "hello_world = mem_world [(DB_SELLER, [str_fields [(''seller_id'', ''s1'')]]), (DB_USR, [str_fields [(''user_id'', ''bob'')]]), (DB_MSG, [])]"

lemma hello_typed: "all_docs mem_get DB_MSG message_typed (w_db hello_world)"
  by (simp add: all_docs_def hello_world_def mem_world_def db_names)

theorem server_messages_typed_witness:
  "all_docs mem_get DB_MSG message_typed (w_db (served EVHTTP_REQ_POST ''seller/user-message'' hello_req hello_world))"
  by (rule server_messages_typed [OF mongo_ok_mem hello_typed served_run])

definition mail_world :: "(string \<times> bson list) list world" where
  "mail_world = mem_world [(DB_MSG, [seller_message ''m1'' ''s1'' ''bob'' ''hello'' ''t''])]"

theorem login_user_sees_no_message_witness:
  "w_out (snd (user_Message_Get (BObj []) mem_lib (req [(''role'', ''user''), (''user_id'', ''bob'')]) mail_world)) = JObject [(''data'', JArray [])]"
proof -
  let ?val = "req [(''role'', ''user''), (''user_id'', ''bob'')]"
  have ok: "fst (user_Message_Get (BObj []) mem_lib ?val mail_world) = Ret APIE_OK" by code_simp
  have typed: "all_docs mem_get DB_MSG message_typed (w_db mail_world)"
    by (simp add: all_docs_def mail_world_def mem_world_def message_typed_def texts_def seller_message_def)
  have args: "str_member mem_lib ?val ''detail'' = Some []" "str_member mem_lib ?val ''user_id'' = Some ''bob''"
    by (simp_all add: json_ok_mem arg_def)
  from login_user_sees_no_message [OF json_ok_mem mongo_ok_mem typed boot args(1) _ args(2) _ run_ok [OF ok]]
  show ?thesis by (simp add: json_ok_null [OF json_ok_mem] mail_world_def mem_world_def)
qed

end
