(* ===== verification/Start_Up.thy ===== *)
theory Start_Up
  imports Config_Tool Push_Utils Image_Server Push_Server Api_Server
begin

text \<open>
  The \<^verbatim>\<open>main\<close> functions of the three servers: \<^verbatim>\<open>src/apl-server/main.cpp\<close>,
  \<^verbatim>\<open>src/image-server/main.cpp\<close> and \<^verbatim>\<open>src/msg-server/main.cpp\<close>, up to the point where they wait for
  requests. The calls of the operating system, of libevent and of the AMQP client are the fields of a
  record; what is printed on standard output is left out. \<^term>\<open>None\<close> is undefined behaviour.
\<close>

section \<open>The environment of a server\<close>

datatype sock_family = AF_INET | AF_INET6 | AF_other int

text \<open>
  \<open>open_log\<close> says whether the file can be opened for appending. \<open>getsockname\<close> is the family and the port of
  the socket that was bound to a port, \<open>inet_ntop\<close> its address as text. The port of \<^verbatim>\<open>evhttp_bind_socket_with_handle\<close> has
  sixteen bits.
\<close>

record server_os =
  signal_ok :: bool
  open_log :: "string \<Rightarrow> bool"
  event_base_new :: bool
  evhttp_new :: bool
  evhttp_bind :: "string \<Rightarrow> 16 word \<Rightarrow> bool"
  getsockname :: "16 word \<Rightarrow> (sock_family \<times> 16 word) option"
  inet_ntop :: "string option"

datatype 's run = Exits int | Serves 's

text \<open>A server that waits for requests: its options, its log and the file that was opened for it.\<close>

record serving =
  sv_config :: system_config
  sv_log :: log_state
  sv_log_name :: string
  sv_port :: "16 word"
  sv_uri_root :: string

text \<open>The static storage of \<^verbatim>\<open>log.cpp\<close>.\<close>

definition log_static :: log_state where
  "log_static = \<lparr>log_level = 0, log_file = None, log_good = True, log_initialized = False\<rparr>"

text \<open>The block that finds out the address: \<^verbatim>\<open>uri_root\<close> has 512 bytes. \<^term>\<open>None\<close> is one of its errors.\<close>

definition listening_address :: "server_os \<Rightarrow> 16 word \<Rightarrow> string option" where
  "listening_address os port =
     (case getsockname os port of
        None \<Rightarrow> None
      | Some (family, got_port) \<Rightarrow>
          (if family = AF_INET \<or> family = AF_INET6 then
             (case inet_ntop os of
                None \<Rightarrow> None
              | Some addr \<Rightarrow> Some (take 511 (''http://'' @ addr @ '':'' @ show_int (int (unat got_port)))))
           else None))"

section \<open>The application server\<close>

text \<open>
  The manager the argument stands for is filled by the static objects of the resources before \<^verbatim>\<open>main\<close>
  starts; the server goes on with what \<^verbatim>\<open>initialize\<close> returns, which is not looked at.
\<close>

definition apl_initialize_log :: "server_os \<Rightarrow> system_config \<Rightarrow> log_state \<Rightarrow> bool \<times> string \<times> log_state" where
  "apl_initialize_log os config log =
     (let name = sc_logFile config;
          name = (if name \<noteq> [] then ''./rcar.log'' else name);
          (ok, log) = log_initialize (open_log os (c_str name)) name (sc_logLevel config) log
      in (ok, name, log))"

definition apl_main :: "'db manager \<Rightarrow> (string \<Rightarrow> string option) \<Rightarrow> 'z zoo_api \<Rightarrow> 'z \<Rightarrow> server_os \<Rightarrow> string list \<Rightarrow> (serving \<times> bool \<times> string list) run option" where
  "apl_main m files api z os argv =
     (if \<not> signal_ok os then Some (Exits 1)
      else do {
        (ok, config) \<leftarrow> create files api z argv ''rcar-apl-server'' SystemConfig;
        if \<not> ok then Some (Exits 0)
        else let (ok, name, log) = apl_initialize_log os config log_static; port = of_int (sc_port config)
          in if \<not> ok then Some (Exits 0)
             else if \<not> event_base_new os \<or> \<not> evhttp_new os \<or> \<not> evhttp_bind os ''127.0.0.1'' port then Some (Exits 1)
             else (case listening_address os port of
                 None \<Rightarrow> Some (Exits 1)
               | Some uri_root \<Rightarrow>
                   Some (Serves (\<lparr>sv_config = config, sv_log = log, sv_log_name = name, sv_port = port, sv_uri_root = uri_root\<rparr>,
                     initialize m)))
      })"

text \<open>What follows when the event loop ends.\<close>

definition apl_exit :: "string \<Rightarrow> serving \<Rightarrow> log_state option" where
  "apl_exit time_buf s = map_option log_finalize (hl_info (''exit server...'' @ [newline]) [] time_buf (sv_log s))"

section \<open>The image server\<close>

text \<open>\<^verbatim>\<open>int log_level = !config->getLogLevel()\<close>.\<close>

definition image_initialize_log :: "server_os \<Rightarrow> system_config \<Rightarrow> log_state \<Rightarrow> bool \<times> string \<times> log_state" where
  "image_initialize_log os config log =
     (let name = sc_logFile config;
          level = (if sc_logLevel config = 0 then 1 else 0);
          (ok, log) = log_initialize (open_log os (c_str name)) name level log
      in (ok, name, log))"

definition initialize_image_handle :: bool where
  "initialize_image_handle = True"

text \<open>
  \<open>img_mongo\<close> is what the context of the handlers was given. The label \<^verbatim>\<open>failure\<close> reads \<^verbatim>\<open>http\<close> and
  \<^verbatim>\<open>base\<close>, which have no value before \<^verbatim>\<open>evhttp_new\<close> returned.
\<close>

record image_serving = serving +
  img_mongo :: string
  img_max_body_size :: nat

definition image_main :: "(string \<Rightarrow> string option) \<Rightarrow> 'z zoo_api \<Rightarrow> 'z \<Rightarrow> server_os \<Rightarrow> string list \<Rightarrow> image_serving run option" where
  "image_main files api z os argv =
     (if \<not> initialize_image_handle \<or> \<not> signal_ok os then None
      else do {
        (ok, config) \<leftarrow> create files api z argv ''rcar-image-server'' SystemConfig;
        if \<not> ok then None
        else let port = of_int (sc_port config); mongo = sc_DBServer config;
                 (ok, name, log) = image_initialize_log os config log_static
          in if \<not> ok \<or> \<not> event_base_new os then None
             else if \<not> evhttp_new os \<or> \<not> evhttp_bind os ''127.0.0.1'' port then Some (Exits 0)
             else (case listening_address os port of
                 None \<Rightarrow> Some (Exits 0)
               | Some uri_root \<Rightarrow>
                   Some (Serves \<lparr>sv_config = config, sv_log = log, sv_log_name = name, sv_port = port, sv_uri_root = uri_root,
                     img_mongo = mongo, img_max_body_size = 1024 * 1024 * 8\<rparr>))
      })"

section \<open>The push server\<close>

text \<open>
  The AMQP client: whether a socket could be made, the status of connecting to a host and port, and the
  replies to the requests in the order of the source. The queue is its name, \<open>amqp_bytes_malloc_dup\<close> whether
  there was memory to copy it.
\<close>

record amqp_client =
  amqp_tcp_socket_new :: bool
  amqp_socket_open :: "string \<Rightarrow> int \<Rightarrow> int"
  amqp_login :: amqp_rpc_reply
  amqp_channel_open :: amqp_rpc_reply
  amqp_queue_declare :: "amqp_rpc_reply \<times> string"
  amqp_bytes_malloc_dup :: "string \<Rightarrow> bool"
  amqp_queue_bind :: "string \<Rightarrow> string \<Rightarrow> string \<Rightarrow> amqp_rpc_reply"
  amqp_basic_consume :: "string \<Rightarrow> amqp_rpc_reply"
  amqp_error_string2 :: "int \<Rightarrow> string"

definition initializeCert :: bool where
  "initializeCert = True"

text \<open>The server runs with the queue it consumes; an error exit leaves its message.\<close>

datatype push_run = Died string | Returned int | Consumes system_config string

definition or_die :: "death \<Rightarrow> push_run option \<Rightarrow> push_run option" where
  "or_die d k = (case d of Some msg \<Rightarrow> Some (Died msg) | None \<Rightarrow> k)"

definition msg_main :: "(string \<Rightarrow> string option) \<Rightarrow> 'z zoo_api \<Rightarrow> 'z \<Rightarrow> amqp_client \<Rightarrow> string list \<Rightarrow> push_run option" where
  "msg_main files api z mq argv = do {
     (ok, config) \<leftarrow> create files api z argv ''rcar-msg-server'' SystemConfig;
     (hostname, config) \<leftarrow> sc_getGeneral api z config ''rabbitmq-server'';
     let port = sc_port config;
     let exchange = ''amq.direct'';
     let bindingkey = ''rcar'';
     let check = die_on_amqp_error (amqp_error_string2 mq);
     let (declared, queue) = amqp_queue_declare mq;
     no_socket \<leftarrow> die ''creating TCP socket'' [];
     no_connection \<leftarrow> die ''opening TCP socket'' [];
     or_die (if \<not> amqp_tcp_socket_new mq then no_socket else None) (
     or_die (if amqp_socket_open mq (c_str hostname) port \<noteq> 0 then no_connection else None) (
     or_die (check (amqp_login mq) ''Logging in'') (
     or_die (check (amqp_channel_open mq) ''Opening channel'') (
     or_die (check declared ''Declaring queue'') (
     if \<not> amqp_bytes_malloc_dup mq queue then Some (Returned 1)
     else
       or_die (check (amqp_queue_bind mq queue exchange bindingkey) ''Binding queue'') (
       or_die (check (amqp_basic_consume mq queue) ''Consuming'') (
       Some (Consumes config queue))))))))
   }"

section \<open>Starting without a configuration file\<close>

lemma create_missing_file:
  assumes "files default_conf = None" "[] \<notin> set (tl argv)" "server \<noteq> []"
  shows "create files api z argv server SystemConfig = Some (False, SystemConfig\<lparr>sc_serverName := server\<rparr>)"
  using assms by (simp add: create_default_file UserConfig_def ConfigFile_def)

text \<open>
  C39. When the default configuration file cannot be opened, the application server reports status 0, the
  image server frees pointers that were never set and the push server reads an option through a null pointer.
\<close>

theorem missing_configuration:
  assumes "files default_conf = None" "[] \<notin> set (tl argv)" "signal_ok os"
  shows "apl_main m files api z os argv = Some (Exits 0) \<and> image_main files api z os argv = None \<and>
    msg_main files api z mq argv = None"
  using assms
  by (simp add: apl_main_def image_main_def msg_main_def create_missing_file) (simp add: sc_getGeneral_def SystemConfig_def)

section \<open>From the configuration tool to running servers\<close>

lemma digits_length: "n < 10 ^ k \<Longrightarrow> 0 < k \<Longrightarrow> length (digits n) \<le> k"
proof (induction n arbitrary: k rule: digits.induct)
  case (1 n)
  show ?case
  proof (cases "n < 10")
    case False
    with 1 have k: "0 < k - 1" "n div 10 < 10 ^ (k - 1)"
      by (cases k; cases "k - 1"; auto simp: less_mult_imp_div_less mult.commute)+
    from 1(1) [OF False k(2,1)] k(1) False show ?thesis by (simp add: digits.simps [of n])
  qed (use 1 in \<open>simp add: digits.simps [of n]\<close>)
qed

lemma port_length: "length (show_int (int (unat (p :: 16 word)))) \<le> 5"
  using unsigned_less [of p, where 'a = nat] digits_length [of "unat p" 5] by (simp add: show_int_def)

text \<open>An operating system on which a port can be bound.\<close>

definition os_ready :: "server_os \<Rightarrow> 16 word \<Rightarrow> bool" where
  "os_ready os p \<longleftrightarrow> signal_ok os \<and> event_base_new os \<and> evhttp_new os \<and> evhttp_bind os ''127.0.0.1'' p \<and>
     getsockname os p = Some (AF_INET, p) \<and> inet_ntop os = Some ''127.0.0.1''"

lemma ready_address: "os_ready os p \<Longrightarrow> listening_address os p = Some (''http://127.0.0.1:'' @ show_int (int (unat p)))"
  using port_length [of p] by (simp add: listening_address_def os_ready_def)

lemma log_starts:
  assumes "name \<noteq> []"
  shows "log_initialize True name level log_static =
     (True, \<lparr>log_level = level, log_file = Some [], log_good = True, log_initialized = True\<rparr>)"
  using assms by (simp add: log_initialize_def log_static_def)

lemma server_paths:
  "initialize (server_manager p :: 'db manager) =
     (True, map (\<lambda>r. ''/rcar/api/v1.0/'' @ fst r) (server_table p :: (string \<times> 'db resource) list))"
proof -
  let ?m = "server_manager p :: 'db manager"
  have "map (\<lambda>e. ''/rcar/api/v1.0/'' @ fst (snd e)) (m_allocators ?m) =
      map (\<lambda>r. ''/rcar/api/v1.0/'' @ fst r) (map snd (m_allocators ?m))"
    by (simp add: comp_def)
  moreover have "m_subsystem_init_list (register_all n rs m) = m_subsystem_init_list m" for n rs and m :: "'db manager"
    by (induction rs arbitrary: n m) (auto simp: registerResource_def)
  then have "m_subsystem_init_list ?m = []" by (simp add: server_manager_def new_manager_def)
  ultimately show ?thesis by (simp add: initialize_def server_allocators)
qed

text \<open>
  C12. From the configuration tool to a listening server: once the tool stored a configuration file, the
  application server starts with its port (modulo 2 ^ 16) on the local address, the log level and the
  database the file names, and serves the path of every resource. Its log is \<^verbatim>\<open>./rcar.log\<close>, whatever file
  the configuration names.
\<close>

theorem deployed_apl_server_listens:
  assumes "deployment api up files hosts conf f" "up z" "server_options f ''rcar-apl-server'' port fname level db"
    and "[] \<notin> set (tl argv)" "os_ready os (of_int port)" "open_log os ''./rcar.log''"
  shows "\<exists>z' s. tool_main api files [prog, ''-h'', hosts, ''-f'', conf] z = Some ([], z') \<and>
     apl_main (server_manager p :: 'db manager) files api z' os argv =
       Some (Serves (s, True, map (\<lambda>r. ''/rcar/api/v1.0/'' @ fst r) (server_table p :: (string \<times> 'db resource) list))) \<and>
     sv_port s = of_int port \<and> sv_uri_root s = ''http://127.0.0.1:'' @ show_int (port mod 2 ^ 16) \<and>
     sv_log_name s = ''./rcar.log'' \<and> ready (sv_log s) \<and> log_level (sv_log s) = level \<and> sc_DBServer (sv_config s) = db"
proof -
  from deployed_create [OF assms(1-4)] obtain z' sc where t: "tool_main api files [prog, ''-h'', hosts, ''-f'', conf] z = Some ([], z')"
    and c: "create files api z' argv ''rcar-apl-server'' SystemConfig = Some (True, sc)"
      "sc_port sc = port" "sc_logFile sc = fname" "sc_logLevel sc = level" "sc_DBServer sc = db" by metis
  have "fname \<noteq> []" using assms(1,3) names_okD(3)
    by (fastforce simp: deployment_def server_options_def)
  moreover have "int (unat (of_int port :: 16 word)) = port mod 2 ^ 16"
    by (simp add: unsigned_of_int take_bit_eq_mod)
  ultimately show ?thesis
    using t c assms(5,6) ready_address [OF assms(5)]
    by (auto simp: apl_main_def apl_initialize_log_def c_str_def log_starts server_paths os_ready_def ready_def Let_def)
qed

text \<open>
  C38. The image server started likewise writes its log to the configured file and serves from the configured
  database, but logs at level 0 for every configured level except 0, for which it logs at level 1:
  the level is negated.
\<close>

theorem deployed_image_server_listens:
  assumes "deployment api up files hosts conf f" "up z" "server_options f ''rcar-image-server'' port fname level db"
    and "[] \<notin> set (tl argv)" "os_ready os (of_int port)" "open_log os fname"
  shows "\<exists>z' s. tool_main api files [prog, ''-h'', hosts, ''-f'', conf] z = Some ([], z') \<and>
     image_main files api z' os argv = Some (Serves s) \<and>
     sv_port s = of_int port \<and> img_mongo s = db \<and> sv_log_name s = fname \<and> ready (sv_log s) \<and>
     log_level (sv_log s) = (if level = 0 then 1 else 0)"
proof -
  from deployed_create [OF assms(1-4)] obtain z' sc where t: "tool_main api files [prog, ''-h'', hosts, ''-f'', conf] z = Some ([], z')"
    and c: "create files api z' argv ''rcar-image-server'' SystemConfig = Some (True, sc)"
      "sc_port sc = port" "sc_logFile sc = fname" "sc_logLevel sc = level" "sc_DBServer sc = db" by metis
  have n: "fname \<noteq> []" "CHR 0x00 \<notin> set fname" using assms(1,3) names_okD(3)
    by (fastforce simp: deployment_def server_options_def)+
  then show ?thesis
    using t c assms(5,6) ready_address [OF assms(5)]
    by (auto simp: image_main_def image_initialize_log_def c_str_id log_starts os_ready_def ready_def initialize_image_handle_def Let_def)
qed

text \<open>
  The push server connects to the host and port of its section, and consumes the queue the broker made
  for it when the broker accepts every request.
\<close>

theorem deployed_push_server_consumes:
  assumes "deployment api up files hosts conf f" "up z" "server_options f ''rcar-msg-server'' port fname level db"
    and "get_string f ''rcar-msg-server'' ''rabbitmq-server'' = Some broker" "length broker < 64" "[] \<notin> set (tl argv)"
    and "amqp_tcp_socket_new mq" "amqp_socket_open mq broker port = 0" "amqp_login mq = AMQP_RESPONSE_NORMAL"
    and "amqp_channel_open mq = AMQP_RESPONSE_NORMAL" "amqp_queue_declare mq = (AMQP_RESPONSE_NORMAL, queue)"
    and "amqp_bytes_malloc_dup mq queue" "amqp_queue_bind mq queue ''amq.direct'' ''rcar'' = AMQP_RESPONSE_NORMAL"
    and "amqp_basic_consume mq queue = AMQP_RESPONSE_NORMAL"
  shows "\<exists>z' sc. tool_main api files [prog, ''-h'', hosts, ''-f'', conf] z = Some ([], z') \<and>
     msg_main files api z' mq argv = Some (Consumes sc queue) \<and> sc_DBServer sc = db"
proof -
  from deployed_create [OF assms(1-3,6)] obtain z' sc where t: "tool_main api files [prog, ''-h'', hosts, ''-f'', conf] z = Some ([], z')"
    and c: "create files api z' argv ''rcar-msg-server'' SystemConfig = Some (True, sc)" "sc_port sc = port" "sc_DBServer sc = db"
      "sc_lookup api z' sc ''rabbitmq-server'' = Some broker"
    using assms(4,5) by metis
  from sc_getGeneral_found [OF c(4)] obtain sc' where g: "sc_getGeneral api z' sc ''rabbitmq-server'' = Some (broker, sc')" .
  then have "sc_port sc' = port \<and> sc_DBServer sc' = db" using c(2,3) by (auto elim: sc_getGeneral_SomeE)
  moreover have "c_str broker = broker" using assms(1,4) names_okD(3) by (fastforce simp: deployment_def intro: c_str_id)
  ultimately show ?thesis
    using t c(1) g assms(7-)
    by (auto simp: msg_main_def die_def or_die_def die_on_amqp_error_def)
qed

section \<open>A run\<close>

definition sample_os :: server_os where
  "sample_os = \<lparr>signal_ok = True, open_log = (\<lambda>_. True), event_base_new = True, evhttp_new = True,
     evhttp_bind = (\<lambda>_ _. True), getsockname = (\<lambda>p. Some (AF_INET, p)), inet_ntop = Some ''127.0.0.1''\<rparr>"

definition sample_mq :: amqp_client where
  "sample_mq = \<lparr>amqp_tcp_socket_new = True, amqp_socket_open = (\<lambda>h p. if h = ''localhost'' \<and> p = 5672 then 0 else -1),
     amqp_login = AMQP_RESPONSE_NORMAL, amqp_channel_open = AMQP_RESPONSE_NORMAL,
     amqp_queue_declare = (AMQP_RESPONSE_NORMAL, ''amq.gen-1''), amqp_bytes_malloc_dup = (\<lambda>_. True),
     amqp_queue_bind = (\<lambda>_ _ _. AMQP_RESPONSE_NORMAL), amqp_basic_consume = (\<lambda>_. AMQP_RESPONSE_NORMAL),
     amqp_error_string2 = (\<lambda>_. [])\<rparr>"

theorem missing_configuration_witness:
  "apl_main new_manager (\<lambda>_. None) list_zoo [] sample_os [''srv''] = Some (Exits 0) \<and>
   image_main (\<lambda>_. None) list_zoo [] sample_os [''srv''] = None \<and> msg_main (\<lambda>_. None) list_zoo [] sample_mq [''srv''] = None"
  by (rule missing_configuration) (simp_all add: sample_os_def)

theorem deployed_apl_server_listens_witness:
  "\<exists>z' s. tool_main list_zoo tool_files [''rcar-config'', ''-h'', ''h:2'', ''-f'', ''rcar.conf''] [] = Some ([], z') \<and>
     apl_main (server_manager (BObj []) :: nat manager) tool_files list_zoo z' sample_os [''srv''] =
       Some (Serves (s, True, map (\<lambda>r. ''/rcar/api/v1.0/'' @ fst r) (server_table (BObj []) :: (string \<times> nat resource) list))) \<and>
     sv_port s = of_int 9092 \<and> sv_uri_root s = ''http://127.0.0.1:'' @ show_int (9092 mod 2 ^ 16) \<and>
     sv_log_name s = ''./rcar.log'' \<and> ready (sv_log s) \<and> log_level (sv_log s) = 2 \<and> sc_DBServer (sv_config s) = ''localhost''"
  by (rule deployed_apl_server_listens [OF rcar_deployment _ rcar_options(1)]) (simp_all add: os_ready_def sample_os_def)

theorem deployed_image_server_listens_witness:
  "\<exists>z' s. tool_main list_zoo tool_files [''rcar-config'', ''-h'', ''h:2'', ''-f'', ''rcar.conf''] [] = Some ([], z') \<and>
     image_main tool_files list_zoo z' sample_os [''srv''] = Some (Serves s) \<and>
     sv_port s = of_int 9093 \<and> img_mongo s = ''localhost'' \<and> sv_log_name s = ''./rcar-image.log'' \<and> ready (sv_log s) \<and>
     log_level (sv_log s) = (if (2 :: int) = 0 then 1 else 0)"
  by (rule deployed_image_server_listens [OF rcar_deployment _ rcar_options(2)]) (simp_all add: os_ready_def sample_os_def)

theorem deployed_push_server_consumes_witness:
  "\<exists>z' sc. tool_main list_zoo tool_files [''rcar-config'', ''-h'', ''h:2'', ''-f'', ''rcar.conf''] [] = Some ([], z') \<and>
     msg_main tool_files list_zoo z' sample_mq [''srv''] = Some (Consumes sc ''amq.gen-1'') \<and> sc_DBServer sc = ''localhost''"
proof (rule deployed_push_server_consumes [OF rcar_deployment _ rcar_options(3)])
  show "get_string rcar_file ''rcar-msg-server'' ''rabbitmq-server'' = Some ''localhost''" by code_simp
qed (simp_all add: sample_mq_def)

end
