(* ===== verification/Spec2Isabelle.thy ===== *)
theory Spec2Isabelle
  imports Thread_Pool App_Utils Start_Up
begin

text \<open>
  rcar is the server side of a platform that connects car owners (users) with workshops (sellers). It
  is built from three servers that share \<^verbatim>\<open>src/lib\<close>:

  \<^item> the application server (\<^verbatim>\<open>src/apl-server\<close>) answers JSON requests over HTTP. \<^verbatim>\<open>request.cpp\<close> decodes a
    request, \<^verbatim>\<open>resource-mgr.cpp\<close> finds the resource its path names and calls one of its five methods, and
    the files below \<^verbatim>\<open>uri/user\<close> and \<^verbatim>\<open>uri/seller\<close> each implement one resource on MongoDB documents. Some
    methods publish a message to an AMQP broker (\<^verbatim>\<open>uri/message.cpp\<close>);
  \<^item> the push server (\<^verbatim>\<open>src/msg-server\<close>) consumes these messages, looks up the device of the addressee in the
    sessions and posts a signed request to a push service;
  \<^item> the image server (\<^verbatim>\<open>src/image-server\<close>) stores images in GridFS and serves them and their thumbnails.

  All take their options from a command line, a file, the environment or ZooKeeper, where a tool
  (\<^verbatim>\<open>src/tool/config\<close>) puts them.

  Theories and the code they model.

  \<^item> \<open>Rcar_Prelude\<close>, \<open>Std_Map\<close>: byte buffers with checked loads and stores, integer conversions, and
    \<^verbatim>\<open>std::map\<close> as sorted association lists. Shared lemmas.
  \<^item> \<open>Base64\<close> (\<^verbatim>\<open>lib/modp_b64.cc\<close>, \<^verbatim>\<open>lib/base64.cpp\<close>): encoder and decoder on buffers; round trip, the text
    they write, and that the decoder accepts exactly the well-formed texts.
  \<^item> \<open>MD5\<close> (\<^verbatim>\<open>lib/md5.cpp\<close>): equivalence of the streaming class with RFC 1321, and for which lengths it ends.
  \<^item> \<open>Config_File\<close> (\<^verbatim>\<open>lib/config-file.cpp\<close>) and \<open>Config_Sources\<close> (\<^verbatim>\<open>lib/config-*.cpp\<close>, \<^verbatim>\<open>lib/zkeeper.cpp\<close>,
    \<^verbatim>\<open>lib/sys-config.cpp\<close>): the parser, the other sources as interpretations of one locale, the ZooKeeper
    wrapper with its observers, and the start-up that puts them together. \<open>Config_Tool\<close>
    (\<^verbatim>\<open>tool/config/config.cpp\<close>): the tool that copies a file to ZooKeeper, with the tree of nodes after a copy as
    its specification.
  \<^item> \<open>Thread_Pool\<close> (\<^verbatim>\<open>lib/thread-pool.cpp\<close>): the code between lock and unlock as atomic steps of any number of
    threads; an invariant of the counters over all reachable states, and progress.
  \<^item> \<open>Log\<close> (\<^verbatim>\<open>lib/log.cpp\<close>, \<^verbatim>\<open>apl-server/resource.cpp\<close>): the log and the sizes of its buffers.
  \<^item> \<open>App_Utils\<close> (\<^verbatim>\<open>apl-server/utils.cpp\<close>, \<^verbatim>\<open>stream.cpp\<close>): formatted times, which compare as the times do, and
    the stream.
  \<^item> \<open>Push_Server\<close> (\<^verbatim>\<open>msg-server\<close>) and \<open>Image_Server\<close> (\<^verbatim>\<open>image-server\<close>): from a message to the posts, from an
    upload to a download. \<open>Push_Utils\<close> (\<^verbatim>\<open>msg-server/utils.cpp\<close>, \<^verbatim>\<open>http-client.cpp\<close>): error exits, the
    hexadecimal dump, and the transfers asked of libcurl.
  \<^item> \<open>Api_Base\<close>: the state and the building blocks of request handlers (\<^verbatim>\<open>uri/db.cpp\<close>, \<^verbatim>\<open>uri/message.cpp\<close>).
    \<open>Api_Laws\<close>: the laws of the libraries and a calculus for handlers.
  \<^item> \<open>Account_Api\<close>, \<open>Order_Api\<close>, \<open>Order_Lists\<close>, \<open>Store_Api\<close>, \<open>Seller_Api\<close>, \<open>Customer_Api\<close>, \<open>Message_Api\<close>,
    \<open>Garage_Api\<close>, \<open>Report_Api\<close>: one definition per method of the resources below \<^verbatim>\<open>uri/user\<close> and
    \<^verbatim>\<open>uri/seller\<close>, named after role, class and method, as \<open>user_Order_Put\<close> for \<^verbatim>\<open>Order::Put\<close> of
    \<^verbatim>\<open>uri/user/order.cpp\<close>.
  \<^item> \<open>Resource_Mgr\<close> (\<^verbatim>\<open>apl-server/request.cpp\<close>, \<^verbatim>\<open>resource-mgr.cpp\<close>): decoding, registry and dispatch.
    \<open>Api_Server\<close>: one record per resource class, the table of the whole server, and the invariants of the
    components lifted to all sequences of HTTP requests.
  \<^item> \<open>Start_Up\<close> (\<^verbatim>\<open>main.cpp\<close> of the three servers): each main function up to its loop, and what happens from a run
    of the configuration tool to a server that listens.

  The model of a handler. The state (\<open>world\<close>) is the database, the messages published so far, the reply
  under construction, a counter for new identifiers, and the time. A handler is a function from a
  world to a result and a world, written with continuations in the order of the C++ statements: \<open>str_of\<close> reads a
  member of the request, \<open>query\<close>, \<open>insert_into\<close>, \<open>update\<close> and \<open>remove_from\<close> call the database, \<open>out_put\<close> writes the reply,
  \<open>ret\<close> returns a code. A library call that throws is \<^term>\<open>None\<close> and becomes an exception of the result,
  which \<open>try_db\<close> turns into the internal error that every handler answers for a database exception; other
  exceptions reach \<open>httpCallback\<close>. So every error path is a value.

  Libraries. jsoncpp, the MongoDB driver, AMQP, GridFS, the JPEG library, libevent, the operating system and the ZooKeeper client are
  parameters (records \<open>lib\<close>, \<open>http_lib\<close>, \<open>image_lib\<close>, \<open>server_os\<close>, \<open>amqp_client\<close>, \<open>zoo_api\<close> and functions). What a property needs of them is a named hypothesis:
  \<open>json_ok\<close>, \<open>bson_ok\<close>, \<open>mongo_ok\<close>, \<open>zoo_service\<close> and the like, with \<open>docs db c\<close> as the documents of a collection.
  \<open>mongo_ok\<close> describes queries and updates by plain field names, inserts, upserts, the operators
  \<^verbatim>\<open>$set\<close>, \<^verbatim>\<open>$push\<close>, \<^verbatim>\<open>$pull\<close> and \<^verbatim>\<open>$addToSet\<close>, and for other queries only that they select from the collection; any
  call may fail instead. \<open>mem_lib\<close> is a library in memory that satisfies all of them; the witnesses run the handlers on it.

  Lemmas. \<open>wp\<close> is the weakest precondition of a handler, \<open>on_ok\<close> its restriction to answers of success, and \<open>keeps P\<close> says that
  a handler keeps a property of the database; the rules for the building blocks are collected in
  \<open>wp_simps\<close>, \<open>ok_simps\<close> and \<open>keeps_rules\<close>. \<open>array_at\<close> is the view of an array in the document a query finds, with one
  law per update. Every component ends with a frame lemma (\<open>..._untouched\<close>) that says which collections it writes, and from these
  \<open>server_run_keeps\<close> lifts an invariant to the server. The locales state what several components promise: \<open>guarded\<close> for the
  checks of a handler, and the contracts of the configuration sources, of the codec and of the pool, each
  interpreted on the code's definitions.

  Bounds. The 32 bit counters of MD5, the \<^verbatim>\<open>int\<close> lengths of the codec, the buffers of the log and of the ZooKeeper
  wrapper are at their width, and the properties state up to which size they hold. Integers in JSON
  are mathematical; overflow of the few sums over them is undefined in C++ and is left out where the
  text says so. Loops are structural recursion or proved to terminate; only the block loop of MD5, whose index
  wraps, is a partial function, and \<open>MD5_of_terminates\<close> says when it returns. Nothing uses fuel.

  Not modelled. The administration resources \<^verbatim>\<open>uri/sys\<close> are not in the build, call functions that do not
  exist and declare classes a second time. The distances of \<^verbatim>\<open>apl-server/utils.cpp\<close> are
  floating point arithmetic and a parameter of the handlers, its decoders of files are not used; \<^verbatim>\<open>baidu/place.cpp\<close> is
  disabled. What the programs print on standard output is modelled for the tool and the dump only. Logging
  inside the handlers and the ZooKeeper wrapper is left out, as it changes no state they read. Concurrent requests are not:
  libevent runs the handlers one after the other. The statistics the consuming loop of the push server prints are floating
  point arithmetic on the clock.
\<close>

end
